(* ===== verification/Prelude.thy ===== *)
theory Prelude
  imports Main "HOL-Library.Char_ord" "HOL-Library.List_Lexorder" "HOL-Library.Word"
    "HOL-Library.AList" "HOL-Library.Multiset"
begin

text \<open>
  Shared vocabulary of the development: how Go values are represented, the panics of the
  Go runtime as values, Go maps as association lists or partial functions, and the generic
  lemmas that the component theories use.

  Representation. A Go string is a list of bytes, \<open>string\<close>. A pointer that the code
  only tests for nil and reads through is an \<open>option\<close>. Go's \<open>int\<close> is a HOL
  \<open>int\<close> where no operation of the code can leave the 64-bit range; a conversion to
  \<open>int32\<close> is a conversion to \<open>32 word\<close>, which wraps as Go's does. A Go map whose
  iteration the code depends on is an association list with distinct keys, so that the
  iteration order is visible; a map that is only looked up is a partial function.
\<close>

named_theorems text_simps \<open>evaluation of the string functions\<close>
named_theorems gomap_simps \<open>lookups after updates of Go maps\<close>
named_theorems refines \<open>operation-wise refinement facts\<close>

subsection \<open>Panics and errors\<close>

datatype go_panic = NilDeref | IndexOutOfRange | TypeAssertion | NilMapWrite | ExplicitPanic string

type_synonym 'a go = "go_panic + 'a"

definition go_bind :: "'e + 'a \<Rightarrow> ('a \<Rightarrow> 'e + 'b) \<Rightarrow> 'e + 'b" where
  "go_bind r f = (case r of Inl e \<Rightarrow> Inl e | Inr x \<Rightarrow> f x)"

lemma go_bind_simps [simp]:
  "go_bind (Inl e) f = Inl e"
  "go_bind (Inr x) f = f x"
  by (simp_all add: go_bind_def)

lemma go_bind_eq_Inr: "go_bind r f = Inr y \<longleftrightarrow> (\<exists>x. r = Inr x \<and> f x = Inr y)"
  by (cases r) auto

lemma go_bind_eq_Inl: "go_bind r f = Inl e \<longleftrightarrow> r = Inl e \<or> (\<exists>x. r = Inr x \<and> f x = Inl e)"
  by (cases r) auto

text \<open>Reading through a pointer.\<close>

definition deref :: "'a option \<Rightarrow> 'a go" where
  "deref p = (case p of None \<Rightarrow> Inl NilDeref | Some x \<Rightarrow> Inr x)"

lemma deref_simps [simp]: "deref None = Inl NilDeref" "deref (Some x) = Inr x"
  by (simp_all add: deref_def)

definition index :: "'a list \<Rightarrow> nat \<Rightarrow> 'a go" where
  "index xs i = (if i < length xs then Inr (xs ! i) else Inl IndexOutOfRange)"

lemma index_in_range [simp]: "i < length xs \<Longrightarrow> index xs i = Inr (xs ! i)"
  by (simp add: index_def)

lemma index_out_of_range [simp]: "length xs \<le> i \<Longrightarrow> index xs i = Inl IndexOutOfRange"
  by (simp add: index_def)

subsection \<open>Go maps\<close>

text \<open>
  A possibly nil map of strings, such as labels and annotations. Reading a key of a nil map
  or an absent key gives the zero value, the empty string.
\<close>

type_synonym labels = "(string \<rightharpoonup> string) option"

definition label_get :: "labels \<Rightarrow> string \<Rightarrow> string" where
  "label_get m k = (case m of None \<Rightarrow> [] | Some f \<Rightarrow> (case f k of None \<Rightarrow> [] | Some v \<Rightarrow> v))"

lemma label_get_simps [gomap_simps, simp]:
  "label_get None k = []"
  "label_get (Some f) k = (case f k of None \<Rightarrow> [] | Some v \<Rightarrow> v)"
  by (simp_all add: label_get_def)

text \<open>Maps that are iterated: association lists.\<close>

type_synonym ('k, 'v) gomap = "('k \<times> 'v) list"

definition gomap_ok :: "('k, 'v) gomap \<Rightarrow> bool" where
  "gomap_ok m \<longleftrightarrow> distinct (map fst m)"

lemma gomap_ok_Nil [simp]: "gomap_ok []"
  by (simp add: gomap_ok_def)

lemma gomap_ok_update [simp]: "gomap_ok m \<Longrightarrow> gomap_ok (AList.update k v m)"
  by (simp add: gomap_ok_def distinct_update)

lemma map_of_update [gomap_simps]:
  "map_of (AList.update k v m) k' = (if k' = k then Some v else map_of m k')"
  by (simp add: update_conv)

lemma keys_update [gomap_simps]: "fst ` set (AList.update k v m) = insert k (fst ` set m)"
  by (simp add: dom_update)

subsection \<open>Searching lists\<close>

text \<open>The index of the first element with a property, as the loops of the code compute it.\<close>

fun find_index :: "('a \<Rightarrow> bool) \<Rightarrow> 'a list \<Rightarrow> nat option" where
  "find_index P [] = None"
| "find_index P (x # xs) = (if P x then Some 0 else map_option Suc (find_index P xs))"

lemma find_index_None [simp]: "find_index P xs = None \<longleftrightarrow> (\<forall>x \<in> set xs. \<not> P x)"
  by (induction xs) auto

lemma find_index_Some:
  "find_index P xs = Some i \<longleftrightarrow> i < length xs \<and> P (xs ! i) \<and> (\<forall>j < i. \<not> P (xs ! j))"
proof (induction xs arbitrary: i)
  case Nil
  then show ?case by simp
next
  case (Cons x xs)
  then show ?case by (cases i) (auto simp: less_Suc_eq_0_disj)
qed

lemma find_index_SomeD:
  "find_index P xs = Some i \<Longrightarrow> i < length xs \<and> P (xs ! i)"
  by (simp add: find_index_Some)

lemma find_conv_index:
  "List.find P xs = map_option (\<lambda>i. xs ! i) (find_index P xs)"
  by (induction xs) (simp_all del: find_index_None add: option.map_comp comp_def)

subsection \<open>Swap with the last element and shrink\<close>

text \<open>
  \<open>list[i] = list[len(list)-1]; list = list[:len(list)-1]\<close>: how the operator removes an
  element of a slice without keeping its order.
\<close>

definition swap_remove :: "'a list \<Rightarrow> nat \<Rightarrow> 'a list" where
  "swap_remove xs i = butlast (xs[i := last xs])"

lemma mset_swap_remove:
  assumes "i < length xs"
  shows "mset (swap_remove xs i) + {#xs ! i#} = mset xs"
proof -
  from assms have ne: "xs \<noteq> []" by auto
  let ?ys = "xs[i := last xs]"
  have "?ys \<noteq> []" using ne by simp
  have last: "last ?ys = last xs"
    using ne assms by (cases "i = length xs - 1") (auto simp: last_conv_nth nth_list_update)
  have "mset (butlast ?ys) + {#last ?ys#} = mset ?ys"
    using \<open>?ys \<noteq> []\<close> by (metis append_butlast_last_id mset.simps mset_append)
  also have "\<dots> = add_mset (last xs) (mset xs - {#xs ! i#})"
    using assms by (simp add: mset_update)
  finally have "mset (butlast ?ys) = mset xs - {#xs ! i#}"
    using last by simp
  then show ?thesis
    using assms by (simp add: swap_remove_def)
qed

lemma set_swap_remove:
  assumes "distinct (map f xs)" "i < length xs"
  shows "set (swap_remove xs i) = set xs - {xs ! i}"
proof -
  have d: "distinct xs" using assms(1) by (simp add: distinct_map)
  have "mset (swap_remove xs i) = mset xs - {#xs ! i#}"
    using mset_swap_remove [OF assms(2)] by (metis add_diff_cancel_right')
  then have "set (swap_remove xs i) = set_mset (mset xs - {#xs ! i#})"
    by (metis set_mset_mset)
  also have "\<dots> = set xs - {xs ! i}"
    using d assms(2) by (metis distinct_remove1_removeAll mset_remove1 set_mset_mset set_removeAll)
  finally show ?thesis .
qed

lemma distinct_swap_remove:
  assumes "distinct (map f xs)" "i < length xs"
  shows "distinct (map f (swap_remove xs i))"
proof -
  have "mset (map f (swap_remove xs i)) + {#f (xs ! i)#} = mset (map f xs)"
    using mset_swap_remove [OF assms(2), THEN arg_cong [where f = "image_mset f"]] by simp
  then have "mset (map f (swap_remove xs i)) = mset (remove1 (f (xs ! i)) (map f xs))"
    by (metis add_diff_cancel_right' mset_remove1)
  with assms(1) show ?thesis
    by (metis distinct_remove1 mset_eq_imp_distinct_iff)
qed

lemma length_swap_remove [simp]: "length (swap_remove xs i) = length xs - 1"
  by (simp add: swap_remove_def)

end
