(* ===== verification/Go_Text.thy ===== *)
theory Go_Text
  imports Prelude
begin

text \<open>
  The functions of Go's packages strings, strconv and fmt that the operator uses, on
  byte strings. \<open>Split\<close> takes a one-byte separator, as every call of the code does;
  \<open>TrimSpace\<close> and \<open>ToLower\<close> treat ASCII.
\<close>

subsection \<open>Characters\<close>

definition code :: "char \<Rightarrow> nat" where
  "code c = of_char c"

definition is_digit :: "char \<Rightarrow> bool" where
  "is_digit c \<longleftrightarrow> 48 \<le> code c \<and> code c \<le> 57"

definition is_lower :: "char \<Rightarrow> bool" where
  "is_lower c \<longleftrightarrow> 97 \<le> code c \<and> code c \<le> 122"

definition is_upper :: "char \<Rightarrow> bool" where
  "is_upper c \<longleftrightarrow> 65 \<le> code c \<and> code c \<le> 90"

definition is_space :: "char \<Rightarrow> bool" where
  "is_space c \<longleftrightarrow> code c = 32 \<or> (9 \<le> code c \<and> code c \<le> 13)"

definition to_lower_char :: "char \<Rightarrow> char" where
  "to_lower_char c = (if is_upper c then char_of (code c + 32) else c)"

definition ToLower :: "string \<Rightarrow> string" where
  "ToLower s = map to_lower_char s"

definition newline :: char where
  "newline = CHR 0x0A"

lemma code_char_of [simp]: "n < 256 \<Longrightarrow> code (char_of n) = n"
  by (simp add: code_def)

subsection \<open>Package strings\<close>

definition HasPrefix :: "string \<Rightarrow> string \<Rightarrow> bool" where
  "HasPrefix s p \<longleftrightarrow> take (length p) s = p"

definition HasSuffix :: "string \<Rightarrow> string \<Rightarrow> bool" where
  "HasSuffix s p \<longleftrightarrow> length p \<le> length s \<and> drop (length s - length p) s = p"

fun Contains :: "string \<Rightarrow> string \<Rightarrow> bool" where
  "Contains [] p = (p = [])"
| "Contains (c # cs) p = (HasPrefix (c # cs) p \<or> Contains cs p)"

fun Split :: "char \<Rightarrow> string \<Rightarrow> string list" where
  "Split sep [] = [[]]"
| "Split sep (c # cs) =
     (if c = sep then [] # Split sep cs
      else (case Split sep cs of [] \<Rightarrow> [[c]] | w # ws \<Rightarrow> (c # w) # ws))"

fun Join :: "string \<Rightarrow> string list \<Rightarrow> string" where
  "Join sep [] = []"
| "Join sep [w] = w"
| "Join sep (w # v # ws) = w @ sep @ Join sep (v # ws)"

definition TrimSpace :: "string \<Rightarrow> string" where
  "TrimSpace s = rev (dropWhile is_space (rev (dropWhile is_space s)))"

text \<open>Non-overlapping replacement from the left; \<open>old\<close> is never empty in the code.\<close>

function ReplaceAll :: "string \<Rightarrow> string \<Rightarrow> string \<Rightarrow> string" where
  "ReplaceAll [] old new = []"
| "ReplaceAll (c # cs) old new =
     (if old \<noteq> [] \<and> HasPrefix (c # cs) old
      then new @ ReplaceAll (drop (length old) (c # cs)) old new
      else c # ReplaceAll cs old new)"
  by pat_completeness auto
termination
  by (relation "measure (\<lambda>(s, _, _). length s)") auto

lemma Split_not_Nil [simp]: "Split sep s \<noteq> []"
  by (induction s) (auto split: list.splits)

lemma Join_Split: "Join [sep] (Split sep s) = s"
proof (induction s)
  case Nil
  then show ?case by simp
next
  case (Cons c cs)
  obtain w ws where w: "Split sep cs = w # ws"
    using Split_not_Nil by (metis neq_Nil_conv)
  with Cons show ?case by (cases ws) auto
qed

lemma Split_no_sep: "w \<in> set (Split sep s) \<Longrightarrow> sep \<notin> set w"
proof (induction s arbitrary: w)
  case Nil
  then show ?case by simp
next
  case (Cons c cs)
  then show ?case by (auto split: if_splits list.splits)
qed

lemma Split_single: "sep \<notin> set s \<Longrightarrow> Split sep s = [s]"
  by (induction s) auto

lemma Split_append_sep: "sep \<notin> set w \<Longrightarrow> Split sep (w @ sep # s) = w # Split sep s"
  by (induction w) auto

lemma Split_Join:
  assumes "ws \<noteq> []" "\<forall>w \<in> set ws. sep \<notin> set w"
  shows "Split sep (Join [sep] ws) = ws"
  using assms
proof (induction "[sep]" ws rule: Join.induct)
  case (2 w)
  then show ?case by (simp add: Split_single)
next
  case (3 w v ws)
  then show ?case by (simp add: Split_append_sep)
qed simp

lemma Contains_char: "Contains s [c] \<longleftrightarrow> c \<in> set s"
  by (induction s) (auto simp: HasPrefix_def)

lemma Contains_iff: "Contains s p \<longleftrightarrow> (\<exists>u v. s = u @ p @ v)"
proof (induction s)
  case Nil
  then show ?case by simp
next
  case (Cons c cs)
  have "HasPrefix (c # cs) p \<longleftrightarrow> (\<exists>v. c # cs = p @ v)"
    unfolding HasPrefix_def by (metis append_eq_conv_conj append_take_drop_id)
  moreover have "(\<exists>u v. c # cs = u @ p @ v) \<longleftrightarrow> (\<exists>v. c # cs = p @ v) \<or> (\<exists>u v. cs = u @ p @ v)"
    by (auto simp: Cons_eq_append_conv)
  ultimately show ?case using Cons.IH by auto
qed

lemma HasSuffix_iff: "HasSuffix s p \<longleftrightarrow> (\<exists>u. s = u @ p)"
proof
  assume "HasSuffix s p"
  then have "s = take (length s - length p) s @ p"
    unfolding HasSuffix_def by (metis append_take_drop_id)
  then show "\<exists>u. s = u @ p" ..
next
  assume "\<exists>u. s = u @ p"
  then show "HasSuffix s p" by (auto simp: HasSuffix_def)
qed

lemma HasPrefix_Nil [simp]: "HasPrefix s []"
  by (simp add: HasPrefix_def)

lemma ReplaceAll_absent: "\<not> Contains s old \<Longrightarrow> ReplaceAll s old new = s"
proof (induction s)
  case Nil
  then show ?case by simp
next
  case (Cons c cs)
  then have "\<not> HasPrefix (c # cs) old" "\<not> Contains cs old" by simp_all
  with Cons.IH show ?case by (subst ReplaceAll.simps) simp
qed

subsection \<open>Package strconv\<close>

fun digits :: "nat \<Rightarrow> string" where
  "digits n =
     (if n < 10 then [char_of (48 + n)] else digits (n div 10) @ [char_of (48 + n mod 10)])"

declare digits.simps [simp del] ReplaceAll.simps(2) [simp del]

definition Itoa :: "int \<Rightarrow> string" where
  "Itoa i = (if i < 0 then CHR ''-'' # digits (nat (- i)) else digits (nat i))"

definition in_int64 :: "int \<Rightarrow> bool" where
  "in_int64 i \<longleftrightarrow> - (2 ^ 63) \<le> i \<and> i < 2 ^ 63"

definition digit_value :: "char \<Rightarrow> nat" where
  "digit_value c = code c - 48"

definition parse_digits :: "string \<Rightarrow> nat option" where
  "parse_digits s =
     (if s \<noteq> [] \<and> list_all is_digit s
      then Some (foldl (\<lambda>n c. 10 * n + digit_value c) 0 s) else None)"

text \<open>
  \<open>strconv.Atoi\<close>: an optional sign, then decimal digits only; \<open>None\<close> stands for its
  error, on bad syntax and outside the range of \<open>int\<close>.
\<close>

definition Atoi :: "string \<Rightarrow> int option" where
  "Atoi s =
     (let (neg, ds) = (case s of
            [] \<Rightarrow> (False, [])
          | c # cs \<Rightarrow> if c = CHR ''-'' then (True, cs)
                      else if c = CHR ''+'' then (False, cs) else (False, s))
      in case parse_digits ds of
           None \<Rightarrow> None
         | Some n \<Rightarrow> let i = (if neg then - int n else int n)
                     in if in_int64 i then Some i else None)"

lemma char_of_digit [text_simps]:
  "char_of (48::nat) = CHR ''0''"
  "char_of (49::nat) = CHR ''1''"
  "char_of (50::nat) = CHR ''2''"
  "char_of (51::nat) = CHR ''3''"
  "char_of (52::nat) = CHR ''4''"
  "char_of (53::nat) = CHR ''5''"
  "char_of (54::nat) = CHR ''6''"
  "char_of (55::nat) = CHR ''7''"
  "char_of (56::nat) = CHR ''8''"
  "char_of (57::nat) = CHR ''9''"
  by (simp_all add: char_of_def bit_0)

lemma digits_not_Nil [simp]: "digits n \<noteq> []"
  by (subst digits.simps) simp

lemma is_digit_char_of: "(n::nat) < 10 \<Longrightarrow> is_digit (char_of (48 + n))"
  by (simp add: is_digit_def)

lemma list_all_digits: "list_all is_digit (digits n)"
proof (induction n rule: digits.induct)
  case (1 n)
  then show ?case
    by (cases "n < 10") (simp_all add: digits.simps [of n] is_digit_char_of)
qed

lemma foldl_digits: "foldl (\<lambda>n c. 10 * n + digit_value c) 0 (digits n) = n"
proof (induction n rule: digits.induct)
  case (1 n)
  then show ?case
    by (cases "n < 10") (simp_all add: digits.simps [of n] digit_value_def)
qed

lemma parse_digits_digits [simp]: "parse_digits (digits n) = Some n"
  by (simp add: parse_digits_def list_all_digits foldl_digits)

lemma hd_digits: "digits n = c # cs \<Longrightarrow> c \<noteq> CHR ''-'' \<and> c \<noteq> CHR ''+''"
  using list_all_digits [of n] by (auto simp: is_digit_def code_def)

lemma Atoi_Itoa: "in_int64 i \<Longrightarrow> Atoi (Itoa i) = Some i"
proof (cases "i < 0")
  case True
  then show "in_int64 i \<Longrightarrow> ?thesis" by (simp add: Atoi_def Itoa_def)
next
  case False
  obtain c cs where c: "digits (nat i) = c # cs"
    by (metis digits_not_Nil neq_Nil_conv)
  then have "parse_digits (c # cs) = Some (nat i)"
    by (metis parse_digits_digits)
  with False c hd_digits [OF c] show "in_int64 i \<Longrightarrow> ?thesis"
    by (simp add: Atoi_def Itoa_def Let_def)
qed

lemma Itoa_not_Nil [simp]: "Itoa i \<noteq> []"
  by (simp add: Itoa_def)

lemma Itoa_inject: "Itoa i = Itoa j \<Longrightarrow> i = j"
proof -
  have d: "digits n = digits m \<Longrightarrow> n = m" for n m
    by (metis option.inject parse_digits_digits)
  have m: "digits n \<noteq> CHR ''-'' # digits k" for n k
    using hd_digits by blast
  show "Itoa i = Itoa j \<Longrightarrow> i = j"
    using m [of "nat i" "nat (- j)"] m [of "nat j" "nat (- i)"]
    by (auto simp: Itoa_def dest: d split: if_splits)
qed

lemma Atoi_range: "Atoi s = Some i \<Longrightarrow> in_int64 i"
  by (auto simp: Atoi_def Let_def split: option.splits if_splits prod.splits)

lemma newline_not_digit: "is_digit c \<Longrightarrow> c \<noteq> newline"
  by (auto simp: is_digit_def newline_def code_def)

lemma newline_notin_Itoa: "newline \<notin> set (Itoa i)"
proof -
  have "newline \<notin> set (digits n)" for n
    using list_all_digits [of n] newline_not_digit by (auto simp: list_all_iff)
  then show ?thesis by (auto simp: Itoa_def newline_def)
qed

definition fmt_bool :: "bool \<Rightarrow> string" where
  "fmt_bool b = (if b then ''true'' else ''false'')"

lemma newline_notin_fmt_bool: "newline \<notin> set (fmt_bool b)"
  by (auto simp: fmt_bool_def newline_def)

text \<open>A conversion \<open>int32(i)\<close>: truncation to 32 bits.\<close>

type_synonym int32 = "32 word"

definition to_int32 :: "int \<Rightarrow> int32" where
  "to_int32 i = word_of_int i"

lemma sint_to_int32:
  "- (2 ^ 31) \<le> i \<Longrightarrow> i < 2 ^ 31 \<Longrightarrow> sint (to_int32 i) = i"
  by (simp add: to_int32_def signed_of_int signed_take_bit_int_eq_self)

end
