(* ===== verification/Api_Config.thy ===== *)
theory Api_Config
  imports Go_Text
begin

text \<open>
  The configuration part of the Grafana resource,
  \<open>api/integreatly/v1alpha1/grafana_types.go\<close>: one record per struct, with the struct's
  name and one field per field of the struct, prefixed by the section (\<open>Server_HttpAddr\<close>
  is \<open>GrafanaConfigServer.HttpAddr\<close>, \<open>cfg_Server\<close> is \<open>GrafanaConfig.Server\<close>). A
  \<open>*bool\<close> is a \<open>bool option\<close>, a \<open>*int\<close> an \<open>int option\<close>, a pointer to a section
  an \<open>option\<close>. The zero values of Go follow at the end.
\<close>

subsection \<open>The sections\<close>

record GrafanaConfigPaths =
  Paths_TempDataLifetime :: "string"

record GrafanaConfigServer =
  Server_HttpAddr :: "string"
  Server_HttpPort :: "string"
  Server_Protocol :: "string"
  Server_Socket :: "string"
  Server_Domain :: "string"
  Server_EnforceDomain :: "bool option"
  Server_RootUrl :: "string"
  Server_ServeFromSubPath :: "bool option"
  Server_StaticRootPath :: "string"
  Server_EnableGzip :: "bool option"
  Server_CertFile :: "string"
  Server_CertKey :: "string"
  Server_RouterLogging :: "bool option"

record GrafanaConfigDatabase =
  Database_Url :: "string"
  Database_Type :: "string"
  Database_Path :: "string"
  Database_Host :: "string"
  Database_Name :: "string"
  Database_User :: "string"
  Database_Password :: "string"
  Database_SslMode :: "string"
  Database_CaCertPath :: "string"
  Database_ClientKeyPath :: "string"
  Database_ClientCertPath :: "string"
  Database_ServerCertName :: "string"
  Database_MaxIdleConn :: "int option"
  Database_MaxOpenConn :: "int option"
  Database_ConnMaxLifetime :: "int option"
  Database_LogQueries :: "bool option"
  Database_CacheMode :: "string"

record GrafanaConfigRemoteCache =
  RemoteCache_Type :: "string"
  RemoteCache_ConnStr :: "string"

record GrafanaConfigSecurity =
  Security_AdminUser :: "string"
  Security_AdminPassword :: "string"
  Security_LoginRememberDays :: "int option"
  Security_SecretKey :: "string"
  Security_DisableGravatar :: "bool option"
  Security_DataSourceProxyWhitelist :: "string"
  Security_CookieSecure :: "bool option"
  Security_CookieSamesite :: "string"
  Security_AllowEmbedding :: "bool option"
  Security_StrictTransportSecurity :: "bool option"
  Security_StrictTransportSecurityMaxAgeSeconds :: "int option"
  Security_StrictTransportSecurityPreload :: "bool option"
  Security_StrictTransportSecuritySubdomains :: "bool option"
  Security_XContentTypeOptions :: "bool option"
  Security_XXssProtection :: "bool option"

record GrafanaConfigUsers =
  Users_AllowSignUp :: "bool option"
  Users_AllowOrgCreate :: "bool option"
  Users_AutoAssignOrg :: "bool option"
  Users_AutoAssignOrgId :: "string"
  Users_AutoAssignOrgRole :: "string"
  Users_ViewersCanEdit :: "bool option"
  Users_EditorsCanAdmin :: "bool option"
  Users_LoginHint :: "string"
  Users_PasswordHint :: "string"
  Users_DefaultTheme :: "string"

record GrafanaConfigAuth =
  Auth_LoginCookieName :: "string"
  Auth_LoginMaximumInactiveLifetimeDays :: "int option"
  Auth_LoginMaximumInactiveLifetimeDuration :: "string"
  Auth_LoginMaximumLifetimeDays :: "int option"
  Auth_LoginMaximumLifetimeDuration :: "string"
  Auth_TokenRotationIntervalMinutes :: "int option"
  Auth_DisableLoginForm :: "bool option"
  Auth_DisableSignoutMenu :: "bool option"
  Auth_SigV4AuthEnabled :: "bool option"
  Auth_SignoutRedirectUrl :: "string"
  Auth_OauthAutoLogin :: "bool option"

record GrafanaConfigAuthBasic =
  AuthBasic_Enabled :: "bool option"

record GrafanaConfigAuthAnonymous =
  AuthAnonymous_Enabled :: "bool option"
  AuthAnonymous_OrgName :: "string"
  AuthAnonymous_OrgRole :: "string"

record GrafanaConfigAuthSaml =
  AuthSaml_Enabled :: "bool option"
  AuthSaml_SingleLogout :: "bool option"
  AuthSaml_AllowIdpInitiated :: "bool option"
  AuthSaml_CertificatePath :: "string"
  AuthSaml_KeyPath :: "string"
  AuthSaml_SignatureAlgorithm :: "string"
  AuthSaml_IdpUrl :: "string"
  AuthSaml_MaxIssueDelay :: "string"
  AuthSaml_MetadataValidDuration :: "string"
  AuthSaml_RelayState :: "string"
  AuthSaml_AssertionAttributeName :: "string"
  AuthSaml_AssertionAttributeLogin :: "string"
  AuthSaml_AssertionAttributeEmail :: "string"
  AuthSaml_AssertionAttributeGroups :: "string"
  AuthSaml_AssertionAttributeRole :: "string"
  AuthSaml_AssertionAttributeOrg :: "string"
  AuthSaml_AllowedOrganizations :: "string"
  AuthSaml_OrgMapping :: "string"
  AuthSaml_RoleValuesEditor :: "string"
  AuthSaml_RoleValuesAdmin :: "string"
  AuthSaml_RoleValuesGrafanaAdmin :: "string"

record GrafanaConfigAuthAzureAD =
  AuthAzureAD_Enabled :: "bool option"
  AuthAzureAD_AllowSignUp :: "bool option"
  AuthAzureAD_ClientId :: "string"
  AuthAzureAD_ClientSecret :: "string"
  AuthAzureAD_Scopes :: "string"
  AuthAzureAD_AuthUrl :: "string"
  AuthAzureAD_TokenUrl :: "string"
  AuthAzureAD_AllowedDomains :: "string"
  AuthAzureAD_AllowedGroups :: "string"

record GrafanaConfigAuthGoogle =
  AuthGoogle_Enabled :: "bool option"
  AuthGoogle_ClientId :: "string"
  AuthGoogle_ClientSecret :: "string"
  AuthGoogle_Scopes :: "string"
  AuthGoogle_AuthUrl :: "string"
  AuthGoogle_TokenUrl :: "string"
  AuthGoogle_AllowedDomains :: "string"
  AuthGoogle_AllowSignUp :: "bool option"

record GrafanaConfigAuthGithub =
  AuthGithub_Enabled :: "bool option"
  AuthGithub_AllowSignUp :: "bool option"
  AuthGithub_ClientId :: "string"
  AuthGithub_ClientSecret :: "string"
  AuthGithub_Scopes :: "string"
  AuthGithub_AuthUrl :: "string"
  AuthGithub_TokenUrl :: "string"
  AuthGithub_ApiUrl :: "string"
  AuthGithub_TeamIds :: "string"
  AuthGithub_AllowedOrganizations :: "string"

record GrafanaConfigAuthGitlab =
  AuthGitlab_Enabled :: "bool option"
  AuthGitlab_AllowSignUp :: "bool option"
  AuthGitlab_ClientId :: "string"
  AuthGitlab_ClientSecret :: "string"
  AuthGitlab_Scopes :: "string"
  AuthGitlab_AuthUrl :: "string"
  AuthGitlab_TokenUrl :: "string"
  AuthGitlab_ApiUrl :: "string"
  AuthGitlab_AllowedGroups :: "string"

record GrafanaConfigAuthGenericOauth =
  AuthGenericOauth_Enabled :: "bool option"
  AuthGenericOauth_AllowSignUp :: "bool option"
  AuthGenericOauth_ClientId :: "string"
  AuthGenericOauth_ClientSecret :: "string"
  AuthGenericOauth_Scopes :: "string"
  AuthGenericOauth_AuthUrl :: "string"
  AuthGenericOauth_TokenUrl :: "string"
  AuthGenericOauth_ApiUrl :: "string"
  AuthGenericOauth_AllowedDomains :: "string"
  AuthGenericOauth_RoleAttributePath :: "string"
  AuthGenericOauth_RoleAttributeStrict :: "bool option"
  AuthGenericOauth_EmailAttributePath :: "string"
  AuthGenericOauth_TLSSkipVerifyInsecure :: "bool option"
  AuthGenericOauth_TLSClientCert :: "string"
  AuthGenericOauth_TLSClientKey :: "string"
  AuthGenericOauth_TLSClientCa :: "string"

record GrafanaConfigAuthOkta =
  AuthOkta_Enabled :: "bool option"
  AuthOkta_Name :: "string"
  AuthOkta_AllowSignUp :: "bool option"
  AuthOkta_ClientId :: "string"
  AuthOkta_ClientSecret :: "string"
  AuthOkta_Scopes :: "string"
  AuthOkta_AuthUrl :: "string"
  AuthOkta_TokenUrl :: "string"
  AuthOkta_ApiUrl :: "string"
  AuthOkta_AllowedDomains :: "string"
  AuthOkta_AllowedGroups :: "string"
  AuthOkta_RoleAttributePath :: "string"
  AuthOkta_RoleAttributeStrict :: "bool option"

record GrafanaConfigAuthLdap =
  AuthLdap_Enabled :: "bool option"
  AuthLdap_AllowSignUp :: "bool option"
  AuthLdap_ConfigFile :: "string"

record GrafanaConfigAuthProxy =
  AuthProxy_Enabled :: "bool option"
  AuthProxy_HeaderName :: "string"
  AuthProxy_HeaderProperty :: "string"
  AuthProxy_AutoSignUp :: "bool option"
  AuthProxy_LdapSyncTtl :: "string"
  AuthProxy_Whitelist :: "string"
  AuthProxy_Headers :: "string"
  AuthProxy_EnableLoginToken :: "bool option"

record GrafanaConfigDataProxy =
  DataProxy_Logging :: "bool option"
  DataProxy_Timeout :: "int option"
  DataProxy_SendUserHeader :: "bool option"

record GrafanaConfigAnalytics =
  Analytics_ReportingEnabled :: "bool option"
  Analytics_GoogleAnalyticsUaId :: "string"
  Analytics_CheckForUpdates :: "bool option"

record GrafanaConfigDashboards =
  Dashboards_VersionsToKeep :: "int option"
  Dashboards_DefaultHomeDashboardPath :: "string"

record GrafanaConfigSmtp =
  Smtp_Enabled :: "bool option"
  Smtp_Host :: "string"
  Smtp_User :: "string"
  Smtp_Password :: "string"
  Smtp_CertFile :: "string"
  Smtp_KeyFile :: "string"
  Smtp_SkipVerify :: "bool option"
  Smtp_FromAddress :: "string"
  Smtp_FromName :: "string"
  Smtp_EhloIdentity :: "string"

record GrafanaConfigLive =
  Live_MaxConnections :: "int option"
  Live_AllowedOrigins :: "string"

record GrafanaConfigLog =
  Log_Mode :: "string"
  Log_Level :: "string"
  Log_Filters :: "string"

record GrafanaConfigLogFrontend =
  LogFrontend_Enabled :: "bool option"
  LogFrontend_SentryDsn :: "string"
  LogFrontend_CustomEndpoint :: "string"
  LogFrontend_SampleRate :: "string"
  LogFrontend_LogEndpointRequestsPerSecondLimit :: "int option"
  LogFrontend_LogEndpointBurstLimit :: "int option"

record GrafanaConfigLogConsole =
  LogConsole_Level :: "string"
  LogConsole_Format :: "string"

record GrafanaConfigMetrics =
  Metrics_Enabled :: "bool option"
  Metrics_BasicAuthUsername :: "string"
  Metrics_BasicAuthPassword :: "string"
  Metrics_IntervalSeconds :: "int option"

record GrafanaConfigMetricsGraphite =
  MetricsGraphite_Address :: "string"
  MetricsGraphite_Prefix :: "string"

record GrafanaConfigSnapshots =
  Snapshots_ExternalEnabled :: "bool option"
  Snapshots_ExternalSnapshotUrl :: "string"
  Snapshots_ExternalSnapshotName :: "string"
  Snapshots_SnapshotRemoveExpired :: "bool option"

record GrafanaConfigExternalImageStorage =
  ExternalImageStorage_Provider :: "string"

record GrafanaConfigExternalImageStorageS3 =
  ExternalImageStorageS3_Bucket :: "string"
  ExternalImageStorageS3_Region :: "string"
  ExternalImageStorageS3_Path :: "string"
  ExternalImageStorageS3_BucketUrl :: "string"
  ExternalImageStorageS3_AccessKey :: "string"
  ExternalImageStorageS3_SecretKey :: "string"

record GrafanaConfigExternalImageStorageWebdav =
  ExternalImageStorageWebdav_Url :: "string"
  ExternalImageStorageWebdav_PublicUrl :: "string"
  ExternalImageStorageWebdav_Username :: "string"
  ExternalImageStorageWebdav_Password :: "string"

record GrafanaConfigExternalImageStorageGcs =
  ExternalImageStorageGcs_KeyFile :: "string"
  ExternalImageStorageGcs_Bucket :: "string"
  ExternalImageStorageGcs_Path :: "string"

record GrafanaConfigExternalImageStorageAzureBlob =
  ExternalImageStorageAzureBlob_AccountName :: "string"
  ExternalImageStorageAzureBlob_AccountKey :: "string"
  ExternalImageStorageAzureBlob_ContainerName :: "string"

record GrafanaConfigAlerting =
  Alerting_Enabled :: "bool option"
  Alerting_ExecuteAlerts :: "bool option"
  Alerting_ErrorOrTimeout :: "string"
  Alerting_NodataOrNullvalues :: "string"
  Alerting_ConcurrentRenderLimit :: "int option"
  Alerting_EvaluationTimeoutSeconds :: "int option"
  Alerting_NotificationTimeoutSeconds :: "int option"
  Alerting_MaxAttempts :: "int option"

record GrafanaConfigUnifiedAlerting =
  UnifiedAlerting_Enabled :: "bool option"
  UnifiedAlerting_ExecuteAlerts :: "bool option"
  UnifiedAlerting_EvaluationTimeout :: "string"
  UnifiedAlerting_MaxAttempts :: "int option"
  UnifiedAlerting_MinInterval :: "string"

record GrafanaConfigPanels =
  Panels_DisableSanitizeHtml :: "bool option"

record GrafanaConfigPlugins =
  Plugins_EnableAlpha :: "bool option"

record GrafanaConfigRendering =
  Rendering_ServerURL :: "string"
  Rendering_CallbackURL :: "string"
  Rendering_ConcurrentRenderRequestLimit :: "int option"

record GrafanaConfigFeatureToggles =
  FeatureToggles_Enable :: "string"

subsection \<open>The configuration\<close>

record GrafanaConfig =
  cfg_Paths :: "GrafanaConfigPaths option"
  cfg_Server :: "GrafanaConfigServer option"
  cfg_Database :: "GrafanaConfigDatabase option"
  cfg_RemoteCache :: "GrafanaConfigRemoteCache option"
  cfg_Security :: "GrafanaConfigSecurity option"
  cfg_Users :: "GrafanaConfigUsers option"
  cfg_Auth :: "GrafanaConfigAuth option"
  cfg_AuthBasic :: "GrafanaConfigAuthBasic option"
  cfg_AuthAnonymous :: "GrafanaConfigAuthAnonymous option"
  cfg_AuthAzureAD :: "GrafanaConfigAuthAzureAD option"
  cfg_AuthGoogle :: "GrafanaConfigAuthGoogle option"
  cfg_AuthGithub :: "GrafanaConfigAuthGithub option"
  cfg_AuthGitlab :: "GrafanaConfigAuthGitlab option"
  cfg_AuthGenericOauth :: "GrafanaConfigAuthGenericOauth option"
  cfg_AuthOkta :: "GrafanaConfigAuthOkta option"
  cfg_AuthLdap :: "GrafanaConfigAuthLdap option"
  cfg_AuthProxy :: "GrafanaConfigAuthProxy option"
  cfg_AuthSaml :: "GrafanaConfigAuthSaml option"
  cfg_DataProxy :: "GrafanaConfigDataProxy option"
  cfg_Analytics :: "GrafanaConfigAnalytics option"
  cfg_Dashboards :: "GrafanaConfigDashboards option"
  cfg_Smtp :: "GrafanaConfigSmtp option"
  cfg_Live :: "GrafanaConfigLive option"
  cfg_Log :: "GrafanaConfigLog option"
  cfg_LogConsole :: "GrafanaConfigLogConsole option"
  cfg_LogFrontend :: "GrafanaConfigLogFrontend option"
  cfg_Metrics :: "GrafanaConfigMetrics option"
  cfg_MetricsGraphite :: "GrafanaConfigMetricsGraphite option"
  cfg_Snapshots :: "GrafanaConfigSnapshots option"
  cfg_ExternalImageStorage :: "GrafanaConfigExternalImageStorage option"
  cfg_ExternalImageStorageS3 :: "GrafanaConfigExternalImageStorageS3 option"
  cfg_ExternalImageStorageWebdav :: "GrafanaConfigExternalImageStorageWebdav option"
  cfg_ExternalImageStorageGcs :: "GrafanaConfigExternalImageStorageGcs option"
  cfg_ExternalImageStorageAzureBlob :: "GrafanaConfigExternalImageStorageAzureBlob option"
  cfg_Alerting :: "GrafanaConfigAlerting option"
  cfg_UnifiedAlerting :: "GrafanaConfigUnifiedAlerting option"
  cfg_Panels :: "GrafanaConfigPanels option"
  cfg_Plugins :: "GrafanaConfigPlugins option"
  cfg_Rendering :: "GrafanaConfigRendering option"
  cfg_FeatureToggles :: "GrafanaConfigFeatureToggles option"

subsection \<open>Zero values\<close>

definition zero_GrafanaConfig :: GrafanaConfig where
  "zero_GrafanaConfig = \<lparr>cfg_Paths = None,
     cfg_Server = None,
     cfg_Database = None,
     cfg_RemoteCache = None,
     cfg_Security = None,
     cfg_Users = None,
     cfg_Auth = None,
     cfg_AuthBasic = None,
     cfg_AuthAnonymous = None,
     cfg_AuthAzureAD = None,
     cfg_AuthGoogle = None,
     cfg_AuthGithub = None,
     cfg_AuthGitlab = None,
     cfg_AuthGenericOauth = None,
     cfg_AuthOkta = None,
     cfg_AuthLdap = None,
     cfg_AuthProxy = None,
     cfg_AuthSaml = None,
     cfg_DataProxy = None,
     cfg_Analytics = None,
     cfg_Dashboards = None,
     cfg_Smtp = None,
     cfg_Live = None,
     cfg_Log = None,
     cfg_LogConsole = None,
     cfg_LogFrontend = None,
     cfg_Metrics = None,
     cfg_MetricsGraphite = None,
     cfg_Snapshots = None,
     cfg_ExternalImageStorage = None,
     cfg_ExternalImageStorageS3 = None,
     cfg_ExternalImageStorageWebdav = None,
     cfg_ExternalImageStorageGcs = None,
     cfg_ExternalImageStorageAzureBlob = None,
     cfg_Alerting = None,
     cfg_UnifiedAlerting = None,
     cfg_Panels = None,
     cfg_Plugins = None,
     cfg_Rendering = None,
     cfg_FeatureToggles = None\<rparr>"

definition zero_GrafanaConfigPaths :: GrafanaConfigPaths where
  "zero_GrafanaConfigPaths = \<lparr>Paths_TempDataLifetime = []\<rparr>"

definition zero_GrafanaConfigServer :: GrafanaConfigServer where
  "zero_GrafanaConfigServer = \<lparr>Server_HttpAddr = [],
     Server_HttpPort = [],
     Server_Protocol = [],
     Server_Socket = [],
     Server_Domain = [],
     Server_EnforceDomain = None,
     Server_RootUrl = [],
     Server_ServeFromSubPath = None,
     Server_StaticRootPath = [],
     Server_EnableGzip = None,
     Server_CertFile = [],
     Server_CertKey = [],
     Server_RouterLogging = None\<rparr>"

definition zero_GrafanaConfigDatabase :: GrafanaConfigDatabase where
  "zero_GrafanaConfigDatabase = \<lparr>Database_Url = [],
     Database_Type = [],
     Database_Path = [],
     Database_Host = [],
     Database_Name = [],
     Database_User = [],
     Database_Password = [],
     Database_SslMode = [],
     Database_CaCertPath = [],
     Database_ClientKeyPath = [],
     Database_ClientCertPath = [],
     Database_ServerCertName = [],
     Database_MaxIdleConn = None,
     Database_MaxOpenConn = None,
     Database_ConnMaxLifetime = None,
     Database_LogQueries = None,
     Database_CacheMode = []\<rparr>"

definition zero_GrafanaConfigSecurity :: GrafanaConfigSecurity where
  "zero_GrafanaConfigSecurity = \<lparr>Security_AdminUser = [],
     Security_AdminPassword = [],
     Security_LoginRememberDays = None,
     Security_SecretKey = [],
     Security_DisableGravatar = None,
     Security_DataSourceProxyWhitelist = [],
     Security_CookieSecure = None,
     Security_CookieSamesite = [],
     Security_AllowEmbedding = None,
     Security_StrictTransportSecurity = None,
     Security_StrictTransportSecurityMaxAgeSeconds = None,
     Security_StrictTransportSecurityPreload = None,
     Security_StrictTransportSecuritySubdomains = None,
     Security_XContentTypeOptions = None,
     Security_XXssProtection = None\<rparr>"

definition zero_GrafanaConfigAuthGenericOauth :: GrafanaConfigAuthGenericOauth where
  "zero_GrafanaConfigAuthGenericOauth = \<lparr>AuthGenericOauth_Enabled = None,
     AuthGenericOauth_AllowSignUp = None,
     AuthGenericOauth_ClientId = [],
     AuthGenericOauth_ClientSecret = [],
     AuthGenericOauth_Scopes = [],
     AuthGenericOauth_AuthUrl = [],
     AuthGenericOauth_TokenUrl = [],
     AuthGenericOauth_ApiUrl = [],
     AuthGenericOauth_AllowedDomains = [],
     AuthGenericOauth_RoleAttributePath = [],
     AuthGenericOauth_RoleAttributeStrict = None,
     AuthGenericOauth_EmailAttributePath = [],
     AuthGenericOauth_TLSSkipVerifyInsecure = None,
     AuthGenericOauth_TLSClientCert = [],
     AuthGenericOauth_TLSClientKey = [],
     AuthGenericOauth_TLSClientCa = []\<rparr>"

definition zero_GrafanaConfigAuthAzureAD :: GrafanaConfigAuthAzureAD where
  "zero_GrafanaConfigAuthAzureAD = \<lparr>AuthAzureAD_Enabled = None,
     AuthAzureAD_AllowSignUp = None,
     AuthAzureAD_ClientId = [],
     AuthAzureAD_ClientSecret = [],
     AuthAzureAD_Scopes = [],
     AuthAzureAD_AuthUrl = [],
     AuthAzureAD_TokenUrl = [],
     AuthAzureAD_AllowedDomains = [],
     AuthAzureAD_AllowedGroups = []\<rparr>"

definition zero_GrafanaConfigUnifiedAlerting :: GrafanaConfigUnifiedAlerting where
  "zero_GrafanaConfigUnifiedAlerting = \<lparr>UnifiedAlerting_Enabled = None,
     UnifiedAlerting_ExecuteAlerts = None,
     UnifiedAlerting_EvaluationTimeout = [],
     UnifiedAlerting_MaxAttempts = None,
     UnifiedAlerting_MinInterval = []\<rparr>"

definition zero_GrafanaConfigRendering :: GrafanaConfigRendering where
  "zero_GrafanaConfigRendering = \<lparr>Rendering_ServerURL = [],
     Rendering_CallbackURL = [],
     Rendering_ConcurrentRenderRequestLimit = None\<rparr>"

end
