(* ===== verification/Constants.thy ===== *)
theory Constants
  imports Main
begin

text \<open>
  The constants of \<open>controllers/config/controller_config.go\<close> and
  \<open>controllers/constants/constants.go\<close>, under their own names. \<open>RequeueDelay\<close> is in
  seconds.
\<close>

definition ConfigGrafanaImage :: string where "ConfigGrafanaImage = ''grafana.image.url''"
definition ConfigGrafanaImageTag :: string where "ConfigGrafanaImageTag = ''grafana.image.tag''"
definition ConfigPluginsInitContainerImage :: string where "ConfigPluginsInitContainerImage = ''grafana.plugins.init.container.image.url''"
definition ConfigPluginsInitContainerTag :: string where "ConfigPluginsInitContainerTag = ''grafana.plugins.init.container.image.tag''"
definition ConfigOperatorNamespace :: string where "ConfigOperatorNamespace = ''grafana.operator.namespace''"
definition ConfigDashboardLabelSelector :: string where "ConfigDashboardLabelSelector = ''grafana.dashboard.selector''"
definition ConfigOpenshift :: string where "ConfigOpenshift = ''mode.openshift''"
definition ConfigJsonnetBasePath :: string where "ConfigJsonnetBasePath = ''grafonnet.location''"
definition GrafanaDataPath :: string where "GrafanaDataPath = ''/var/lib/grafana''"
definition GrafanaLogsPath :: string where "GrafanaLogsPath = ''/var/log/grafana''"
definition GrafanaPluginsPath :: string where "GrafanaPluginsPath = ''/var/lib/grafana/plugins''"
definition GrafanaProvisioningPath :: string where "GrafanaProvisioningPath = ''/etc/grafana/provisioning/''"
definition GrafanaProvisioningPluginsPath :: string where "GrafanaProvisioningPluginsPath = ''/etc/grafana/provisioning/plugins''"
definition GrafanaProvisioningDashboardsPath :: string where "GrafanaProvisioningDashboardsPath = ''/etc/grafana/provisioning/dashboards''"
definition GrafanaProvisioningNotifiersPath :: string where "GrafanaProvisioningNotifiersPath = ''/etc/grafana/provisioning/notifiers''"
definition PluginsInitContainerImage :: string where "PluginsInitContainerImage = ''quay.io/grafana-operator/grafana_plugins_init''"
definition PluginsInitContainerTag :: string where "PluginsInitContainerTag = ''0.0.5''"
definition PluginsUrl :: string where "PluginsUrl = ''https://grafana.com/api/plugins/%s/versions/%s''"
definition RequeueDelay :: int where "RequeueDelay = 10"
definition SecretsMountDir :: string where "SecretsMountDir = ''/etc/grafana-secrets/''"
definition ConfigMapsMountDir :: string where "ConfigMapsMountDir = ''/etc/grafana-configmaps/''"
definition ConfigRouteWatch :: string where "ConfigRouteWatch = ''watch.routes''"
definition ConfigGrafanaDashboardsSynced :: string where "ConfigGrafanaDashboardsSynced = ''grafana.dashboards.synced''"
definition ConfigGrafanaNotificationChannelsSynced :: string where "ConfigGrafanaNotificationChannelsSynced = ''grafana.notificationchannels.synced''"
definition JsonnetBasePath :: string where "JsonnetBasePath = ''/opt/jsonnet''"
definition GrafanaImage :: string where "GrafanaImage = ''docker.io/grafana/grafana''"
definition GrafanaVersion :: string where "GrafanaVersion = ''8.2.2''"
definition GrafanaServiceAccountName :: string where "GrafanaServiceAccountName = ''grafana-serviceaccount''"
definition GrafanaServiceName :: string where "GrafanaServiceName = ''grafana-service''"
definition GrafanaDataStorageName :: string where "GrafanaDataStorageName = ''grafana-pvc''"
definition GrafanaConfigName :: string where "GrafanaConfigName = ''grafana-config''"
definition GrafanaConfigFileName :: string where "GrafanaConfigFileName = ''grafana.ini''"
definition GrafanaIngressName :: string where "GrafanaIngressName = ''grafana-ingress''"
definition GrafanaRouteName :: string where "GrafanaRouteName = ''grafana-route''"
definition GrafanaDeploymentName :: string where "GrafanaDeploymentName = ''grafana-deployment''"
definition GrafanaPluginsVolumeName :: string where "GrafanaPluginsVolumeName = ''grafana-plugins''"
definition GrafanaInitContainerName :: string where "GrafanaInitContainerName = ''grafana-plugins-init''"
definition GrafanaProvisionPluginVolumeName :: string where "GrafanaProvisionPluginVolumeName = ''grafana-provision-plugins''"
definition GrafanaProvisionDashboardVolumeName :: string where "GrafanaProvisionDashboardVolumeName = ''grafana-provision-dashboards''"
definition GrafanaProvisionNotifierVolumeName :: string where "GrafanaProvisionNotifierVolumeName = ''grafana-provision-notifiers''"
definition GrafanaLogsVolumeName :: string where "GrafanaLogsVolumeName = ''grafana-logs''"
definition GrafanaDataVolumeName :: string where "GrafanaDataVolumeName = ''grafana-data''"
definition GrafanaDatasourcesConfigMapName :: string where "GrafanaDatasourcesConfigMapName = ''grafana-datasources''"
definition GrafanaHealthEndpoint :: string where "GrafanaHealthEndpoint = ''/api/health''"
definition GrafanaPodLabel :: string where "GrafanaPodLabel = ''grafana''"
definition LastConfigAnnotation :: string where "LastConfigAnnotation = ''last-config''"
definition LastConfigEnvVar :: string where "LastConfigEnvVar = ''LAST_CONFIG''"
definition LastDatasourcesConfigEnvVar :: string where "LastDatasourcesConfigEnvVar = ''LAST_DATASOURCES''"
definition GrafanaAdminSecretName :: string where "GrafanaAdminSecretName = ''grafana-admin-credentials''"
definition DefaultAdminUser :: string where "DefaultAdminUser = ''admin''"
definition GrafanaAdminUserEnvVar :: string where "GrafanaAdminUserEnvVar = ''GF_SECURITY_ADMIN_USER''"
definition GrafanaAdminPasswordEnvVar :: string where "GrafanaAdminPasswordEnvVar = ''GF_SECURITY_ADMIN_PASSWORD''"
definition GrafanaHttpPort :: int where "GrafanaHttpPort = 3000"
definition GrafanaHttpPortName :: string where "GrafanaHttpPortName = ''grafana''"
definition GrafanaSuccessMsg :: string where "GrafanaSuccessMsg = ''success''"
definition GrafanaMonitoringAddress :: string where "GrafanaMonitoringAddress = ''grafana-service.monitoring.svc.cluster.local:3000/''"

end
