(* ===== verification/Go_Hash.thy ===== *)
theory Go_Hash
  imports Go_Text
begin

text \<open>
  The functions of Go's packages crypto/sha256 and crypto/sha1 that the operator uses, and
  the \<open>%x\<close> rendering of a digest. The operator compares digests to decide whether a
  dashboard, a notification channel or a configuration changed, and uses the SHA-1 digest
  of a dashboard's namespace and name as its Grafana uid.
\<close>

unbundle bit_operations_syntax

subsection \<open>Blocks of 32-bit words\<close>

type_synonym w32 = "32 word"

definition rotr :: "nat \<Rightarrow> w32 \<Rightarrow> w32" where
  "rotr n x = drop_bit n x OR push_bit (32 - n) x"

definition rotl :: "nat \<Rightarrow> w32 \<Rightarrow> w32" where
  "rotl n x = push_bit n x OR drop_bit (32 - n) x"

definition be_word :: "int list \<Rightarrow> w32" where
  "be_word bs = word_of_int (foldl (\<lambda>n b. 256 * n + b) 0 bs)"

fun be_bytes :: "nat \<Rightarrow> int \<Rightarrow> int list" where
  "be_bytes 0 n = []"
| "be_bytes (Suc k) n = be_bytes k (n div 256) @ [n mod 256]"

text \<open>The message, a one bit, zeros up to 56 bytes modulo 64, and the length in bits.\<close>

definition sha_pad :: "int list \<Rightarrow> int list" where
  "sha_pad m = m @ [128] @ replicate ((119 - length m mod 64) mod 64) 0 @ be_bytes 8 (8 * int (length m))"

fun chunks :: "nat \<Rightarrow> nat \<Rightarrow> 'a list \<Rightarrow> 'a list list" where
  "chunks 0 k xs = []"
| "chunks (Suc n) k xs = take k xs # chunks n k (drop k xs)"

definition sha_blocks :: "int list \<Rightarrow> w32 list list" where
  "sha_blocks m =
     (let p = sha_pad m
      in map (\<lambda>b. map be_word (chunks 16 4 b)) (chunks (length p div 64) 64 p))"

definition bytes_of :: "string \<Rightarrow> int list" where
  "bytes_of s = map of_char s"

definition hex_char :: "int \<Rightarrow> char" where
  "hex_char n = (if n < 10 then char_of (48 + n) else char_of (87 + n))"

definition hex_byte :: "int \<Rightarrow> string" where
  "hex_byte b = [hex_char (b div 16), hex_char (b mod 16)]"

definition hex_word :: "w32 \<Rightarrow> string" where
  "hex_word w = concat (map hex_byte (be_bytes 4 (uint w)))"

subsection \<open>SHA-256\<close>

definition sha256_k :: "w32 list" where
  "sha256_k =
   [1116352408, 1899447441, 3049323471, 3921009573, 961987163, 1508970993, 2453635748, 2870763221,
    3624381080, 310598401, 607225278, 1426881987, 1925078388, 2162078206, 2614888103, 3248222580,
    3835390401, 4022224774, 264347078, 604807628, 770255983, 1249150122, 1555081692, 1996064986,
    2554220882, 2821834349, 2952996808, 3210313671, 3336571891, 3584528711, 113926993, 338241895,
    666307205, 773529912, 1294757372, 1396182291, 1695183700, 1986661051, 2177026350, 2456956037,
    2730485921, 2820302411, 3259730800, 3345764771, 3516065817, 3600352804, 4094571909, 275423344,
    430227734, 506948616, 659060556, 883997877, 958139571, 1322822218, 1537002063, 1747873779,
    1955562222, 2024104815, 2227730452, 2361852424, 2428436474, 2756734187, 3204031479, 3329325298]"

record sha256_state =
  sha_a :: w32
  sha_b :: w32
  sha_c :: w32
  sha_d :: w32
  sha_e :: w32
  sha_f :: w32
  sha_g :: w32
  sha_h :: w32

definition sha256_init :: sha256_state where
  "sha256_init = \<lparr>sha_a = 0x6a09e667, sha_b = 0xbb67ae85, sha_c = 0x3c6ef372, sha_d = 0xa54ff53a,
                  sha_e = 0x510e527f, sha_f = 0x9b05688c, sha_g = 0x1f83d9ab, sha_h = 0x5be0cd19\<rparr>"

text \<open>The schedule is kept newest word first.\<close>

fun sha256_extend :: "nat \<Rightarrow> w32 list \<Rightarrow> w32 list" where
  "sha256_extend 0 ws = ws"
| "sha256_extend (Suc n) ws =
     (let w2 = ws ! 1; w15 = ws ! 14;
          s0 = rotr 7 w15 XOR rotr 18 w15 XOR drop_bit 3 w15;
          s1 = rotr 17 w2 XOR rotr 19 w2 XOR drop_bit 10 w2
      in sha256_extend n ((ws ! 15 + s0 + ws ! 6 + s1) # ws))"

definition sha256_round :: "sha256_state \<Rightarrow> w32 \<times> w32 \<Rightarrow> sha256_state" where
  "sha256_round s kw =
     (let s1 = rotr 6 (sha_e s) XOR rotr 11 (sha_e s) XOR rotr 25 (sha_e s);
          ch = (sha_e s AND sha_f s) XOR (NOT (sha_e s) AND sha_g s);
          t1 = sha_h s + s1 + ch + fst kw + snd kw;
          s0 = rotr 2 (sha_a s) XOR rotr 13 (sha_a s) XOR rotr 22 (sha_a s);
          maj = (sha_a s AND sha_b s) XOR (sha_a s AND sha_c s) XOR (sha_b s AND sha_c s);
          t2 = s0 + maj
      in \<lparr>sha_a = t1 + t2, sha_b = sha_a s, sha_c = sha_b s, sha_d = sha_c s,
          sha_e = sha_d s + t1, sha_f = sha_e s, sha_g = sha_f s, sha_h = sha_g s\<rparr>)"

definition sha256_block :: "sha256_state \<Rightarrow> w32 list \<Rightarrow> sha256_state" where
  "sha256_block s b =
     (let r = foldl sha256_round s (zip sha256_k (rev (sha256_extend 48 (rev b))))
      in \<lparr>sha_a = sha_a s + sha_a r, sha_b = sha_b s + sha_b r, sha_c = sha_c s + sha_c r, sha_d = sha_d s + sha_d r,
          sha_e = sha_e s + sha_e r, sha_f = sha_f s + sha_f r, sha_g = sha_g s + sha_g r, sha_h = sha_h s + sha_h r\<rparr>)"

text \<open>\<open>fmt.Sprintf("%x", sha256.Sum256(s))\<close>\<close>

definition sha256_hex :: "string \<Rightarrow> string" where
  "sha256_hex m =
     (let s = foldl sha256_block sha256_init (sha_blocks (bytes_of m))
      in concat (map hex_word [sha_a s, sha_b s, sha_c s, sha_d s, sha_e s, sha_f s, sha_g s, sha_h s]))"

subsection \<open>SHA-1\<close>

record sha1_state =
  sha1_a :: w32
  sha1_b :: w32
  sha1_c :: w32
  sha1_d :: w32
  sha1_e :: w32

definition sha1_init :: sha1_state where
  "sha1_init = \<lparr>sha1_a = 0x67452301, sha1_b = 0xefcdab89, sha1_c = 0x98badcfe, sha1_d = 0x10325476,
                sha1_e = 0xc3d2e1f0\<rparr>"

fun sha1_extend :: "nat \<Rightarrow> w32 list \<Rightarrow> w32 list" where
  "sha1_extend 0 ws = ws"
| "sha1_extend (Suc n) ws =
     sha1_extend n (rotl 1 (ws ! 2 XOR ws ! 7 XOR ws ! 13 XOR ws ! 15) # ws)"

definition sha1_fk :: "nat \<Rightarrow> sha1_state \<Rightarrow> w32 \<times> w32" where
  "sha1_fk i s =
     (if i < 20 then ((sha1_b s AND sha1_c s) OR (NOT (sha1_b s) AND sha1_d s), 0x5a827999)
      else if i < 40 then (sha1_b s XOR sha1_c s XOR sha1_d s, 0x6ed9eba1)
      else if i < 60 then ((sha1_b s AND sha1_c s) OR (sha1_b s AND sha1_d s) OR (sha1_c s AND sha1_d s), 0x8f1bbcdc)
      else (sha1_b s XOR sha1_c s XOR sha1_d s, 0xca62c1d6))"

definition sha1_round :: "sha1_state \<Rightarrow> nat \<times> w32 \<Rightarrow> sha1_state" where
  "sha1_round s iw =
     (let (f, k) = sha1_fk (fst iw) s;
          t = rotl 5 (sha1_a s) + f + sha1_e s + k + snd iw
      in \<lparr>sha1_a = t, sha1_b = sha1_a s, sha1_c = rotl 30 (sha1_b s), sha1_d = sha1_c s, sha1_e = sha1_d s\<rparr>)"

definition sha1_block :: "sha1_state \<Rightarrow> w32 list \<Rightarrow> sha1_state" where
  "sha1_block s b =
     (let r = foldl sha1_round s (zip [0..<80] (rev (sha1_extend 64 (rev b))))
      in \<lparr>sha1_a = sha1_a s + sha1_a r, sha1_b = sha1_b s + sha1_b r, sha1_c = sha1_c s + sha1_c r, sha1_d = sha1_d s + sha1_d r,
          sha1_e = sha1_e s + sha1_e r\<rparr>)"

text \<open>\<open>fmt.Sprintf("%x", sha1.Sum(s))\<close>\<close>

definition sha1_hex :: "string \<Rightarrow> string" where
  "sha1_hex m =
     (let s = foldl sha1_block sha1_init (sha_blocks (bytes_of m))
      in concat (map hex_word [sha1_a s, sha1_b s, sha1_c s, sha1_d s, sha1_e s]))"

subsection \<open>The shape of a digest\<close>

lemma length_be_bytes [simp]: "length (be_bytes k n) = k"
  by (induction k arbitrary: n) auto

lemma length_concat_hex [simp]: "length (concat (map hex_byte bs)) = 2 * length bs"
  by (induction bs) (simp_all add: hex_byte_def)

lemma length_hex_word [simp]: "length (hex_word w) = 8"
  by (simp add: hex_word_def)

lemma length_sha256_hex [simp]: "length (sha256_hex s) = 64"
  by (simp add: sha256_hex_def Let_def)

lemma length_sha1_hex [simp]: "length (sha1_hex s) = 40"
  by (simp add: sha1_hex_def Let_def)

lemma sha256_hex_not_Nil [simp]: "sha256_hex s \<noteq> []"
  using length_sha256_hex [of s] by fastforce

lemma sha1_hex_not_Nil [simp]: "sha1_hex s \<noteq> []"
  using length_sha1_hex [of s] by fastforce

end
