(* ===== verification/Grafana_Ini.thy ===== *)
theory Grafana_Ini
  imports Api_Config Constants Go_Hash
begin

text \<open>
  The generator of grafana.ini, \<open>controllers/config/grafanaIni.go\<close>. The map from section
  names to lines is an association list. Every \<open>cfgX\<close> function of the source takes the
  section it writes (\<open>i.cfg.X\<close>, which the caller has tested for nil) and the map; a section
  that \<open>parseConfig\<close> writes in line is a \<open>section_X\<close>. The parameter \<open>pf\<close> is what
  \<open>appendFloat\<close> makes of a number: the \<open>%v\<close> rendering of
  \<open>strconv.ParseFloat(value, 32)\<close>, or \<open>None\<close> on its error. Floating point is left to the
  parameter; every result holds for all of them.
\<close>

type_synonym ini_map = "(string, string list) gomap"

definition appendStr :: "string list \<Rightarrow> string \<Rightarrow> string \<Rightarrow> string list" where
  "appendStr list key value = (if value \<noteq> [] then list @ [key @ '' = '' @ value] else list)"

definition appendInt :: "string list \<Rightarrow> string \<Rightarrow> int option \<Rightarrow> string list" where
  "appendInt list key value =
     (case value of Some i \<Rightarrow> list @ [key @ '' = '' @ Itoa i] | None \<Rightarrow> list)"

definition appendFloat ::
  "(string \<Rightarrow> string option) \<Rightarrow> string list \<Rightarrow> string \<Rightarrow> string \<Rightarrow> string list" where
  "appendFloat pf list key value =
     (if value \<noteq> []
      then (case pf value of None \<Rightarrow> list | Some f \<Rightarrow> list @ [key @ '' = '' @ f])
      else list)"

definition appendBool :: "string list \<Rightarrow> string \<Rightarrow> bool option \<Rightarrow> string list" where
  "appendBool list key value =
     (case value of Some b \<Rightarrow> list @ [key @ '' = '' @ fmt_bool b] | None \<Rightarrow> list)"

text \<open>\<open>config[key]\<close>, nil for an absent key, and \<open>if p != nil { config = f(p, config) }\<close>.\<close>

definition section_lines :: "ini_map \<Rightarrow> string \<Rightarrow> string list" where
  "section_lines config key = (case map_of config key of None \<Rightarrow> [] | Some ls \<Rightarrow> ls)"

definition when_set :: "'a option \<Rightarrow> ('a \<Rightarrow> 'm \<Rightarrow> 'm) \<Rightarrow> 'm \<Rightarrow> 'm" where
  "when_set p f m = (case p of None \<Rightarrow> m | Some x \<Rightarrow> f x m)"

subsection \<open>Sections written by a function of their own\<close>

definition cfgServer :: "GrafanaConfigServer \<Rightarrow> ini_map \<Rightarrow> ini_map" where
  "cfgServer c config =
     (let items = [];
         items = appendStr items ''http_addr'' (Server_HttpAddr c);
         items = appendStr items ''http_port'' (Server_HttpPort c);
         items = appendStr items ''protocol'' (Server_Protocol c);
         items = appendStr items ''socket'' (Server_Socket c);
         items = appendStr items ''domain'' (Server_Domain c);
         items = appendBool items ''enforce_domain'' (Server_EnforceDomain c);
         items = appendStr items ''root_url'' (Server_RootUrl c);
         items = appendBool items ''serve_from_sub_path'' (Server_ServeFromSubPath c);
         items = appendStr items ''static_root_path'' (Server_StaticRootPath c);
         items = appendBool items ''enable_gzip'' (Server_EnableGzip c);
         items = appendStr items ''cert_file'' (Server_CertFile c);
         items = appendStr items ''cert_key'' (Server_CertKey c);
         items = appendBool items ''router_logging'' (Server_RouterLogging c)
      in AList.update ''server'' items config)"

definition cfgDatabase :: "GrafanaConfigDatabase \<Rightarrow> ini_map \<Rightarrow> ini_map" where
  "cfgDatabase c config =
     (let items = [];
         items = appendStr items ''url'' (Database_Url c);
         items = appendStr items ''type'' (Database_Type c);
         items = appendStr items ''path'' (Database_Path c);
         items = appendStr items ''host'' (Database_Host c);
         items = appendStr items ''name'' (Database_Name c);
         items = appendStr items ''user'' (Database_User c);
         items = appendStr items ''password'' (Database_Password c);
         items = appendStr items ''ssl_mode'' (Database_SslMode c);
         items = appendStr items ''ca_cert_path'' (Database_CaCertPath c);
         items = appendStr items ''client_key_path'' (Database_ClientKeyPath c);
         items = appendStr items ''client_cert_path'' (Database_ClientCertPath c);
         items = appendStr items ''server_cert_name'' (Database_ServerCertName c);
         items = appendInt items ''max_idle_conn'' (Database_MaxIdleConn c);
         items = appendInt items ''max_open_conn'' (Database_MaxOpenConn c);
         items = appendInt items ''conn_max_lifetime'' (Database_ConnMaxLifetime c);
         items = appendBool items ''log_queries'' (Database_LogQueries c);
         items = appendStr items ''cache_mode'' (Database_CacheMode c)
      in AList.update ''database'' items config)"

definition cfgSecurity :: "GrafanaConfigSecurity \<Rightarrow> ini_map \<Rightarrow> ini_map" where
  "cfgSecurity c config =
     (let items = [];
         items = appendStr items ''admin_user'' (Security_AdminUser c);
         items = appendStr items ''admin_password'' (Security_AdminPassword c);
         items = appendInt items ''login_remember_days'' (Security_LoginRememberDays c);
         items = appendStr items ''secret_key'' (Security_SecretKey c);
         items = appendBool items ''disable_gravatar'' (Security_DisableGravatar c);
         items = appendStr items ''data_source_proxy_whitelist'' (Security_DataSourceProxyWhitelist c);
         items = appendBool items ''cookie_secure'' (Security_CookieSecure c);
         items = appendStr items ''cookie_samesite'' (Security_CookieSamesite c);
         items = appendBool items ''allow_embedding'' (Security_AllowEmbedding c);
         items = appendBool items ''strict_transport_security'' (Security_StrictTransportSecurity c);
         items = appendInt items ''strict_transport_security_max_age_seconds'' (Security_StrictTransportSecurityMaxAgeSeconds c);
         items = appendBool items ''strict_transport_security_preload'' (Security_StrictTransportSecurityPreload c);
         items = appendBool items ''strict_transport_security_subdomains'' (Security_StrictTransportSecuritySubdomains c);
         items = appendBool items ''x_content_type_options'' (Security_XContentTypeOptions c);
         items = appendBool items ''x_xss_protection'' (Security_XXssProtection c)
      in AList.update ''security'' items config)"

definition cfgUsers :: "GrafanaConfigUsers \<Rightarrow> ini_map \<Rightarrow> ini_map" where
  "cfgUsers c config =
     (let items = [];
         items = appendBool items ''allow_sign_up'' (Users_AllowSignUp c);
         items = appendBool items ''allow_org_create'' (Users_AllowOrgCreate c);
         items = appendBool items ''auto_assign_org'' (Users_AutoAssignOrg c);
         items = appendStr items ''auto_assign_org_id'' (Users_AutoAssignOrgId c);
         items = appendStr items ''auto_assign_org_role'' (Users_AutoAssignOrgRole c);
         items = appendBool items ''viewers_can_edit'' (Users_ViewersCanEdit c);
         items = appendBool items ''editors_can_admin'' (Users_EditorsCanAdmin c);
         items = appendStr items ''login_hint'' (Users_LoginHint c);
         items = appendStr items ''password_hint'' (Users_PasswordHint c)
      in AList.update ''users'' items config)"

definition cfgAuth :: "GrafanaConfigAuth \<Rightarrow> ini_map \<Rightarrow> ini_map" where
  "cfgAuth c config =
     (let items = [];
         items = appendStr items ''login_cookie_name'' (Auth_LoginCookieName c);
         items = appendInt items ''login_maximum_inactive_lifetime_days'' (Auth_LoginMaximumInactiveLifetimeDays c);
         items = appendInt items ''login_maximum_lifetime_days'' (Auth_LoginMaximumLifetimeDays c);
         items = appendInt items ''token_rotation_interval_minutes'' (Auth_TokenRotationIntervalMinutes c);
         items = appendBool items ''disable_login_form'' (Auth_DisableLoginForm c);
         items = appendBool items ''disable_signout_menu'' (Auth_DisableSignoutMenu c);
         items = appendStr items ''signout_redirect_url'' (Auth_SignoutRedirectUrl c);
         items = appendBool items ''oauth_auto_login'' (Auth_OauthAutoLogin c);
         items = appendBool items ''sigv4_auth_enabled'' (Auth_SigV4AuthEnabled c)
      in AList.update ''auth'' items config)"

definition cfgAuthSaml :: "GrafanaConfigAuthSaml \<Rightarrow> ini_map \<Rightarrow> ini_map" where
  "cfgAuthSaml c config =
     (let items = [];
         items = appendBool items ''enabled'' (AuthSaml_Enabled c);
         items = appendBool items ''single_logout'' (AuthSaml_SingleLogout c);
         items = appendBool items ''allow_idp_initiated'' (AuthSaml_AllowIdpInitiated c);
         items = appendStr items ''certificate_path'' (AuthSaml_CertificatePath c);
         items = appendStr items ''private_key_path'' (AuthSaml_KeyPath c);
         items = appendStr items ''signature_algorithm'' (AuthSaml_SignatureAlgorithm c);
         items = appendStr items ''idp_metadata_url'' (AuthSaml_IdpUrl c);
         items = appendStr items ''max_issue_delay'' (AuthSaml_MaxIssueDelay c);
         items = appendStr items ''metadata_valid_duration'' (AuthSaml_MetadataValidDuration c);
         items = appendStr items ''relay_state'' (AuthSaml_RelayState c);
         items = appendStr items ''assertion_attribute_name'' (AuthSaml_AssertionAttributeName c);
         items = appendStr items ''assertion_attribute_login'' (AuthSaml_AssertionAttributeLogin c);
         items = appendStr items ''assertion_attribute_email'' (AuthSaml_AssertionAttributeEmail c);
         items = appendStr items ''assertion_attribute_groups'' (AuthSaml_AssertionAttributeGroups c);
         items = appendStr items ''assertion_attribute_role'' (AuthSaml_AssertionAttributeRole c);
         items = appendStr items ''assertion_attribute_org'' (AuthSaml_AssertionAttributeOrg c);
         items = appendStr items ''allowed_organizations'' (AuthSaml_AllowedOrganizations c);
         items = appendStr items ''org_mapping'' (AuthSaml_OrgMapping c);
         items = appendStr items ''role_values_editor'' (AuthSaml_RoleValuesEditor c);
         items = appendStr items ''role_values_admin'' (AuthSaml_RoleValuesAdmin c);
         items = appendStr items ''role_values_grafana_admin'' (AuthSaml_RoleValuesGrafanaAdmin c)
      in AList.update ''auth.saml'' items config)"

definition cfgAuthAzureAD :: "GrafanaConfigAuthAzureAD \<Rightarrow> ini_map \<Rightarrow> ini_map" where
  "cfgAuthAzureAD c config =
     (let items = [];
         items = appendBool items ''enabled'' (AuthAzureAD_Enabled c);
         items = appendStr items ''client_id'' (AuthAzureAD_ClientId c);
         items = appendStr items ''client_secret'' (AuthAzureAD_ClientSecret c);
         items = appendStr items ''scopes'' (AuthAzureAD_Scopes c);
         items = appendStr items ''auth_url'' (AuthAzureAD_AuthUrl c);
         items = appendStr items ''token_url'' (AuthAzureAD_TokenUrl c);
         items = appendStr items ''allowed_domains'' (AuthAzureAD_AllowedDomains c);
         items = appendStr items ''allowed_groups'' (AuthAzureAD_AllowedGroups c);
         items = appendBool items ''allow_sign_up'' (AuthAzureAD_AllowSignUp c)
      in AList.update ''auth.azuread'' items config)"

definition cfgAuthGoogle :: "GrafanaConfigAuthGoogle \<Rightarrow> ini_map \<Rightarrow> ini_map" where
  "cfgAuthGoogle c config =
     (let items = [];
         items = appendBool items ''enabled'' (AuthGoogle_Enabled c);
         items = appendStr items ''client_id'' (AuthGoogle_ClientId c);
         items = appendStr items ''client_secret'' (AuthGoogle_ClientSecret c);
         items = appendStr items ''scopes'' (AuthGoogle_Scopes c);
         items = appendStr items ''auth_url'' (AuthGoogle_AuthUrl c);
         items = appendStr items ''token_url'' (AuthGoogle_TokenUrl c);
         items = appendStr items ''allowed_domains'' (AuthGoogle_AllowedDomains c);
         items = appendBool items ''allow_sign_up'' (AuthGoogle_AllowSignUp c)
      in AList.update ''auth.google'' items config)"

definition cfgAuthGitHub :: "GrafanaConfigAuthGithub \<Rightarrow> ini_map \<Rightarrow> ini_map" where
  "cfgAuthGitHub c config =
     (let items = [];
         items = appendBool items ''enabled'' (AuthGithub_Enabled c);
         items = appendBool items ''allow_sign_up'' (AuthGithub_AllowSignUp c);
         items = appendStr items ''client_id'' (AuthGithub_ClientId c);
         items = appendStr items ''client_secret'' (AuthGithub_ClientSecret c);
         items = appendStr items ''scopes'' (AuthGithub_Scopes c);
         items = appendStr items ''auth_url'' (AuthGithub_AuthUrl c);
         items = appendStr items ''token_url'' (AuthGithub_TokenUrl c);
         items = appendStr items ''api_url'' (AuthGithub_ApiUrl c);
         items = appendStr items ''team_ids'' (AuthGithub_TeamIds c);
         items = appendStr items ''allowed_organizations'' (AuthGithub_AllowedOrganizations c)
      in AList.update ''auth.github'' items config)"

definition cfgAuthGitlab :: "GrafanaConfigAuthGitlab \<Rightarrow> ini_map \<Rightarrow> ini_map" where
  "cfgAuthGitlab c config =
     (let items = [];
         items = appendBool items ''enabled'' (AuthGitlab_Enabled c);
         items = appendBool items ''allow_sign_up'' (AuthGitlab_AllowSignUp c);
         items = appendStr items ''client_id'' (AuthGitlab_ClientId c);
         items = appendStr items ''client_secret'' (AuthGitlab_ClientSecret c);
         items = appendStr items ''scopes'' (AuthGitlab_Scopes c);
         items = appendStr items ''auth_url'' (AuthGitlab_AuthUrl c);
         items = appendStr items ''token_url'' (AuthGitlab_TokenUrl c);
         items = appendStr items ''api_url'' (AuthGitlab_ApiUrl c)
      in AList.update ''auth.gitlab'' items config)"

definition cfgAuthGenericOauth :: "GrafanaConfigAuthGenericOauth \<Rightarrow> ini_map \<Rightarrow> ini_map" where
  "cfgAuthGenericOauth c config =
     (let items = [];
         items = appendBool items ''enabled'' (AuthGenericOauth_Enabled c);
         items = appendBool items ''allow_sign_up'' (AuthGenericOauth_AllowSignUp c);
         items = appendStr items ''client_id'' (AuthGenericOauth_ClientId c);
         items = appendStr items ''client_secret'' (AuthGenericOauth_ClientSecret c);
         items = appendStr items ''scopes'' (AuthGenericOauth_Scopes c);
         items = appendStr items ''auth_url'' (AuthGenericOauth_AuthUrl c);
         items = appendStr items ''token_url'' (AuthGenericOauth_TokenUrl c);
         items = appendStr items ''api_url'' (AuthGenericOauth_ApiUrl c);
         items = appendStr items ''allowed_domains'' (AuthGenericOauth_AllowedDomains c);
         items = appendStr items ''role_attribute_path'' (AuthGenericOauth_RoleAttributePath c);
         items = appendBool items ''role_attribute_strict'' (AuthGenericOauth_RoleAttributeStrict c);
         items = appendStr items ''email_attribute_path'' (AuthGenericOauth_EmailAttributePath c);
         items = appendBool items ''tls_skip_verify_insecure'' (AuthGenericOauth_TLSSkipVerifyInsecure c);
         items = appendStr items ''tls_client_cert'' (AuthGenericOauth_TLSClientCert c);
         items = appendStr items ''tls_client_key'' (AuthGenericOauth_TLSClientKey c);
         items = appendStr items ''tls_client_ca'' (AuthGenericOauth_TLSClientCa c)
      in AList.update ''auth.generic_oauth'' items config)"

definition cfgAuthLdap :: "GrafanaConfigAuthLdap \<Rightarrow> ini_map \<Rightarrow> ini_map" where
  "cfgAuthLdap c config =
     (let items = [];
         items = appendBool items ''enabled'' (AuthLdap_Enabled c);
         items = appendBool items ''allow_sign_up'' (AuthLdap_AllowSignUp c);
         items = appendStr items ''config_file'' (AuthLdap_ConfigFile c)
      in AList.update ''auth.ldap'' items config)"

definition cfgAuthOkta :: "GrafanaConfigAuthOkta \<Rightarrow> ini_map \<Rightarrow> ini_map" where
  "cfgAuthOkta c config =
     (let items = [];
         items = appendBool items ''enabled'' (AuthOkta_Enabled c);
         items = appendStr items ''name'' (AuthOkta_Name c);
         items = appendBool items ''allow_sign_up'' (AuthOkta_AllowSignUp c);
         items = appendStr items ''client_id'' (AuthOkta_ClientId c);
         items = appendStr items ''client_secret'' (AuthOkta_ClientSecret c);
         items = appendStr items ''scopes'' (AuthOkta_Scopes c);
         items = appendStr items ''auth_url'' (AuthOkta_AuthUrl c);
         items = appendStr items ''token_url'' (AuthOkta_TokenUrl c);
         items = appendStr items ''api_url'' (AuthOkta_ApiUrl c);
         items = appendStr items ''allowed_domains'' (AuthOkta_AllowedDomains c);
         items = appendStr items ''allowed_groups'' (AuthOkta_AllowedGroups c);
         items = appendStr items ''role_attribute_path'' (AuthOkta_RoleAttributePath c);
         items = appendBool items ''role_attribute_strict'' (AuthOkta_RoleAttributeStrict c)
      in AList.update ''auth.okta'' items config)"

definition cfgAuthProxy :: "GrafanaConfigAuthProxy \<Rightarrow> ini_map \<Rightarrow> ini_map" where
  "cfgAuthProxy c config =
     (let items = [];
         items = appendBool items ''enabled'' (AuthProxy_Enabled c);
         items = appendStr items ''header_name'' (AuthProxy_HeaderName c);
         items = appendStr items ''header_property'' (AuthProxy_HeaderProperty c);
         items = appendBool items ''auto_sign_up'' (AuthProxy_AutoSignUp c);
         items = appendStr items ''ldap_sync_ttl'' (AuthProxy_LdapSyncTtl c);
         items = appendStr items ''whitelist'' (AuthProxy_Whitelist c);
         items = appendStr items ''headers'' (AuthProxy_Headers c);
         items = appendBool items ''enable_login_token'' (AuthProxy_EnableLoginToken c)
      in AList.update ''auth.proxy'' items config)"

definition cfgDataProxy :: "GrafanaConfigDataProxy \<Rightarrow> ini_map \<Rightarrow> ini_map" where
  "cfgDataProxy c config =
     (let items = [];
         items = appendBool items ''logging'' (DataProxy_Logging c);
         items = appendInt items ''timeout'' (DataProxy_Timeout c);
         items = appendBool items ''send_user_header'' (DataProxy_SendUserHeader c)
      in AList.update ''dataproxy'' items config)"

definition cfgSmtp :: "GrafanaConfigSmtp \<Rightarrow> ini_map \<Rightarrow> ini_map" where
  "cfgSmtp c config =
     (let items = [];
         items = appendBool items ''enabled'' (Smtp_Enabled c);
         items = appendStr items ''host'' (Smtp_Host c);
         items = appendStr items ''user'' (Smtp_User c);
         items = appendStr items ''password'' (Smtp_Password c);
         items = appendStr items ''cert_file'' (Smtp_CertFile c);
         items = appendStr items ''key_file'' (Smtp_KeyFile c);
         items = appendBool items ''skip_verify'' (Smtp_SkipVerify c);
         items = appendStr items ''from_address'' (Smtp_FromAddress c);
         items = appendStr items ''from_name'' (Smtp_FromName c);
         items = appendStr items ''ehlo_identity'' (Smtp_EhloIdentity c)
      in AList.update ''smtp'' items config)"

definition cfgMetrics :: "GrafanaConfigMetrics \<Rightarrow> ini_map \<Rightarrow> ini_map" where
  "cfgMetrics c config =
     (let items = [];
         items = appendBool items ''enabled'' (Metrics_Enabled c);
         items = appendStr items ''basic_auth_username'' (Metrics_BasicAuthUsername c);
         items = appendStr items ''basic_auth_password'' (Metrics_BasicAuthPassword c);
         items = appendInt items ''interval_seconds'' (Metrics_IntervalSeconds c)
      in AList.update ''metrics'' items config)"

definition cfgSnapshots :: "GrafanaConfigSnapshots \<Rightarrow> ini_map \<Rightarrow> ini_map" where
  "cfgSnapshots c config =
     (let items = [];
         items = appendBool items ''external_enabled'' (Snapshots_ExternalEnabled c);
         items = appendStr items ''external_snapshot_url'' (Snapshots_ExternalSnapshotUrl c);
         items = appendStr items ''external_snapshot_name'' (Snapshots_ExternalSnapshotName c);
         items = appendBool items ''snapshot_remove_expired'' (Snapshots_SnapshotRemoveExpired c)
      in AList.update ''snapshots'' items config)"

definition cfgMetricsGraphite :: "GrafanaConfigMetricsGraphite \<Rightarrow> ini_map \<Rightarrow> ini_map" where
  "cfgMetricsGraphite c config =
     (let items = [];
         items = appendStr items ''address'' (MetricsGraphite_Address c);
         items = appendStr items ''prefix'' (MetricsGraphite_Prefix c)
      in AList.update ''metrics.graphite'' items config)"

definition cfgExternalImageStorageS3 :: "GrafanaConfigExternalImageStorageS3 \<Rightarrow> ini_map \<Rightarrow> ini_map" where
  "cfgExternalImageStorageS3 c config =
     (let items = [];
         items = appendStr items ''bucket'' (ExternalImageStorageS3_Bucket c);
         items = appendStr items ''region'' (ExternalImageStorageS3_Region c);
         items = appendStr items ''path'' (ExternalImageStorageS3_Path c);
         items = appendStr items ''bucket_url'' (ExternalImageStorageS3_BucketUrl c);
         items = appendStr items ''access_key'' (ExternalImageStorageS3_AccessKey c);
         items = appendStr items ''secret_key'' (ExternalImageStorageS3_SecretKey c)
      in AList.update ''external_image_storage.s3'' items config)"

definition cfgExternalImageStorageWebdav :: "GrafanaConfigExternalImageStorageWebdav \<Rightarrow> ini_map \<Rightarrow> ini_map" where
  "cfgExternalImageStorageWebdav c config =
     (let items = [];
         items = appendStr items ''url'' (ExternalImageStorageWebdav_Url c);
         items = appendStr items ''public_url'' (ExternalImageStorageWebdav_PublicUrl c);
         items = appendStr items ''username'' (ExternalImageStorageWebdav_Username c);
         items = appendStr items ''password'' (ExternalImageStorageWebdav_Password c)
      in AList.update ''external_image_storage.webdav'' items config)"

definition cfgExternalImageStorageGcs :: "GrafanaConfigExternalImageStorageGcs \<Rightarrow> ini_map \<Rightarrow> ini_map" where
  "cfgExternalImageStorageGcs c config =
     (let items = [];
         items = appendStr items ''key_file'' (ExternalImageStorageGcs_KeyFile c);
         items = appendStr items ''bucket'' (ExternalImageStorageGcs_Bucket c);
         items = appendStr items ''path'' (ExternalImageStorageGcs_Path c)
      in AList.update ''external_image_storage.gcs'' items config)"

definition cfgExternalImageStorageAzureBlob :: "GrafanaConfigExternalImageStorageAzureBlob \<Rightarrow> ini_map \<Rightarrow> ini_map" where
  "cfgExternalImageStorageAzureBlob c config =
     (let items = [];
         items = appendStr items ''account_name'' (ExternalImageStorageAzureBlob_AccountName c);
         items = appendStr items ''account_key'' (ExternalImageStorageAzureBlob_AccountKey c);
         items = appendStr items ''container_name'' (ExternalImageStorageAzureBlob_ContainerName c)
      in AList.update ''external_image_storage.azure_blob'' items config)"

definition cfgAlerting :: "GrafanaConfigAlerting \<Rightarrow> ini_map \<Rightarrow> ini_map" where
  "cfgAlerting c config =
     (let items = [];
         items = appendBool items ''enabled'' (Alerting_Enabled c);
         items = appendBool items ''execute_alerts'' (Alerting_ExecuteAlerts c);
         items = appendStr items ''error_or_timeout'' (Alerting_ErrorOrTimeout c);
         items = appendStr items ''nodata_or_nullvalues'' (Alerting_NodataOrNullvalues c);
         items = appendInt items ''concurrent_render_limit'' (Alerting_ConcurrentRenderLimit c);
         items = appendInt items ''evaluation_timeout_seconds'' (Alerting_EvaluationTimeoutSeconds c);
         items = appendInt items ''notification_timeout_seconds'' (Alerting_NotificationTimeoutSeconds c);
         items = appendInt items ''max_attempts'' (Alerting_MaxAttempts c)
      in AList.update ''alerting'' items config)"

definition cfgUnifiedAlerting :: "GrafanaConfigUnifiedAlerting \<Rightarrow> ini_map \<Rightarrow> ini_map" where
  "cfgUnifiedAlerting c config =
     (let items = [];
         items = appendBool items ''enabled'' (UnifiedAlerting_Enabled c);
         items = appendBool items ''execute_alerts'' (UnifiedAlerting_ExecuteAlerts c);
         items = appendStr items ''evaluation_timeout'' (UnifiedAlerting_EvaluationTimeout c);
         items = appendInt items ''max_attempts'' (UnifiedAlerting_MaxAttempts c);
         items = appendStr items ''min_interval'' (UnifiedAlerting_MinInterval c)
      in AList.update ''unified_alerting'' items config)"

definition cfgRendering :: "GrafanaConfigRendering \<Rightarrow> ini_map \<Rightarrow> ini_map" where
  "cfgRendering c config =
     (let items = [];
         items = appendStr items ''server_url'' (Rendering_ServerURL c);
         items = appendStr items ''callback_url'' (Rendering_CallbackURL c);
         items = appendInt items ''concurrent_render_request_limit'' (Rendering_ConcurrentRenderRequestLimit c)
      in AList.update ''rendering'' items config)"

subsection \<open>Sections written in line by \<open>parseConfig\<close>\<close>

definition section_RemoteCache :: "GrafanaConfigRemoteCache \<Rightarrow> ini_map \<Rightarrow> ini_map" where
  "section_RemoteCache c config =
     (let items = [];
         items = appendStr items ''type'' (RemoteCache_Type c);
         items = appendStr items ''connstr'' (RemoteCache_ConnStr c)
      in AList.update ''remote_cache'' items config)"

definition section_AuthBasic :: "GrafanaConfigAuthBasic \<Rightarrow> ini_map \<Rightarrow> ini_map" where
  "section_AuthBasic c config =
     (let items = [];
         items = appendBool items ''enabled'' (AuthBasic_Enabled c)
      in AList.update ''auth.basic'' items config)"

definition section_AuthAnonymous :: "GrafanaConfigAuthAnonymous \<Rightarrow> ini_map \<Rightarrow> ini_map" where
  "section_AuthAnonymous c config =
     (let items = [];
         items = appendBool items ''enabled'' (AuthAnonymous_Enabled c);
         items = appendStr items ''org_name'' (AuthAnonymous_OrgName c);
         items = appendStr items ''org_role'' (AuthAnonymous_OrgRole c)
      in AList.update ''auth.anonymous'' items config)"

definition section_Log :: "GrafanaConfigLog \<Rightarrow> ini_map \<Rightarrow> ini_map" where
  "section_Log c config =
     (let items = [];
         items = appendStr items ''mode'' (Log_Mode c);
         items = appendStr items ''level'' (Log_Level c);
         items = appendStr items ''filters'' (Log_Filters c)
      in AList.update ''log'' items config)"

definition section_LogFrontend :: "(string \<Rightarrow> string option) \<Rightarrow> GrafanaConfigLogFrontend \<Rightarrow> ini_map \<Rightarrow> ini_map" where
  "section_LogFrontend pf c config =
     (let items = [];
         items = appendBool items ''enabled'' (LogFrontend_Enabled c);
         items = appendStr items ''sentry_dsn'' (LogFrontend_SentryDsn c);
         items = appendStr items ''custom_endpoint'' (LogFrontend_CustomEndpoint c);
         items = appendInt items ''log_endpoint_burst_limit'' (LogFrontend_LogEndpointBurstLimit c);
         items = appendInt items ''log_endpoint_requests_per_second_limit'' (LogFrontend_LogEndpointRequestsPerSecondLimit c);
         items = appendFloat pf items ''sample_rate'' (LogFrontend_SampleRate c)
      in AList.update ''log.frontend'' items config)"

definition section_LogConsole :: "GrafanaConfigLogConsole \<Rightarrow> ini_map \<Rightarrow> ini_map" where
  "section_LogConsole c config =
     (let items = [];
         items = appendStr items ''level'' (LogConsole_Level c);
         items = appendStr items ''format'' (LogConsole_Format c)
      in AList.update ''log.console'' items config)"

definition section_Analytics :: "GrafanaConfigAnalytics \<Rightarrow> ini_map \<Rightarrow> ini_map" where
  "section_Analytics c config =
     (let items = [];
         items = appendBool items ''reporting_enabled'' (Analytics_ReportingEnabled c);
         items = appendStr items ''google_analytics_ua_id'' (Analytics_GoogleAnalyticsUaId c);
         items = appendBool items ''check_for_updates'' (Analytics_CheckForUpdates c)
      in AList.update ''analytics'' items config)"

definition section_Dashboards :: "GrafanaConfigDashboards \<Rightarrow> ini_map \<Rightarrow> ini_map" where
  "section_Dashboards c config =
     (let items = [];
         items = appendInt items ''versions_to_keep'' (Dashboards_VersionsToKeep c);
         items = appendStr items ''default_home_dashboard_path'' (Dashboards_DefaultHomeDashboardPath c)
      in AList.update ''dashboards'' items config)"

definition section_ExternalImageStorage :: "GrafanaConfigExternalImageStorage \<Rightarrow> ini_map \<Rightarrow> ini_map" where
  "section_ExternalImageStorage c config =
     (let items = [];
         items = appendStr items ''provider'' (ExternalImageStorage_Provider c)
      in AList.update ''external_image_storage'' items config)"

definition section_Panels :: "GrafanaConfigPanels \<Rightarrow> ini_map \<Rightarrow> ini_map" where
  "section_Panels c config =
     (let items = [];
         items = appendBool items ''disable_sanitize_html'' (Panels_DisableSanitizeHtml c)
      in AList.update ''panels'' items config)"

definition section_Plugins :: "GrafanaConfigPlugins \<Rightarrow> ini_map \<Rightarrow> ini_map" where
  "section_Plugins c config =
     (let items = [];
         items = appendBool items ''enable_alpha'' (Plugins_EnableAlpha c)
      in AList.update ''plugins'' items config)"

definition section_FeatureToggles :: "GrafanaConfigFeatureToggles \<Rightarrow> ini_map \<Rightarrow> ini_map" where
  "section_FeatureToggles c config =
     (let items = [];
         items = appendStr items ''enable'' (FeatureToggles_Enable c)
      in AList.update ''feature_toggles'' items config)"


subsection \<open>The whole configuration\<close>

definition parse_paths :: "GrafanaConfig \<Rightarrow> ini_map \<Rightarrow> ini_map" where
  "parse_paths cfg config =
     (let config = AList.update ''paths''
            [''data = '' @ GrafanaDataPath, ''logs = '' @ GrafanaLogsPath,
             ''plugins = '' @ GrafanaPluginsPath, ''provisioning = '' @ GrafanaProvisioningPath] config
      in when_set (cfg_Paths cfg)
           (\<lambda>p config. AList.update ''paths''
              (section_lines config ''paths''
                 @ [''temp_data_lifetime = '' @ Paths_TempDataLifetime p]) config) config)"

definition parse_core :: "(string \<Rightarrow> string option) \<Rightarrow> GrafanaConfig \<Rightarrow> ini_map \<Rightarrow> ini_map" where
  "parse_core pf cfg config =
     (let config = when_set (cfg_Server cfg) cfgServer config;
         config = when_set (cfg_Database cfg) cfgDatabase config;
         config = when_set (cfg_RemoteCache cfg) section_RemoteCache config;
         config = when_set (cfg_Security cfg) cfgSecurity config;
         config = when_set (cfg_Users cfg) cfgUsers config;
         config = when_set (cfg_AuthBasic cfg) section_AuthBasic config;
         config = when_set (cfg_AuthAnonymous cfg) section_AuthAnonymous config;
         config = when_set (cfg_Auth cfg) cfgAuth config;
         config = when_set (cfg_Log cfg) section_Log config;
         config = when_set (cfg_LogFrontend cfg) (section_LogFrontend pf) config
      in when_set (cfg_LogConsole cfg) section_LogConsole config)"

definition parse_auth :: "GrafanaConfig \<Rightarrow> ini_map \<Rightarrow> ini_map" where
  "parse_auth cfg config =
     (let config = when_set (cfg_AuthSaml cfg) cfgAuthSaml config;
         config = when_set (cfg_AuthAzureAD cfg) cfgAuthAzureAD config;
         config = when_set (cfg_AuthGoogle cfg) cfgAuthGoogle config;
         config = when_set (cfg_AuthGithub cfg) cfgAuthGitHub config;
         config = when_set (cfg_AuthGitlab cfg) cfgAuthGitlab config;
         config = when_set (cfg_AuthGenericOauth cfg) cfgAuthGenericOauth config;
         config = when_set (cfg_AuthLdap cfg) cfgAuthLdap config;
         config = when_set (cfg_AuthOkta cfg) cfgAuthOkta config
      in when_set (cfg_AuthProxy cfg) cfgAuthProxy config)"

definition parse_services :: "GrafanaConfig \<Rightarrow> ini_map \<Rightarrow> ini_map" where
  "parse_services cfg config =
     (let config = when_set (cfg_DataProxy cfg) cfgDataProxy config;
         config = when_set (cfg_Analytics cfg) section_Analytics config;
         config = when_set (cfg_Dashboards cfg) section_Dashboards config;
         config = when_set (cfg_Smtp cfg) cfgSmtp config;
         config = when_set (cfg_Metrics cfg) cfgMetrics config;
         config = when_set (cfg_Snapshots cfg) cfgSnapshots config;
         config = when_set (cfg_MetricsGraphite cfg) cfgMetricsGraphite config;
         config = when_set (cfg_ExternalImageStorage cfg) section_ExternalImageStorage config;
         config = when_set (cfg_ExternalImageStorageS3 cfg) cfgExternalImageStorageS3 config;
         config = when_set (cfg_ExternalImageStorageWebdav cfg) cfgExternalImageStorageWebdav config;
         config = when_set (cfg_ExternalImageStorageGcs cfg) cfgExternalImageStorageGcs config;
         config = when_set (cfg_ExternalImageStorageAzureBlob cfg) cfgExternalImageStorageAzureBlob config;
         config = when_set (cfg_Alerting cfg) cfgAlerting config;
         config = when_set (cfg_UnifiedAlerting cfg) cfgUnifiedAlerting config;
         config = when_set (cfg_Panels cfg) section_Panels config;
         config = when_set (cfg_Plugins cfg) section_Plugins config;
         config = when_set (cfg_Rendering cfg) cfgRendering config
      in when_set (cfg_FeatureToggles cfg) section_FeatureToggles config)"

definition parseConfig :: "(string \<Rightarrow> string option) \<Rightarrow> GrafanaConfig \<Rightarrow> ini_map \<Rightarrow> ini_map" where
  "parseConfig pf cfg config =
     parse_services cfg (parse_auth cfg (parse_core pf cfg (parse_paths cfg config)))"

text \<open>
  \<open>Write\<close>: the keys of the map are collected in its iteration order, which Go leaves open,
  and sorted; the lines of every section are sorted; the text is hashed.
\<close>

definition section_text :: "string \<Rightarrow> string list \<Rightarrow> string" where
  "section_text key values =
     ''['' @ key @ '']'' @ [newline]
       @ concat (map (\<lambda>value. value @ [newline]) (sort values)) @ [newline]"

definition write_map :: "ini_map \<Rightarrow> string" where
  "write_map config =
     (let keys = sort (map fst config)
      in concat (map (\<lambda>key. section_text key (section_lines config key)) keys))"

definition Write :: "(string \<Rightarrow> string option) \<Rightarrow> GrafanaConfig \<Rightarrow> string \<times> string" where
  "Write pf cfg = (let text = write_map (parseConfig pf cfg []) in (text, sha256_hex text))"

subsection \<open>The shape of the generated map\<close>

definition ini_key :: "string \<Rightarrow> bool" where
  "ini_key k \<longleftrightarrow> k \<noteq> [] \<and> list_all (\<lambda>c. is_lower c \<or> is_digit c \<or> c = CHR ''_'') k"

definition ini_line :: "string \<Rightarrow> bool" where
  "ini_line l \<longleftrightarrow> (\<exists>k v. ini_key k \<and> l = k @ '' = '' @ v)"

definition ini_map_ok :: "ini_map \<Rightarrow> bool" where
  "ini_map_ok m \<longleftrightarrow>
     gomap_ok m \<and> (\<forall>(k, ls) \<in> set m. newline \<notin> set k \<and> list_all ini_line ls)"

lemmas ini_key_eval = ini_key_def is_lower_def is_digit_def code_def

lemma append_ok:
  "ini_key k \<Longrightarrow> list_all ini_line ls \<Longrightarrow> list_all ini_line (appendStr ls k v)"
  "ini_key k \<Longrightarrow> list_all ini_line ls \<Longrightarrow> list_all ini_line (appendInt ls k i)"
  "ini_key k \<Longrightarrow> list_all ini_line ls \<Longrightarrow> list_all ini_line (appendFloat pf ls k v)"
  "ini_key k \<Longrightarrow> list_all ini_line ls \<Longrightarrow> list_all ini_line (appendBool ls k b)"
  by (auto simp: appendStr_def appendInt_def appendFloat_def appendBool_def ini_line_def
      split: option.splits)

lemma ini_map_ok_update:
  assumes "ini_map_ok m" "newline \<notin> set k" "list_all ini_line ls"
  shows "ini_map_ok (AList.update k ls m)"
proof -
  have "set (AList.update k ls m) \<subseteq> insert (k, ls) (set m)"
    by (induction m) auto
  with assms show ?thesis
    by (auto simp: ini_map_ok_def)
qed

lemma section_lines_ok: "ini_map_ok m \<Longrightarrow> list_all ini_line (section_lines m k)"
  by (auto simp: ini_map_ok_def section_lines_def split: option.splits dest!: map_of_SomeD)

lemma when_set_cases:
  "P m \<Longrightarrow> (\<And>x. p = Some x \<Longrightarrow> P (f x m)) \<Longrightarrow> P (when_set p f m)"
  by (simp add: when_set_def split: option.split)

text \<open>Every section keeps the map well formed and adds exactly its own key.\<close>

lemmas section_defs = cfgServer_def cfgDatabase_def section_RemoteCache_def cfgSecurity_def
  cfgUsers_def section_AuthBasic_def section_AuthAnonymous_def cfgAuth_def
  section_Log_def section_LogFrontend_def section_LogConsole_def cfgAuthSaml_def
  cfgAuthAzureAD_def cfgAuthGoogle_def cfgAuthGitHub_def cfgAuthGitlab_def
  cfgAuthGenericOauth_def cfgAuthLdap_def cfgAuthOkta_def cfgAuthProxy_def
  cfgDataProxy_def section_Analytics_def section_Dashboards_def cfgSmtp_def
  cfgMetrics_def cfgSnapshots_def cfgMetricsGraphite_def section_ExternalImageStorage_def
  cfgExternalImageStorageS3_def cfgExternalImageStorageWebdav_def cfgExternalImageStorageGcs_def cfgExternalImageStorageAzureBlob_def
  cfgAlerting_def cfgUnifiedAlerting_def section_Panels_def section_Plugins_def
  cfgRendering_def section_FeatureToggles_def

lemma section_ok:
  assumes "ini_map_ok m"
  shows
    "ini_map_ok (cfgServer c0 m)"
    "ini_map_ok (cfgDatabase c1 m)"
    "ini_map_ok (section_RemoteCache c2 m)"
    "ini_map_ok (cfgSecurity c3 m)"
    "ini_map_ok (cfgUsers c4 m)"
    "ini_map_ok (section_AuthBasic c5 m)"
    "ini_map_ok (section_AuthAnonymous c6 m)"
    "ini_map_ok (cfgAuth c7 m)"
    "ini_map_ok (section_Log c8 m)"
    "ini_map_ok (section_LogFrontend pf c9 m)"
    "ini_map_ok (section_LogConsole c10 m)"
    "ini_map_ok (cfgAuthSaml c11 m)"
    "ini_map_ok (cfgAuthAzureAD c12 m)"
    "ini_map_ok (cfgAuthGoogle c13 m)"
    "ini_map_ok (cfgAuthGitHub c14 m)"
    "ini_map_ok (cfgAuthGitlab c15 m)"
    "ini_map_ok (cfgAuthGenericOauth c16 m)"
    "ini_map_ok (cfgAuthLdap c17 m)"
    "ini_map_ok (cfgAuthOkta c18 m)"
    "ini_map_ok (cfgAuthProxy c19 m)"
    "ini_map_ok (cfgDataProxy c20 m)"
    "ini_map_ok (section_Analytics c21 m)"
    "ini_map_ok (section_Dashboards c22 m)"
    "ini_map_ok (cfgSmtp c23 m)"
    "ini_map_ok (cfgMetrics c24 m)"
    "ini_map_ok (cfgSnapshots c25 m)"
    "ini_map_ok (cfgMetricsGraphite c26 m)"
    "ini_map_ok (section_ExternalImageStorage c27 m)"
    "ini_map_ok (cfgExternalImageStorageS3 c28 m)"
    "ini_map_ok (cfgExternalImageStorageWebdav c29 m)"
    "ini_map_ok (cfgExternalImageStorageGcs c30 m)"
    "ini_map_ok (cfgExternalImageStorageAzureBlob c31 m)"
    "ini_map_ok (cfgAlerting c32 m)"
    "ini_map_ok (cfgUnifiedAlerting c33 m)"
    "ini_map_ok (section_Panels c34 m)"
    "ini_map_ok (section_Plugins c35 m)"
    "ini_map_ok (cfgRendering c36 m)"
    "ini_map_ok (section_FeatureToggles c37 m)"
  unfolding section_defs Let_def
  by (intro ini_map_ok_update assms append_ok; simp add: ini_key_eval newline_def)+

lemma section_keys:
  "fst ` set (cfgServer c0 m) = insert ''server'' (fst ` set m)"
  "fst ` set (cfgDatabase c1 m) = insert ''database'' (fst ` set m)"
  "fst ` set (section_RemoteCache c2 m) = insert ''remote_cache'' (fst ` set m)"
  "fst ` set (cfgSecurity c3 m) = insert ''security'' (fst ` set m)"
  "fst ` set (cfgUsers c4 m) = insert ''users'' (fst ` set m)"
  "fst ` set (section_AuthBasic c5 m) = insert ''auth.basic'' (fst ` set m)"
  "fst ` set (section_AuthAnonymous c6 m) = insert ''auth.anonymous'' (fst ` set m)"
  "fst ` set (cfgAuth c7 m) = insert ''auth'' (fst ` set m)"
  "fst ` set (section_Log c8 m) = insert ''log'' (fst ` set m)"
  "fst ` set (section_LogFrontend pf c9 m) = insert ''log.frontend'' (fst ` set m)"
  "fst ` set (section_LogConsole c10 m) = insert ''log.console'' (fst ` set m)"
  "fst ` set (cfgAuthSaml c11 m) = insert ''auth.saml'' (fst ` set m)"
  "fst ` set (cfgAuthAzureAD c12 m) = insert ''auth.azuread'' (fst ` set m)"
  "fst ` set (cfgAuthGoogle c13 m) = insert ''auth.google'' (fst ` set m)"
  "fst ` set (cfgAuthGitHub c14 m) = insert ''auth.github'' (fst ` set m)"
  "fst ` set (cfgAuthGitlab c15 m) = insert ''auth.gitlab'' (fst ` set m)"
  "fst ` set (cfgAuthGenericOauth c16 m) = insert ''auth.generic_oauth'' (fst ` set m)"
  "fst ` set (cfgAuthLdap c17 m) = insert ''auth.ldap'' (fst ` set m)"
  "fst ` set (cfgAuthOkta c18 m) = insert ''auth.okta'' (fst ` set m)"
  "fst ` set (cfgAuthProxy c19 m) = insert ''auth.proxy'' (fst ` set m)"
  "fst ` set (cfgDataProxy c20 m) = insert ''dataproxy'' (fst ` set m)"
  "fst ` set (section_Analytics c21 m) = insert ''analytics'' (fst ` set m)"
  "fst ` set (section_Dashboards c22 m) = insert ''dashboards'' (fst ` set m)"
  "fst ` set (cfgSmtp c23 m) = insert ''smtp'' (fst ` set m)"
  "fst ` set (cfgMetrics c24 m) = insert ''metrics'' (fst ` set m)"
  "fst ` set (cfgSnapshots c25 m) = insert ''snapshots'' (fst ` set m)"
  "fst ` set (cfgMetricsGraphite c26 m) = insert ''metrics.graphite'' (fst ` set m)"
  "fst ` set (section_ExternalImageStorage c27 m) = insert ''external_image_storage'' (fst ` set m)"
  "fst ` set (cfgExternalImageStorageS3 c28 m) = insert ''external_image_storage.s3'' (fst ` set m)"
  "fst ` set (cfgExternalImageStorageWebdav c29 m) = insert ''external_image_storage.webdav'' (fst ` set m)"
  "fst ` set (cfgExternalImageStorageGcs c30 m) = insert ''external_image_storage.gcs'' (fst ` set m)"
  "fst ` set (cfgExternalImageStorageAzureBlob c31 m) = insert ''external_image_storage.azure_blob'' (fst ` set m)"
  "fst ` set (cfgAlerting c32 m) = insert ''alerting'' (fst ` set m)"
  "fst ` set (cfgUnifiedAlerting c33 m) = insert ''unified_alerting'' (fst ` set m)"
  "fst ` set (section_Panels c34 m) = insert ''panels'' (fst ` set m)"
  "fst ` set (section_Plugins c35 m) = insert ''plugins'' (fst ` set m)"
  "fst ` set (cfgRendering c36 m) = insert ''rendering'' (fst ` set m)"
  "fst ` set (section_FeatureToggles c37 m) = insert ''feature_toggles'' (fst ` set m)"
  unfolding section_defs Let_def keys_update by (rule refl)+

text \<open>
  The sections as the \<open>ini\<close> tags of the struct \<open>GrafanaConfig\<close> name them, with the
  condition under which a section is set; \<open>paths\<close> and \<open>live\<close> apart.
\<close>

definition ini_tags :: "(string \<times> (GrafanaConfig \<Rightarrow> bool)) list" where
  "ini_tags =
     [(''server'', \<lambda>c. cfg_Server c \<noteq> None),
      (''database'', \<lambda>c. cfg_Database c \<noteq> None),
      (''remote_cache'', \<lambda>c. cfg_RemoteCache c \<noteq> None),
      (''security'', \<lambda>c. cfg_Security c \<noteq> None),
      (''users'', \<lambda>c. cfg_Users c \<noteq> None),
      (''auth'', \<lambda>c. cfg_Auth c \<noteq> None),
      (''auth.basic'', \<lambda>c. cfg_AuthBasic c \<noteq> None),
      (''auth.anonymous'', \<lambda>c. cfg_AuthAnonymous c \<noteq> None),
      (''auth.azuread'', \<lambda>c. cfg_AuthAzureAD c \<noteq> None),
      (''auth.google'', \<lambda>c. cfg_AuthGoogle c \<noteq> None),
      (''auth.github'', \<lambda>c. cfg_AuthGithub c \<noteq> None),
      (''auth.gitlab'', \<lambda>c. cfg_AuthGitlab c \<noteq> None),
      (''auth.generic_oauth'', \<lambda>c. cfg_AuthGenericOauth c \<noteq> None),
      (''auth.okta'', \<lambda>c. cfg_AuthOkta c \<noteq> None),
      (''auth.ldap'', \<lambda>c. cfg_AuthLdap c \<noteq> None),
      (''auth.proxy'', \<lambda>c. cfg_AuthProxy c \<noteq> None),
      (''auth.saml'', \<lambda>c. cfg_AuthSaml c \<noteq> None),
      (''dataproxy'', \<lambda>c. cfg_DataProxy c \<noteq> None),
      (''analytics'', \<lambda>c. cfg_Analytics c \<noteq> None),
      (''dashboards'', \<lambda>c. cfg_Dashboards c \<noteq> None),
      (''smtp'', \<lambda>c. cfg_Smtp c \<noteq> None),
      (''log'', \<lambda>c. cfg_Log c \<noteq> None),
      (''log.console'', \<lambda>c. cfg_LogConsole c \<noteq> None),
      (''log.frontend'', \<lambda>c. cfg_LogFrontend c \<noteq> None),
      (''metrics'', \<lambda>c. cfg_Metrics c \<noteq> None),
      (''metrics.graphite'', \<lambda>c. cfg_MetricsGraphite c \<noteq> None),
      (''snapshots'', \<lambda>c. cfg_Snapshots c \<noteq> None),
      (''external_image_storage'', \<lambda>c. cfg_ExternalImageStorage c \<noteq> None),
      (''external_image_storage.s3'', \<lambda>c. cfg_ExternalImageStorageS3 c \<noteq> None),
      (''external_image_storage.webdav'', \<lambda>c. cfg_ExternalImageStorageWebdav c \<noteq> None),
      (''external_image_storage.gcs'', \<lambda>c. cfg_ExternalImageStorageGcs c \<noteq> None),
      (''external_image_storage.azure_blob'', \<lambda>c. cfg_ExternalImageStorageAzureBlob c \<noteq> None),
      (''alerting'', \<lambda>c. cfg_Alerting c \<noteq> None),
      (''unified_alerting'', \<lambda>c. cfg_UnifiedAlerting c \<noteq> None),
      (''panels'', \<lambda>c. cfg_Panels c \<noteq> None),
      (''plugins'', \<lambda>c. cfg_Plugins c \<noteq> None),
      (''rendering'', \<lambda>c. cfg_Rendering c \<noteq> None),
      (''feature_toggles'', \<lambda>c. cfg_FeatureToggles c \<noteq> None)]"

definition tagged_sections :: "GrafanaConfig \<Rightarrow> string set" where
  "tagged_sections cfg = {k. \<exists>(t, set_in) \<in> set ini_tags. k = t \<and> set_in cfg}"

lemma when_set_ok:
  "ini_map_ok m \<Longrightarrow> (\<And>x m. ini_map_ok m \<Longrightarrow> ini_map_ok (f x m)) \<Longrightarrow> ini_map_ok (when_set p f m)"
  by (simp add: when_set_def split: option.split)

lemma when_set_keys:
  assumes "\<And>x. p = Some x \<Longrightarrow> fst ` set (f x m) = insert k (fst ` set m)"
  shows "fst ` set (when_set p f m) = (if p \<noteq> None then {k} else {}) \<union> fst ` set m"
  using assms by (auto simp: when_set_def split: option.split)

lemma parse_paths_ok: "ini_map_ok m \<Longrightarrow> ini_map_ok (parse_paths cfg m)"
proof -
  assume m: "ini_map_ok m"
  have *: "ini_key k \<Longrightarrow> ini_line (k @ '' = '' @ v)" for k v
    by (auto simp: ini_line_def)
  have lines: "ini_line (''data = '' @ v)" "ini_line (''logs = '' @ v)"
    "ini_line (''plugins = '' @ v)" "ini_line (''provisioning = '' @ v)"
    "ini_line (''temp_data_lifetime = '' @ v)" for v
    using * [of "''data''" v] * [of "''logs''" v] * [of "''plugins''" v]
      * [of "''provisioning''" v] * [of "''temp_data_lifetime''" v]
    by (simp_all add: ini_key_eval)
  have upd: "ini_map_ok m \<Longrightarrow> list_all ini_line ls \<Longrightarrow> ini_map_ok (AList.update ''paths'' ls m)" for ls m
    by (rule ini_map_ok_update) (simp_all add: newline_def)
  show ?thesis
    unfolding parse_paths_def Let_def
    by (intro when_set_ok upd m)
      (simp_all only: list.pred_inject list_all_append section_lines_ok lines simp_thms)
qed

lemma parse_parts_ok:
  "ini_map_ok m \<Longrightarrow> ini_map_ok (parse_core pf cfg m)"
  "ini_map_ok m \<Longrightarrow> ini_map_ok (parse_auth cfg m)"
  "ini_map_ok m \<Longrightarrow> ini_map_ok (parse_services cfg m)"
  unfolding parse_core_def parse_auth_def parse_services_def Let_def
  by (simp_all only: when_set_ok section_ok)

lemma parseConfig_ok: "ini_map_ok (parseConfig pf cfg [])"
  unfolding parseConfig_def by (intro parse_parts_ok parse_paths_ok) (simp add: ini_map_ok_def)

lemma when_set_key_iff:
  assumes "\<And>x. fst ` set (f x m) = insert k (fst ` set m)"
  shows "y \<in> fst ` set (when_set p f m) \<longleftrightarrow> (y = k \<and> p \<noteq> None) \<or> y \<in> fst ` set m"
  using assms by (auto simp: when_set_def split: option.split)

lemma section_key_iff:
  "y \<in> fst ` set (when_set p0 cfgServer m) \<longleftrightarrow> (y = ''server'' \<and> p0 \<noteq> None) \<or> y \<in> fst ` set m"
  "y \<in> fst ` set (when_set p1 cfgDatabase m) \<longleftrightarrow> (y = ''database'' \<and> p1 \<noteq> None) \<or> y \<in> fst ` set m"
  "y \<in> fst ` set (when_set p2 section_RemoteCache m) \<longleftrightarrow> (y = ''remote_cache'' \<and> p2 \<noteq> None) \<or> y \<in> fst ` set m"
  "y \<in> fst ` set (when_set p3 cfgSecurity m) \<longleftrightarrow> (y = ''security'' \<and> p3 \<noteq> None) \<or> y \<in> fst ` set m"
  "y \<in> fst ` set (when_set p4 cfgUsers m) \<longleftrightarrow> (y = ''users'' \<and> p4 \<noteq> None) \<or> y \<in> fst ` set m"
  "y \<in> fst ` set (when_set p5 section_AuthBasic m) \<longleftrightarrow> (y = ''auth.basic'' \<and> p5 \<noteq> None) \<or> y \<in> fst ` set m"
  "y \<in> fst ` set (when_set p6 section_AuthAnonymous m) \<longleftrightarrow> (y = ''auth.anonymous'' \<and> p6 \<noteq> None) \<or> y \<in> fst ` set m"
  "y \<in> fst ` set (when_set p7 cfgAuth m) \<longleftrightarrow> (y = ''auth'' \<and> p7 \<noteq> None) \<or> y \<in> fst ` set m"
  "y \<in> fst ` set (when_set p8 section_Log m) \<longleftrightarrow> (y = ''log'' \<and> p8 \<noteq> None) \<or> y \<in> fst ` set m"
  "y \<in> fst ` set (when_set p9 (section_LogFrontend pf) m) \<longleftrightarrow> (y = ''log.frontend'' \<and> p9 \<noteq> None) \<or> y \<in> fst ` set m"
  "y \<in> fst ` set (when_set p10 section_LogConsole m) \<longleftrightarrow> (y = ''log.console'' \<and> p10 \<noteq> None) \<or> y \<in> fst ` set m"
  "y \<in> fst ` set (when_set p11 cfgAuthSaml m) \<longleftrightarrow> (y = ''auth.saml'' \<and> p11 \<noteq> None) \<or> y \<in> fst ` set m"
  "y \<in> fst ` set (when_set p12 cfgAuthAzureAD m) \<longleftrightarrow> (y = ''auth.azuread'' \<and> p12 \<noteq> None) \<or> y \<in> fst ` set m"
  "y \<in> fst ` set (when_set p13 cfgAuthGoogle m) \<longleftrightarrow> (y = ''auth.google'' \<and> p13 \<noteq> None) \<or> y \<in> fst ` set m"
  "y \<in> fst ` set (when_set p14 cfgAuthGitHub m) \<longleftrightarrow> (y = ''auth.github'' \<and> p14 \<noteq> None) \<or> y \<in> fst ` set m"
  "y \<in> fst ` set (when_set p15 cfgAuthGitlab m) \<longleftrightarrow> (y = ''auth.gitlab'' \<and> p15 \<noteq> None) \<or> y \<in> fst ` set m"
  "y \<in> fst ` set (when_set p16 cfgAuthGenericOauth m) \<longleftrightarrow> (y = ''auth.generic_oauth'' \<and> p16 \<noteq> None) \<or> y \<in> fst ` set m"
  "y \<in> fst ` set (when_set p17 cfgAuthLdap m) \<longleftrightarrow> (y = ''auth.ldap'' \<and> p17 \<noteq> None) \<or> y \<in> fst ` set m"
  "y \<in> fst ` set (when_set p18 cfgAuthOkta m) \<longleftrightarrow> (y = ''auth.okta'' \<and> p18 \<noteq> None) \<or> y \<in> fst ` set m"
  "y \<in> fst ` set (when_set p19 cfgAuthProxy m) \<longleftrightarrow> (y = ''auth.proxy'' \<and> p19 \<noteq> None) \<or> y \<in> fst ` set m"
  "y \<in> fst ` set (when_set p20 cfgDataProxy m) \<longleftrightarrow> (y = ''dataproxy'' \<and> p20 \<noteq> None) \<or> y \<in> fst ` set m"
  "y \<in> fst ` set (when_set p21 section_Analytics m) \<longleftrightarrow> (y = ''analytics'' \<and> p21 \<noteq> None) \<or> y \<in> fst ` set m"
  "y \<in> fst ` set (when_set p22 section_Dashboards m) \<longleftrightarrow> (y = ''dashboards'' \<and> p22 \<noteq> None) \<or> y \<in> fst ` set m"
  "y \<in> fst ` set (when_set p23 cfgSmtp m) \<longleftrightarrow> (y = ''smtp'' \<and> p23 \<noteq> None) \<or> y \<in> fst ` set m"
  "y \<in> fst ` set (when_set p24 cfgMetrics m) \<longleftrightarrow> (y = ''metrics'' \<and> p24 \<noteq> None) \<or> y \<in> fst ` set m"
  "y \<in> fst ` set (when_set p25 cfgSnapshots m) \<longleftrightarrow> (y = ''snapshots'' \<and> p25 \<noteq> None) \<or> y \<in> fst ` set m"
  "y \<in> fst ` set (when_set p26 cfgMetricsGraphite m) \<longleftrightarrow> (y = ''metrics.graphite'' \<and> p26 \<noteq> None) \<or> y \<in> fst ` set m"
  "y \<in> fst ` set (when_set p27 section_ExternalImageStorage m) \<longleftrightarrow> (y = ''external_image_storage'' \<and> p27 \<noteq> None) \<or> y \<in> fst ` set m"
  "y \<in> fst ` set (when_set p28 cfgExternalImageStorageS3 m) \<longleftrightarrow> (y = ''external_image_storage.s3'' \<and> p28 \<noteq> None) \<or> y \<in> fst ` set m"
  "y \<in> fst ` set (when_set p29 cfgExternalImageStorageWebdav m) \<longleftrightarrow> (y = ''external_image_storage.webdav'' \<and> p29 \<noteq> None) \<or> y \<in> fst ` set m"
  "y \<in> fst ` set (when_set p30 cfgExternalImageStorageGcs m) \<longleftrightarrow> (y = ''external_image_storage.gcs'' \<and> p30 \<noteq> None) \<or> y \<in> fst ` set m"
  "y \<in> fst ` set (when_set p31 cfgExternalImageStorageAzureBlob m) \<longleftrightarrow> (y = ''external_image_storage.azure_blob'' \<and> p31 \<noteq> None) \<or> y \<in> fst ` set m"
  "y \<in> fst ` set (when_set p32 cfgAlerting m) \<longleftrightarrow> (y = ''alerting'' \<and> p32 \<noteq> None) \<or> y \<in> fst ` set m"
  "y \<in> fst ` set (when_set p33 cfgUnifiedAlerting m) \<longleftrightarrow> (y = ''unified_alerting'' \<and> p33 \<noteq> None) \<or> y \<in> fst ` set m"
  "y \<in> fst ` set (when_set p34 section_Panels m) \<longleftrightarrow> (y = ''panels'' \<and> p34 \<noteq> None) \<or> y \<in> fst ` set m"
  "y \<in> fst ` set (when_set p35 section_Plugins m) \<longleftrightarrow> (y = ''plugins'' \<and> p35 \<noteq> None) \<or> y \<in> fst ` set m"
  "y \<in> fst ` set (when_set p36 cfgRendering m) \<longleftrightarrow> (y = ''rendering'' \<and> p36 \<noteq> None) \<or> y \<in> fst ` set m"
  "y \<in> fst ` set (when_set p37 section_FeatureToggles m) \<longleftrightarrow> (y = ''feature_toggles'' \<and> p37 \<noteq> None) \<or> y \<in> fst ` set m"
  by (rule when_set_key_iff, rule section_keys)+

lemma parse_paths_keys: "fst ` set (parse_paths cfg []) = {''paths''}"
  by (cases "cfg_Paths cfg") (simp_all add: parse_paths_def when_set_def Let_def)

lemma parseConfig_keys:
  "fst ` set (parseConfig pf cfg []) = insert ''paths'' (tagged_sections cfg)"
proof (rule set_eqI)
  fix y
  have "y \<in> fst ` set (parseConfig pf cfg []) \<longleftrightarrow> y = ''paths'' \<or> y \<in> tagged_sections cfg"
    unfolding parseConfig_def parse_core_def parse_auth_def parse_services_def Let_def
      section_key_iff parse_paths_keys tagged_sections_def ini_tags_def
    by (simp only: mem_Collect_eq list.set bex_simps prod.case singleton_iff empty_iff simp_thms disj_ac)
  then show "y \<in> fst ` set (parseConfig pf cfg []) \<longleftrightarrow> y \<in> insert ''paths'' (tagged_sections cfg)"
    by simp
qed

subsection \<open>Reading the text back\<close>

text \<open>
  A reader of ini files: a line that starts with a bracket opens a section, an empty line is
  skipped, every other line belongs to the section above it.
\<close>

fun read_step :: "string \<Rightarrow> string list \<times> (string \<times> string list) list
    \<Rightarrow> string list \<times> (string \<times> string list) list" where
  "read_step [] (pending, secs) = (pending, secs)"
| "read_step (c # cs) (pending, secs) =
     (if c = CHR ''['' then ([], (butlast cs, pending) # secs) else ((c # cs) # pending, secs))"

definition read_ini :: "string \<Rightarrow> (string \<times> string list) list" where
  "read_ini text = snd (foldr read_step (Split newline text) ([], []))"

text \<open>The key and the value of a line.\<close>

definition read_pair :: "string \<Rightarrow> string \<times> string" where
  "read_pair l = (takeWhile (\<lambda>c. c \<noteq> CHR '' '') l, drop 3 (dropWhile (\<lambda>c. c \<noteq> CHR '' '') l))"

lemma ini_key_no_space: "ini_key k \<Longrightarrow> c \<in> set k \<Longrightarrow> c \<noteq> CHR '' '' \<and> c \<noteq> CHR ''[''"
  by (auto simp: ini_key_def list_all_iff is_lower_def is_digit_def code_def)

lemma read_pair_line: "ini_key k \<Longrightarrow> read_pair (k @ '' = '' @ v) = (k, v)"
proof -
  assume k: "ini_key k"
  then have "\<And>c. c \<in> set k \<Longrightarrow> c \<noteq> CHR '' ''" by (blast dest: ini_key_no_space)
  then show ?thesis
    by (simp add: read_pair_def takeWhile_append2 dropWhile_append2)
qed

lemma ini_line_hd:
  assumes "ini_line l"
  obtains c cs where "l = c # cs" "c \<noteq> CHR ''[''"
proof -
  from assms obtain k v where k: "ini_key k" "l = k @ '' = '' @ v" by (auto simp: ini_line_def)
  then obtain c cs where "k = c # cs" by (cases k) (auto simp: ini_key_def)
  with k that [of c "cs @ '' = '' @ v"] ini_key_no_space [of k c] show ?thesis by simp
qed

lemma read_lines: "list_all ini_line ls \<Longrightarrow> foldr read_step ls (p, secs) = (ls @ p, secs)"
proof (induction ls)
  case (Cons l ls)
  then show ?case by (auto elim: ini_line_hd)
qed simp

lemma Split_lines:
  "list_all (\<lambda>l. newline \<notin> set l) ls \<Longrightarrow>
   Split newline (concat (map (\<lambda>l. l @ [newline]) ls) @ s) = ls @ Split newline s"
  by (induction ls) (simp_all add: Split_append_sep)

lemma Split_section:
  assumes "newline \<notin> set key" "list_all (\<lambda>l. newline \<notin> set l) values"
  shows "Split newline (section_text key values @ s)
         = (''['' @ key @ '']'') # sort values @ [] # Split newline s"
proof -
  have *: "list_all (\<lambda>l. newline \<notin> set l) (sort values)"
    using assms(2) by (simp add: list_all_iff)
  have "newline \<notin> set (''['' @ key @ '']'')" using assms(1) by (auto simp: newline_def)
  from Split_append_sep [OF this] Split_lines [OF *, of "newline # s"] show ?thesis
    by (simp add: section_text_def)
qed

lemma read_section:
  assumes "newline \<notin> set key" "list_all (\<lambda>l. newline \<notin> set l) values" "list_all ini_line values"
    and "foldr read_step (Split newline s) ([], []) = ([], secs)"
  shows "foldr read_step (Split newline (section_text key values @ s)) ([], [])
         = ([], (key, sort values) # secs)"
proof -
  have "list_all ini_line (sort values)" using assms(3) by (simp add: list_all_iff)
  from read_lines [OF this] assms(4) show ?thesis
    by (simp add: Split_section [OF assms(1,2)])
qed

lemma read_sections:
  assumes "\<And>k. k \<in> set ks \<Longrightarrow> newline \<notin> set k"
    and "\<And>k. k \<in> set ks \<Longrightarrow> list_all (\<lambda>l. newline \<notin> set l) (f k)"
    and "\<And>k. k \<in> set ks \<Longrightarrow> list_all ini_line (f k)"
  shows "foldr read_step (Split newline (concat (map (\<lambda>k. section_text k (f k)) ks))) ([], [])
         = ([], map (\<lambda>k. (k, sort (f k))) ks)"
  using assms
proof (induction ks)
  case (Cons k ks)
  then show ?case by (simp add: read_section)
qed simp

definition one_line :: "ini_map \<Rightarrow> bool" where
  "one_line m \<longleftrightarrow> list_all (\<lambda>(k, ls). list_all (\<lambda>l. newline \<notin> set l) ls) m"

lemma section_lines_one_line:
  "one_line m \<Longrightarrow> list_all (\<lambda>l. newline \<notin> set l) (section_lines m k)"
  by (cases "map_of m k") (auto simp: one_line_def section_lines_def list_all_iff dest!: map_of_SomeD)

lemma read_write_map:
  assumes "ini_map_ok m" "one_line m"
  shows "read_ini (write_map m)
         = map (\<lambda>k. (k, sort (section_lines m k))) (sort (map fst m))"
proof -
  have "newline \<notin> set k" if "k \<in> set (sort (map fst m))" for k
    using that assms(1) by (auto simp: ini_map_ok_def)
  then show ?thesis
    unfolding read_ini_def write_map_def Let_def
    by (subst read_sections)
      (simp_all add: assms section_lines_ok section_lines_one_line)
qed

lemma write_map_perm:
  assumes "gomap_ok m" "mset m' = mset m"
  shows "write_map m' = write_map m"
proof -
  have d: "distinct (map fst m)" using assms(1) by (simp add: gomap_ok_def)
  have "mset (map fst m') = mset (map fst m)" using assms(2) by (simp only: mset_map)
  then have s: "sort (map fst m') = sort (map fst m)"
    and d': "distinct (map fst m')"
    using d by (metis properties_for_sort sorted_sort mset_sort, metis mset_eq_imp_distinct_iff)
  have "map_of m' = map_of m"
    using d d' assms(2) by (metis map_of_inject_set mset_eq_setD)
  then have "section_lines m' = section_lines m" by (auto simp: section_lines_def fun_eq_iff)
  with s show ?thesis by (simp add: write_map_def)
qed

subsection \<open>The settings of the server section\<close>

text \<open>What the file says about the server, one pair for every setting that is set.\<close>

definition str_setting :: "string \<Rightarrow> string \<Rightarrow> (string \<times> string) set" where
  "str_setting k v = (if v = [] then {} else {(k, v)})"

definition bool_setting :: "string \<Rightarrow> bool option \<Rightarrow> (string \<times> string) set" where
  "bool_setting k b = (case b of None \<Rightarrow> {} | Some b \<Rightarrow> {(k, if b then ''true'' else ''false'')})"

definition server_settings :: "GrafanaConfigServer \<Rightarrow> (string \<times> string) set" where
  "server_settings s =
     str_setting ''http_addr'' (Server_HttpAddr s) \<union> str_setting ''http_port'' (Server_HttpPort s)
     \<union> str_setting ''protocol'' (Server_Protocol s) \<union> str_setting ''socket'' (Server_Socket s)
     \<union> str_setting ''domain'' (Server_Domain s)
     \<union> bool_setting ''enforce_domain'' (Server_EnforceDomain s)
     \<union> str_setting ''root_url'' (Server_RootUrl s)
     \<union> bool_setting ''serve_from_sub_path'' (Server_ServeFromSubPath s)
     \<union> str_setting ''static_root_path'' (Server_StaticRootPath s)
     \<union> bool_setting ''enable_gzip'' (Server_EnableGzip s)
     \<union> str_setting ''cert_file'' (Server_CertFile s) \<union> str_setting ''cert_key'' (Server_CertKey s)
     \<union> bool_setting ''router_logging'' (Server_RouterLogging s)"

lemma read_append:
  assumes "ini_key k"
  shows "read_pair ` set (appendStr ls k v) = read_pair ` set ls \<union> str_setting k v"
    "read_pair ` set (appendBool ls k b) = read_pair ` set ls \<union> bool_setting k b"
  using read_pair_line [OF assms]
  by (auto simp: appendStr_def appendBool_def str_setting_def bool_setting_def fmt_bool_def
      split: option.split)

lemma section_lines_update:
  "section_lines (AList.update k ls m) k' = (if k' = k then ls else section_lines m k')"
  by (simp add: section_lines_def update_conv)

lemma section_lines_update_other:
  "k \<noteq> k' \<Longrightarrow> section_lines (AList.update k ls m) k' = section_lines m k'"
  by (simp add: section_lines_update)

lemma section_others:
  "''server'' \<noteq> k \<Longrightarrow> section_lines (cfgServer c0 m) k = section_lines m k"
  "''database'' \<noteq> k \<Longrightarrow> section_lines (cfgDatabase c1 m) k = section_lines m k"
  "''remote_cache'' \<noteq> k \<Longrightarrow> section_lines (section_RemoteCache c2 m) k = section_lines m k"
  "''security'' \<noteq> k \<Longrightarrow> section_lines (cfgSecurity c3 m) k = section_lines m k"
  "''users'' \<noteq> k \<Longrightarrow> section_lines (cfgUsers c4 m) k = section_lines m k"
  "''auth.basic'' \<noteq> k \<Longrightarrow> section_lines (section_AuthBasic c5 m) k = section_lines m k"
  "''auth.anonymous'' \<noteq> k \<Longrightarrow> section_lines (section_AuthAnonymous c6 m) k = section_lines m k"
  "''auth'' \<noteq> k \<Longrightarrow> section_lines (cfgAuth c7 m) k = section_lines m k"
  "''log'' \<noteq> k \<Longrightarrow> section_lines (section_Log c8 m) k = section_lines m k"
  "''log.frontend'' \<noteq> k \<Longrightarrow> section_lines (section_LogFrontend pf c9 m) k = section_lines m k"
  "''log.console'' \<noteq> k \<Longrightarrow> section_lines (section_LogConsole c10 m) k = section_lines m k"
  "''auth.saml'' \<noteq> k \<Longrightarrow> section_lines (cfgAuthSaml c11 m) k = section_lines m k"
  "''auth.azuread'' \<noteq> k \<Longrightarrow> section_lines (cfgAuthAzureAD c12 m) k = section_lines m k"
  "''auth.google'' \<noteq> k \<Longrightarrow> section_lines (cfgAuthGoogle c13 m) k = section_lines m k"
  "''auth.github'' \<noteq> k \<Longrightarrow> section_lines (cfgAuthGitHub c14 m) k = section_lines m k"
  "''auth.gitlab'' \<noteq> k \<Longrightarrow> section_lines (cfgAuthGitlab c15 m) k = section_lines m k"
  "''auth.generic_oauth'' \<noteq> k \<Longrightarrow> section_lines (cfgAuthGenericOauth c16 m) k = section_lines m k"
  "''auth.ldap'' \<noteq> k \<Longrightarrow> section_lines (cfgAuthLdap c17 m) k = section_lines m k"
  "''auth.okta'' \<noteq> k \<Longrightarrow> section_lines (cfgAuthOkta c18 m) k = section_lines m k"
  "''auth.proxy'' \<noteq> k \<Longrightarrow> section_lines (cfgAuthProxy c19 m) k = section_lines m k"
  "''dataproxy'' \<noteq> k \<Longrightarrow> section_lines (cfgDataProxy c20 m) k = section_lines m k"
  "''analytics'' \<noteq> k \<Longrightarrow> section_lines (section_Analytics c21 m) k = section_lines m k"
  "''dashboards'' \<noteq> k \<Longrightarrow> section_lines (section_Dashboards c22 m) k = section_lines m k"
  "''smtp'' \<noteq> k \<Longrightarrow> section_lines (cfgSmtp c23 m) k = section_lines m k"
  "''metrics'' \<noteq> k \<Longrightarrow> section_lines (cfgMetrics c24 m) k = section_lines m k"
  "''snapshots'' \<noteq> k \<Longrightarrow> section_lines (cfgSnapshots c25 m) k = section_lines m k"
  "''metrics.graphite'' \<noteq> k \<Longrightarrow> section_lines (cfgMetricsGraphite c26 m) k = section_lines m k"
  "''external_image_storage'' \<noteq> k \<Longrightarrow> section_lines (section_ExternalImageStorage c27 m) k = section_lines m k"
  "''external_image_storage.s3'' \<noteq> k \<Longrightarrow> section_lines (cfgExternalImageStorageS3 c28 m) k = section_lines m k"
  "''external_image_storage.webdav'' \<noteq> k \<Longrightarrow> section_lines (cfgExternalImageStorageWebdav c29 m) k = section_lines m k"
  "''external_image_storage.gcs'' \<noteq> k \<Longrightarrow> section_lines (cfgExternalImageStorageGcs c30 m) k = section_lines m k"
  "''external_image_storage.azure_blob'' \<noteq> k \<Longrightarrow> section_lines (cfgExternalImageStorageAzureBlob c31 m) k = section_lines m k"
  "''alerting'' \<noteq> k \<Longrightarrow> section_lines (cfgAlerting c32 m) k = section_lines m k"
  "''unified_alerting'' \<noteq> k \<Longrightarrow> section_lines (cfgUnifiedAlerting c33 m) k = section_lines m k"
  "''panels'' \<noteq> k \<Longrightarrow> section_lines (section_Panels c34 m) k = section_lines m k"
  "''plugins'' \<noteq> k \<Longrightarrow> section_lines (section_Plugins c35 m) k = section_lines m k"
  "''rendering'' \<noteq> k \<Longrightarrow> section_lines (cfgRendering c36 m) k = section_lines m k"
  "''feature_toggles'' \<noteq> k \<Longrightarrow> section_lines (section_FeatureToggles c37 m) k = section_lines m k"
  unfolding section_defs Let_def by (rule section_lines_update_other, assumption)+

lemma section_lines_when_set:
  "(\<And>x. section_lines (f x m) k = section_lines m k) \<Longrightarrow>
   section_lines (when_set p f m) k = section_lines m k"
  by (simp add: when_set_def split: option.split)

lemma section_when_others:
  "''server'' \<noteq> k \<Longrightarrow> section_lines (when_set p0 cfgServer m) k = section_lines m k"
  "''database'' \<noteq> k \<Longrightarrow> section_lines (when_set p1 cfgDatabase m) k = section_lines m k"
  "''remote_cache'' \<noteq> k \<Longrightarrow> section_lines (when_set p2 section_RemoteCache m) k = section_lines m k"
  "''security'' \<noteq> k \<Longrightarrow> section_lines (when_set p3 cfgSecurity m) k = section_lines m k"
  "''users'' \<noteq> k \<Longrightarrow> section_lines (when_set p4 cfgUsers m) k = section_lines m k"
  "''auth.basic'' \<noteq> k \<Longrightarrow> section_lines (when_set p5 section_AuthBasic m) k = section_lines m k"
  "''auth.anonymous'' \<noteq> k \<Longrightarrow> section_lines (when_set p6 section_AuthAnonymous m) k = section_lines m k"
  "''auth'' \<noteq> k \<Longrightarrow> section_lines (when_set p7 cfgAuth m) k = section_lines m k"
  "''log'' \<noteq> k \<Longrightarrow> section_lines (when_set p8 section_Log m) k = section_lines m k"
  "''log.frontend'' \<noteq> k \<Longrightarrow> section_lines (when_set p9 (section_LogFrontend pf) m) k = section_lines m k"
  "''log.console'' \<noteq> k \<Longrightarrow> section_lines (when_set p10 section_LogConsole m) k = section_lines m k"
  "''auth.saml'' \<noteq> k \<Longrightarrow> section_lines (when_set p11 cfgAuthSaml m) k = section_lines m k"
  "''auth.azuread'' \<noteq> k \<Longrightarrow> section_lines (when_set p12 cfgAuthAzureAD m) k = section_lines m k"
  "''auth.google'' \<noteq> k \<Longrightarrow> section_lines (when_set p13 cfgAuthGoogle m) k = section_lines m k"
  "''auth.github'' \<noteq> k \<Longrightarrow> section_lines (when_set p14 cfgAuthGitHub m) k = section_lines m k"
  "''auth.gitlab'' \<noteq> k \<Longrightarrow> section_lines (when_set p15 cfgAuthGitlab m) k = section_lines m k"
  "''auth.generic_oauth'' \<noteq> k \<Longrightarrow> section_lines (when_set p16 cfgAuthGenericOauth m) k = section_lines m k"
  "''auth.ldap'' \<noteq> k \<Longrightarrow> section_lines (when_set p17 cfgAuthLdap m) k = section_lines m k"
  "''auth.okta'' \<noteq> k \<Longrightarrow> section_lines (when_set p18 cfgAuthOkta m) k = section_lines m k"
  "''auth.proxy'' \<noteq> k \<Longrightarrow> section_lines (when_set p19 cfgAuthProxy m) k = section_lines m k"
  "''dataproxy'' \<noteq> k \<Longrightarrow> section_lines (when_set p20 cfgDataProxy m) k = section_lines m k"
  "''analytics'' \<noteq> k \<Longrightarrow> section_lines (when_set p21 section_Analytics m) k = section_lines m k"
  "''dashboards'' \<noteq> k \<Longrightarrow> section_lines (when_set p22 section_Dashboards m) k = section_lines m k"
  "''smtp'' \<noteq> k \<Longrightarrow> section_lines (when_set p23 cfgSmtp m) k = section_lines m k"
  "''metrics'' \<noteq> k \<Longrightarrow> section_lines (when_set p24 cfgMetrics m) k = section_lines m k"
  "''snapshots'' \<noteq> k \<Longrightarrow> section_lines (when_set p25 cfgSnapshots m) k = section_lines m k"
  "''metrics.graphite'' \<noteq> k \<Longrightarrow> section_lines (when_set p26 cfgMetricsGraphite m) k = section_lines m k"
  "''external_image_storage'' \<noteq> k \<Longrightarrow> section_lines (when_set p27 section_ExternalImageStorage m) k = section_lines m k"
  "''external_image_storage.s3'' \<noteq> k \<Longrightarrow> section_lines (when_set p28 cfgExternalImageStorageS3 m) k = section_lines m k"
  "''external_image_storage.webdav'' \<noteq> k \<Longrightarrow> section_lines (when_set p29 cfgExternalImageStorageWebdav m) k = section_lines m k"
  "''external_image_storage.gcs'' \<noteq> k \<Longrightarrow> section_lines (when_set p30 cfgExternalImageStorageGcs m) k = section_lines m k"
  "''external_image_storage.azure_blob'' \<noteq> k \<Longrightarrow> section_lines (when_set p31 cfgExternalImageStorageAzureBlob m) k = section_lines m k"
  "''alerting'' \<noteq> k \<Longrightarrow> section_lines (when_set p32 cfgAlerting m) k = section_lines m k"
  "''unified_alerting'' \<noteq> k \<Longrightarrow> section_lines (when_set p33 cfgUnifiedAlerting m) k = section_lines m k"
  "''panels'' \<noteq> k \<Longrightarrow> section_lines (when_set p34 section_Panels m) k = section_lines m k"
  "''plugins'' \<noteq> k \<Longrightarrow> section_lines (when_set p35 section_Plugins m) k = section_lines m k"
  "''rendering'' \<noteq> k \<Longrightarrow> section_lines (when_set p36 cfgRendering m) k = section_lines m k"
  "''feature_toggles'' \<noteq> k \<Longrightarrow> section_lines (when_set p37 section_FeatureToggles m) k = section_lines m k"
  by (rule section_lines_when_set, erule section_others)+

lemma cfgServer_read:
  "read_pair ` set (section_lines (cfgServer s m) ''server'') = server_settings s"
  unfolding cfgServer_def Let_def section_lines_update server_settings_def
  by (simp add: read_append ini_key_eval Un_assoc)

lemma server_section_kept:
  "section_lines (parse_services cfg (parse_auth cfg (parse_core pf cfg m))) ''server''
   = section_lines (when_set (cfg_Server cfg) cfgServer m) ''server''"
  unfolding parse_services_def parse_auth_def parse_core_def Let_def
  by (simp add: section_when_others)
subsection \<open>Properties\<close>

text \<open>
  C26: reading the generated grafana.ini back gives exactly the sections that are set, the
  fixed \<open>paths\<close> section and one section per set pointer of the configuration under the
  name its \<open>ini\<close> tag gives it (\<open>live\<close> excepted), in sorted order and each once, and
  in every section exactly the lines the configuration asks for, sorted; provided no value
  contains a newline.
\<close>

theorem ini_write_read:
  assumes "one_line (parseConfig pf cfg [])"
  shows "read_ini (fst (Write pf cfg))
         = map (\<lambda>k. (k, sort (section_lines (parseConfig pf cfg []) k)))
             (sorted_list_of_set (insert ''paths'' (tagged_sections cfg)))"
proof -
  let ?m = "parseConfig pf cfg []"
  have ok: "ini_map_ok ?m" by (rule parseConfig_ok)
  then have "sort (map fst ?m) = sorted_list_of_set (fst ` set ?m)"
    by (simp only: ini_map_ok_def gomap_ok_def sorted_list_of_set_sort_remdups
        distinct_remdups_id list.set_map [symmetric])
  with read_write_map [OF ok assms] show ?thesis
    by (simp add: Write_def Let_def parseConfig_keys)
qed

definition ini_example :: GrafanaConfig where
  "ini_example = zero_GrafanaConfig
     \<lparr>cfg_Server := Some (zero_GrafanaConfigServer
        \<lparr>Server_HttpPort := ''3000'', Server_EnableGzip := Some False\<rparr>),
      cfg_UnifiedAlerting := Some (zero_GrafanaConfigUnifiedAlerting
        \<lparr>UnifiedAlerting_Enabled := Some True, UnifiedAlerting_MaxAttempts := Some 2\<rparr>)\<rparr>"

lemma ini_example_map:
  "parseConfig pf ini_example [] =
     [(''paths'', [''data = /var/lib/grafana'', ''logs = /var/log/grafana'',
        ''plugins = /var/lib/grafana/plugins'', ''provisioning = /etc/grafana/provisioning/'']),
      (''server'', [''http_port = 3000'', ''enable_gzip = false'']),
      (''unified_alerting'', [''enabled = true'', ''max_attempts = 2''])]"
  by (simp add: parseConfig_def parse_services_def parse_auth_def parse_core_def parse_paths_def
      Let_def when_set_def ini_example_def zero_GrafanaConfig_def zero_GrafanaConfigServer_def
      zero_GrafanaConfigUnifiedAlerting_def cfgServer_def cfgUnifiedAlerting_def appendStr_def
      appendBool_def appendInt_def fmt_bool_def GrafanaDataPath_def GrafanaLogsPath_def
      GrafanaPluginsPath_def GrafanaProvisioningPath_def Itoa_def digits.simps char_of_digit)

lemma ini_example_one_line: "one_line (parseConfig pf ini_example [])"
  unfolding ini_example_map by code_simp

lemma ini_write_read_witness:
  "one_line (parseConfig Some ini_example [])
   \<and> read_ini (fst (Write Some ini_example))
     = map (\<lambda>k. (k, sort (section_lines (parseConfig Some ini_example []) k)))
         (sorted_list_of_set (insert ''paths'' (tagged_sections ini_example)))"
  by (intro conjI ini_example_one_line ini_write_read)

text \<open>
  The server section of the file says what the specification says: for every server
  setting that is set, its key with its value, and nothing else.
\<close>

theorem ini_server_settings:
  assumes "one_line (parseConfig pf cfg [])" "cfg_Server cfg = Some s"
  shows "\<exists>ls. map_of (read_ini (fst (Write pf cfg))) ''server'' = Some ls
           \<and> read_pair ` set ls = server_settings s"
proof -
  let ?m = "parseConfig pf cfg []"
  have lines: "section_lines ?m ''server'' = section_lines (cfgServer s (parse_paths cfg [])) ''server''"
    using assms(2) by (simp add: parseConfig_def server_section_kept when_set_def)
  have "(''server'', \<lambda>c. cfg_Server c \<noteq> None) \<in> set ini_tags"
    by (simp add: ini_tags_def)
  then have "\<exists>(t, set_in) \<in> set ini_tags. ''server'' = t \<and> set_in cfg"
    by (rule rev_bexI) (simp add: assms(2))
  then have "''server'' \<in> fst ` set ?m"
    unfolding parseConfig_keys tagged_sections_def by (intro insertI2 CollectI)
  then have "map_of (read_ini (fst (Write pf cfg))) ''server'' = Some (sort (section_lines ?m ''server''))"
    by (simp add: Write_def Let_def read_write_map [OF parseConfig_ok assms(1)] map_of_map_restrict)
  with lines show ?thesis by (simp add: cfgServer_read)
qed

lemma ini_server_settings_witness:
  "\<exists>ls. map_of (read_ini (fst (Write Some ini_example))) ''server'' = Some ls
        \<and> read_pair ` set ls = {(''enable_gzip'', ''false''), (''http_port'', ''3000'')}"
proof -
  let ?s = "zero_GrafanaConfigServer\<lparr>Server_HttpPort := ''3000'', Server_EnableGzip := Some False\<rparr>"
  have s: "cfg_Server ini_example = Some ?s"
    by (simp add: ini_example_def)
  have "server_settings ?s = {(''enable_gzip'', ''false''), (''http_port'', ''3000'')}"
    by (simp add: zero_GrafanaConfigServer_def server_settings_def str_setting_def bool_setting_def)
  with ini_server_settings [OF ini_example_one_line [of Some] s] show ?thesis by (simp only:)
qed

text \<open>
  C17: the text does not depend on the order in which Go iterates over the map of sections.
\<close>

theorem ini_order_independent:
  "mset m = mset (parseConfig pf cfg []) \<Longrightarrow> write_map m = fst (Write pf cfg)"
  using write_map_perm [of "parseConfig pf cfg []" m] parseConfig_ok [of pf cfg]
  by (simp add: Write_def Let_def ini_map_ok_def)

lemma ini_order_independent_witness:
  "write_map (rev (parseConfig Some ini_example [])) = fst (Write Some ini_example)"
  by (rule ini_order_independent) simp

text \<open>
  A newline in a value opens a section of its own: the configuration below leaves anonymous
  access unset, and the file enables it.
\<close>

definition ini_injection :: GrafanaConfig where
  "ini_injection = zero_GrafanaConfig
     \<lparr>cfg_FeatureToggles := Some
        \<lparr>FeatureToggles_Enable = ''x'' @ [newline] @ ''[auth.anonymous]'' @ [newline] @ ''enabled = true''\<rparr>\<rparr>"

lemma ini_newline_injects:
  "cfg_AuthAnonymous ini_injection = None
   \<and> (''auth.anonymous'', [''enabled = true'']) \<in> set (read_ini (fst (Write pf ini_injection)))"
proof -
  have "parseConfig pf ini_injection [] =
     [(''paths'', [''data = /var/lib/grafana'', ''logs = /var/log/grafana'',
        ''plugins = /var/lib/grafana/plugins'', ''provisioning = /etc/grafana/provisioning/'']),
      (''feature_toggles'',
        [''enable = x'' @ [newline] @ ''[auth.anonymous]'' @ [newline] @ ''enabled = true''])]"
    by (simp add: parseConfig_def parse_services_def parse_auth_def parse_core_def parse_paths_def
      Let_def when_set_def ini_injection_def zero_GrafanaConfig_def section_FeatureToggles_def
      appendStr_def GrafanaDataPath_def GrafanaLogsPath_def
      GrafanaPluginsPath_def GrafanaProvisioningPath_def)
  then have t: "fst (Write pf ini_injection) = write_map
     [(''paths'', [''data = /var/lib/grafana'', ''logs = /var/log/grafana'',
        ''plugins = /var/lib/grafana/plugins'', ''provisioning = /etc/grafana/provisioning/'']),
      (''feature_toggles'',
        [''enable = x'' @ [newline] @ ''[auth.anonymous]'' @ [newline] @ ''enabled = true''])]"
    by (simp add: Write_def Let_def)
  have "(''auth.anonymous'', [''enabled = true'']) \<in> set (read_ini (write_map
     [(''paths'', [''data = /var/lib/grafana'', ''logs = /var/log/grafana'',
        ''plugins = /var/lib/grafana/plugins'', ''provisioning = /etc/grafana/provisioning/'']),
      (''feature_toggles'',
        [''enable = x'' @ [newline] @ ''[auth.anonymous]'' @ [newline] @ ''enabled = true''])]))"
    by code_simp
  with t show ?thesis
    by (simp add: ini_injection_def zero_GrafanaConfig_def)
qed
end
