(* ===== verification/Go_Json.thy ===== *)
theory Go_Json
  imports Go_Text
begin

text \<open>
  The part of Go's package encoding/json that the operator uses: \<open>json.Unmarshal\<close> of a
  text into a \<open>map[string]interface{}\<close>. A number keeps its literal. The text is valid
  UTF-8, as every string of a Kubernetes object is, so bytes of a string that are not
  escaped are kept; a \<open>\u\<close> escape is encoded in UTF-8, a lone surrogate as U+FFFD.
\<close>

datatype json = JNull | JBool bool | JNum string | JStr string | JArr "json list"
  | JObj "(string \<times> json) list"

definition is_json_space :: "char \<Rightarrow> bool" where
  "is_json_space c \<longleftrightarrow> code c \<in> {32, 9, 10, 13}"

definition skip_space :: "string \<Rightarrow> string" where
  "skip_space s = dropWhile is_json_space s"

subsection \<open>Strings\<close>

definition hex_digit :: "char \<Rightarrow> nat option" where
  "hex_digit c =
     (if is_digit c then Some (code c - 48)
      else if 97 \<le> code c \<and> code c \<le> 102 then Some (code c - 87)
      else if 65 \<le> code c \<and> code c \<le> 70 then Some (code c - 55) else None)"

definition hex4 :: "string \<Rightarrow> (nat \<times> string) option" where
  "hex4 s =
     (case s of
        a # b # c # d # rest \<Rightarrow>
          (case (hex_digit a, hex_digit b, hex_digit c, hex_digit d) of
             (Some w, Some x, Some y, Some z) \<Rightarrow> Some (((w * 16 + x) * 16 + y) * 16 + z, rest)
           | _ \<Rightarrow> None)
      | _ \<Rightarrow> None)"

definition utf8 :: "nat \<Rightarrow> string" where
  "utf8 u = map char_of
     (if u < 128 then [u]
      else if u < 2048 then [192 + u div 64, 128 + u mod 64]
      else if u < 65536 then [224 + u div 4096, 128 + (u div 64) mod 64, 128 + u mod 64]
      else [240 + u div 262144, 128 + (u div 4096) mod 64, 128 + (u div 64) mod 64, 128 + u mod 64])"

text \<open>The code point of an escape \<open>\uXXXX\<close>, with the second half of a surrogate pair.\<close>

definition unicode_escape :: "string \<Rightarrow> (nat \<times> string) option" where
  "unicode_escape s =
     (case hex4 s of
        None \<Rightarrow> None
      | Some (u, rest) \<Rightarrow>
          if 0xD800 \<le> u \<and> u < 0xE000
          then (case rest of
                  bs # uu # rest' \<Rightarrow>
                    if code bs = 92 \<and> uu = CHR ''u''
                    then (case hex4 rest' of
                            Some (v, rest'') \<Rightarrow>
                              if u < 0xDC00 \<and> 0xDC00 \<le> v \<and> v < 0xE000
                              then Some ((u - 0xD800) * 1024 + (v - 0xDC00) + 0x10000, rest'')
                              else Some (0xFFFD, rest)
                          | None \<Rightarrow> None)
                    else Some (0xFFFD, rest)
                | _ \<Rightarrow> Some (0xFFFD, rest))
          else Some (u, rest))"

definition simple_escape :: "char \<Rightarrow> char option" where
  "simple_escape c =
     (if code c = 34 \<or> code c = 92 \<or> c = CHR ''/'' then Some c
      else if c = CHR ''b'' then Some (char_of (8::nat))
      else if c = CHR ''f'' then Some (char_of (12::nat))
      else if c = CHR ''n'' then Some (char_of (10::nat))
      else if c = CHR ''r'' then Some (char_of (13::nat))
      else if c = CHR ''t'' then Some (char_of (9::nat)) else None)"

text \<open>The rest of a string literal after its opening quote.\<close>

fun parse_string :: "nat \<Rightarrow> string \<Rightarrow> (string \<times> string) option" where
  "parse_string 0 s = None"
| "parse_string (Suc n) [] = None"
| "parse_string (Suc n) (c # s) =
     (if code c = 34 then Some ([], s)
      else if code c < 32 then None
      else if code c = 92
      then (case s of
              [] \<Rightarrow> None
            | e # s' \<Rightarrow>
                if e = CHR ''u''
                then (case unicode_escape s' of
                        None \<Rightarrow> None
                      | Some (u, rest) \<Rightarrow>
                          map_option (\<lambda>(t, r). (utf8 u @ t, r)) (parse_string n rest))
                else (case simple_escape e of
                        None \<Rightarrow> None
                      | Some d \<Rightarrow> map_option (\<lambda>(t, r). (d # t, r)) (parse_string n s')))
      else map_option (\<lambda>(t, r). (c # t, r)) (parse_string n s))"

definition string_lit :: "string \<Rightarrow> (string \<times> string) option" where
  "string_lit s =
     (case s of [] \<Rightarrow> None
      | c # s' \<Rightarrow> if code c = 34 then parse_string (Suc (length s')) s' else None)"

subsection \<open>Numbers\<close>

definition span_digits :: "string \<Rightarrow> string \<times> string" where
  "span_digits s = (takeWhile is_digit s, dropWhile is_digit s)"

definition parse_int_part :: "string \<Rightarrow> (string \<times> string) option" where
  "parse_int_part s =
     (let (sgn, s1) = (case s of c # r \<Rightarrow> if c = CHR ''-'' then ([c], r) else ([], s) | [] \<Rightarrow> ([], s))
      in case s1 of
           [] \<Rightarrow> None
         | c # r \<Rightarrow> if c = CHR ''0'' then Some (sgn @ [c], r)
                    else let (ds, r') = span_digits s1
                         in if ds = [] then None else Some (sgn @ ds, r'))"

definition parse_frac :: "string \<Rightarrow> (string \<times> string) option" where
  "parse_frac s =
     (case s of
        c # r \<Rightarrow> if c = CHR ''.''
                 then let (ds, r') = span_digits r in if ds = [] then None else Some (c # ds, r')
                 else Some ([], s)
      | [] \<Rightarrow> Some ([], s))"

definition parse_exp :: "string \<Rightarrow> (string \<times> string) option" where
  "parse_exp s =
     (case s of
        c # r \<Rightarrow>
          if c = CHR ''e'' \<or> c = CHR ''E''
          then let (sgn, r1) = (case r of d # r2 \<Rightarrow>
                                  if d = CHR ''+'' \<or> d = CHR ''-'' then ([d], r2) else ([], r)
                                | [] \<Rightarrow> ([], r));
                   (ds, r') = span_digits r1
               in if ds = [] then None else Some (c # sgn @ ds, r')
          else Some ([], s)
      | [] \<Rightarrow> Some ([], s))"

definition parse_number :: "string \<Rightarrow> (json \<times> string) option" where
  "parse_number s =
     (case parse_int_part s of
        None \<Rightarrow> None
      | Some (i, s1) \<Rightarrow>
          (case parse_frac s1 of
             None \<Rightarrow> None
           | Some (f, s2) \<Rightarrow>
               map_option (\<lambda>(e, s3). (JNum (i @ f @ e), s3)) (parse_exp s2)))"

subsection \<open>Values\<close>

definition literal :: "string \<Rightarrow> json \<Rightarrow> string \<Rightarrow> (json \<times> string) option" where
  "literal w j s = (if HasPrefix s w then Some (j, drop (length w) s) else None)"

definition expect :: "char \<Rightarrow> string \<Rightarrow> string option" where
  "expect c s = (case skip_space s of [] \<Rightarrow> None | d # r \<Rightarrow> if c = d then Some r else None)"

text \<open>
  A value; the elements of an array after an opening bracket or a comma; the members of an
  object after an opening brace or a comma.
\<close>

fun parse_value :: "nat \<Rightarrow> string \<Rightarrow> (json \<times> string) option"
  and parse_elements :: "nat \<Rightarrow> string \<Rightarrow> (json list \<times> string) option"
  and parse_members :: "nat \<Rightarrow> string \<Rightarrow> ((string \<times> json) list \<times> string) option" where
  "parse_value 0 s = None"
| "parse_value (Suc n) s =
     (case skip_space s of
        [] \<Rightarrow> None
      | c # r \<Rightarrow>
          if c = CHR ''{''
          then (case expect (CHR ''}'') r of
                  Some r' \<Rightarrow> Some (JObj [], r')
                | None \<Rightarrow> map_option (\<lambda>(ms, r'). (JObj ms, r')) (parse_members n r))
          else if c = CHR ''[''
          then (case expect (CHR '']'') r of
                  Some r' \<Rightarrow> Some (JArr [], r')
                | None \<Rightarrow> map_option (\<lambda>(js, r'). (JArr js, r')) (parse_elements n r))
          else if code c = 34 then map_option (\<lambda>(t, r'). (JStr t, r')) (string_lit (c # r))
          else if c = CHR ''t'' then literal ''true'' (JBool True) (c # r)
          else if c = CHR ''f'' then literal ''false'' (JBool False) (c # r)
          else if c = CHR ''n'' then literal ''null'' JNull (c # r)
          else parse_number (c # r))"
| "parse_elements 0 s = None"
| "parse_elements (Suc n) s =
     (case parse_value n s of
        None \<Rightarrow> None
      | Some (j, r) \<Rightarrow>
          (case expect (CHR '','') r of
             Some r' \<Rightarrow> map_option (\<lambda>(js, r''). (j # js, r'')) (parse_elements n r')
           | None \<Rightarrow> map_option (\<lambda>r'. ([j], r')) (expect (CHR '']'') r)))"
| "parse_members 0 s = None"
| "parse_members (Suc n) s =
     (case string_lit (skip_space s) of
        None \<Rightarrow> None
      | Some (k, r) \<Rightarrow>
          (case expect (CHR '':'') r of
             None \<Rightarrow> None
           | Some r1 \<Rightarrow>
               (case parse_value n r1 of
                  None \<Rightarrow> None
                | Some (j, r2) \<Rightarrow>
                    (case expect (CHR '','') r2 of
                       Some r3 \<Rightarrow> map_option (\<lambda>(ms, r4). ((k, j) # ms, r4)) (parse_members n r3)
                     | None \<Rightarrow> map_option (\<lambda>r3. ([(k, j)], r3)) (expect (CHR ''}'') r2)))))"

definition parse_json :: "string \<Rightarrow> json option" where
  "parse_json s =
     (case parse_value (2 * length s + 1) s of
        None \<Rightarrow> None
      | Some (j, r) \<Rightarrow> if skip_space r = [] then Some j else None)"

subsection \<open>Into a map\<close>

text \<open>
  A number must fit a \<open>float64\<close>: its value must be below the point halfway between the largest
  finite one and the next power of two.
\<close>

definition digits_value :: "string \<Rightarrow> nat" where
  "digits_value ds = foldl (\<lambda>n c. 10 * n + (code c - 48)) 0 (filter is_digit ds)"

definition exp_value :: "string \<Rightarrow> int" where
  "exp_value e =
     (case e of _ # c # r \<Rightarrow> (if c = CHR ''-'' then - 1 else 1) * int (digits_value (c # r)) | _ \<Rightarrow> 0)"

definition float_limit :: nat where
  "float_limit = 2 ^ 1024 - 2 ^ 970"

definition number_in_range :: "string \<Rightarrow> bool" where
  "number_in_range l =
     (case parse_int_part l of
        None \<Rightarrow> False
      | Some (i, s1) \<Rightarrow>
          (case parse_frac s1 of
             None \<Rightarrow> False
           | Some (f, s2) \<Rightarrow>
               (case parse_exp s2 of
                  None \<Rightarrow> False
                | Some (e, _) \<Rightarrow>
                    let m = digits_value (i @ f); k = exp_value e - int (length (filter is_digit f))
                    in m = 0 \<or> (if 0 \<le> k then m * 10 ^ nat k < float_limit
                                else m < float_limit * 10 ^ nat (- k)))))"

fun numbers_ok :: "json \<Rightarrow> bool" where
  "numbers_ok (JNum l) = number_in_range l"
| "numbers_ok (JArr js) = list_all numbers_ok js"
| "numbers_ok (JObj ms) = list_all (\<lambda>(k, v). numbers_ok v) ms"
| "numbers_ok _ = True"

text \<open>The members of a map, in the order of their names; of two members of a name the last one.\<close>

definition map_members :: "(string \<times> 'a) list \<Rightarrow> (string \<times> 'a) list" where
  "map_members ms = sort_key fst (AList.clearjunk (rev ms))"

text \<open>
  \<open>json.Unmarshal\<close> into a map: an object fills it, \<open>null\<close> makes it the nil map (the inner
  \<open>None\<close>), any other value and a number out of range are an error (the outer \<open>None\<close>). The
  limit of 10000 nested values is left out.
\<close>

type_synonym json_map = "(string \<times> json) list option"

definition Unmarshal_map :: "string \<Rightarrow> json_map option" where
  "Unmarshal_map s =
     (case parse_json s of
        None \<Rightarrow> None
      | Some j \<Rightarrow>
          if numbers_ok j
          then (case j of JObj ms \<Rightarrow> Some (Some (map_members ms)) | JNull \<Rightarrow> Some None | _ \<Rightarrow> None)
          else None)"

definition json_lookup :: "json_map \<Rightarrow> string \<Rightarrow> json option" where
  "json_lookup m k = (case m of None \<Rightarrow> None | Some ms \<Rightarrow> map_of ms k)"

subsection \<open>The fuel is enough\<close>

lemma skip_space_length: "length (skip_space s) \<le> length s"
  by (simp add: skip_space_def length_dropWhile_le)

lemma expect_length: "expect c s = Some r \<Longrightarrow> length r < length s"
  using skip_space_length [of s] by (auto simp: expect_def split: list.splits if_splits)

lemma hex4_length: "hex4 s = Some (u, r) \<Longrightarrow> length r < length s"
  by (auto simp: hex4_def split: list.splits option.splits)

lemma unicode_escape_length: "unicode_escape s = Some (u, r) \<Longrightarrow> length r < length s"
  by (auto simp: unicode_escape_def dest!: hex4_length split: list.splits option.splits if_splits)

lemma parse_string_length: "parse_string n s = Some (t, r) \<Longrightarrow> length r < length s"
proof (induction n s arbitrary: t r rule: parse_string.induct)
  case (3 n c s)
  then show ?case
    by (fastforce split: if_splits option.splits list.splits dest!: unicode_escape_length)
qed auto

lemma string_lit_length: "string_lit s = Some (t, r) \<Longrightarrow> length r < length s"
  by (auto simp: string_lit_def dest!: parse_string_length split: list.splits if_splits)

lemma span_digits_length: "span_digits s = (d, r) \<Longrightarrow> length s = length d + length r"
  unfolding span_digits_def by (metis Pair_inject length_append takeWhile_dropWhile_id)

lemma parse_int_part_length: "parse_int_part s = Some (t, r) \<Longrightarrow> length r < length s"
proof -
  have *: "span_digits u = (d, v) \<Longrightarrow> d \<noteq> [] \<Longrightarrow> length v < length u" for u d v
    using span_digits_length [of u d v] by (cases d) auto
  show "parse_int_part s = Some (t, r) \<Longrightarrow> length r < length s"
    by (auto simp: parse_int_part_def Let_def split: list.splits if_splits prod.splits dest!: *)
qed

lemma parse_frac_length: "parse_frac s = Some (t, r) \<Longrightarrow> length r \<le> length s"
  by (auto simp: parse_frac_def Let_def
      dest!: span_digits_length split: list.splits if_splits prod.splits)

lemma parse_exp_length: "parse_exp s = Some (t, r) \<Longrightarrow> length r \<le> length s"
  by (auto simp: parse_exp_def Let_def
      dest!: span_digits_length split: list.splits if_splits prod.splits)

lemma parse_number_length: "parse_number s = Some (j, r) \<Longrightarrow> length r < length s"
  by (fastforce simp: parse_number_def split: option.splits
      dest!: parse_int_part_length parse_frac_length parse_exp_length)

lemma literal_length: "w \<noteq> [] \<Longrightarrow> literal w j s = Some (k, r) \<Longrightarrow> length r < length s"
  by (auto simp: literal_def HasPrefix_def split: if_splits)
    (metis diff_less length_greater_0_conv take_eq_Nil2)

lemma parse_length:
  "parse_value n s = Some (j, r) \<Longrightarrow> length r < length s"
  "parse_elements n s = Some (js, r) \<Longrightarrow> length r < length s"
  "parse_members n s = Some (ms, r) \<Longrightarrow> length r < length s"
proof (induction n s and n s and n s arbitrary: j r and js r and ms r
    rule: parse_value_parse_elements_parse_members.induct)
  case (2 n s)
  obtain c u where c: "skip_space s = c # u"
    using 2(3) by (cases "skip_space s") auto
  then have l: "Suc (length u) \<le> length s" using skip_space_length [of s] by simp
  have el: "length r < length u"
    if "c = CHR ''[''" "expect (CHR '']'') u = None" "parse_elements n u = Some (js, r)" for js r
    using 2(2)[OF c _ that] that by simp
  have mem: "length r < length u"
    if "c = CHR ''{''" "expect (CHR ''}'') u = None" "parse_members n u = Some (ms, r)" for ms r
    using 2(1)[OF c that] .
  from 2(3) l show ?case
    by (auto simp: c split: if_splits option.splits dest!: expect_length string_lit_length
        literal_length [rotated] parse_number_length mem el)
next
  case (4 n s)
  then show ?case
    by (fastforce split: option.splits dest!: expect_length)
next
  case (6 n s)
  have l: "length (skip_space s) \<le> length s" by (rule skip_space_length)
  from 6 l show ?case
    by (fastforce split: option.splits dest!: expect_length string_lit_length)
qed auto

lemma parse_fuel_step:
  "(2 * length s + 1 \<le> n \<longrightarrow> parse_value (Suc n) s = parse_value n s)
   \<and> (2 * length s + 2 \<le> n \<longrightarrow> parse_elements (Suc n) s = parse_elements n s)
   \<and> (2 * length s + 2 \<le> n \<longrightarrow> parse_members (Suc n) s = parse_members n s)"
proof (induction n arbitrary: s)
  case (Suc n)
  have V: "2 * length t + 1 \<le> n \<Longrightarrow> parse_value (Suc n) t = parse_value n t"
    and E: "2 * length t + 2 \<le> n \<Longrightarrow> parse_elements (Suc n) t = parse_elements n t"
    and M: "2 * length t + 2 \<le> n \<Longrightarrow> parse_members (Suc n) t = parse_members n t" for t
    using Suc.IH by blast+
  have v: "parse_value (Suc (Suc n)) s = parse_value (Suc n) s" if "2 * length s + 1 \<le> Suc n"
  proof (cases "skip_space s")
    case (Cons c u)
    then have "2 * length u + 2 \<le> n" using that skip_space_length [of s] by simp
    with Cons show ?thesis by (simp only: parse_value.simps list.case E M)
  qed simp
  have e: "parse_elements (Suc (Suc n)) s = parse_elements (Suc n) s" if b: "2 * length s + 2 \<le> Suc n"
  proof (cases "parse_value n s")
    case (Some jr)
    obtain j r where jr: "jr = (j, r)" by (cases jr)
    have "length r < length s" using Some jr parse_length(1) by blast
    then have "expect (CHR '','') r = Some r' \<Longrightarrow> 2 * length r' + 2 \<le> n" for r'
      using b by (auto dest!: expect_length)
    then show ?thesis
      using b Some jr
      by (simp add: parse_elements.simps(2) [of "Suc n" s] parse_elements.simps(2) [of n s] V E
          del: parse_value.simps parse_elements.simps split: option.split)
  qed (use b in \<open>simp add: V del: parse_value.simps\<close>)
  have m: "parse_members (Suc (Suc n)) s = parse_members (Suc n) s" if b: "2 * length s + 2 \<le> Suc n"
  proof (cases "string_lit (skip_space s)")
    case (Some kr)
    obtain k r where kr: "kr = (k, r)" by (cases kr)
    have r: "length r < length s"
      using string_lit_length [OF Some [unfolded kr]] skip_space_length [of s] by simp
    have *: "2 * length r1 + 1 \<le> n" if "expect (CHR '':'') r = Some r1" for r1
      using expect_length [OF that] r b by simp
    have **: "2 * length r3 + 2 \<le> n"
      if "expect (CHR '':'') r = Some r1" "parse_value n r1 = Some (j, r2)"
        "expect (CHR '','') r2 = Some r3" for r1 j r2 r3
      using expect_length [OF that(1)] expect_length [OF that(3)] parse_length(1) [OF that(2)] r b by simp
    show ?thesis
      using Some kr V [OF *] M [OF **]
      by (simp add: parse_members.simps(2) [of "Suc n" s] parse_members.simps(2) [of n s]
          del: parse_value.simps parse_members.simps split: option.split)
  qed simp
  from v e m show ?case by blast
qed simp

text \<open>More fuel than \<open>parse_json\<close> gives changes nothing.\<close>

lemma parse_fuel_enough:
  "2 * length s + 1 \<le> n \<Longrightarrow> parse_value n s = parse_value (2 * length s + 1) s"
proof (induction rule: dec_induct)
  case (step n)
  then show ?case using parse_fuel_step [of s n] by simp
qed simp

end
