(* ===== verification/Api_Types.thy ===== *)
theory Api_Types
  imports Api_Config Go_Json Go_Hash Constants
begin

text \<open>
  The data of the operator. First the parts of the Kubernetes API types that the operator
  reads or writes, as records with the API's field names behind a prefix; a part that the
  operator only copies is an \<open>opaque\<close> value (its serialised form), and \<open>rest\<close> holds
  every field the operator never mentions. A \<open>resource.Quantity\<close> is kept as the text it
  was parsed from. Then the operator's own resources, from
  \<open>api/integreatly/v1alpha1/*_types.go\<close>, with the methods of these types.
\<close>

subsection \<open>Kubernetes types\<close>

type_synonym opaque = string

record ObjectMeta =
  om_Name :: string
  om_Namespace :: string
  om_Labels :: labels
  om_Annotations :: labels
  om_rest :: opaque

record ObjectKey =
  key_Namespace :: string
  key_Name :: string

record LabelSelector =
  sel_MatchLabels :: labels
  sel_MatchExpressions :: opaque

datatype IntOrString = FromInt int32 | FromString string

text \<open>\<open>intstr.FromInt\<close>, and the fields \<open>IntVal\<close> and \<open>StrVal\<close> of the struct.\<close>

definition intstr_FromInt :: "int \<Rightarrow> IntOrString" where
  "intstr_FromInt i = FromInt (to_int32 i)"

definition IntVal :: "IntOrString \<Rightarrow> int32" where
  "IntVal p = (case p of FromInt i \<Rightarrow> i | FromString _ \<Rightarrow> 0)"

definition StrVal :: "IntOrString \<Rightarrow> string" where
  "StrVal p = (case p of FromInt _ \<Rightarrow> [] | FromString s \<Rightarrow> s)"

datatype Quantity = MustParse string

record ResourceRequirements =
  rr_Requests :: "(string \<rightharpoonup> Quantity) option"
  rr_Limits :: "(string \<rightharpoonup> Quantity) option"

record ServicePort =
  sp_Name :: string
  sp_Protocol :: string
  sp_Port :: int32
  sp_TargetPort :: IntOrString
  sp_NodePort :: int32
  sp_rest :: opaque

datatype EnvValue = EnvLiteral string | EnvSecretKeyRef string string | EnvOther opaque

record EnvVar =
  env_Name :: string
  env_Value :: EnvValue

record EnvFromSource =
  ef_ConfigMapRef :: "string option"
  ef_SecretRef :: "string option"
  ef_rest :: opaque

datatype VolumeSource = EmptyDir | ConfigMapVolume string | PersistentVolumeClaimVolume string
  | SecretVolume string bool | OtherVolume opaque

record Volume =
  vol_Name :: string
  vol_Source :: VolumeSource

record VolumeMount =
  vm_Name :: string
  vm_ReadOnly :: bool
  vm_MountPath :: string
  vm_rest :: opaque

record Probe =
  pr_Path :: string
  pr_Port :: IntOrString
  pr_Scheme :: string
  pr_InitialDelaySeconds :: int32
  pr_TimeoutSeconds :: int32
  pr_PeriodSeconds :: int32
  pr_SuccessThreshold :: int32
  pr_FailureThreshold :: int32

record ContainerPort =
  cp_Name :: string
  cp_ContainerPort :: int32
  cp_Protocol :: string

record Container =
  co_Name :: string
  co_Image :: string
  co_Args :: "string list"
  co_WorkingDir :: string
  co_Ports :: "ContainerPort list"
  co_Env :: "EnvVar list"
  co_EnvFrom :: "EnvFromSource list"
  co_Resources :: ResourceRequirements
  co_VolumeMounts :: "VolumeMount list"
  co_LivenessProbe :: "Probe option"
  co_ReadinessProbe :: "Probe option"
  co_TerminationMessagePath :: string
  co_TerminationMessagePolicy :: string
  co_ImagePullPolicy :: string
  co_SecurityContext :: "opaque option"
  co_rest :: opaque

text \<open>
  The zero values \<open>v13.Affinity{}\<close>, \<open>v13.PodSecurityContext{}\<close> and \<open>v13.SecurityContext{}\<close>
  serialise to the empty object.
\<close>

definition empty_object :: opaque where
  "empty_object = ''{}''"

datatype DeploymentStrategy = RollingUpdate string IntOrString IntOrString | OtherStrategy opaque

subsection \<open>The Grafana resource\<close>

datatype StatusPhase = NoPhase | PhaseReconciling | PhaseFailing

record GrafanaPlugin =
  plugin_Name :: string
  plugin_Version :: string

type_synonym PluginList = "GrafanaPlugin list"

record ProbeSpec =
  ps_InitialDelaySeconds :: "int32 option"
  ps_TimeOutSeconds :: "int32 option"
  ps_PeriodSeconds :: "int32 option"
  ps_SuccessThreshold :: "int32 option"
  ps_FailureThreshold :: "int32 option"
  ps_Scheme :: string

record JsonnetConfig =
  jsonnet_LibraryLabelSelector :: "LabelSelector option"

record GrafanaClient =
  gc_TimeoutSeconds :: "int option"
  gc_PreferService :: "bool option"

record GrafanaService =
  gs_Name :: string
  gs_Annotations :: labels
  gs_Labels :: labels
  gs_Type :: string
  gs_Ports :: "ServicePort list"
  gs_ClusterIP :: string

record GrafanaDataStorage =
  ds_Annotations :: labels
  ds_Labels :: labels
  ds_AccessModes :: "string list"
  ds_Size :: Quantity
  ds_Class :: string

record GrafanaServiceAccount =
  gsa_Skip :: "bool option"
  gsa_Annotations :: labels
  gsa_Labels :: labels
  gsa_ImagePullSecrets :: "string list"

record GrafanaHttpProxy =
  proxy_Enabled :: bool
  proxy_URL :: string

record GrafanaDeployment =
  gd_Annotations :: labels
  gd_Labels :: labels
  gd_Replicas :: "int32 option"
  gd_NodeSelector :: labels
  gd_Tolerations :: "opaque list"
  gd_Affinity :: "opaque option"
  gd_SecurityContext :: "opaque option"
  gd_ContainerSecurityContext :: "opaque option"
  gd_TerminationGracePeriodSeconds :: "int option"
  gd_EnvFrom :: "EnvFromSource list"
  gd_Env :: "EnvVar list"
  gd_SkipCreateAdminAccount :: "bool option"
  gd_PriorityClassName :: string
  gd_HostNetwork :: "bool option"
  gd_ExtraVolumes :: "Volume list"
  gd_ExtraVolumeMounts :: "VolumeMount list"
  gd_Strategy :: "DeploymentStrategy option"
  gd_HttpProxy :: "GrafanaHttpProxy option"

record GrafanaIngress =
  gi_Annotations :: labels
  gi_Hostname :: string
  gi_Labels :: labels
  gi_Path :: string
  gi_Enabled :: bool
  gi_TLSEnabled :: bool
  gi_TLSSecretName :: string
  gi_TargetPort :: string
  gi_Termination :: string
  gi_IngressClassName :: string
  gi_PathType :: string

record GrafanaSpec =
  spec_Config :: GrafanaConfig
  spec_Containers :: "Container list"
  spec_DashboardLabelSelector :: "LabelSelector list option"
  spec_Ingress :: "GrafanaIngress option"
  spec_InitResources :: "ResourceRequirements option"
  spec_Secrets :: "string list"
  spec_ConfigMaps :: "string list"
  spec_Service :: "GrafanaService option"
  spec_Deployment :: "GrafanaDeployment option"
  spec_Resources :: "ResourceRequirements option"
  spec_ServiceAccount :: "GrafanaServiceAccount option"
  spec_Client :: "GrafanaClient option"
  spec_DashboardNamespaceSelector :: "LabelSelector option"
  spec_DataStorage :: "GrafanaDataStorage option"
  spec_Jsonnet :: "JsonnetConfig option"
  spec_BaseImage :: string
  spec_InitImage :: string
  spec_LivenessProbeSpec :: "ProbeSpec option"
  spec_ReadinessProbeSpec :: "ProbeSpec option"

record GrafanaDashboardRef =
  ref_Name :: string
  ref_Namespace :: string
  ref_UID :: string
  ref_Hash :: string
  ref_FolderId :: "int option"
  ref_FolderName :: string

record GrafanaStatus =
  st_Phase :: StatusPhase
  st_PreviousServiceName :: string
  st_Message :: string
  st_InstalledDashboards :: "GrafanaDashboardRef list"
  st_InstalledPlugins :: PluginList
  st_FailedPlugins :: PluginList

record Grafana =
  meta :: ObjectMeta
  Spec :: GrafanaSpec
  Status :: GrafanaStatus

definition GetPreferServiceValue :: "Grafana \<Rightarrow> bool" where
  "GetPreferServiceValue cr =
     (case spec_Client (Spec cr) of
        Some c \<Rightarrow> (case gc_PreferService c of Some b \<Rightarrow> b | None \<Rightarrow> False)
      | None \<Rightarrow> False)"

definition UsedPersistentVolume :: "Grafana \<Rightarrow> bool" where
  "UsedPersistentVolume g \<longleftrightarrow> spec_DataStorage (Spec g) \<noteq> None"

subsection \<open>Dashboards\<close>

record GrafanaDashboardDatasource =
  InputName :: string
  DatasourceName :: string

record GrafanaComSource =
  com_Id :: int
  com_Revision :: "int option"

record ConfigMapKeySelector =
  cmk_Name :: string
  cmk_Key :: string

record GrafanaDashboardSpec =
  dash_Json :: string
  dash_Jsonnet :: string
  dash_Plugins :: PluginList
  dash_Url :: string
  dash_ConfigMapRef :: "ConfigMapKeySelector option"
  dash_Datasources :: "GrafanaDashboardDatasource list"
  dash_CustomFolderName :: string
  dash_GrafanaCom :: "GrafanaComSource option"

record GrafanaDashboard =
  dash_meta :: ObjectMeta
  dash_Spec :: GrafanaDashboardSpec

text \<open>The bytes that \<open>Hash\<close> writes into the digest, and the digest.\<close>

definition hash_input :: "GrafanaDashboard \<Rightarrow> string" where
  "hash_input d =
     (let s = dash_Spec d in
      concat (map (\<lambda>i. DatasourceName i @ InputName i) (dash_Datasources s))
      @ dash_Json s @ dash_Url s @ dash_Jsonnet s @ om_Namespace (dash_meta d)
      @ dash_CustomFolderName s
      @ (case dash_ConfigMapRef s of None \<Rightarrow> [] | Some r \<Rightarrow> cmk_Name r @ cmk_Key r)
      @ (case dash_GrafanaCom s of
           None \<Rightarrow> []
         | Some c \<Rightarrow> Itoa (com_Id c)
             @ (case com_Revision c of None \<Rightarrow> [] | Some r \<Rightarrow> Itoa r)))"

definition Hash :: "GrafanaDashboard \<Rightarrow> string" where
  "Hash d = sha256_hex (hash_input d)"

definition Parse :: "GrafanaDashboard \<Rightarrow> string \<Rightarrow> json_map option" where
  "Parse d optional = Unmarshal_map (if optional \<noteq> [] then optional else dash_Json (dash_Spec d))"

text \<open>
  The uid that the user gave in the json, which must be a string, or else the digest of the
  namespace and the name.
\<close>

definition UID :: "GrafanaDashboard \<Rightarrow> string go" where
  "UID d =
     (let default = sha1_hex (om_Namespace (dash_meta d) @ om_Name (dash_meta d))
      in case Parse d [] of
           None \<Rightarrow> Inr default
         | Some content \<Rightarrow>
             (case json_lookup content ''uid'' of
                None \<Rightarrow> Inr default
              | Some JNull \<Rightarrow> Inr default
              | Some (JStr u) \<Rightarrow> Inr (if u = [] then default else u)
              | Some _ \<Rightarrow> Inl TypeAssertion))"

subsection \<open>Notification channels\<close>

record NotificationChannelStatus =
  nc_Phase :: StatusPhase
  nc_UID :: string
  nc_ID :: int
  nc_Message :: string
  nc_Hash :: string

record NotificationChannel =
  nc_meta :: ObjectMeta
  nc_Json :: string
  nc_Name :: string
  nc_Status :: NotificationChannelStatus

record NotificationChannelRef =
  ncr_Name :: string
  ncr_Namespace :: string
  ncr_UID :: string
  ncr_Hash :: string

subsection \<open>Label selectors\<close>

text \<open>
  \<open>metav1.LabelSelectorAsSelector\<close> and the methods of its result are the library's: the
  parameter \<open>as_selector\<close> gives an error or the selector's \<open>Empty\<close> and \<open>Matches\<close>.
\<close>

record selector =
  Empty :: bool
  Matches :: "labels \<Rightarrow> bool"

definition matchesSelector :: "(LabelSelector \<Rightarrow> string + selector) \<Rightarrow> labels \<Rightarrow> LabelSelector
    \<Rightarrow> string + bool" where
  "matchesSelector as_selector ls s =
     (case as_selector s of
        Inl err \<Rightarrow> Inl err
      | Inr selector \<Rightarrow> Inr (Empty selector \<or> Matches selector ls))"

text \<open>The loop of \<open>MatchesSelectors\<close>, which stops at the first selector with an error.\<close>

fun matches_loop :: "(LabelSelector \<Rightarrow> string + selector) \<Rightarrow> labels \<Rightarrow> bool \<Rightarrow> LabelSelector list
    \<Rightarrow> string + bool" where
  "matches_loop as_selector ls result [] = Inr result"
| "matches_loop as_selector ls result (s # ss) =
     (case matchesSelector as_selector ls s of
        Inl err \<Rightarrow> Inl err
      | Inr match \<Rightarrow> matches_loop as_selector ls (result \<or> match) ss)"

definition MatchesSelectors :: "(LabelSelector \<Rightarrow> string + selector) \<Rightarrow> GrafanaDashboard
    \<Rightarrow> LabelSelector list \<Rightarrow> string + bool" where
  "MatchesSelectors as_selector d ss = matches_loop as_selector (om_Labels (dash_meta d)) False ss"

definition nc_MatchesSelectors :: "(LabelSelector \<Rightarrow> string + selector) \<Rightarrow> NotificationChannel
    \<Rightarrow> LabelSelector list \<Rightarrow> string + bool" where
  "nc_MatchesSelectors as_selector d ss = matches_loop as_selector (om_Labels (nc_meta d)) False ss"

end
