(* ===== verification/Plugins.thy ===== *)
theory Plugins
  imports Api_Types
begin

text \<open>
  Plugin consolidation: \<open>api/integreatly/v1alpha1/pluginsList.go\<close>,
  \<open>controllers/grafana/pluginsHelper.go\<close> and \<open>reconcilePlugins\<close> of
  \<open>controllers/grafana/grafana_reconciler.go\<close>. The library semver is the parameter
  \<open>mk\<close> (\<open>semver.Make\<close>, an error or a version) with \<open>cmp\<close> (\<open>Version.Compare\<close>); the
  HTTP client is the parameter \<open>get\<close>, the status code or an error for a URL. Log lines are
  left out.
\<close>

subsection \<open>Plugin lists\<close>

definition HasSomeVersionOf :: "PluginList \<Rightarrow> GrafanaPlugin \<Rightarrow> bool" where
  "HasSomeVersionOf l plugin = list_ex (\<lambda>p. plugin_Name p = plugin_Name plugin) l"

definition GetInstalledVersionOf :: "PluginList \<Rightarrow> GrafanaPlugin \<Rightarrow> GrafanaPlugin option" where
  "GetInstalledVersionOf l plugin = List.find (\<lambda>p. plugin_Name p = plugin_Name plugin) l"

definition HasExactVersionOf :: "PluginList \<Rightarrow> GrafanaPlugin \<Rightarrow> bool" where
  "HasExactVersionOf l plugin =
     list_ex (\<lambda>p. plugin_Name p = plugin_Name plugin \<and> plugin_Version p = plugin_Version plugin) l"

fun HasNewerVersionOf :: "(string \<Rightarrow> string + 'v) \<Rightarrow> ('v \<Rightarrow> 'v \<Rightarrow> int) \<Rightarrow> PluginList
    \<Rightarrow> GrafanaPlugin \<Rightarrow> string + bool" where
  "HasNewerVersionOf mk cmp [] plugin = Inr False"
| "HasNewerVersionOf mk cmp (p # l) plugin =
     (if plugin_Name p \<noteq> plugin_Name plugin then HasNewerVersionOf mk cmp l plugin
      else (case mk (plugin_Version p) of
              Inl err \<Rightarrow> Inl err
            | Inr listed \<Rightarrow>
                (case mk (plugin_Version plugin) of
                   Inl err \<Rightarrow> Inl err
                 | Inr requested \<Rightarrow>
                     if cmp listed requested = 1 then Inr True
                     else HasNewerVersionOf mk cmp l plugin)))"

definition VersionsOf :: "PluginList \<Rightarrow> GrafanaPlugin \<Rightarrow> nat" where
  "VersionsOf l plugin = length (filter (\<lambda>p. plugin_Name p = plugin_Name plugin) l)"

subsection \<open>The plugins helper\<close>

definition plugin_url :: "GrafanaPlugin \<Rightarrow> string" where
  "plugin_url p =
     ''https://grafana.com/api/plugins/'' @ plugin_Name p @ ''/versions/'' @ plugin_Version p"

definition PluginExists :: "(string \<Rightarrow> string + int) \<Rightarrow> GrafanaPlugin \<Rightarrow> bool" where
  "PluginExists get p = (case get (plugin_url p) of Inl err \<Rightarrow> False | Inr status \<Rightarrow> status = 200)"

definition BuildEnv :: "Grafana \<Rightarrow> string" where
  "BuildEnv cr =
     Join '','' (map (\<lambda>p. plugin_Name p @ '':'' @ plugin_Version p) (st_InstalledPlugins (Status cr)))"

text \<open>The loop over the requested plugins, given the whole list and what is picked so far.\<close>

fun pick_loop :: "(string \<Rightarrow> string + 'v) \<Rightarrow> ('v \<Rightarrow> 'v \<Rightarrow> int) \<Rightarrow> PluginList \<Rightarrow> PluginList
    \<Rightarrow> PluginList \<Rightarrow> PluginList \<times> string option" where
  "pick_loop mk cmp requested latest [] = (latest, None)"
| "pick_loop mk cmp requested latest (p # ps) =
     (case HasNewerVersionOf mk cmp requested p of
        Inl err \<Rightarrow> (requested, Some err)
      | Inr True \<Rightarrow> pick_loop mk cmp requested latest ps
      | Inr False \<Rightarrow> pick_loop mk cmp requested (latest @ [p]) ps)"

definition pickLatestVersions :: "(string \<Rightarrow> string + 'v) \<Rightarrow> ('v \<Rightarrow> 'v \<Rightarrow> int) \<Rightarrow> PluginList
    \<Rightarrow> PluginList \<times> string option" where
  "pickLatestVersions mk cmp requested = pick_loop mk cmp requested [] requested"

text \<open>
  One requested plugin: the filtered list and whether plugins were updated, after it. The
  branches are the \<open>continue\<close> statements of the loop, in order.
\<close>

definition filter_step :: "GrafanaStatus \<Rightarrow> PluginList \<Rightarrow> PluginList \<times> bool \<Rightarrow> GrafanaPlugin
    \<Rightarrow> PluginList \<times> bool" where
  "filter_step st requested acc p =
     (let (filtered, updated) = acc in
      if HasSomeVersionOf filtered p then (filtered, updated)
      else if HasExactVersionOf (st_FailedPlugins st) p then (filtered, updated)
      else if HasExactVersionOf (st_InstalledPlugins st) p then (filtered @ [p], updated)
      else if \<not> HasSomeVersionOf (st_InstalledPlugins st) p then (filtered @ [p], True)
      else if HasSomeVersionOf (st_InstalledPlugins st) p
              \<and> \<not> HasExactVersionOf (st_InstalledPlugins st) p
              \<and> VersionsOf requested p = 1
      then (filtered @ [p], True)
      else (filtered, updated))"

definition FilterPlugins :: "(string \<Rightarrow> string + 'v) \<Rightarrow> ('v \<Rightarrow> 'v \<Rightarrow> int) \<Rightarrow> Grafana \<Rightarrow> PluginList
    \<Rightarrow> PluginList \<times> bool" where
  "FilterPlugins mk cmp cr requested0 =
     (let st = Status cr;
          requested = fst (pickLatestVersions mk cmp requested0)
      in if requested = [] \<and> st_InstalledPlugins st \<noteq> [] then ([], True)
         else let (filtered, updated) = foldl (filter_step st requested) ([], False) requested
              in (filtered,
                  updated \<or> list_ex (\<lambda>p. \<not> HasSomeVersionOf requested p) (st_InstalledPlugins st)))"

definition reconcilePlugins :: "(GrafanaPlugin \<Rightarrow> bool) \<Rightarrow> Grafana \<Rightarrow> PluginList \<Rightarrow> Grafana" where
  "reconcilePlugins exists cr plugins =
     cr\<lparr>Status := (Status cr)
          \<lparr>st_InstalledPlugins := filter exists plugins,
           st_FailedPlugins := filter (\<lambda>p. \<not> exists p) plugins\<rparr>\<rparr>"

subsection \<open>Facts about plugin lists\<close>

lemma HasSomeVersionOf_iff:
  "HasSomeVersionOf l p \<longleftrightarrow> plugin_Name p \<in> plugin_Name ` set l"
  unfolding HasSomeVersionOf_def list_ex_iff image_iff by metis

lemma GrafanaPlugin_eqI:
  "plugin_Name p = plugin_Name q \<Longrightarrow> plugin_Version p = plugin_Version q \<Longrightarrow> p = (q :: GrafanaPlugin)"
  by simp

lemma HasExactVersionOf_iff: "HasExactVersionOf l p \<longleftrightarrow> p \<in> set l"
  unfolding HasExactVersionOf_def list_ex_iff by (metis GrafanaPlugin_eqI)

lemma GetInstalledVersionOf_iff:
  "(\<exists>q. GetInstalledVersionOf l p = Some q) \<longleftrightarrow> HasSomeVersionOf l p"
  unfolding GetInstalledVersionOf_def HasSomeVersionOf_def list_ex_iff
  using find_None_iff [of "\<lambda>q. plugin_Name q = plugin_Name p" l]
  by (metis not_Some_eq)

lemma HasNewerVersionOf_True:
  assumes "HasNewerVersionOf mk cmp l p = Inr True"
  shows "\<exists>q \<in> set l. plugin_Name q = plugin_Name p
           \<and> (\<exists>v w. mk (plugin_Version q) = Inr v \<and> mk (plugin_Version p) = Inr w \<and> cmp v w = 1)"
  using assms by (induction l) (auto split: if_splits sum.splits)

lemma HasNewerVersionOf_False:
  assumes "HasNewerVersionOf mk cmp l p = Inr False" "q \<in> set l" "plugin_Name q = plugin_Name p"
  shows "\<exists>v w. mk (plugin_Version q) = Inr v \<and> mk (plugin_Version p) = Inr w \<and> cmp v w \<noteq> 1"
  using assms by (induction l) (auto split: if_splits sum.splits)

lemma pick_loop_ok:
  "pick_loop mk cmp requested latest ps = (r, None) \<Longrightarrow>
   r = latest @ filter (\<lambda>p. HasNewerVersionOf mk cmp requested p = Inr False) ps
   \<and> (\<forall>p \<in> set ps. \<exists>b. HasNewerVersionOf mk cmp requested p = Inr b)"
proof (induction ps arbitrary: latest)
  case (Cons p ps)
  then consider
      "HasNewerVersionOf mk cmp requested p = Inr True" "pick_loop mk cmp requested latest ps = (r, None)"
    | "HasNewerVersionOf mk cmp requested p = Inr False"
      "pick_loop mk cmp requested (latest @ [p]) ps = (r, None)"
    by (auto split: sum.splits bool.splits)
  then show ?case by cases (use Cons.IH in \<open>force+\<close>)
qed simp

lemma pick_loop_err:
  "pick_loop mk cmp requested latest ps = (r, Some e) \<Longrightarrow> r = requested"
  by (induction ps arbitrary: latest) (auto split: sum.splits bool.splits)

lemma pickLatestVersions_ok:
  "pickLatestVersions mk cmp requested = (r, None) \<Longrightarrow>
   r = filter (\<lambda>p. HasNewerVersionOf mk cmp requested p = Inr False) requested
   \<and> (\<forall>p \<in> set requested. \<exists>b. HasNewerVersionOf mk cmp requested p = Inr b)"
  unfolding pickLatestVersions_def by (drule pick_loop_ok) simp

lemma pickLatestVersions_subset: "set (fst (pickLatestVersions mk cmp requested)) \<subseteq> set requested"
proof (cases "pickLatestVersions mk cmp requested")
  case (Pair r e)
  then show ?thesis
    by (cases e) (auto dest: pick_loop_ok pick_loop_err simp: pickLatestVersions_def)
qed

lemma foldl_filter_invariant:
  assumes "distinct (map plugin_Name F)" "set F \<subseteq> S" "set ps \<subseteq> S"
    "set F \<inter> set (st_FailedPlugins st) = {}"
    "foldl (filter_step st requested) (F, u) ps = (F', u')"
  shows "distinct (map plugin_Name F') \<and> set F' \<subseteq> S \<and> set F' \<inter> set (st_FailedPlugins st) = {}"
  using assms
proof (induction ps arbitrary: F u)
  case (Cons p ps)
  obtain G v where G: "filter_step st requested (F, u) p = (G, v)" by fastforce
  have "distinct (map plugin_Name G)" "set G \<subseteq> S" "set G \<inter> set (st_FailedPlugins st) = {}"
    using G Cons.prems(1-4)
    by (auto simp: filter_step_def HasSomeVersionOf_iff HasExactVersionOf_iff split: if_splits)
  with Cons.IH [of G v] Cons.prems(3,5) G show ?case by simp
qed simp

lemma FilterPlugins_facts:
  assumes "FilterPlugins mk cmp cr requested = (F, u)"
  shows "distinct (map plugin_Name F)" "set F \<subseteq> set requested"
    "set F \<inter> set (st_FailedPlugins (Status cr)) = {}"
proof -
  let ?r = "fst (pickLatestVersions mk cmp requested)"
  have "distinct (map plugin_Name F) \<and> set F \<subseteq> set ?r \<and> set F \<inter> set (st_FailedPlugins (Status cr)) = {}"
    using assms foldl_filter_invariant [of "[]" "set ?r" ?r "Status cr" ?r False]
    by (auto simp: FilterPlugins_def Let_def split: if_splits prod.splits)
  with pickLatestVersions_subset [of mk cmp requested]
  show "distinct (map plugin_Name F)" "set F \<subseteq> set requested"
    "set F \<inter> set (st_FailedPlugins (Status cr)) = {}"
    by auto
qed


text \<open>What the documentation of semver says of \<open>Compare\<close>: newer is a strict order.\<close>

definition compare_laws :: "('v \<Rightarrow> 'v \<Rightarrow> int) \<Rightarrow> bool" where
  "compare_laws cmp \<longleftrightarrow>
     (\<forall>v. cmp v v \<noteq> 1) \<and> (\<forall>u v w. cmp u v = 1 \<longrightarrow> cmp v w = 1 \<longrightarrow> cmp u w = 1)"

definition newer :: "(string \<Rightarrow> string + 'v) \<Rightarrow> ('v \<Rightarrow> 'v \<Rightarrow> int) \<Rightarrow> GrafanaPlugin \<Rightarrow> GrafanaPlugin \<Rightarrow> bool" where
  "newer mk cmp p q \<longleftrightarrow>
     (case (mk (plugin_Version p), mk (plugin_Version q)) of
        (Inr v, Inr w) \<Rightarrow> cmp v w = 1 | _ \<Rightarrow> False)"

lemma newer_order:
  assumes "compare_laws cmp"
  shows "newer mk cmp p q \<Longrightarrow> \<not> newer mk cmp q p"
    "newer mk cmp p q \<Longrightarrow> newer mk cmp q r \<Longrightarrow> newer mk cmp p r"
  using assms unfolding compare_laws_def newer_def by (auto split: sum.splits)

lemma HasNewerVersionOf_newer:
  assumes "HasNewerVersionOf mk cmp l p = Inr b"
  shows "b \<longleftrightarrow> (\<exists>q \<in> set l. plugin_Name q = plugin_Name p \<and> newer mk cmp q p)"
proof (cases b)
  case True
  with assms HasNewerVersionOf_True [of mk cmp l p] show ?thesis
    by (fastforce simp: newer_def)
next
  case False
  with assms HasNewerVersionOf_False [of mk cmp l p] show ?thesis
    by (fastforce simp: newer_def)
qed

lemma maximal_version:
  assumes "compare_laws cmp" "p \<in> set l"
  obtains q where "q \<in> set l" "plugin_Name q = plugin_Name p"
    "\<forall>x \<in> set l. plugin_Name x = plugin_Name p \<longrightarrow> \<not> newer mk cmp x q"
proof -
  let ?A = "{x \<in> set l. plugin_Name x = plugin_Name p}"
  let ?R = "\<lambda>x y. newer mk cmp y x"
  have "\<exists>q \<in> ?A. \<forall>x \<in> ?A. x \<noteq> q \<longrightarrow> \<not> ?R q x"
  proof (rule Finite_Set.bex_max_element)
    show "finite ?A" "?A \<noteq> {}" using assms(2) by auto
    show "asymp_on ?A ?R" using newer_order(1) [OF assms(1)] by (auto intro: asymp_onI)
    show "transp_on ?A ?R" using newer_order(2) [OF assms(1)] by (blast intro: transp_onI)
  qed
  then obtain q where q: "q \<in> ?A" "\<forall>x \<in> ?A. x \<noteq> q \<longrightarrow> \<not> newer mk cmp x q" by blast
  moreover have "\<not> newer mk cmp q q" using newer_order(1) [OF assms(1), of mk q q] by blast
  ultimately show thesis using that [of q] by (metis (mono_tags, lifting) mem_Collect_eq)
qed

text \<open>Rounds of reconciliation: filter the request and, if something changes, apply it.\<close>

definition plugin_round :: "(string \<Rightarrow> string + 'v) \<Rightarrow> ('v \<Rightarrow> 'v \<Rightarrow> int) \<Rightarrow> (GrafanaPlugin \<Rightarrow> bool)
    \<Rightarrow> PluginList \<Rightarrow> Grafana \<Rightarrow> Grafana \<times> bool" where
  "plugin_round mk cmp exists requested cr =
     (let (filtered, updated) = FilterPlugins mk cmp cr requested
      in (if updated then reconcilePlugins exists cr filtered else cr, updated))"

lemma pickLatestVersions_distinct:
  assumes "distinct (map plugin_Name requested)" "compare_laws cmp"
  shows "fst (pickLatestVersions mk cmp requested) = requested"
proof (cases "pickLatestVersions mk cmp requested")
  case (Pair r e)
  have self: "p \<in> set requested \<Longrightarrow> HasNewerVersionOf mk cmp requested p \<noteq> Inr True" for p
  proof
    assume "p \<in> set requested" "HasNewerVersionOf mk cmp requested p = Inr True"
    then obtain q where "q \<in> set requested" "plugin_Name q = plugin_Name p" "newer mk cmp q p"
      using HasNewerVersionOf_newer by fastforce
    then show False
      using assms \<open>p \<in> set requested\<close> newer_order(1) [OF assms(2), of mk q p]
      by (metis eq_key_imp_eq_value distinct_map inj_onD)
  qed
  show ?thesis
  proof (cases e)
    case None
    with Pair pickLatestVersions_ok [of mk cmp requested r]
    have "r = filter (\<lambda>p. HasNewerVersionOf mk cmp requested p = Inr False) requested"
      "\<forall>p \<in> set requested. \<exists>b. HasNewerVersionOf mk cmp requested p = Inr b" by simp_all
    moreover have "HasNewerVersionOf mk cmp requested p = Inr False" if "p \<in> set requested" for p
      using that self [OF that] calculation(2) by (metis (full_types))
    ultimately have "r = requested" by (simp add: filter_id_conv)
    then show ?thesis using Pair by simp
  next
    case (Some err)
    with Pair show ?thesis by (simp add: pickLatestVersions_def pick_loop_err)
  qed
qed

lemma filter_all:
  assumes "distinct (map plugin_Name (F @ ps))" "st_FailedPlugins st = []"
    "\<forall>p \<in> set ps. VersionsOf requested p = 1"
  shows "fst (foldl (filter_step st requested) (F, u) ps) = F @ ps"
  using assms
proof (induction ps arbitrary: F u)
  case (Cons p ps)
  have "fst (filter_step st requested (F, u) p) = F @ [p]"
    using Cons.prems
    by (auto simp: filter_step_def HasSomeVersionOf_iff HasExactVersionOf_iff)
  then obtain v where "filter_step st requested (F, u) p = (F @ [p], v)"
    by (metis prod.collapse)
  with Cons show ?case by simp
qed simp

lemma filter_none:
  assumes "set ps \<subseteq> set (st_FailedPlugins st) \<union> set (st_InstalledPlugins st)"
  shows "snd (foldl (filter_step st requested) (F, u) ps) = u"
  using assms
proof (induction ps arbitrary: F)
  case (Cons p ps)
  have "snd (filter_step st requested (F, u) p) = u"
    using Cons.prems by (auto simp: filter_step_def HasExactVersionOf_iff)
  then obtain G where "filter_step st requested (F, u) p = (G, u)"
    by (cases "filter_step st requested (F, u) p") simp
  with Cons show ?case by simp
qed simp

lemma VersionsOf_distinct:
  assumes "distinct (map plugin_Name l)" "p \<in> set l"
  shows "VersionsOf l p = 1"
  using assms
proof (induction l)
  case (Cons q l)
  then show ?case
  proof (cases "q = p")
    case True
    have "filter (\<lambda>r. plugin_Name r = plugin_Name p) l = []"
      using Cons.prems(1) True by (force simp: filter_empty_conv image_iff)
    with True show ?thesis by (simp add: VersionsOf_def)
  next
    case False
    with Cons have "plugin_Name q \<noteq> plugin_Name p" "VersionsOf l p = 1" by force+
    then show ?thesis by (simp add: VersionsOf_def)
  qed
qed simp

subsection \<open>Properties\<close>

text \<open>
  C19: whatever the dashboards request and whatever the status of the instance is, the plugins
  that the operator decides to install are requested ones, at most one version of each plugin,
  and none whose installation failed before.
\<close>

theorem filter_plugins_sound:
  "FilterPlugins mk cmp cr requested = (F, u) \<Longrightarrow>
   distinct (map plugin_Name F) \<and> set F \<subseteq> set requested
   \<and> set F \<inter> set (st_FailedPlugins (Status cr)) = {}"
  using FilterPlugins_facts by blast

definition plugin :: "string \<Rightarrow> string \<Rightarrow> GrafanaPlugin" where
  "plugin n v = \<lparr>plugin_Name = n, plugin_Version = v\<rparr>"

text \<open>An instance without configuration, and versions that are numbers, for the examples.\<close>

definition bare_spec :: GrafanaSpec where
  "bare_spec =
     \<lparr>spec_Config = zero_GrafanaConfig, spec_Containers = [], spec_DashboardLabelSelector = None,
      spec_Ingress = None, spec_InitResources = None, spec_Secrets = [], spec_ConfigMaps = [],
      spec_Service = None, spec_Deployment = None, spec_Resources = None,
      spec_ServiceAccount = None, spec_Client = None, spec_DashboardNamespaceSelector = None,
      spec_DataStorage = None, spec_Jsonnet = None, spec_BaseImage = [], spec_InitImage = [],
      spec_LivenessProbeSpec = None, spec_ReadinessProbeSpec = None\<rparr>"

definition bare_grafana :: Grafana where
  "bare_grafana =
     \<lparr>meta = \<lparr>om_Name = ''g'', om_Namespace = ''ns'', om_Labels = None, om_Annotations = None,
              om_rest = []\<rparr>,
      Spec = bare_spec,
      Status = \<lparr>st_Phase = NoPhase, st_PreviousServiceName = [], st_Message = [],
                st_InstalledDashboards = [], st_InstalledPlugins = [], st_FailedPlugins = []\<rparr>\<rparr>"

definition number_version :: "string \<Rightarrow> string + int" where
  "number_version s = (case Atoi s of None \<Rightarrow> Inl ''invalid'' | Some i \<Rightarrow> Inr i)"

definition number_compare :: "int \<Rightarrow> int \<Rightarrow> int" where
  "number_compare v w = (if v < w then -1 else if v = w then 0 else 1)"

lemma number_compare_laws: "compare_laws number_compare"
  by (auto simp: compare_laws_def number_compare_def)

lemma filter_plugins_sound_witness:
  "distinct (map plugin_Name (fst (FilterPlugins number_version number_compare bare_grafana
     [plugin ''a'' ''1'', plugin ''a'' ''2'', plugin ''b'' ''1''])))"
  using filter_plugins_sound [OF prod.collapse [symmetric]] by blast





text \<open>
  C0: the value of GRAFANA_PLUGINS can be split back into the installed plugins: commas
  separate the entries, and an entry is a name, a colon and a version; provided no name or
  version holds a comma and no name a colon.
\<close>

definition read_plugin :: "string \<Rightarrow> GrafanaPlugin" where
  "read_plugin s = plugin (takeWhile (\<lambda>c. c \<noteq> CHR '':'') s) (tl (dropWhile (\<lambda>c. c \<noteq> CHR '':'') s))"

theorem build_env_roundtrip:
  assumes "\<forall>p \<in> set (st_InstalledPlugins (Status cr)).
      CHR '','' \<notin> set (plugin_Name p) \<and> CHR '','' \<notin> set (plugin_Version p) \<and> CHR '':'' \<notin> set (plugin_Name p)"
    "st_InstalledPlugins (Status cr) \<noteq> []"
  shows "map read_plugin (Split (CHR '','') (BuildEnv cr)) = st_InstalledPlugins (Status cr)"
proof -
  let ?l = "st_InstalledPlugins (Status cr)"
  let ?e = "\<lambda>p. plugin_Name p @ '':'' @ plugin_Version p"
  have "Split (CHR '','') (BuildEnv cr) = map ?e ?l"
    unfolding BuildEnv_def using assms by (intro Split_Join) auto
  moreover have "read_plugin (?e p) = p" if "p \<in> set ?l" for p
  proof -
    have "\<And>c. c \<in> set (plugin_Name p) \<Longrightarrow> c \<noteq> CHR '':''" using assms(1) that by blast
    then show ?thesis
      by (simp add: read_plugin_def plugin_def takeWhile_append2 dropWhile_append2)
  qed
  ultimately show ?thesis by (simp add: map_idI)
qed

lemma build_env_roundtrip_witness:
  "map read_plugin (Split (CHR '','') (BuildEnv (reconcilePlugins (\<lambda>_. True) bare_grafana
      [plugin ''a'' ''1'', plugin ''b'' ''2:x'']))) = [plugin ''a'' ''1'', plugin ''b'' ''2:x'']"
  using build_env_roundtrip [of "reconcilePlugins (\<lambda>_. True) bare_grafana
      [plugin ''a'' ''1'', plugin ''b'' ''2:x'']"]
  by (simp add: reconcilePlugins_def plugin_def)

text \<open>
  Two dashboards that ask for different versions of a plugin, neither a semantic version and
  neither available: every round forgets the failure of the round before, so the rounds
  alternate and each reports an update.
\<close>

lemma plugin_rounds_alternate:
  "(let req = [plugin ''a'' ''x'', plugin ''a'' ''y''];
        rnd = plugin_round number_version number_compare (\<lambda>_. False) req;
        r1 = rnd bare_grafana; r2 = rnd (fst r1); r3 = rnd (fst r2)
    in snd r1 \<and> snd r2 \<and> snd r3 \<and> st_FailedPlugins (Status (fst r1)) = [plugin ''a'' ''x'']
       \<and> st_FailedPlugins (Status (fst r2)) = [plugin ''a'' ''y''] \<and> Status (fst r3) = Status (fst r1))"
  by code_simp

text \<open>Two dashboards that ask for the same new version of an installed plugin do not get it.\<close>

lemma same_version_twice_blocks_update:
  "FilterPlugins number_version number_compare
     (reconcilePlugins (\<lambda>_. True) bare_grafana [plugin ''a'' ''1''])
     [plugin ''a'' ''2'', plugin ''a'' ''2''] = ([], False)"
  by code_simp

end
