(* ===== verification/Registry.thy ===== *)
theory Registry
  imports Prelude
begin

text \<open>
  What the registries of the operator have in common. First lists that are searched by a key,
  with the two ways the code changes them: replace the element with the key or append it, and
  overwrite the element with the last one and shrink the list. Then the contract of a registry
  of references as a locale: every operation acts on the abstract map from keys to references,
  so every sequence of operations does.
\<close>

subsection \<open>Lists searched by a key\<close>

definition lookup_by :: "('a \<Rightarrow> 'k) \<Rightarrow> 'k \<Rightarrow> 'a list \<Rightarrow> 'a option" where
  "lookup_by f k xs = List.find (\<lambda>x. f x = k) xs"

definition upsert :: "('a \<Rightarrow> 'k) \<Rightarrow> 'a \<Rightarrow> 'a list \<Rightarrow> 'a list" where
  "upsert f r xs =
     (case find_index (\<lambda>x. f x = f r) xs of None \<Rightarrow> xs @ [r] | Some i \<Rightarrow> xs[i := r])"

definition drop_key :: "('a \<Rightarrow> 'k) \<Rightarrow> 'k \<Rightarrow> 'a list \<Rightarrow> 'a list" where
  "drop_key f k xs =
     (case find_index (\<lambda>x. f x = k) xs of None \<Rightarrow> xs | Some i \<Rightarrow> swap_remove xs i)"

lemma option_eqI: "(\<And>x. a = Some x \<longleftrightarrow> b = Some x) \<Longrightarrow> a = b"
  by (metis not_Some_eq)

lemma lookup_by_Some:
  assumes "distinct (map f xs)"
  shows "lookup_by f k xs = Some x \<longleftrightarrow> x \<in> set xs \<and> f x = k"
  using assms by (induction xs) (auto simp: lookup_by_def)

lemma lookup_by_cong:
  assumes "distinct (map f xs)" "distinct (map f ys)"
    "{x \<in> set xs. f x = k} = {x \<in> set ys. f x = k}"
  shows "lookup_by f k xs = lookup_by f k ys"
proof (rule option_eqI)
  fix x
  show "lookup_by f k xs = Some x \<longleftrightarrow> lookup_by f k ys = Some x"
    using arg_cong [OF assms(3), of "\<lambda>S. x \<in> S"]
    by (simp add: lookup_by_Some [OF assms(1)] lookup_by_Some [OF assms(2)])
qed

lemma lookup_by_None: "lookup_by f k xs = None \<longleftrightarrow> (\<forall>x \<in> set xs. f x \<noteq> k)"
  by (auto simp: lookup_by_def find_None_iff)

lemma distinct_upsert:
  assumes "distinct (map f xs)"
  shows "distinct (map f (upsert f r xs))"
proof (cases "find_index (\<lambda>x. f x = f r) xs")
  case None
  then have "upsert f r xs = xs @ [r]" by (simp add: upsert_def del: find_index_None)
  with None assms show ?thesis by auto
next
  case (Some i)
  from find_index_SomeD [OF this] have i: "i < length xs" "f (xs ! i) = f r" by auto
  then have "map f (xs[i := r]) = map f xs"
    by (metis list_update_id map_update)
  with Some assms show ?thesis by (simp add: upsert_def)
qed

lemma set_upsert:
  assumes "distinct (map f xs)"
  shows "set (upsert f r xs) = insert r {x \<in> set xs. f x \<noteq> f r}"
proof (cases "find_index (\<lambda>x. f x = f r) xs")
  case None
  then have "upsert f r xs = xs @ [r]" by (simp add: upsert_def del: find_index_None)
  with None show ?thesis by auto
next
  case (Some i)
  from find_index_SomeD [OF this] have i: "i < length xs" "f (xs ! i) = f r" by auto
  have d: "distinct xs" "inj_on f (set xs)" using assms by (auto simp: distinct_map)
  have "set (xs[i := r]) = insert r (set xs - {xs ! i})"
    using d(1) i(1) by (simp add: set_update_distinct)
  also have "set xs - {xs ! i} = {x \<in> set xs. f x \<noteq> f r}"
    using i inj_on_eq_iff [OF d(2) _ nth_mem [OF i(1)]] by auto
  finally show ?thesis using Some by (simp add: upsert_def)
qed

lemma lookup_upsert:
  assumes "distinct (map f xs)"
  shows "lookup_by f k (upsert f r xs) = (if k = f r then Some r else lookup_by f k xs)"
proof (cases "k = f r")
  case True
  then show ?thesis
    using assms by (simp add: lookup_by_Some distinct_upsert set_upsert)
next
  case False
  have "lookup_by f k (upsert f r xs) = lookup_by f k xs"
    using assms False by (intro lookup_by_cong) (auto simp: distinct_upsert set_upsert)
  with False show ?thesis by simp
qed

lemma distinct_drop_key: "distinct (map f xs) \<Longrightarrow> distinct (map f (drop_key f k xs))"
  by (auto simp: drop_key_def dest!: find_index_SomeD split: option.split intro: distinct_swap_remove)

lemma set_drop_key:
  assumes "distinct (map f xs)"
  shows "set (drop_key f k xs) = {x \<in> set xs. f x \<noteq> k}"
proof (cases "find_index (\<lambda>x. f x = k) xs")
  case None
  then have "drop_key f k xs = xs" by (simp add: drop_key_def del: find_index_None)
  with None show ?thesis by auto
next
  case (Some i)
  from find_index_SomeD [OF this] have i: "i < length xs" "f (xs ! i) = k" by auto
  have d: "inj_on f (set xs)" using assms by (auto simp: distinct_map)
  then have "set xs - {xs ! i} = {x \<in> set xs. f x \<noteq> k}"
    using i inj_on_eq_iff [OF d _ nth_mem [OF i(1)]] by auto
  with Some set_swap_remove [OF assms i(1)] show ?thesis by (simp add: drop_key_def)
qed

lemma lookup_drop_key:
  assumes "distinct (map f xs)"
  shows "lookup_by f k' (drop_key f k xs) = (if k' = k then None else lookup_by f k' xs)"
proof (cases "k' = k")
  case True
  then show ?thesis using assms by (simp add: lookup_by_None set_drop_key)
next
  case False
  have "lookup_by f k' (drop_key f k xs) = lookup_by f k' xs"
    using assms False by (intro lookup_by_cong) (auto simp: distinct_drop_key set_drop_key)
  with False show ?thesis by simp
qed

lemma lookup_map:
  "(\<And>x. f (g x) = f x) \<Longrightarrow> lookup_by f k (map g xs) = map_option g (lookup_by f k xs)"
  by (induction xs) (auto simp: lookup_by_def)

subsection \<open>Sequences of operations\<close>

datatype ('k, 'r) reg_op = Put 'r | Del 'k | Invalidate

fun reg_run :: "('r \<Rightarrow> 's \<Rightarrow> 's) \<Rightarrow> ('k \<Rightarrow> 's \<Rightarrow> 's) \<Rightarrow> ('s \<Rightarrow> 's) \<Rightarrow> ('k, 'r) reg_op list \<Rightarrow> 's \<Rightarrow> 's" where
  "reg_run put del inval [] s = s"
| "reg_run put del inval (Put r # ops) s = reg_run put del inval ops (put r s)"
| "reg_run put del inval (Del k # ops) s = reg_run put del inval ops (del k s)"
| "reg_run put del inval (Invalidate # ops) s = reg_run put del inval ops (inval s)"

text \<open>The same operations on a map.\<close>

fun map_run :: "('r \<Rightarrow> 'k) \<Rightarrow> ('r \<Rightarrow> 'r) \<Rightarrow> ('k, 'r) reg_op list \<Rightarrow> ('k \<rightharpoonup> 'r) \<Rightarrow> ('k \<rightharpoonup> 'r)" where
  "map_run key clear [] m = m"
| "map_run key clear (Put r # ops) m = map_run key clear ops (m(key r \<mapsto> r))"
| "map_run key clear (Del k # ops) m = map_run key clear ops (m(k := None))"
| "map_run key clear (Invalidate # ops) m = map_run key clear ops (map_option clear \<circ> m)"

locale ref_registry =
  fixes ok :: "'s \<Rightarrow> bool"
    and look :: "'s \<Rightarrow> 'k \<Rightarrow> 'r option"
    and put :: "'r \<Rightarrow> 's \<Rightarrow> 's"
    and del :: "'k \<Rightarrow> 's \<Rightarrow> 's"
    and inval :: "'s \<Rightarrow> 's"
    and key :: "'r \<Rightarrow> 'k"
    and clear :: "'r \<Rightarrow> 'r"
    and hash :: "'r \<Rightarrow> string"
  assumes ok_put: "ok s \<Longrightarrow> ok (put r s)"
    and ok_del: "ok s \<Longrightarrow> ok (del k s)"
    and ok_inval: "ok s \<Longrightarrow> ok (inval s)"
    and look_put: "ok s \<Longrightarrow> look (put r s) k = (if k = key r then Some r else look s k)"
    and look_del: "ok s \<Longrightarrow> look (del k s) k' = (if k' = k then None else look s k')"
    and look_inval: "ok s \<Longrightarrow> look (inval s) k = map_option clear (look s k)"
    and hash_clear: "hash (clear r) = []"
begin

lemma run_ok: "ok s \<Longrightarrow> ok (reg_run put del inval ops s)"
proof (induction ops arbitrary: s)
  case (Cons op ops)
  then show ?case by (cases op) (simp_all add: ok_put ok_del ok_inval)
qed simp

lemma run_refines: "ok s \<Longrightarrow> look (reg_run put del inval ops s) = map_run key clear ops (look s)"
proof (induction ops arbitrary: s)
  case (Cons op ops)
  have eqs: "look (put r s) = (look s)(key r \<mapsto> r)" "look (del k s) = (look s)(k := None)"
    "look (inval s) = map_option clear \<circ> look s" for r k
    using Cons.prems by (auto simp: fun_eq_iff look_put look_del look_inval)
  show ?case
    by (cases op) (simp_all only: reg_run.simps map_run.simps Cons.IH Cons.prems ok_put ok_del
        ok_inval eqs)
qed simp

text \<open>After an invalidation no reference carries a digest, which is never empty.\<close>

lemma inval_stale: "ok s \<Longrightarrow> look (inval s) k = Some r \<Longrightarrow> d \<noteq> [] \<Longrightarrow> hash r \<noteq> d"
  by (auto simp: look_inval hash_clear)

end

end
