(* ===== verification/Controller_Config.thy ===== *)
theory Controller_Config
  imports Plugins Registry
begin

text \<open>
  The two process-wide registries of the operator, \<open>controllers/config/controller_config.go\<close>
  and \<open>controllers/config/notification_controller_config.go\<close>: the values, the plugins by
  dashboard, the known dashboards and the known notification channels. A method is a function
  of the state; the mutex makes it one step. A pointer in a list is the record it points to:
  the code writes through such pointers only inside these methods. A value of the empty
  interface is a \<open>conf_value\<close>, nil is \<open>None\<close>.
\<close>

datatype conf_value = VString string | VBool bool | VTime int

record ControllerConfig =
  cc_Values :: "string \<rightharpoonup> conf_value"
  cc_Plugins :: "(string, PluginList) gomap"
  cc_Dashboards :: "GrafanaDashboardRef list"

definition GetControllerConfig :: ControllerConfig where
  "GetControllerConfig = \<lparr>cc_Values = (\<lambda>_. None), cc_Plugins = [], cc_Dashboards = []\<rparr>"

subsection \<open>Plugins by dashboard\<close>

definition GetDashboardId :: "string \<Rightarrow> string \<Rightarrow> string" where
  "GetDashboardId namespace nam = namespace @ ''/'' @ nam"

definition GetAllPlugins :: "ControllerConfig \<Rightarrow> PluginList" where
  "GetAllPlugins c = concat (map snd (cc_Plugins c))"

definition GetPluginsFor :: "ControllerConfig \<Rightarrow> GrafanaDashboard \<Rightarrow> PluginList" where
  "GetPluginsFor c d =
     (case map_of (cc_Plugins c) (GetDashboardId (om_Namespace (dash_meta d)) (om_Name (dash_meta d))) of
        None \<Rightarrow> [] | Some l \<Rightarrow> l)"

definition SetPluginsFor :: "ControllerConfig \<Rightarrow> GrafanaDashboard \<Rightarrow> ControllerConfig" where
  "SetPluginsFor c d =
     (let id = GetDashboardId (om_Namespace (dash_meta d)) (om_Name (dash_meta d))
      in c\<lparr>cc_Plugins := AList.update id (dash_Plugins (dash_Spec d)) (cc_Plugins c)\<rparr>)"

definition RemovePluginsFor :: "ControllerConfig \<Rightarrow> string \<Rightarrow> string \<Rightarrow> ControllerConfig" where
  "RemovePluginsFor c namespace nam =
     c\<lparr>cc_Plugins := AList.delete (GetDashboardId namespace nam) (cc_Plugins c)\<rparr>"

subsection \<open>Known dashboards\<close>

definition HasDashboard :: "ControllerConfig \<Rightarrow> string \<Rightarrow> nat option" where
  "HasDashboard c str = find_index (\<lambda>v. ref_UID v = str) (cc_Dashboards c)"

definition AddDashboard :: "ControllerConfig \<Rightarrow> GrafanaDashboard \<Rightarrow> int option \<Rightarrow> string
    \<Rightarrow> ControllerConfig go" where
  "AddDashboard c d folderId folderName =
     go_bind (UID d) (\<lambda>uid.
       case HasDashboard c uid of
         None \<Rightarrow>
           Inr (c\<lparr>cc_Dashboards := cc_Dashboards c @
             [\<lparr>ref_Name = om_Name (dash_meta d), ref_Namespace = om_Namespace (dash_meta d),
               ref_UID = uid, ref_Hash = Hash d, ref_FolderId = folderId,
               ref_FolderName = dash_CustomFolderName (dash_Spec d)\<rparr>]\<rparr>)
       | Some i \<Rightarrow>
           Inr (c\<lparr>cc_Dashboards := (cc_Dashboards c)[i :=
              \<lparr>ref_Name = om_Name (dash_meta d), ref_Namespace = om_Namespace (dash_meta d),
               ref_UID = uid, ref_Hash = Hash d, ref_FolderId = folderId,
               ref_FolderName = folderName\<rparr>]\<rparr>))"

definition InvalidateDashboards :: "ControllerConfig \<Rightarrow> ControllerConfig" where
  "InvalidateDashboards c = c\<lparr>cc_Dashboards := map (\<lambda>v. v\<lparr>ref_Hash := []\<rparr>) (cc_Dashboards c)\<rparr>"

definition SetDashboards :: "ControllerConfig \<Rightarrow> GrafanaDashboardRef list \<Rightarrow> ControllerConfig" where
  "SetDashboards c dashboards = c\<lparr>cc_Dashboards := dashboards\<rparr>"

definition RemoveDashboard :: "ControllerConfig \<Rightarrow> string \<Rightarrow> ControllerConfig" where
  "RemoveDashboard c hash =
     (case HasDashboard c hash of
        None \<Rightarrow> c
      | Some i \<Rightarrow> c\<lparr>cc_Dashboards := swap_remove (cc_Dashboards c) i\<rparr>)"

text \<open>The namespace makes no difference: both branches give all dashboards.\<close>

definition GetDashboards :: "ControllerConfig \<Rightarrow> string \<Rightarrow> GrafanaDashboardRef list" where
  "GetDashboards c namespace = (if namespace = [] then [] @ cc_Dashboards c else cc_Dashboards c)"

definition Cleanup :: "ControllerConfig \<Rightarrow> bool \<Rightarrow> ControllerConfig" where
  "Cleanup c plugins =
     (let c = c\<lparr>cc_Dashboards := []\<rparr> in if plugins then c\<lparr>cc_Plugins := []\<rparr> else c)"

subsection \<open>Configuration items\<close>

definition AddConfigItem :: "(string \<rightharpoonup> conf_value) \<Rightarrow> string \<Rightarrow> conf_value option \<Rightarrow> (string \<rightharpoonup> conf_value)" where
  "AddConfigItem vs key v =
     (case v of
        None \<Rightarrow> vs
      | Some x \<Rightarrow> if key \<noteq> [] \<and> x \<noteq> VString [] then vs(key \<mapsto> x) else vs)"

definition RemoveConfigItem :: "(string \<rightharpoonup> conf_value) \<Rightarrow> string \<Rightarrow> (string \<rightharpoonup> conf_value)" where
  "RemoveConfigItem vs key = vs(key := None)"

definition HasConfigItem :: "(string \<rightharpoonup> conf_value) \<Rightarrow> string \<Rightarrow> bool" where
  "HasConfigItem vs key \<longleftrightarrow> vs key \<noteq> None"

definition GetConfigItem :: "(string \<rightharpoonup> conf_value) \<Rightarrow> string \<Rightarrow> conf_value option \<Rightarrow> conf_value option" where
  "GetConfigItem vs key dflt = (if HasConfigItem vs key then vs key else dflt)"

definition GetConfigString :: "(string \<rightharpoonup> conf_value) \<Rightarrow> string \<Rightarrow> string \<Rightarrow> string go" where
  "GetConfigString vs key dflt =
     (if HasConfigItem vs key
      then (case vs key of Some (VString s) \<Rightarrow> Inr s | _ \<Rightarrow> Inl TypeAssertion)
      else Inr dflt)"

definition GetConfigBool :: "(string \<rightharpoonup> conf_value) \<Rightarrow> string \<Rightarrow> bool \<Rightarrow> bool go" where
  "GetConfigBool vs key dflt =
     (if HasConfigItem vs key
      then (case vs key of Some (VBool b) \<Rightarrow> Inr b | _ \<Rightarrow> Inl TypeAssertion)
      else Inr dflt)"

definition GetConfigTimestamp :: "(string \<rightharpoonup> conf_value) \<Rightarrow> string \<Rightarrow> int \<Rightarrow> int go" where
  "GetConfigTimestamp vs key dflt =
     (if HasConfigItem vs key
      then (case vs key of Some (VTime t) \<Rightarrow> Inr t | _ \<Rightarrow> Inl TypeAssertion)
      else Inr dflt)"

subsection \<open>Known notification channels\<close>

record NotificationControllerConfig =
  ncc_Values :: "string \<rightharpoonup> conf_value"
  ncc_Channels :: "(string, NotificationChannelRef list) gomap"

definition GetNotificationControllerConfig :: NotificationControllerConfig where
  "GetNotificationControllerConfig = \<lparr>ncc_Values = (\<lambda>_. None), ncc_Channels = []\<rparr>"

definition GetNotificationChannelId :: "string \<Rightarrow> string \<Rightarrow> string" where
  "GetNotificationChannelId namespace nam = namespace @ ''/'' @ nam"

text \<open>\<open>c.NotificationChannels[ns]\<close>, nil when absent.\<close>

definition channels_in :: "NotificationControllerConfig \<Rightarrow> string \<Rightarrow> NotificationChannelRef list" where
  "channels_in c ns = (case map_of (ncc_Channels c) ns of None \<Rightarrow> [] | Some l \<Rightarrow> l)"

definition HasNotificationChannel :: "NotificationControllerConfig \<Rightarrow> string \<Rightarrow> string \<Rightarrow> nat option" where
  "HasNotificationChannel c namespace nam =
     (case map_of (ncc_Channels c) namespace of
        None \<Rightarrow> None
      | Some l \<Rightarrow> find_index (\<lambda>n. ncr_Name n = nam) l)"

definition AddNotificationChannel :: "NotificationControllerConfig \<Rightarrow> NotificationChannel
    \<Rightarrow> NotificationControllerConfig" where
  "AddNotificationChannel c n =
     (let ns = om_Namespace (nc_meta n); st = nc_Status n
      in case HasNotificationChannel c ns (om_Name (nc_meta n)) of
           None \<Rightarrow>
             c\<lparr>ncc_Channels := AList.update ns (channels_in c ns @
               [\<lparr>ncr_Name = om_Name (nc_meta n), ncr_Namespace = ns, ncr_UID = nc_UID st,
                 ncr_Hash = nc_Hash st\<rparr>]) (ncc_Channels c)\<rparr>
         | Some i \<Rightarrow>
             c\<lparr>ncc_Channels := AList.update ns ((channels_in c ns)[i :=
               ((channels_in c ns) ! i)
                 \<lparr>ncr_Namespace := ns, ncr_UID := nc_UID st, ncr_Hash := nc_Hash st\<rparr>])
               (ncc_Channels c)\<rparr>)"

definition InvalidateNotificationChannels :: "NotificationControllerConfig \<Rightarrow> NotificationControllerConfig" where
  "InvalidateNotificationChannels c =
     c\<lparr>ncc_Channels := map (\<lambda>(k, v). (k, map (\<lambda>d. d\<lparr>ncr_Hash := []\<rparr>) v)) (ncc_Channels c)\<rparr>"

definition SetNotificationChannels :: "NotificationControllerConfig
    \<Rightarrow> (string, NotificationChannelRef list) gomap \<Rightarrow> NotificationControllerConfig" where
  "SetNotificationChannels c channels = c\<lparr>ncc_Channels := channels\<rparr>"

definition RemoveNotificationChannel :: "NotificationControllerConfig \<Rightarrow> string \<Rightarrow> string
    \<Rightarrow> NotificationControllerConfig" where
  "RemoveNotificationChannel c namespace nam =
     (case HasNotificationChannel c namespace nam of
        None \<Rightarrow> c
      | Some i \<Rightarrow> c\<lparr>ncc_Channels :=
          AList.update namespace (swap_remove (channels_in c namespace) i) (ncc_Channels c)\<rparr>)"

definition GetNotificationChannels :: "NotificationControllerConfig \<Rightarrow> string
    \<Rightarrow> NotificationChannelRef list" where
  "GetNotificationChannels c namespace =
     (if namespace = [] then concat (map snd (ncc_Channels c))
      else (case map_of (ncc_Channels c) namespace of Some l \<Rightarrow> l | None \<Rightarrow> []))"

subsection \<open>The dashboards as a registry\<close>

definition dashboards_ok :: "ControllerConfig \<Rightarrow> bool" where
  "dashboards_ok c \<longleftrightarrow> distinct (map ref_UID (cc_Dashboards c))"

definition find_dashboard :: "ControllerConfig \<Rightarrow> string \<Rightarrow> GrafanaDashboardRef option" where
  "find_dashboard c uid = lookup_by ref_UID uid (cc_Dashboards c)"

definition put_dashboard :: "GrafanaDashboardRef \<Rightarrow> ControllerConfig \<Rightarrow> ControllerConfig" where
  "put_dashboard r c = c\<lparr>cc_Dashboards := upsert ref_UID r (cc_Dashboards c)\<rparr>"

definition dashboard_ref :: "GrafanaDashboard \<Rightarrow> string \<Rightarrow> int option \<Rightarrow> string \<Rightarrow> GrafanaDashboardRef" where
  "dashboard_ref d uid folderId folderName =
     \<lparr>ref_Name = om_Name (dash_meta d), ref_Namespace = om_Namespace (dash_meta d),
      ref_UID = uid, ref_Hash = Hash d, ref_FolderId = folderId, ref_FolderName = folderName\<rparr>"

lemma AddDashboard_put:
  "AddDashboard c d folderId folderName =
     go_bind (UID d) (\<lambda>uid. Inr (put_dashboard (dashboard_ref d uid folderId
       (if HasDashboard c uid = None then dash_CustomFolderName (dash_Spec d) else folderName)) c))"
  unfolding AddDashboard_def
  by (rule arg_cong [where f = "go_bind (UID d)"])
    (simp add: fun_eq_iff put_dashboard_def upsert_def dashboard_ref_def HasDashboard_def
      del: find_index_None split: option.split)

lemma RemoveDashboard_drop:
  "RemoveDashboard c k = c\<lparr>cc_Dashboards := drop_key ref_UID k (cc_Dashboards c)\<rparr>"
  by (simp add: RemoveDashboard_def HasDashboard_def drop_key_def del: find_index_None
      split: option.split)

interpretation dash: ref_registry dashboards_ok find_dashboard put_dashboard
  "\<lambda>k c. RemoveDashboard c k" InvalidateDashboards ref_UID "\<lambda>r. r\<lparr>ref_Hash := []\<rparr>" ref_Hash
proof unfold_locales
  have m: "map ref_UID (map (\<lambda>v. v\<lparr>ref_Hash := []\<rparr>) xs) = map ref_UID xs" for xs
    by simp
  fix s :: ControllerConfig and r :: GrafanaDashboardRef and k
  assume s: "dashboards_ok s"
  show "dashboards_ok (put_dashboard r s)" "dashboards_ok (RemoveDashboard s k)"
    "dashboards_ok (InvalidateDashboards s)"
    using s by (simp_all add: dashboards_ok_def put_dashboard_def RemoveDashboard_drop
        distinct_upsert distinct_drop_key InvalidateDashboards_def m comp_def)
  show "find_dashboard (put_dashboard r s) k = (if k = ref_UID r then Some r else find_dashboard s k)"
    using s by (simp add: dashboards_ok_def find_dashboard_def put_dashboard_def lookup_upsert)
  show "find_dashboard (RemoveDashboard s k) k' = (if k' = k then None else find_dashboard s k')" for k'
    using s by (simp add: dashboards_ok_def find_dashboard_def RemoveDashboard_drop lookup_drop_key)
  show "find_dashboard (InvalidateDashboards s) k
        = map_option (\<lambda>r. r\<lparr>ref_Hash := []\<rparr>) (find_dashboard s k)"
    by (simp add: find_dashboard_def InvalidateDashboards_def lookup_map)
qed simp

subsection \<open>The notification channels as a registry\<close>

definition channels_ok :: "NotificationControllerConfig \<Rightarrow> bool" where
  "channels_ok c \<longleftrightarrow>
     gomap_ok (ncc_Channels c)
     \<and> (\<forall>(ns, l) \<in> set (ncc_Channels c).
          distinct (map ncr_Name l) \<and> (\<forall>r \<in> set l. ncr_Namespace r = ns))"

definition find_channel :: "NotificationControllerConfig \<Rightarrow> string \<times> string \<Rightarrow> NotificationChannelRef option" where
  "find_channel c key = lookup_by ncr_Name (snd key) (channels_in c (fst key))"

definition channel_key :: "NotificationChannelRef \<Rightarrow> string \<times> string" where
  "channel_key r = (ncr_Namespace r, ncr_Name r)"

definition put_channel :: "NotificationChannelRef \<Rightarrow> NotificationControllerConfig
    \<Rightarrow> NotificationControllerConfig" where
  "put_channel r c =
     c\<lparr>ncc_Channels := AList.update (ncr_Namespace r)
        (upsert ncr_Name r (channels_in c (ncr_Namespace r))) (ncc_Channels c)\<rparr>"

definition channel_ref :: "NotificationChannel \<Rightarrow> NotificationChannelRef" where
  "channel_ref n =
     \<lparr>ncr_Name = om_Name (nc_meta n), ncr_Namespace = om_Namespace (nc_meta n),
      ncr_UID = nc_UID (nc_Status n), ncr_Hash = nc_Hash (nc_Status n)\<rparr>"

lemma HasNotificationChannel_index:
  "HasNotificationChannel c ns nam = find_index (\<lambda>r. ncr_Name r = nam) (channels_in c ns)"
  by (simp add: HasNotificationChannel_def channels_in_def split: option.split)

lemma channels_in_update:
  "channels_in (c\<lparr>ncc_Channels := AList.update ns l (ncc_Channels c)\<rparr>) ns'
   = (if ns' = ns then l else channels_in c ns')"
  by (simp add: channels_in_def update_conv)

lemma channels_in_ok:
  assumes "channels_ok c"
  shows "distinct (map ncr_Name (channels_in c ns))"
    "r \<in> set (channels_in c ns) \<Longrightarrow> ncr_Namespace r = ns"
proof -
  have "distinct (map ncr_Name (channels_in c ns)) \<and> (\<forall>r \<in> set (channels_in c ns). ncr_Namespace r = ns)"
  proof (cases "map_of (ncc_Channels c) ns")
    case (Some l)
    then have "(ns, l) \<in> set (ncc_Channels c)" by (rule map_of_SomeD)
    with assms Some show ?thesis by (auto simp: channels_ok_def channels_in_def)
  qed (simp add: channels_in_def)
  then show "distinct (map ncr_Name (channels_in c ns))"
    "r \<in> set (channels_in c ns) \<Longrightarrow> ncr_Namespace r = ns" by blast+
qed

lemma channels_ok_update:
  assumes "channels_ok c" "distinct (map ncr_Name l)" "\<forall>r \<in> set l. ncr_Namespace r = ns"
  shows "channels_ok (c\<lparr>ncc_Channels := AList.update ns l (ncc_Channels c)\<rparr>)"
proof -
  have "set (AList.update ns l m) \<subseteq> insert (ns, l) (set m)" for m :: "(string, NotificationChannelRef list) gomap"
    by (induction m) auto
  then show ?thesis using assms by (fastforce simp: channels_ok_def)
qed

lemma AddNotificationChannel_put: "AddNotificationChannel c n = put_channel (channel_ref n) c"
proof (cases "HasNotificationChannel c (om_Namespace (nc_meta n)) (om_Name (nc_meta n))")
  case None
  then show ?thesis
    by (simp add: AddNotificationChannel_def Let_def HasNotificationChannel_index put_channel_def
        upsert_def channel_ref_def del: find_index_None)
next
  case (Some i)
  let ?l = "channels_in c (om_Namespace (nc_meta n))"
  from Some have "ncr_Name (?l ! i) = om_Name (nc_meta n)"
    unfolding HasNotificationChannel_index by (rule find_index_SomeD [THEN conjunct2])
  then have "(?l ! i)\<lparr>ncr_Namespace := om_Namespace (nc_meta n), ncr_UID := nc_UID (nc_Status n),
      ncr_Hash := nc_Hash (nc_Status n)\<rparr> = channel_ref n"
    by (cases "?l ! i") (simp add: channel_ref_def)
  with Some show ?thesis
    by (simp add: AddNotificationChannel_def Let_def HasNotificationChannel_index put_channel_def
        upsert_def channel_ref_def del: find_index_None)
qed

lemma RemoveNotificationChannel_drop:
  assumes "HasNotificationChannel c ns nam \<noteq> None"
  shows "RemoveNotificationChannel c ns nam
    = c\<lparr>ncc_Channels := AList.update ns (drop_key ncr_Name nam (channels_in c ns)) (ncc_Channels c)\<rparr>"
  using assms by (auto simp: RemoveNotificationChannel_def HasNotificationChannel_index drop_key_def
      simp del: find_index_None split: option.split)

lemma find_channel_remove:
  assumes "channels_ok c"
  shows "find_channel (RemoveNotificationChannel c ns nam) k
         = (if k = (ns, nam) then None else find_channel c k)"
proof (cases "HasNotificationChannel c ns nam = None")
  case True
  then have "RemoveNotificationChannel c ns nam = c" by (simp add: RemoveNotificationChannel_def)
  moreover have "find_channel c (ns, nam) = None"
    using True by (simp add: HasNotificationChannel_index find_channel_def lookup_by_None)
  ultimately have "RemoveNotificationChannel c ns nam = c" "find_channel c (ns, nam) = None"
    by simp_all
  then show ?thesis by simp
next
  case False
  then show ?thesis
    using channels_in_ok(1) [OF assms]
    by (cases k) (auto simp: RemoveNotificationChannel_drop find_channel_def channels_in_update
        lookup_drop_key)
qed

lemma channels_ok_remove:
  assumes "channels_ok c"
  shows "channels_ok (RemoveNotificationChannel c ns nam)"
proof (cases "HasNotificationChannel c ns nam = None")
  case True
  with assms show ?thesis by (simp add: RemoveNotificationChannel_def)
next
  case False
  with channels_in_ok [OF assms, where ns = ns] show ?thesis
    by (auto simp: RemoveNotificationChannel_drop distinct_drop_key set_drop_key
        intro!: channels_ok_update assms)
qed

lemma map_of_map_snd: "map_of (map (\<lambda>(k, v). (k, f v)) m) k = map_option f (map_of m k)"
  by (induction m) auto

lemma channels_in_invalidate:
  "channels_in (InvalidateNotificationChannels c) ns
   = map (\<lambda>d. d\<lparr>ncr_Hash := []\<rparr>) (channels_in c ns)"
  by (simp add: channels_in_def InvalidateNotificationChannels_def map_of_map_snd split: option.split)

interpretation chan: ref_registry channels_ok find_channel put_channel
  "\<lambda>k c. RemoveNotificationChannel c (fst k) (snd k)" InvalidateNotificationChannels channel_key
  "\<lambda>r. r\<lparr>ncr_Hash := []\<rparr>" ncr_Hash
proof unfold_locales
  fix s :: NotificationControllerConfig and r :: NotificationChannelRef and k :: "string \<times> string"
  assume s: "channels_ok s"
  have d: "distinct (map ncr_Name (channels_in s ns))" for ns
    by (rule channels_in_ok(1) [OF s])
  show "channels_ok (put_channel r s)"
    using channels_in_ok [OF s, where ns = "ncr_Namespace r"]
    by (auto simp: put_channel_def distinct_upsert set_upsert intro!: channels_ok_update s)
  show "channels_ok (RemoveNotificationChannel s (fst k) (snd k))"
    by (rule channels_ok_remove [OF s])
  show "channels_ok (InvalidateNotificationChannels s)"
    using s by (fastforce simp: channels_ok_def gomap_ok_def InvalidateNotificationChannels_def
        comp_def case_prod_beta)
  show "find_channel (put_channel r s) k = (if k = channel_key r then Some r else find_channel s k)"
    by (cases k) (auto simp: find_channel_def put_channel_def channel_key_def channels_in_update
        lookup_upsert d)
  show "find_channel (RemoveNotificationChannel s (fst k) (snd k)) k'
        = (if k' = k then None else find_channel s k')" for k'
    by (simp add: find_channel_remove [OF s])
  show "find_channel (InvalidateNotificationChannels s) k
        = map_option (\<lambda>r. r\<lparr>ncr_Hash := []\<rparr>) (find_channel s k)"
    by (simp add: find_channel_def channels_in_invalidate lookup_map)
qed simp

subsection \<open>Properties\<close>


text \<open>
  The same for the notification channels, by namespace and name: there is at most one
  reference for each, kept under its own namespace.
\<close>

theorem channels_refine_map:
  "let c = reg_run put_channel (\<lambda>k c. RemoveNotificationChannel c (fst k) (snd k))
             InvalidateNotificationChannels ops GetNotificationControllerConfig
   in distinct (map ncr_Name (channels_in c ns))
      \<and> find_channel c = map_run channel_key (\<lambda>r. r\<lparr>ncr_Hash := []\<rparr>) ops (\<lambda>_. None)"
proof -
  have ok: "channels_ok GetNotificationControllerConfig"
    and empty: "find_channel GetNotificationControllerConfig = (\<lambda>_. None)"
    by (auto simp: channels_ok_def find_channel_def GetNotificationControllerConfig_def
        lookup_by_None channels_in_def fun_eq_iff)
  show ?thesis
    using channels_in_ok(1) [OF chan.run_ok [OF ok]] chan.run_refines [OF ok, of ops]
    by (simp add: Let_def empty)
qed

text \<open>
  Adding a dashboard makes it known under its uid with its current digest, so the next
  reconciliation can tell that it is unchanged; every other uid keeps its reference. The
  addition panics exactly when computing the uid does, and then nothing is stored.
\<close>

theorem add_dashboard_known:
  assumes "dashboards_ok c"
  shows "case UID d of
      Inl p \<Rightarrow> AddDashboard c d fid fname = Inl p
    | Inr uid \<Rightarrow> \<exists>c'. AddDashboard c d fid fname = Inr c' \<and> dashboards_ok c'
        \<and> map_option ref_Hash (find_dashboard c' uid) = Some (Hash d)
        \<and> (\<forall>k. k = uid \<or> find_dashboard c' k = find_dashboard c k)"
proof (cases "UID d")
  case (Inl p)
  then show ?thesis by (simp add: AddDashboard_put)
next
  case (Inr uid)
  let ?r = "dashboard_ref d uid fid
    (if HasDashboard c uid = None then dash_CustomFolderName (dash_Spec d) else fname)"
  have "AddDashboard c d fid fname = Inr (put_dashboard ?r c)"
    using Inr by (simp add: AddDashboard_put)
  moreover have "ref_UID ?r = uid" "ref_Hash ?r = Hash d" by (simp_all add: dashboard_ref_def)
  ultimately show ?thesis
    using Inr dash.ok_put [OF assms, of ?r] dash.look_put [OF assms, of ?r] by auto
qed

definition example_dashboard :: GrafanaDashboard where
  "example_dashboard =
     \<lparr>dash_meta = \<lparr>om_Name = ''d'', om_Namespace = ''ns'', om_Labels = None, om_Annotations = None,
                   om_rest = []\<rparr>,
      dash_Spec = \<lparr>dash_Json = [], dash_Jsonnet = [], dash_Plugins = [], dash_Url = [],
                   dash_ConfigMapRef = None, dash_Datasources = [], dash_CustomFolderName = [],
                   dash_GrafanaCom = None\<rparr>\<rparr>"

lemma example_UID: "UID example_dashboard = Inr (sha1_hex ''nsd'')"
proof -
  have "Parse example_dashboard [] = None"
    by (simp add: Parse_def example_dashboard_def Unmarshal_map_def parse_json_def skip_space_def)
  then show ?thesis by (simp add: UID_def Let_def example_dashboard_def)
qed

lemma add_dashboard_known_witness:
  "\<exists>c'. AddDashboard GetControllerConfig example_dashboard None [] = Inr c'
     \<and> map_option ref_Hash (find_dashboard c' (sha1_hex ''nsd'')) = Some (Hash example_dashboard)"
  using add_dashboard_known [of GetControllerConfig example_dashboard None "[]"]
  by (auto simp: example_UID dashboards_ok_def GetControllerConfig_def)

text \<open>
  After the plugins changed, every known dashboard counts as changed: no reference of the
  invalidated registry has the digest of any dashboard, and no uid is forgotten.
\<close>

theorem invalidate_forces_reimport:
  "list_all (\<lambda>r. ref_Hash r \<noteq> Hash d) (GetDashboards (InvalidateDashboards c) ns)
   \<and> map ref_UID (GetDashboards (InvalidateDashboards c) ns) = map ref_UID (GetDashboards c ns)"
  by (auto simp: GetDashboards_def InvalidateDashboards_def list_all_iff Hash_def
      dest: arg_cong [where f = length])

lemma GetDashboardId_inject:
  assumes "CHR ''/'' \<notin> set ns" "CHR ''/'' \<notin> set ns'"
  shows "GetDashboardId ns n = GetDashboardId ns' n' \<longleftrightarrow> ns = ns' \<and> n = n'"
proof
  assume "GetDashboardId ns n = GetDashboardId ns' n'"
  then have e: "Split (CHR ''/'') (ns @ CHR ''/'' # n) = Split (CHR ''/'') (ns' @ CHR ''/'' # n')"
    by (simp add: GetDashboardId_def)
  then have "ns = ns'" using assms by (simp add: Split_append_sep)
  then show "ns = ns' \<and> n = n'"
    using \<open>GetDashboardId ns n = GetDashboardId ns' n'\<close> by (simp add: GetDashboardId_def)
qed (simp add: GetDashboardId_def)

text \<open>
  The plugins of a dashboard are kept apart from those of every other dashboard: after
  setting them, reading them gives the ones of the dashboard's specification, and the ones of
  any dashboard of another namespace or name are unchanged; provided namespaces hold no slash.
\<close>

theorem set_plugins_for:
  assumes "CHR ''/'' \<notin> set (om_Namespace (dash_meta d))"
    "CHR ''/'' \<notin> set (om_Namespace (dash_meta d'))"
  shows "GetPluginsFor (SetPluginsFor c d) d' =
     (if om_Namespace (dash_meta d') = om_Namespace (dash_meta d) \<and> om_Name (dash_meta d') = om_Name (dash_meta d)
      then dash_Plugins (dash_Spec d) else GetPluginsFor c d')"
  using GetDashboardId_inject [OF assms(2,1)]
  by (simp add: GetPluginsFor_def SetPluginsFor_def Let_def update_conv)

lemma set_plugins_for_witness:
  "GetPluginsFor (SetPluginsFor GetControllerConfig example_dashboard) example_dashboard = []"
  using set_plugins_for [of example_dashboard example_dashboard GetControllerConfig]
  by (simp add: example_dashboard_def)

text \<open>
  A configuration item can be read back with the type it was stored with, and reading it
  with another type panics; an empty key, nil and the empty string are not stored.
\<close>

theorem config_item_read_back:
  "GetConfigBool (AddConfigItem vs key (Some (VBool b))) key dflt
     = (if key = [] then GetConfigBool vs key dflt else Inr b)
   \<and> GetConfigString (AddConfigItem vs key (Some (VString s))) key s'
     = (if key = [] \<or> s = [] then GetConfigString vs key s' else Inr s)
   \<and> (key = [] \<or> GetConfigString (AddConfigItem vs key (Some (VBool b))) key s' = Inl TypeAssertion)
   \<and> AddConfigItem vs key None = vs
   \<and> GetConfigString (RemoveConfigItem vs key) key s' = Inr s'"
  by (auto simp: AddConfigItem_def GetConfigBool_def GetConfigString_def HasConfigItem_def
      RemoveConfigItem_def)

text \<open>
  A dashboard whose json has a uid that is not a string makes the computation of its uid, and
  with it the reconciliation, panic.
\<close>

definition numeric_uid_dashboard :: GrafanaDashboard where
  "numeric_uid_dashboard = example_dashboard
     \<lparr>dash_Spec := (dash_Spec example_dashboard)
        \<lparr>dash_Json := ''{'' @ [CHR 0x22] @ ''uid'' @ [CHR 0x22] @ '':1}''\<rparr>\<rparr>"

lemma numeric_uid_panics:
  "AddDashboard c numeric_uid_dashboard fid fname = Inl TypeAssertion"
proof -
  have "parse_json (dash_Json (dash_Spec numeric_uid_dashboard)) = Some (JObj [(''uid'', JNum ''1'')])"
    by code_simp
  moreover have in_range: "number_in_range ''1''"
    by (simp add: number_in_range_def parse_int_part_def parse_frac_def parse_exp_def span_digits_def
        is_digit_def code_def digits_value_def exp_value_def float_limit_def Let_def)
  moreover have "dash_Json (dash_Spec numeric_uid_dashboard) \<noteq> []"
    by (simp add: numeric_uid_dashboard_def)
  ultimately have "UID numeric_uid_dashboard = Inl TypeAssertion"
    using in_range by (simp add: UID_def Let_def Parse_def Unmarshal_map_def json_lookup_def map_members_def)
  then show ?thesis by (simp add: AddDashboard_def)
qed

text \<open>
  Two dashboards of different namespaces can have the same uid, because the digest is taken of
  the namespace and the name without a separator.
\<close>

lemma default_uids_collide:
  assumes "Parse d [] = None" "Parse d' [] = None"
    "om_Namespace (dash_meta d) = ''team-a''" "om_Name (dash_meta d) = ''bc''"
    "om_Namespace (dash_meta d') = ''team-ab''" "om_Name (dash_meta d') = ''c''"
  shows "UID d = UID d'"
  using assms by (simp add: UID_def)

end
