(* ===== verification/Model_Resources.thy ===== *)
theory Model_Resources
  imports Grafana_Ini Controller_Config
begin

text \<open>
  The builders of the Kubernetes objects of an instance, \<open>controllers/model\<close>: service, volume
  claim, service account, credentials secret, configuration and datasource config maps,
  ingress and route. \<open>X\<close> builds the object to create, \<open>XReconciled\<close> the update of the
  current object, \<open>XSelector\<close> its key. The records of the Kubernetes objects hold the fields
  that these functions touch; \<open>DeepCopy\<close> is the identity. The random source is an argument
  (the bytes it gives), and so is the process environment, which building the secret changes.
\<close>

subsection \<open>Shared helpers\<close>

text \<open>
  \<open>MergeAnnotations\<close>. The code writes into the existing map, which only the caller's result
  refers to.
\<close>

definition MergeAnnotations :: "labels \<Rightarrow> labels \<Rightarrow> labels" where
  "MergeAnnotations requested existing =
     (case existing of
        None \<Rightarrow> requested
      | Some e \<Rightarrow> Some (case requested of None \<Rightarrow> e | Some r \<Rightarrow> e ++ r))"

definition base64_char :: "int \<Rightarrow> char" where
  "base64_char i =
     (if i < 26 then char_of (i + 65) else if i < 52 then char_of (i + 71)
      else if i < 62 then char_of (i - 4) else if i = 62 then CHR ''-'' else CHR ''_'')"

text \<open>\<open>base64.URLEncoding.EncodeToString\<close>\<close>

fun base64url :: "int list \<Rightarrow> string" where
  "base64url [] = []"
| "base64url [a] = [base64_char (a div 4), base64_char (a mod 4 * 16), CHR ''='', CHR ''='']"
| "base64url [a, b] =
     [base64_char (a div 4), base64_char (a mod 4 * 16 + b div 16), base64_char (b mod 16 * 4),
      CHR ''='']"
| "base64url (a # b # c # rest) =
     [base64_char (a div 4), base64_char (a mod 4 * 16 + b div 16),
      base64_char (b mod 16 * 4 + c div 64), base64_char (c mod 64)] @ base64url rest"

text \<open>The argument is the bytes that \<open>generateRandomBytes\<close> drew.\<close>

definition RandStringRunes :: "int list \<Rightarrow> string" where
  "RandStringRunes b = base64url b"

subsection \<open>Service\<close>

record Service =
  svc_meta :: ObjectMeta
  svc_Ports :: "ServicePort list"
  svc_Selector :: labels
  svc_ClusterIP :: string
  svc_Type :: string
  svc_rest :: opaque

definition new_meta :: "string \<Rightarrow> string \<Rightarrow> labels \<Rightarrow> labels \<Rightarrow> ObjectMeta" where
  "new_meta nam ns ls anns =
     \<lparr>om_Name = nam, om_Namespace = ns, om_Labels = ls, om_Annotations = anns, om_rest = []\<rparr>"

definition getServiceName :: "Grafana \<Rightarrow> string" where
  "getServiceName cr =
     (case spec_Service (Spec cr) of
        None \<Rightarrow> GrafanaServiceName
      | Some s \<Rightarrow> if gs_Name s \<noteq> [] then gs_Name s else GrafanaServiceName)"

definition getServiceLabels :: "Grafana \<Rightarrow> labels" where
  "getServiceLabels cr = (case spec_Service (Spec cr) of None \<Rightarrow> None | Some s \<Rightarrow> gs_Labels s)"

definition getServiceAnnotations :: "Grafana \<Rightarrow> labels \<Rightarrow> labels" where
  "getServiceAnnotations cr existing =
     (case spec_Service (Spec cr) of
        None \<Rightarrow> existing
      | Some s \<Rightarrow> MergeAnnotations (gs_Annotations s) existing)"

definition getServiceType :: "Grafana \<Rightarrow> string" where
  "getServiceType cr =
     (case spec_Service (Spec cr) of
        None \<Rightarrow> ''ClusterIP''
      | Some s \<Rightarrow> if gs_Type s = [] then ''ClusterIP'' else gs_Type s)"

definition getClusterIP :: "Grafana \<Rightarrow> string" where
  "getClusterIP cr = (case spec_Service (Spec cr) of None \<Rightarrow> [] | Some s \<Rightarrow> gs_ClusterIP s)"

definition GetGrafanaPort :: "Grafana \<Rightarrow> int" where
  "GetGrafanaPort cr =
     (case cfg_Server (spec_Config (Spec cr)) of
        None \<Rightarrow> GrafanaHttpPort
      | Some s \<Rightarrow>
          if Server_HttpPort s = [] then GrafanaHttpPort
          else (case Atoi (Server_HttpPort s) of None \<Rightarrow> GrafanaHttpPort | Some port \<Rightarrow> port))"

text \<open>
  The ports: the default port, with the node port of the last port of the current service that
  has its name, then the additional ports.
\<close>

definition getServicePorts :: "Grafana \<Rightarrow> Service option \<Rightarrow> ServicePort list" where
  "getServicePorts cr currentState =
     (let intPort = to_int32 (GetGrafanaPort cr);
          default = \<lparr>sp_Name = GrafanaHttpPortName, sp_Protocol = ''TCP'', sp_Port = intPort,
                     sp_TargetPort = FromString ''grafana-http'', sp_NodePort = 0, sp_rest = []\<rparr>
      in case spec_Service (Spec cr) of
           None \<Rightarrow> [default]
         | Some s \<Rightarrow>
             let default = (case currentState of
                   None \<Rightarrow> default
                 | Some cur \<Rightarrow>
                     foldl (\<lambda>d port. if sp_Name port = GrafanaHttpPortName
                                      then d\<lparr>sp_NodePort := sp_NodePort port\<rparr> else d)
                       default (svc_Ports cur))
             in default # filter (\<lambda>port. \<not> (sp_Name port = GrafanaHttpPortName \<or> sp_Port port = intPort))
                            (gs_Ports s))"

definition GrafanaService :: "Grafana \<Rightarrow> Service" where
  "GrafanaService cr =
     \<lparr>svc_meta = new_meta (getServiceName cr) (om_Namespace (meta cr)) (getServiceLabels cr)
                   (getServiceAnnotations cr None),
      svc_Ports = getServicePorts cr None,
      svc_Selector = Some [''app'' \<mapsto> GrafanaPodLabel],
      svc_ClusterIP = getClusterIP cr,
      svc_Type = getServiceType cr,
      svc_rest = []\<rparr>"

definition GrafanaServiceReconciled :: "Grafana \<Rightarrow> Service \<Rightarrow> Service" where
  "GrafanaServiceReconciled cr currentState =
     currentState
       \<lparr>svc_meta := (svc_meta currentState)
          \<lparr>om_Name := getServiceName cr, om_Labels := getServiceLabels cr,
           om_Annotations := getServiceAnnotations cr (om_Annotations (svc_meta currentState))\<rparr>,
        svc_Ports := getServicePorts cr (Some currentState),
        svc_Type := getServiceType cr\<rparr>"

definition GrafanaServiceSelector :: "Grafana \<Rightarrow> ObjectKey" where
  "GrafanaServiceSelector cr =
     \<lparr>key_Namespace = om_Namespace (meta cr), key_Name = getServiceName cr\<rparr>"

subsection \<open>Volume claim\<close>

record PersistentVolumeClaim =
  pvc_meta :: ObjectMeta
  pvc_AccessModes :: "string list"
  pvc_Requests :: "string \<rightharpoonup> Quantity"
  pvc_StorageClassName :: "string option"
  pvc_rest :: opaque

definition getPVCLabels :: "Grafana \<Rightarrow> labels" where
  "getPVCLabels cr = (case spec_DataStorage (Spec cr) of None \<Rightarrow> None | Some d \<Rightarrow> ds_Labels d)"

definition getPVCAnnotations :: "Grafana \<Rightarrow> labels \<Rightarrow> labels" where
  "getPVCAnnotations cr existing =
     (case spec_DataStorage (Spec cr) of
        None \<Rightarrow> existing
      | Some d \<Rightarrow> MergeAnnotations (ds_Annotations d) existing)"

definition getStorageClass :: "Grafana \<Rightarrow> string option" where
  "getStorageClass cr =
     (case spec_DataStorage (Spec cr) of
        None \<Rightarrow> None
      | Some d \<Rightarrow> if ds_Class d = [] then None else Some (ds_Class d))"

text \<open>\<open>getPVCSpec\<close> reads through the pointer to the storage part of the specification.\<close>

definition GrafanaDataPVC :: "Grafana \<Rightarrow> PersistentVolumeClaim go" where
  "GrafanaDataPVC cr =
     go_bind (deref (spec_DataStorage (Spec cr))) (\<lambda>d.
       Inr \<lparr>pvc_meta = new_meta GrafanaDataStorageName (om_Namespace (meta cr)) (getPVCLabels cr)
                         (getPVCAnnotations cr None),
            pvc_AccessModes = ds_AccessModes d,
            pvc_Requests = [''storage'' \<mapsto> ds_Size d],
            pvc_StorageClassName = getStorageClass cr,
            pvc_rest = []\<rparr>)"

definition GrafanaPVCReconciled :: "Grafana \<Rightarrow> PersistentVolumeClaim \<Rightarrow> PersistentVolumeClaim" where
  "GrafanaPVCReconciled cr currentState =
     currentState\<lparr>pvc_meta := (pvc_meta currentState)
       \<lparr>om_Labels := getPVCLabels cr,
        om_Annotations := getPVCAnnotations cr (om_Annotations (pvc_meta currentState))\<rparr>\<rparr>"

definition GrafanaDataStorageSelector :: "Grafana \<Rightarrow> ObjectKey" where
  "GrafanaDataStorageSelector cr =
     \<lparr>key_Namespace = om_Namespace (meta cr), key_Name = GrafanaDataStorageName\<rparr>"

subsection \<open>Service account\<close>

record ServiceAccount =
  sa_meta :: ObjectMeta
  sa_ImagePullSecrets :: "string list"
  sa_rest :: opaque

definition getServiceAccountLabels :: "Grafana \<Rightarrow> labels" where
  "getServiceAccountLabels cr =
     (case spec_ServiceAccount (Spec cr) of None \<Rightarrow> None | Some a \<Rightarrow> gsa_Labels a)"

definition getServiceAccountAnnotations :: "Grafana \<Rightarrow> labels \<Rightarrow> labels" where
  "getServiceAccountAnnotations cr existing =
     (case spec_ServiceAccount (Spec cr) of
        None \<Rightarrow> existing
      | Some a \<Rightarrow> MergeAnnotations (gsa_Annotations a) existing)"

definition appendIfAbsent :: "string list \<Rightarrow> string \<Rightarrow> string list" where
  "appendIfAbsent secrets secret =
     (if list_ex (\<lambda>s. s = secret) secrets then secrets else secrets @ [secret])"

definition mergeImagePullSecrets :: "string list \<Rightarrow> string list \<Rightarrow> string list" where
  "mergeImagePullSecrets requested existing = foldl appendIfAbsent existing requested"

definition getServiceAccountImagePullSecrets :: "Grafana \<Rightarrow> string list \<Rightarrow> string list" where
  "getServiceAccountImagePullSecrets cr existing =
     (case spec_ServiceAccount (Spec cr) of
        None \<Rightarrow> existing
      | Some a \<Rightarrow> mergeImagePullSecrets (gsa_ImagePullSecrets a) existing)"

definition GrafanaServiceAccount :: "Grafana \<Rightarrow> ServiceAccount" where
  "GrafanaServiceAccount cr =
     \<lparr>sa_meta = new_meta GrafanaServiceAccountName (om_Namespace (meta cr))
                  (getServiceAccountLabels cr) (getServiceAccountAnnotations cr None),
      sa_ImagePullSecrets = getServiceAccountImagePullSecrets cr [],
      sa_rest = []\<rparr>"

definition GrafanaServiceAccountSelector :: "Grafana \<Rightarrow> ObjectKey" where
  "GrafanaServiceAccountSelector cr =
     \<lparr>key_Namespace = om_Namespace (meta cr), key_Name = GrafanaServiceAccountName\<rparr>"

definition GrafanaServiceAccountReconciled :: "Grafana \<Rightarrow> ServiceAccount \<Rightarrow> ServiceAccount" where
  "GrafanaServiceAccountReconciled cr currentState =
     currentState
       \<lparr>sa_meta := (sa_meta currentState)
          \<lparr>om_Labels := getServiceAccountLabels cr,
           om_Annotations := getServiceAccountAnnotations cr (om_Annotations (sa_meta currentState))\<rparr>,
        sa_ImagePullSecrets :=
          getServiceAccountImagePullSecrets cr (sa_ImagePullSecrets currentState)\<rparr>"

subsection \<open>Credentials\<close>

record Secret =
  sec_meta :: ObjectMeta
  sec_Data :: labels
  sec_Type :: string
  sec_rest :: opaque

definition getAdminUser :: "Grafana \<Rightarrow> Secret option \<Rightarrow> string" where
  "getAdminUser cr current =
     (let kept = (case current of
            Some s \<Rightarrow> (case sec_Data s of
                         Some d \<Rightarrow> (case d GrafanaAdminUserEnvVar of
                                      Some u \<Rightarrow> u | None \<Rightarrow> DefaultAdminUser)
                       | None \<Rightarrow> DefaultAdminUser)
          | None \<Rightarrow> DefaultAdminUser)
      in case cfg_Security (spec_Config (Spec cr)) of
           None \<Rightarrow> kept
         | Some s \<Rightarrow> if Security_AdminUser s = [] then kept else Security_AdminUser s)"

definition getAdminPassword :: "int list \<Rightarrow> Grafana \<Rightarrow> Secret option \<Rightarrow> string" where
  "getAdminPassword rnd cr current =
     (let kept = (case current of
            Some s \<Rightarrow> (case sec_Data s of
                         Some d \<Rightarrow> (case d GrafanaAdminPasswordEnvVar of
                                      Some p \<Rightarrow> p | None \<Rightarrow> RandStringRunes rnd)
                       | None \<Rightarrow> RandStringRunes rnd)
          | None \<Rightarrow> RandStringRunes rnd)
      in case cfg_Security (spec_Config (Spec cr)) of
           None \<Rightarrow> kept
         | Some s \<Rightarrow> if Security_AdminPassword s = [] then kept else Security_AdminPassword s)"

type_synonym environment = "string \<rightharpoonup> string"

definition getData :: "int list \<Rightarrow> environment \<Rightarrow> Grafana \<Rightarrow> Secret option
    \<Rightarrow> (string \<rightharpoonup> string) \<times> environment" where
  "getData rnd env cr current =
     (let user = getAdminUser cr current; password = getAdminPassword rnd cr current
      in ([GrafanaAdminUserEnvVar \<mapsto> user, GrafanaAdminPasswordEnvVar \<mapsto> password],
          env(GrafanaAdminUserEnvVar \<mapsto> user, GrafanaAdminPasswordEnvVar \<mapsto> password)))"

definition AdminSecret :: "int list \<Rightarrow> environment \<Rightarrow> Grafana \<Rightarrow> Secret \<times> environment" where
  "AdminSecret rnd env cr =
     (let (data, env') = getData rnd env cr None
      in (\<lparr>sec_meta = new_meta GrafanaAdminSecretName (om_Namespace (meta cr)) None None,
           sec_Data = Some data, sec_Type = ''Opaque'', sec_rest = []\<rparr>, env'))"

definition AdminSecretReconciled :: "int list \<Rightarrow> environment \<Rightarrow> Grafana \<Rightarrow> Secret
    \<Rightarrow> Secret \<times> environment" where
  "AdminSecretReconciled rnd env cr currentState =
     (let (data, env') = getData rnd env cr (Some currentState)
      in (currentState\<lparr>sec_Data := Some data\<rparr>, env'))"

definition AdminSecretSelector :: "Grafana \<Rightarrow> ObjectKey" where
  "AdminSecretSelector cr =
     \<lparr>key_Namespace = om_Namespace (meta cr), key_Name = GrafanaAdminSecretName\<rparr>"

subsection \<open>Config maps\<close>

record ConfigMap =
  cm_meta :: ObjectMeta
  cm_Data :: labels
  cm_rest :: opaque

definition GrafanaConfigMap :: "(string \<Rightarrow> string option) \<Rightarrow> Grafana \<Rightarrow> ConfigMap" where
  "GrafanaConfigMap pf cr =
     (let (config, hash) = Write pf (spec_Config (Spec cr))
      in \<lparr>cm_meta = new_meta GrafanaConfigName (om_Namespace (meta cr)) None
                      (Some [''lastConfig'' \<mapsto> hash]),
          cm_Data = Some [GrafanaConfigFileName \<mapsto> config],
          cm_rest = []\<rparr>)"

text \<open>Writing into the data of a config map that has none panics.\<close>

definition GrafanaConfigReconciled :: "(string \<Rightarrow> string option) \<Rightarrow> Grafana \<Rightarrow> ConfigMap
    \<Rightarrow> ConfigMap go" where
  "GrafanaConfigReconciled pf cr currentState =
     (let (config, hash) = Write pf (spec_Config (Spec cr))
      in case cm_Data currentState of
           None \<Rightarrow> Inl NilMapWrite
         | Some d \<Rightarrow> Inr (currentState
             \<lparr>cm_meta := (cm_meta currentState)\<lparr>om_Annotations := Some [LastConfigAnnotation \<mapsto> hash]\<rparr>,
              cm_Data := Some (d(GrafanaConfigFileName \<mapsto> config))\<rparr>))"

definition GrafanaConfigSelector :: "Grafana \<Rightarrow> ObjectKey" where
  "GrafanaConfigSelector cr =
     \<lparr>key_Namespace = om_Namespace (meta cr), key_Name = GrafanaConfigName\<rparr>"

definition GrafanaDatasourcesConfig :: "Grafana \<Rightarrow> ConfigMap" where
  "GrafanaDatasourcesConfig cr =
     \<lparr>cm_meta = new_meta GrafanaDatasourcesConfigMapName (om_Namespace (meta cr)) None
                  (Some [LastConfigAnnotation \<mapsto> []]),
      cm_Data = None, cm_rest = []\<rparr>"

definition GrafanaDatasourceConfigSelector :: "Grafana \<Rightarrow> ObjectKey" where
  "GrafanaDatasourceConfigSelector cr =
     \<lparr>key_Namespace = om_Namespace (meta cr), key_Name = GrafanaDatasourcesConfigMapName\<rparr>"

subsection \<open>Route\<close>

record RouteSpec =
  rs_Host :: string
  rs_Path :: string
  rs_ToKind :: string
  rs_ToName :: string
  rs_TargetPort :: IntOrString
  rs_Termination :: string
  rs_WildcardPolicy :: string

record Condition =
  cond_Type :: string
  cond_Status :: string
  cond_Reason :: string

record Route =
  rt_meta :: ObjectMeta
  rt_Spec :: RouteSpec
  rt_StatusIngress :: "Condition list list"
  rt_rest :: opaque

definition GetHost :: "Grafana \<Rightarrow> string" where
  "GetHost cr = (case spec_Ingress (Spec cr) of None \<Rightarrow> [] | Some i \<Rightarrow> gi_Hostname i)"

definition GetPath :: "Grafana \<Rightarrow> string" where
  "GetPath cr =
     (case spec_Ingress (Spec cr) of
        None \<Rightarrow> ''/'' | Some i \<Rightarrow> if gi_Path i = [] then ''/'' else gi_Path i)"

definition GetIngressLabels :: "Grafana \<Rightarrow> labels" where
  "GetIngressLabels cr = (case spec_Ingress (Spec cr) of None \<Rightarrow> None | Some i \<Rightarrow> gi_Labels i)"

definition GetIngressAnnotations :: "Grafana \<Rightarrow> labels \<Rightarrow> labels" where
  "GetIngressAnnotations cr existing =
     (case spec_Ingress (Spec cr) of
        None \<Rightarrow> existing
      | Some i \<Rightarrow> MergeAnnotations (gi_Annotations i) existing)"

definition GetIngressTargetPort :: "Grafana \<Rightarrow> IntOrString" where
  "GetIngressTargetPort cr =
     (let defaultPort = intstr_FromInt (GetGrafanaPort cr)
      in case spec_Ingress (Spec cr) of
           None \<Rightarrow> defaultPort
         | Some i \<Rightarrow> if gi_TargetPort i = [] then defaultPort else FromString (gi_TargetPort i))"

definition getTermination :: "Grafana \<Rightarrow> string" where
  "getTermination cr =
     (case spec_Ingress (Spec cr) of
        None \<Rightarrow> ''edge''
      | Some i \<Rightarrow>
          if gi_Termination i = ''edge'' then ''edge''
          else if gi_Termination i = ''reencrypt'' then ''reencrypt''
          else if gi_Termination i = ''passthrough'' then ''passthrough''
          else ''edge'')"

definition getRouteSpec :: "Grafana \<Rightarrow> RouteSpec" where
  "getRouteSpec cr =
     \<lparr>rs_Host = GetHost cr, rs_Path = GetPath cr, rs_ToKind = ''Service'',
      rs_ToName = (case spec_Service (Spec cr) of
                     None \<Rightarrow> GrafanaServiceName
                   | Some s \<Rightarrow> if gs_Name s \<noteq> [] then gs_Name s else GrafanaServiceName),
      rs_TargetPort = GetIngressTargetPort cr, rs_Termination = getTermination cr,
      rs_WildcardPolicy = ''None''\<rparr>"

definition GrafanaRoute :: "Grafana \<Rightarrow> Route" where
  "GrafanaRoute cr =
     \<lparr>rt_meta = new_meta GrafanaRouteName (om_Namespace (meta cr)) (GetIngressLabels cr)
                  (GetIngressAnnotations cr None),
      rt_Spec = getRouteSpec cr, rt_StatusIngress = [], rt_rest = []\<rparr>"

definition GrafanaRouteSelector :: "Grafana \<Rightarrow> ObjectKey" where
  "GrafanaRouteSelector cr =
     \<lparr>key_Namespace = om_Namespace (meta cr), key_Name = GrafanaRouteName\<rparr>"

definition GrafanaRouteReconciled :: "Grafana \<Rightarrow> Route \<Rightarrow> Route" where
  "GrafanaRouteReconciled cr currentState =
     currentState
       \<lparr>rt_meta := (rt_meta currentState)
          \<lparr>om_Labels := GetIngressLabels cr,
           om_Annotations := GetIngressAnnotations cr (om_Annotations (rt_meta currentState))\<rparr>,
        rt_Spec := getRouteSpec cr\<rparr>"

subsection \<open>Ingress\<close>

record IngressTLS =
  tls_Hosts :: "string list"
  tls_SecretName :: string

record IngressSpec =
  is_TLS :: "IngressTLS list"
  is_IngressClassName :: "string option"
  is_Host :: string
  is_Path :: string
  is_PathType :: "string option"
  is_ServiceName :: string
  is_PortNumber :: int32
  is_PortName :: string

record LoadBalancerIngress =
  lb_Hostname :: string
  lb_IP :: string

record Ingress =
  ing_meta :: ObjectMeta
  ing_Spec :: IngressSpec
  ing_LoadBalancer :: "LoadBalancerIngress list"
  ing_rest :: opaque

definition getIngressTLS :: "Grafana \<Rightarrow> IngressTLS list" where
  "getIngressTLS cr =
     (case spec_Ingress (Spec cr) of
        None \<Rightarrow> []
      | Some i \<Rightarrow>
          if gi_TLSEnabled i
          then [\<lparr>tls_Hosts = [gi_Hostname i], tls_SecretName = gi_TLSSecretName i\<rparr>]
          else [])"

definition GetIngressPathType :: "Grafana \<Rightarrow> string option go" where
  "GetIngressPathType cr =
     go_bind (deref (spec_Ingress (Spec cr))) (\<lambda>i.
       let t = gi_PathType i
       in Inr (if t = ''Exact'' \<or> t = ''Prefix'' then Some t
               else if t = ''ImplementationSpecific'' then Some ''ImplementationSpecific''
               else None))"

definition GetIngressClassName :: "Grafana \<Rightarrow> string option go" where
  "GetIngressClassName cr =
     go_bind (deref (spec_Ingress (Spec cr))) (\<lambda>i.
       Inr (if gi_IngressClassName i = [] then None else Some (gi_IngressClassName i)))"

definition getIngressSpec :: "Grafana \<Rightarrow> IngressSpec go" where
  "getIngressSpec cr =
     (let serviceName = (case spec_Service (Spec cr) of
            None \<Rightarrow> GrafanaServiceName
          | Some s \<Rightarrow> if gs_Name s \<noteq> [] then gs_Name s else GrafanaServiceName);
          port = GetIngressTargetPort cr
      in go_bind (GetIngressClassName cr) (\<lambda>className.
           go_bind (GetIngressPathType cr) (\<lambda>pathType.
             Inr \<lparr>is_TLS = getIngressTLS cr, is_IngressClassName = className, is_Host = GetHost cr,
                  is_Path = GetPath cr, is_PathType = pathType, is_ServiceName = serviceName,
                  is_PortNumber = (if IntVal port \<noteq> 0 then IntVal port else 0),
                  is_PortName = (if IntVal port \<noteq> 0 then [] else StrVal port)\<rparr>)))"

definition GrafanaIngress :: "Grafana \<Rightarrow> Ingress go" where
  "GrafanaIngress cr =
     go_bind (getIngressSpec cr) (\<lambda>spec.
       Inr \<lparr>ing_meta = new_meta GrafanaIngressName (om_Namespace (meta cr)) (GetIngressLabels cr)
                         (GetIngressAnnotations cr None),
            ing_Spec = spec, ing_LoadBalancer = [], ing_rest = []\<rparr>)"

definition GrafanaIngressReconciled :: "Grafana \<Rightarrow> Ingress \<Rightarrow> Ingress go" where
  "GrafanaIngressReconciled cr currentState =
     go_bind (getIngressSpec cr) (\<lambda>spec.
       Inr (currentState
         \<lparr>ing_meta := (ing_meta currentState)
            \<lparr>om_Labels := GetIngressLabels cr,
             om_Annotations := GetIngressAnnotations cr (om_Annotations (ing_meta currentState))\<rparr>,
          ing_Spec := spec\<rparr>))"

definition GrafanaIngressSelector :: "Grafana \<Rightarrow> ObjectKey" where
  "GrafanaIngressSelector cr =
     \<lparr>key_Namespace = om_Namespace (meta cr), key_Name = GrafanaIngressName\<rparr>"

subsection \<open>Facts about the builders\<close>

lemma MergeAnnotations_idem [simp]:
  "MergeAnnotations r (MergeAnnotations r e) = MergeAnnotations r e"
  by (cases e; cases r) (auto simp: MergeAnnotations_def map_add_def fun_eq_iff split: option.split)

lemma MergeAnnotations_nil [simp]: "MergeAnnotations r None = r"
  by (simp add: MergeAnnotations_def)

lemma getServiceAnnotations_idem [simp]:
  "getServiceAnnotations cr (getServiceAnnotations cr e) = getServiceAnnotations cr e"
  by (simp add: getServiceAnnotations_def split: option.split)

lemma getPVCAnnotations_idem [simp]:
  "getPVCAnnotations cr (getPVCAnnotations cr e) = getPVCAnnotations cr e"
  by (simp add: getPVCAnnotations_def split: option.split)

lemma getServiceAccountAnnotations_idem [simp]:
  "getServiceAccountAnnotations cr (getServiceAccountAnnotations cr e) = getServiceAccountAnnotations cr e"
  by (simp add: getServiceAccountAnnotations_def split: option.split)

lemma GetIngressAnnotations_idem [simp]:
  "GetIngressAnnotations cr (GetIngressAnnotations cr e) = GetIngressAnnotations cr e"
  by (simp add: GetIngressAnnotations_def split: option.split)

text \<open>The node port that the loop over the current ports ends with.\<close>

definition node_port :: "int32 \<Rightarrow> ServicePort list \<Rightarrow> int32" where
  "node_port n ps = foldl (\<lambda>n p. if sp_Name p = GrafanaHttpPortName then sp_NodePort p else n) n ps"

lemma fold_node_port:
  "foldl (\<lambda>d port. if sp_Name port = GrafanaHttpPortName then d\<lparr>sp_NodePort := sp_NodePort port\<rparr> else d) d ps
   = d\<lparr>sp_NodePort := node_port (sp_NodePort d) ps\<rparr>"
  by (induction ps arbitrary: d) (simp_all add: node_port_def)

lemma node_port_none: "list_all (\<lambda>p. sp_Name p \<noteq> GrafanaHttpPortName) ps \<Longrightarrow> node_port n ps = n"
  by (induction ps) (simp_all add: node_port_def)

lemma node_port_Cons:
  "node_port n (p # ps) = node_port (if sp_Name p = GrafanaHttpPortName then sp_NodePort p else n) ps"
  by (simp add: node_port_def)

definition default_port :: "Grafana \<Rightarrow> ServicePort" where
  "default_port cr =
     \<lparr>sp_Name = GrafanaHttpPortName, sp_Protocol = ''TCP'', sp_Port = to_int32 (GetGrafanaPort cr),
      sp_TargetPort = FromString ''grafana-http'', sp_NodePort = 0, sp_rest = []\<rparr>"

definition extra_ports :: "Grafana \<Rightarrow> ServicePort list" where
  "extra_ports cr =
     (case spec_Service (Spec cr) of
        None \<Rightarrow> []
      | Some s \<Rightarrow> filter (\<lambda>port. sp_Name port \<noteq> GrafanaHttpPortName
                             \<and> sp_Port port \<noteq> to_int32 (GetGrafanaPort cr)) (gs_Ports s))"

lemma getServicePorts_eq:
  "getServicePorts cr cur =
     (default_port cr)\<lparr>sp_NodePort :=
        (case (spec_Service (Spec cr), cur) of
           (Some s, Some c) \<Rightarrow> node_port 0 (svc_Ports c) | _ \<Rightarrow> 0)\<rparr> # extra_ports cr"
  by (cases "spec_Service (Spec cr)"; cases cur)
    (simp_all add: getServicePorts_def Let_def fold_node_port default_port_def extra_ports_def)

lemma extra_ports_names: "list_all (\<lambda>p. sp_Name p \<noteq> GrafanaHttpPortName) (extra_ports cr)"
  by (auto simp: extra_ports_def list_all_iff split: option.split)

lemma getServicePorts_idem:
  "svc_Ports c = getServicePorts cr cur \<Longrightarrow> getServicePorts cr (Some c) = svc_Ports c"
  by (cases "spec_Service (Spec cr)"; cases cur)
    (simp_all add: getServicePorts_eq node_port_Cons node_port_none extra_ports_names
      default_port_def)

lemma set_mergeImagePullSecrets:
  "set (mergeImagePullSecrets r e) = set e \<union> set r"
  by (induction r arbitrary: e)
    (auto simp: mergeImagePullSecrets_def appendIfAbsent_def list_ex_iff)

lemma mergeImagePullSecrets_absent:
  "set r \<subseteq> set e \<Longrightarrow> mergeImagePullSecrets r e = e"
  by (induction r arbitrary: e)
    (auto simp: mergeImagePullSecrets_def appendIfAbsent_def list_ex_iff)

lemma mergeImagePullSecrets_idem [simp]:
  "mergeImagePullSecrets r (mergeImagePullSecrets r e) = mergeImagePullSecrets r e"
  by (rule mergeImagePullSecrets_absent) (simp add: set_mergeImagePullSecrets)

lemma mergeImagePullSecrets_distinct:
  "distinct e \<Longrightarrow> distinct (mergeImagePullSecrets r e)"
proof (induction r arbitrary: e)
  case (Cons s r)
  have "distinct (appendIfAbsent e s)"
    using Cons.prems by (auto simp: appendIfAbsent_def list_ex_iff)
  from Cons.IH [OF this] show ?case by (simp add: mergeImagePullSecrets_def)
qed (simp add: mergeImagePullSecrets_def)

lemma mergeImagePullSecrets_prefix:
  "\<exists>new. mergeImagePullSecrets r e = e @ new"
proof (induction r arbitrary: e)
  case (Cons s r)
  obtain new where "mergeImagePullSecrets r (appendIfAbsent e s) = appendIfAbsent e s @ new"
    using Cons.IH by blast
  then show ?case by (auto simp: mergeImagePullSecrets_def appendIfAbsent_def split: if_splits)
qed (simp add: mergeImagePullSecrets_def)

lemma getServiceAccountImagePullSecrets_idem [simp]:
  "getServiceAccountImagePullSecrets cr (getServiceAccountImagePullSecrets cr e)
   = getServiceAccountImagePullSecrets cr e"
  by (simp add: getServiceAccountImagePullSecrets_def split: option.split)

lemma length_base64url: "length (base64url b) = 4 * ((length b + 2) div 3)"
proof (induction b rule: base64url.induct)
  case (4 a b c rest)
  have "(length rest + 5) div 3 = Suc ((length rest + 2) div 3)" by presburger
  with 4 show ?case by (simp add: add.commute)
qed auto

subsection \<open>Properties\<close>

text \<open>
  The first port of the service is always the default port, with the configured port
  number; no other port has its name or its number, so it cannot be overridden; every other
  requested port is kept, in order.
\<close>

theorem service_ports:
  "sp_Name (hd (getServicePorts cr cur)) = GrafanaHttpPortName
   \<and> sp_Port (hd (getServicePorts cr cur)) = to_int32 (GetGrafanaPort cr)
   \<and> sp_TargetPort (hd (getServicePorts cr cur)) = FromString ''grafana-http''
   \<and> list_all (\<lambda>p. sp_Name p \<noteq> GrafanaHttpPortName \<and> sp_Port p \<noteq> to_int32 (GetGrafanaPort cr))
       (tl (getServicePorts cr cur))
   \<and> tl (getServicePorts cr cur) = extra_ports cr"
  by (auto simp: getServicePorts_eq default_port_def extra_ports_def list_all_iff split: option.split)

lemma service_update_idem:
  "GrafanaServiceReconciled cr (GrafanaService cr) = GrafanaService cr"
  "GrafanaServiceReconciled cr (GrafanaServiceReconciled cr svc) = GrafanaServiceReconciled cr svc"
  using getServicePorts_idem [of "GrafanaService cr" cr None]
    getServicePorts_idem [of "GrafanaServiceReconciled cr svc" cr "Some svc"]
  by (simp_all add: GrafanaServiceReconciled_def GrafanaService_def new_meta_def)

lemma pvc_update_idem:
  "GrafanaPVCReconciled cr (GrafanaPVCReconciled cr pvc) = GrafanaPVCReconciled cr pvc"
  "GrafanaDataPVC cr = Inr pvc \<Longrightarrow> GrafanaPVCReconciled cr pvc = pvc"
  subgoal by (simp add: GrafanaPVCReconciled_def)
  subgoal by (cases "spec_DataStorage (Spec cr)")
      (auto simp: GrafanaPVCReconciled_def GrafanaDataPVC_def new_meta_def)
  done

lemma account_update_idem:
  "GrafanaServiceAccountReconciled cr (GrafanaServiceAccount cr) = GrafanaServiceAccount cr"
  "GrafanaServiceAccountReconciled cr (GrafanaServiceAccountReconciled cr sa) = GrafanaServiceAccountReconciled cr sa"
  by (simp_all add: GrafanaServiceAccountReconciled_def GrafanaServiceAccount_def new_meta_def)

lemma route_update_idem:
  "GrafanaRouteReconciled cr (GrafanaRoute cr) = GrafanaRoute cr"
  "GrafanaRouteReconciled cr (GrafanaRouteReconciled cr rt) = GrafanaRouteReconciled cr rt"
  by (simp_all add: GrafanaRouteReconciled_def GrafanaRoute_def new_meta_def)

lemma ingress_update_idem:
  "go_bind (GrafanaIngress cr) (GrafanaIngressReconciled cr) = GrafanaIngress cr"
  "go_bind (GrafanaIngressReconciled cr ing) (GrafanaIngressReconciled cr) = GrafanaIngressReconciled cr ing"
  by (cases "getIngressSpec cr"; simp add: GrafanaIngress_def GrafanaIngressReconciled_def new_meta_def)+

lemma getAdminUser_kept:
  "sec_Data s = Some d \<Longrightarrow> d GrafanaAdminUserEnvVar = Some (getAdminUser cr cur) \<Longrightarrow>
   getAdminUser cr (Some s) = getAdminUser cr cur"
  by (cases "cfg_Security (spec_Config (Spec cr))") (simp_all add: getAdminUser_def Let_def)

lemma getAdminPassword_kept:
  "sec_Data s = Some d \<Longrightarrow> d GrafanaAdminPasswordEnvVar = Some (getAdminPassword rnd cr cur) \<Longrightarrow>
   getAdminPassword rnd' cr (Some s) = getAdminPassword rnd cr cur"
  by (cases "cfg_Security (spec_Config (Spec cr))") (simp_all add: getAdminPassword_def Let_def)

lemma getData_kept:
  assumes "sec_Data s = Some (fst (getData rnd env cr cur))"
  shows "fst (getData rnd' env' cr (Some s)) = fst (getData rnd env cr cur)"
proof -
  have "GrafanaAdminUserEnvVar \<noteq> GrafanaAdminPasswordEnvVar"
    by (simp add: GrafanaAdminUserEnvVar_def GrafanaAdminPasswordEnvVar_def)
  then have "getAdminUser cr (Some s) = getAdminUser cr cur"
    "getAdminPassword rnd' cr (Some s) = getAdminPassword rnd cr cur"
    using getAdminUser_kept [OF assms] getAdminPassword_kept [OF assms]
    by (simp_all add: getData_def Let_def)
  then show ?thesis by (simp add: getData_def Let_def)
qed

lemma secret_update_idem:
  "fst (AdminSecretReconciled rnd' env' cr (fst (AdminSecret rnd env cr))) = fst (AdminSecret rnd env cr)"
  "fst (AdminSecretReconciled rnd' env' cr (fst (AdminSecretReconciled rnd env cr cur)))
   = fst (AdminSecretReconciled rnd env cr cur)"
  using getData_kept [of "fst (AdminSecret rnd env cr)" rnd env cr None rnd' env']
    getData_kept [of "fst (AdminSecretReconciled rnd env cr cur)" rnd env cr "Some cur" rnd' env']
  by (simp_all add: AdminSecret_def AdminSecretReconciled_def case_prod_beta)

lemma config_digest:
  "GrafanaConfigReconciled pf cr cur = Inr cm \<Longrightarrow>
   label_get (om_Annotations (cm_meta cm)) LastConfigAnnotation
     = sha256_hex (label_get (cm_Data cm) GrafanaConfigFileName)
   \<and> label_get (cm_Data cm) GrafanaConfigFileName = fst (Write pf (spec_Config (Spec cr)))"
  by (auto simp: GrafanaConfigReconciled_def Write_def Let_def split: option.splits)

lemma config_update_idem:
  "GrafanaConfigReconciled pf cr cur = Inr cm \<Longrightarrow> GrafanaConfigReconciled pf cr cm = Inr cm"
  by (auto simp: GrafanaConfigReconciled_def Write_def Let_def split: option.splits)

text \<open>
  Updating the service, the volume claim, the service account, the route and the ingress
  is idempotent, and updating what was just created changes nothing: reconciliation settles
  after one step and does not flap, node ports, annotations and pull secrets included.
\<close>

theorem updates_idempotent:
  "GrafanaServiceReconciled cr (GrafanaService cr) = GrafanaService cr
   \<and> GrafanaServiceReconciled cr (GrafanaServiceReconciled cr svc) = GrafanaServiceReconciled cr svc
   \<and> GrafanaPVCReconciled cr (GrafanaPVCReconciled cr pvc) = GrafanaPVCReconciled cr pvc
   \<and> GrafanaServiceAccountReconciled cr (GrafanaServiceAccount cr) = GrafanaServiceAccount cr
   \<and> GrafanaServiceAccountReconciled cr (GrafanaServiceAccountReconciled cr sa)
     = GrafanaServiceAccountReconciled cr sa
   \<and> GrafanaRouteReconciled cr (GrafanaRoute cr) = GrafanaRoute cr
   \<and> GrafanaRouteReconciled cr (GrafanaRouteReconciled cr rt) = GrafanaRouteReconciled cr rt
   \<and> go_bind (GrafanaIngress cr) (GrafanaIngressReconciled cr) = GrafanaIngress cr
   \<and> go_bind (GrafanaIngressReconciled cr ing) (GrafanaIngressReconciled cr)
     = GrafanaIngressReconciled cr ing"
  by (simp add: service_update_idem ingress_update_idem account_update_idem route_update_idem
      pvc_update_idem)

text \<open>
  The pull secrets of the service account are the existing ones, first and in order, then
  the requested ones that are missing, each once.
\<close>

theorem pull_secrets_merged:
  "take (length existing) (mergeImagePullSecrets requested existing) = existing
   \<and> set (mergeImagePullSecrets requested existing) = set existing \<union> set requested
   \<and> distinct (mergeImagePullSecrets requested (remdups existing))"
  using mergeImagePullSecrets_prefix [of requested existing]
  by (auto simp: set_mergeImagePullSecrets mergeImagePullSecrets_distinct)


text \<open>
  A password that the operator makes up has sixteen characters.
\<close>

theorem random_password_length:
  "length b = 10 \<Longrightarrow> length (RandStringRunes b) = 16"
  by (simp add: RandStringRunes_def length_base64url)

lemma random_password_length_witness: "length (RandStringRunes [1, 2, 3, 4, 5, 6, 7, 8, 9, 255]) = 16"
  by (rule random_password_length) simp

text \<open>
  The port of the configuration reaches the service: if \<open>http_port\<close> is the decimal form of
  a port, the service and the ingress target carry exactly that number, without wrap-around.
\<close>

theorem configured_port_reached:
  assumes "cfg_Server (spec_Config (Spec cr)) = Some s" "Server_HttpPort s = Itoa p"
    "0 < p" "p < 65536"
  shows "GetGrafanaPort cr = p \<and> sint (sp_Port (hd (getServicePorts cr cur))) = p"
proof -
  have "GetGrafanaPort cr = p"
    using assms Atoi_Itoa [of p] by (simp add: GetGrafanaPort_def in_int64_def)
  with assms(3,4) show ?thesis
    by (simp add: getServicePorts_eq default_port_def sint_to_int32)
qed

lemma configured_port_reached_witness:
  "sint (sp_Port (hd (getServicePorts (bare_grafana\<lparr>Spec := bare_spec
     \<lparr>spec_Config := zero_GrafanaConfig\<lparr>cfg_Server :=
        Some (zero_GrafanaConfigServer\<lparr>Server_HttpPort := Itoa 8080\<rparr>)\<rparr>\<rparr>\<rparr>) None))) = 8080"
  using configured_port_reached [of "bare_grafana\<lparr>Spec := bare_spec
     \<lparr>spec_Config := zero_GrafanaConfig\<lparr>cfg_Server :=
        Some (zero_GrafanaConfigServer\<lparr>Server_HttpPort := Itoa 8080\<rparr>)\<rparr>\<rparr>\<rparr>"
      "zero_GrafanaConfigServer\<lparr>Server_HttpPort := Itoa 8080\<rparr>" 8080]
  by simp

text \<open>
  External traffic reaches the operator's own service: route and ingress name the service
  that the operator creates; and if the user sets no target port, the ingress backend is the
  number of the service's default port.
\<close>

theorem ingress_targets_service:
  assumes "spec_Ingress (Spec cr) = Some i"
  shows "rs_ToName (rt_Spec (GrafanaRoute cr)) = om_Name (svc_meta (GrafanaService cr))
    \<and> (\<exists>ing. GrafanaIngress cr = Inr ing
         \<and> is_ServiceName (ing_Spec ing) = om_Name (svc_meta (GrafanaService cr))
         \<and> (gi_TargetPort i \<noteq> [] \<or>
             is_PortNumber (ing_Spec ing) = sp_Port (hd (svc_Ports (GrafanaService cr)))))"
  using assms
  by (auto simp: GrafanaRoute_def getRouteSpec_def GrafanaService_def new_meta_def
      getServiceName_def GrafanaIngress_def getIngressSpec_def GetIngressClassName_def
      GetIngressPathType_def Let_def GetIngressTargetPort_def intstr_FromInt_def IntVal_def
      StrVal_def getServicePorts_eq default_port_def split: option.split)

definition example_ingress :: GrafanaIngress where
  "example_ingress =
     \<lparr>gi_Annotations = None, gi_Hostname = ''h'', gi_Labels = None, gi_Path = [], gi_Enabled = True,
      gi_TLSEnabled = False, gi_TLSSecretName = [], gi_TargetPort = [], gi_Termination = [],
      gi_IngressClassName = [], gi_PathType = []\<rparr>"

lemma ingress_targets_service_witness:
  "\<exists>ing. GrafanaIngress (bare_grafana\<lparr>Spec := bare_spec\<lparr>spec_Ingress := Some example_ingress\<rparr>\<rparr>) = Inr ing"
  using ingress_targets_service
    [of "bare_grafana\<lparr>Spec := bare_spec\<lparr>spec_Ingress := Some example_ingress\<rparr>\<rparr>" example_ingress]
  by auto

text \<open>
  Every update of the configuration map stores the digest of the stored text under the
  annotation that the deployment is built from, and updating again changes nothing.
\<close>

theorem config_digest_stored:
  assumes "GrafanaConfigReconciled pf cr cur = Inr cm"
  shows "label_get (om_Annotations (cm_meta cm)) LastConfigAnnotation
           = sha256_hex (label_get (cm_Data cm) GrafanaConfigFileName)
         \<and> label_get (cm_Data cm) GrafanaConfigFileName = fst (Write pf (spec_Config (Spec cr)))
         \<and> GrafanaConfigReconciled pf cr cm = Inr cm"
  using config_digest [OF assms] config_update_idem [OF assms] by simp

lemma config_digest_stored_witness:
  "\<exists>cm. GrafanaConfigReconciled Some bare_grafana (GrafanaConfigMap Some bare_grafana) = Inr cm
        \<and> GrafanaConfigReconciled Some bare_grafana cm = Inr cm"
proof -
  obtain cm where cm: "GrafanaConfigReconciled Some bare_grafana (GrafanaConfigMap Some bare_grafana) = Inr cm"
    by (simp add: GrafanaConfigReconciled_def GrafanaConfigMap_def Write_def Let_def)
  with config_digest_stored [OF cm] show ?thesis by blast
qed

text \<open>
  The created configuration map carries its digest under another annotation: reading the one
  that the deployment is built from gives the empty string.
\<close>

lemma created_config_has_no_digest:
  "label_get (om_Annotations (cm_meta (GrafanaConfigMap pf cr))) LastConfigAnnotation = []"
  by (simp add: GrafanaConfigMap_def Write_def Let_def new_meta_def LastConfigAnnotation_def)

end
