(* ===== verification/Model_Deployment.thy ===== *)
theory Model_Deployment
  imports Model_Resources
begin

text \<open>
  The deployment of an instance, \<open>controllers/model/grafanaDeployment.go\<close>: pod labels and
  annotations, volumes and mounts, probes, the containers and the deployment itself. The
  images come from the values of the controller configuration, whose type assertions can panic.
  \<open>getPodLabels\<close> writes into the label map of the specification when there is one; the label
  map of the deployment object is the same map, which \<open>GrafanaDeployment\<close> below shows.
\<close>

record Deployment =
  dep_meta :: ObjectMeta
  dep_Replicas :: "int32 option"
  dep_SelectorLabels :: labels
  dep_TemplateName :: string
  dep_TemplateLabels :: labels
  dep_TemplateAnnotations :: labels
  dep_NodeSelector :: labels
  dep_Tolerations :: "opaque list"
  dep_Affinity :: opaque
  dep_SecurityContext :: opaque
  dep_Volumes :: "Volume list"
  dep_InitContainers :: "Container list"
  dep_Containers :: "Container list"
  dep_ServiceAccountName :: string
  dep_TerminationGracePeriodSeconds :: "int option"
  dep_PriorityClassName :: string
  dep_Strategy :: DeploymentStrategy
  dep_spec_rest :: opaque
  dep_Conditions :: "Condition list"
  dep_ReadyReplicas :: int32
  dep_StatusReplicas :: int32
  dep_rest :: opaque

subsection \<open>Settings of the specification\<close>

definition getSkipCreateAdminAccount :: "Grafana \<Rightarrow> bool" where
  "getSkipCreateAdminAccount cr =
     (case spec_Deployment (Spec cr) of
        Some d \<Rightarrow> (case gd_SkipCreateAdminAccount d of Some b \<Rightarrow> b | None \<Rightarrow> False)
      | None \<Rightarrow> False)"

definition getReplicas :: "Grafana \<Rightarrow> int32 option" where
  "getReplicas cr = (case spec_Deployment (Spec cr) of Some d \<Rightarrow> gd_Replicas d | None \<Rightarrow> None)"

definition getTerminationGracePeriod :: "Grafana \<Rightarrow> int option" where
  "getTerminationGracePeriod cr =
     (case spec_Deployment (Spec cr) of
        Some d \<Rightarrow> gd_TerminationGracePeriodSeconds d | None \<Rightarrow> None)"

definition getInitResources :: "Grafana \<Rightarrow> ResourceRequirements" where
  "getInitResources cr =
     (case spec_InitResources (Spec cr) of
        Some r \<Rightarrow> r
      | None \<Rightarrow>
          \<lparr>rr_Requests = Some [''memory'' \<mapsto> MustParse ''128Mi'', ''cpu'' \<mapsto> MustParse ''250m''],
           rr_Limits = Some [''memory'' \<mapsto> MustParse ''512Mi'', ''cpu'' \<mapsto> MustParse ''1000m'']\<rparr>)"

definition getResources :: "Grafana \<Rightarrow> ResourceRequirements" where
  "getResources cr =
     (case spec_Resources (Spec cr) of
        Some r \<Rightarrow> r
      | None \<Rightarrow>
          \<lparr>rr_Requests = Some [''memory'' \<mapsto> MustParse ''256Mi'', ''cpu'' \<mapsto> MustParse ''100m''],
           rr_Limits = Some [''memory'' \<mapsto> MustParse ''1024Mi'', ''cpu'' \<mapsto> MustParse ''500m'']\<rparr>)"

definition getAffinities :: "Grafana \<Rightarrow> opaque" where
  "getAffinities cr =
     (case spec_Deployment (Spec cr) of
        Some d \<Rightarrow> (case gd_Affinity d of Some a \<Rightarrow> a | None \<Rightarrow> empty_object)
      | None \<Rightarrow> empty_object)"

definition getSecurityContext :: "Grafana \<Rightarrow> opaque" where
  "getSecurityContext cr =
     (case spec_Deployment (Spec cr) of
        Some d \<Rightarrow> (case gd_SecurityContext d of Some a \<Rightarrow> a | None \<Rightarrow> empty_object)
      | None \<Rightarrow> empty_object)"

definition getContainerSecurityContext :: "Grafana \<Rightarrow> opaque" where
  "getContainerSecurityContext cr =
     (case spec_Deployment (Spec cr) of
        Some d \<Rightarrow> (case gd_ContainerSecurityContext d of Some a \<Rightarrow> a | None \<Rightarrow> empty_object)
      | None \<Rightarrow> empty_object)"

definition getRollingUpdateStrategy :: "IntOrString \<times> IntOrString" where
  "getRollingUpdateStrategy = (intstr_FromInt 25, intstr_FromInt 25)"

definition getDeploymentStrategy :: "Grafana \<Rightarrow> DeploymentStrategy" where
  "getDeploymentStrategy cr =
     (let default = RollingUpdate ''RollingUpdate'' (fst getRollingUpdateStrategy)
                      (snd getRollingUpdateStrategy)
      in case spec_Deployment (Spec cr) of
           Some d \<Rightarrow> (case gd_Strategy d of Some s \<Rightarrow> s | None \<Rightarrow> default)
         | None \<Rightarrow> default)"

text \<open>The map \<open>cr.Spec.Deployment.Labels\<close>, or a fresh empty one.\<close>

definition getDeploymentLabels :: "Grafana \<Rightarrow> (string \<rightharpoonup> string)" where
  "getDeploymentLabels cr =
     (case spec_Deployment (Spec cr) of
        Some d \<Rightarrow> (case gd_Labels d of Some ls \<Rightarrow> ls | None \<Rightarrow> (\<lambda>_. None))
      | None \<Rightarrow> (\<lambda>_. None))"

definition deployment_labels_shared :: "Grafana \<Rightarrow> bool" where
  "deployment_labels_shared cr \<longleftrightarrow>
     (case spec_Deployment (Spec cr) of Some d \<Rightarrow> gd_Labels d \<noteq> None | None \<Rightarrow> False)"

definition getPodAnnotations :: "Grafana \<Rightarrow> labels \<Rightarrow> labels" where
  "getPodAnnotations cr existing =
     (let annotations = MergeAnnotations
            (Some [''prometheus.io/scrape'' \<mapsto> ''true'',
                   ''prometheus.io/port'' \<mapsto> Itoa (GetGrafanaPort cr)]) existing
      in case spec_Deployment (Spec cr) of
           Some d \<Rightarrow> MergeAnnotations (gd_Annotations d) annotations
         | None \<Rightarrow> annotations)"

definition getPodLabels :: "Grafana \<Rightarrow> (string \<rightharpoonup> string)" where
  "getPodLabels cr =
     (let labels = (case spec_Deployment (Spec cr) of
            Some d \<Rightarrow> (case gd_Labels d of Some ls \<Rightarrow> ls | None \<Rightarrow> (\<lambda>_. None))
          | None \<Rightarrow> (\<lambda>_. None))
      in labels(''app'' \<mapsto> GrafanaPodLabel))"

definition getNodeSelectors :: "Grafana \<Rightarrow> (string \<rightharpoonup> string)" where
  "getNodeSelectors cr =
     (case spec_Deployment (Spec cr) of
        Some d \<Rightarrow> (case gd_NodeSelector d of Some ls \<Rightarrow> ls | None \<Rightarrow> (\<lambda>_. None))
      | None \<Rightarrow> (\<lambda>_. None))"

definition getPodPriorityClassName :: "Grafana \<Rightarrow> string" where
  "getPodPriorityClassName cr =
     (case spec_Deployment (Spec cr) of Some d \<Rightarrow> gd_PriorityClassName d | None \<Rightarrow> [])"

definition getTolerations :: "Grafana \<Rightarrow> opaque list" where
  "getTolerations cr =
     (case spec_Deployment (Spec cr) of Some d \<Rightarrow> [] @ gd_Tolerations d | None \<Rightarrow> [])"

subsection \<open>Volumes and mounts\<close>

definition secret_volume :: "string \<Rightarrow> string" where
  "secret_volume s = ''secret-'' @ s"

definition configmap_volume :: "string \<Rightarrow> string" where
  "configmap_volume c = ''configmap-'' @ c"

definition extraVolumeMounts :: "Grafana \<Rightarrow> VolumeMount list" where
  "extraVolumeMounts cr =
     (case spec_Deployment (Spec cr) of Some d \<Rightarrow> gd_ExtraVolumeMounts d | None \<Rightarrow> [])"

definition extraVolumes :: "Grafana \<Rightarrow> Volume list" where
  "extraVolumes cr =
     (case spec_Deployment (Spec cr) of Some d \<Rightarrow> gd_ExtraVolumes d | None \<Rightarrow> [])"

text \<open>\<open>foundGrafanaPluginsPath\<close>: the user mounts a volume at the plugins path.\<close>

definition mountsPlugins :: "Grafana \<Rightarrow> bool" where
  "mountsPlugins cr = list_ex (\<lambda>item. vm_MountPath item = GrafanaPluginsPath) (extraVolumeMounts cr)"

definition vol :: "string \<Rightarrow> VolumeSource \<Rightarrow> Volume" where
  "vol n src = \<lparr>vol_Name = n, vol_Source = src\<rparr>"

definition getVolumes :: "Grafana \<Rightarrow> Volume list" where
  "getVolumes cr =
     (let volumes = [];
          volumes = volumes @ [vol GrafanaProvisionPluginVolumeName EmptyDir];
          volumes = volumes @ [vol GrafanaProvisionDashboardVolumeName EmptyDir];
          volumes = volumes @ [vol GrafanaProvisionNotifierVolumeName EmptyDir];
          volumes = volumes @ [vol GrafanaConfigName (ConfigMapVolume GrafanaConfigName)];
          volumes = volumes @ [vol GrafanaLogsVolumeName EmptyDir];
          volumes = (if UsedPersistentVolume cr
                     then volumes @ [vol GrafanaDataVolumeName
                            (PersistentVolumeClaimVolume GrafanaDataStorageName)]
                     else volumes @ [vol GrafanaDataVolumeName EmptyDir]);
          volumes = volumes @ extraVolumes cr;
          volumes = (if \<not> mountsPlugins cr
                     then volumes @ [vol GrafanaPluginsVolumeName EmptyDir] else volumes);
          volumes = volumes @ [vol GrafanaDatasourcesConfigMapName
                                 (ConfigMapVolume GrafanaDatasourcesConfigMapName)];
          volumes = volumes @ map (\<lambda>secret. vol (secret_volume secret) (SecretVolume secret True))
                                (spec_Secrets (Spec cr))
      in volumes @ map (\<lambda>configmap. vol (configmap_volume configmap) (ConfigMapVolume configmap))
                     (spec_ConfigMaps (Spec cr)))"

definition getEnvFrom :: "Grafana \<Rightarrow> EnvFromSource list" where
  "getEnvFrom cr = (case spec_Deployment (Spec cr) of Some d \<Rightarrow> gd_EnvFrom d | None \<Rightarrow> [])"

definition mount :: "string \<Rightarrow> string \<Rightarrow> VolumeMount" where
  "mount n path = \<lparr>vm_Name = n, vm_ReadOnly = False, vm_MountPath = path, vm_rest = []\<rparr>"

definition appendIfEmpty :: "VolumeMount list \<Rightarrow> VolumeMount \<Rightarrow> VolumeMount list" where
  "appendIfEmpty mounts m =
     (if list_ex (\<lambda>existing. vm_Name existing = vm_Name m \<or> vm_MountPath existing = vm_MountPath m) mounts
      then mounts else mounts @ [m])"

definition getExtraContainerVolumeMounts :: "Grafana \<Rightarrow> VolumeMount list \<Rightarrow> VolumeMount list" where
  "getExtraContainerVolumeMounts cr mounts =
     (let mounts = foldl (\<lambda>ms secret. appendIfEmpty ms
                            (mount (secret_volume secret) (SecretsMountDir @ secret)))
                     mounts (spec_Secrets (Spec cr))
      in foldl (\<lambda>ms configmap. appendIfEmpty ms
                  (mount (configmap_volume configmap) (ConfigMapsMountDir @ configmap)))
           mounts (spec_ConfigMaps (Spec cr)))"

definition getVolumeMounts :: "Grafana \<Rightarrow> VolumeMount list" where
  "getVolumeMounts cr =
     (let mounts = [];
          mounts = mounts @ [mount GrafanaConfigName ''/etc/grafana/''];
          mounts = mounts @ [mount GrafanaDataVolumeName GrafanaDataPath];
          mounts = mounts @ extraVolumeMounts cr;
          mounts = (if \<not> mountsPlugins cr
                    then mounts @ [mount GrafanaPluginsVolumeName GrafanaPluginsPath] else mounts);
          mounts = mounts @ [mount GrafanaProvisionPluginVolumeName GrafanaProvisioningPluginsPath];
          mounts = mounts @ [mount GrafanaProvisionDashboardVolumeName
                               GrafanaProvisioningDashboardsPath];
          mounts = mounts @ [mount GrafanaProvisionNotifierVolumeName
                               GrafanaProvisioningNotifiersPath];
          mounts = mounts @ [mount GrafanaLogsVolumeName GrafanaLogsPath];
          mounts = mounts @ [mount GrafanaDatasourcesConfigMapName
                               ''/etc/grafana/provisioning/datasources''];
          mounts = mounts @ map (\<lambda>secret. mount (secret_volume secret) (SecretsMountDir @ secret))
                              (spec_Secrets (Spec cr))
      in mounts @ map (\<lambda>configmap. mount (configmap_volume configmap)
                                      (ConfigMapsMountDir @ configmap))
                    (spec_ConfigMaps (Spec cr)))"

subsection \<open>Probes\<close>

text \<open>
  Both probe functions have this body, on their own part of the specification. As in the
  source, a success threshold of the specification overwrites the period, and the success
  threshold is always one.
\<close>

definition or_default :: "'a option \<Rightarrow> 'a \<Rightarrow> 'a" where
  "or_default p d = (case p of Some x \<Rightarrow> x | None \<Rightarrow> d)"

definition probe_of :: "Grafana \<Rightarrow> ProbeSpec option \<Rightarrow> int32 \<Rightarrow> int32 \<Rightarrow> int32 \<Rightarrow> Probe" where
  "probe_of cr spec delay timeout failure =
     (let period = 10; success = 1; scheme = ''HTTP'';
          delay = (case spec of Some s \<Rightarrow> or_default (ps_InitialDelaySeconds s) delay | None \<Rightarrow> delay);
          timeout = (case spec of Some s \<Rightarrow> or_default (ps_TimeOutSeconds s) timeout | None \<Rightarrow> timeout);
          failure = (case spec of Some s \<Rightarrow> or_default (ps_FailureThreshold s) failure | None \<Rightarrow> failure);
          period = (case spec of Some s \<Rightarrow> or_default (ps_PeriodSeconds s) period | None \<Rightarrow> period);
          period = (case spec of Some s \<Rightarrow> or_default (ps_SuccessThreshold s) period | None \<Rightarrow> period);
          scheme = (case spec of Some s \<Rightarrow> if ps_Scheme s \<noteq> [] then ps_Scheme s else scheme
                               | None \<Rightarrow> scheme)
      in \<lparr>pr_Path = GrafanaHealthEndpoint, pr_Port = intstr_FromInt (GetGrafanaPort cr),
          pr_Scheme = scheme, pr_InitialDelaySeconds = delay, pr_TimeoutSeconds = timeout,
          pr_PeriodSeconds = period, pr_SuccessThreshold = success,
          pr_FailureThreshold = failure\<rparr>)"

definition getLivenessProbe :: "Grafana \<Rightarrow> int32 \<Rightarrow> int32 \<Rightarrow> int32 \<Rightarrow> Probe" where
  "getLivenessProbe cr delay timeout failure =
     probe_of cr (spec_LivenessProbeSpec (Spec cr)) delay timeout failure"

definition getReadinessProbe :: "Grafana \<Rightarrow> int32 \<Rightarrow> int32 \<Rightarrow> int32 \<Rightarrow> Probe" where
  "getReadinessProbe cr delay timeout failure =
     probe_of cr (spec_ReadinessProbeSpec (Spec cr)) delay timeout failure"

subsection \<open>Containers\<close>

definition http_proxy_env :: "Grafana \<Rightarrow> EnvVar list" where
  "http_proxy_env cr =
     (case spec_Deployment (Spec cr) of
        Some d \<Rightarrow> (case gd_HttpProxy d of
                     Some p \<Rightarrow> if proxy_Enabled p
                                then [\<lparr>env_Name = ''HTTP_PROXY'', env_Value = EnvLiteral (proxy_URL p)\<rparr>]
                                else []
                   | None \<Rightarrow> [])
      | None \<Rightarrow> [])"

definition image_of :: "(string \<rightharpoonup> conf_value) \<Rightarrow> string \<Rightarrow> string \<Rightarrow> string \<Rightarrow> string \<Rightarrow> string \<Rightarrow> string go" where
  "image_of vs fixed imgKey dfltImg tagKey dfltTag =
     (if fixed \<noteq> [] then Inr fixed
      else go_bind (GetConfigString vs imgKey dfltImg) (\<lambda>img.
             go_bind (GetConfigString vs tagKey dfltTag) (\<lambda>tag.
               Inr (img @ '':'' @ tag))))"

definition admin_env :: "EnvVar list" where
  "admin_env =
     [\<lparr>env_Name = GrafanaAdminUserEnvVar,
       env_Value = EnvSecretKeyRef GrafanaAdminSecretName GrafanaAdminUserEnvVar\<rparr>,
      \<lparr>env_Name = GrafanaAdminPasswordEnvVar,
       env_Value = EnvSecretKeyRef GrafanaAdminSecretName GrafanaAdminPasswordEnvVar\<rparr>]"

definition grafana_container :: "Grafana \<Rightarrow> string \<Rightarrow> string \<Rightarrow> string \<Rightarrow> Container" where
  "grafana_container cr img configHash dsHash =
     (let envVars = [\<lparr>env_Name = LastConfigEnvVar, env_Value = EnvLiteral configHash\<rparr>,
                     \<lparr>env_Name = LastDatasourcesConfigEnvVar, env_Value = EnvLiteral dsHash\<rparr>];
          envVars = envVars @ http_proxy_env cr;
          envVars = (case spec_Deployment (Spec cr) of
                       Some d \<Rightarrow> envVars @ gd_Env d | None \<Rightarrow> envVars)
      in \<lparr>co_Name = ''grafana'', co_Image = img, co_Args = [''-config=/etc/grafana/grafana.ini''],
          co_WorkingDir = [],
          co_Ports = [\<lparr>cp_Name = ''grafana-http'', cp_ContainerPort = to_int32 (GetGrafanaPort cr),
                       cp_Protocol = ''TCP''\<rparr>],
          co_Env = envVars, co_EnvFrom = getEnvFrom cr, co_Resources = getResources cr,
          co_VolumeMounts = getVolumeMounts cr,
          co_LivenessProbe = Some (getLivenessProbe cr 60 30 10),
          co_ReadinessProbe = Some (getReadinessProbe cr 5 3 1),
          co_TerminationMessagePath = ''/dev/termination-log'',
          co_TerminationMessagePolicy = ''File'', co_ImagePullPolicy = ''IfNotPresent'',
          co_SecurityContext = Some (getContainerSecurityContext cr), co_rest = []\<rparr>)"

definition getContainers :: "(string \<rightharpoonup> conf_value) \<Rightarrow> Grafana \<Rightarrow> string \<Rightarrow> string \<Rightarrow> Container list go" where
  "getContainers vs cr configHash dsHash =
     go_bind (image_of vs (spec_BaseImage (Spec cr)) ConfigGrafanaImage GrafanaImage
                ConfigGrafanaImageTag GrafanaVersion) (\<lambda>img.
       let containers = [grafana_container cr img configHash dsHash];
           containers = (if \<not> getSkipCreateAdminAccount cr
                         then map (\<lambda>c. c\<lparr>co_Env := co_Env c @ admin_env\<rparr>) containers
                         else containers)
       in Inr (containers @ map (\<lambda>c. c\<lparr>co_VolumeMounts :=
                 getExtraContainerVolumeMounts cr (co_VolumeMounts c)\<rparr>) (spec_Containers (Spec cr))))"

text \<open>The volume of the last extra mount at the plugins path, or the default one.\<close>

definition plugins_volume :: "Grafana \<Rightarrow> string" where
  "plugins_volume cr =
     foldl (\<lambda>n item. if vm_MountPath item = GrafanaPluginsPath then vm_Name item else n)
       GrafanaPluginsVolumeName (extraVolumeMounts cr)"

definition getInitContainers :: "(string \<rightharpoonup> conf_value) \<Rightarrow> Grafana \<Rightarrow> string \<Rightarrow> Container list go" where
  "getInitContainers vs cr plugins =
     go_bind (image_of vs (spec_InitImage (Spec cr)) ConfigPluginsInitContainerImage
                PluginsInitContainerImage ConfigPluginsInitContainerTag PluginsInitContainerTag)
       (\<lambda>img.
         Inr [\<lparr>co_Name = GrafanaInitContainerName, co_Image = img, co_Args = [],
               co_WorkingDir = [], co_Ports = [],
               co_Env = \<lparr>env_Name = ''GRAFANA_PLUGINS'', env_Value = EnvLiteral plugins\<rparr>
                        # http_proxy_env cr,
               co_EnvFrom = [], co_Resources = getInitResources cr,
               co_VolumeMounts = [mount (plugins_volume cr) ''/opt/plugins''],
               co_LivenessProbe = None, co_ReadinessProbe = None,
               co_TerminationMessagePath = ''/dev/termination-log'',
               co_TerminationMessagePolicy = ''File'', co_ImagePullPolicy = ''IfNotPresent'',
               co_SecurityContext = None, co_rest = []\<rparr>])"

subsection \<open>The deployment\<close>

text \<open>
  \<open>getDeploymentSpec\<close>, stored into a deployment whose metadata and status stay. The code
  replaces the whole specification, so the fields it does not set (\<open>dep_spec_rest\<close>) are
  reset to their zero values, whatever the deployment had there.
\<close>

definition getDeploymentSpec :: "(string \<rightharpoonup> conf_value) \<Rightarrow> Grafana \<Rightarrow> labels \<Rightarrow> string \<Rightarrow> string \<Rightarrow> string
    \<Rightarrow> Deployment \<Rightarrow> Deployment go" where
  "getDeploymentSpec vs cr annotations configHash plugins dsHash dep =
     go_bind (getInitContainers vs cr plugins) (\<lambda>initContainers.
       go_bind (getContainers vs cr configHash dsHash) (\<lambda>containers.
         Inr (dep
           \<lparr>dep_Replicas := getReplicas cr,
            dep_SelectorLabels := Some [''app'' \<mapsto> GrafanaPodLabel],
            dep_TemplateName := GrafanaDeploymentName,
            dep_TemplateLabels := Some (getPodLabels cr),
            dep_TemplateAnnotations := getPodAnnotations cr annotations,
            dep_NodeSelector := Some (getNodeSelectors cr),
            dep_Tolerations := getTolerations cr,
            dep_Affinity := getAffinities cr,
            dep_SecurityContext := getSecurityContext cr,
            dep_Volumes := getVolumes cr,
            dep_InitContainers := initContainers,
            dep_Containers := containers,
            dep_ServiceAccountName := GrafanaServiceAccountName,
            dep_TerminationGracePeriodSeconds := getTerminationGracePeriod cr,
            dep_PriorityClassName := getPodPriorityClassName cr,
            dep_Strategy := getDeploymentStrategy cr,
            dep_spec_rest := []\<rparr>)))"

definition empty_deployment :: "ObjectMeta \<Rightarrow> Deployment" where
  "empty_deployment m =
     \<lparr>dep_meta = m, dep_Replicas = None, dep_SelectorLabels = None, dep_TemplateName = [],
      dep_TemplateLabels = None, dep_TemplateAnnotations = None, dep_NodeSelector = None,
      dep_Tolerations = [], dep_Affinity = empty_object, dep_SecurityContext = empty_object,
      dep_Volumes = [], dep_InitContainers = [], dep_Containers = [], dep_ServiceAccountName = [],
      dep_TerminationGracePeriodSeconds = None, dep_PriorityClassName = [],
      dep_Strategy = OtherStrategy empty_object, dep_spec_rest = [], dep_Conditions = [], dep_ReadyReplicas = 0,
      dep_StatusReplicas = 0, dep_rest = []\<rparr>"

text \<open>
  The label map of the new deployment is the map of the specification when there is one, and
  \<open>getPodLabels\<close> has added its label to it by the time the object is used.
\<close>

definition GrafanaDeployment :: "(string \<rightharpoonup> conf_value) \<Rightarrow> Grafana \<Rightarrow> string \<Rightarrow> string \<Rightarrow> Deployment go" where
  "GrafanaDeployment vs cr configHash dsHash =
     getDeploymentSpec vs cr None configHash [] dsHash
       (empty_deployment (new_meta GrafanaDeploymentName (om_Namespace (meta cr))
          (Some (if deployment_labels_shared cr then getPodLabels cr else getDeploymentLabels cr))
          None))"

definition GrafanaDeploymentSelector :: "Grafana \<Rightarrow> ObjectKey" where
  "GrafanaDeploymentSelector cr =
     \<lparr>key_Namespace = om_Namespace (meta cr), key_Name = GrafanaDeploymentName\<rparr>"

definition GrafanaDeploymentReconciled :: "(string \<rightharpoonup> conf_value) \<Rightarrow> Grafana \<Rightarrow> Deployment
    \<Rightarrow> string \<Rightarrow> string \<Rightarrow> string \<Rightarrow> Deployment go" where
  "GrafanaDeploymentReconciled vs cr currentState configHash plugins dshash =
     getDeploymentSpec vs cr (dep_TemplateAnnotations currentState) configHash plugins dshash
       currentState"

subsection \<open>Facts about the deployment\<close>

lemmas volume_names = GrafanaProvisionPluginVolumeName_def GrafanaProvisionDashboardVolumeName_def
  GrafanaProvisionNotifierVolumeName_def GrafanaConfigName_def GrafanaLogsVolumeName_def
  GrafanaDataVolumeName_def GrafanaPluginsVolumeName_def GrafanaDatasourcesConfigMapName_def

definition builtin_volumes :: "Grafana \<Rightarrow> string list" where
  "builtin_volumes cr =
     [GrafanaProvisionPluginVolumeName, GrafanaProvisionDashboardVolumeName,
      GrafanaProvisionNotifierVolumeName, GrafanaConfigName, GrafanaLogsVolumeName,
      GrafanaDataVolumeName]"

lemma getVolumes_names:
  "map vol_Name (getVolumes cr) =
     builtin_volumes cr @ map vol_Name (extraVolumes cr)
     @ (if mountsPlugins cr then [] else [GrafanaPluginsVolumeName])
     @ [GrafanaDatasourcesConfigMapName]
     @ map secret_volume (spec_Secrets (Spec cr)) @ map configmap_volume (spec_ConfigMaps (Spec cr))"
  by (simp add: getVolumes_def Let_def vol_def builtin_volumes_def comp_def)

lemma getVolumeMounts_names:
  "set (map vm_Name (getVolumeMounts cr)) =
     set (builtin_volumes cr) \<union> set (map vm_Name (extraVolumeMounts cr))
     \<union> (if mountsPlugins cr then {} else {GrafanaPluginsVolumeName})
     \<union> {GrafanaDatasourcesConfigMapName}
     \<union> set (map secret_volume (spec_Secrets (Spec cr)))
     \<union> set (map configmap_volume (spec_ConfigMaps (Spec cr)))"
  by (auto simp: getVolumeMounts_def Let_def mount_def builtin_volumes_def)

lemma plugins_volume_cases:
  "if mountsPlugins cr
   then \<exists>m \<in> set (extraVolumeMounts cr). vm_MountPath m = GrafanaPluginsPath \<and> plugins_volume cr = vm_Name m
   else plugins_volume cr = GrafanaPluginsVolumeName"
proof -
  let ?f = "\<lambda>n item. if vm_MountPath item = GrafanaPluginsPath then vm_Name item else n"
  have *: "if list_ex (\<lambda>i. vm_MountPath i = GrafanaPluginsPath) ms
        then \<exists>m \<in> set ms. vm_MountPath m = GrafanaPluginsPath \<and> foldl ?f n ms = vm_Name m
        else foldl ?f n ms = n" for n ms
    by (induction ms arbitrary: n rule: rev_induct) (auto split: if_splits)
  show ?thesis unfolding mountsPlugins_def plugins_volume_def by (rule *)
qed

lemma getPodAnnotations_idem [simp]:
  "getPodAnnotations cr (getPodAnnotations cr e) = getPodAnnotations cr e"
proof -
  have *: "MergeAnnotations r (MergeAnnotations f (MergeAnnotations r (MergeAnnotations f e)))
      = MergeAnnotations r (MergeAnnotations f e)" for r f
    by (cases e; cases r; cases f)
      (auto simp: MergeAnnotations_def map_add_def fun_eq_iff split: option.split)
  show ?thesis
    by (auto simp: getPodAnnotations_def Let_def * split: option.split)
qed

lemma getDeploymentSpec_Inr:
  assumes "getDeploymentSpec vs cr anns ch pl dh dep = Inr d"
  obtains ic cs where "getInitContainers vs cr pl = Inr ic" "getContainers vs cr ch dh = Inr cs"
    "dep_InitContainers d = ic" "dep_Containers d = cs" "dep_Volumes d = getVolumes cr"
    "dep_TemplateLabels d = Some (getPodLabels cr)"
    "dep_SelectorLabels d = Some [''app'' \<mapsto> GrafanaPodLabel]"
    "dep_TemplateAnnotations d = getPodAnnotations cr anns"
  using assms by (auto simp: getDeploymentSpec_def go_bind_eq_Inr)

lemma getContainers_hd:
  assumes "getContainers vs cr ch dh = Inr cs"
  obtains img where
    "hd cs = (grafana_container cr img ch dh)
       \<lparr>co_Env := co_Env (grafana_container cr img ch dh)
                  @ (if getSkipCreateAdminAccount cr then [] else admin_env)\<rparr>"
    "cs \<noteq> []"
    "tl cs = map (\<lambda>c. c\<lparr>co_VolumeMounts := getExtraContainerVolumeMounts cr (co_VolumeMounts c)\<rparr>)
               (spec_Containers (Spec cr))"
proof -
  obtain img where "cs = (if \<not> getSkipCreateAdminAccount cr
      then map (\<lambda>c. c\<lparr>co_Env := co_Env c @ admin_env\<rparr>) [grafana_container cr img ch dh]
      else [grafana_container cr img ch dh])
    @ map (\<lambda>c. c\<lparr>co_VolumeMounts := getExtraContainerVolumeMounts cr (co_VolumeMounts c)\<rparr>)
        (spec_Containers (Spec cr))"
    using assms by (auto simp: getContainers_def go_bind_eq_Inr Let_def)
  then show thesis by (intro that [of img]) (simp_all split: if_splits)
qed

lemma getInitContainers_Inr:
  assumes "getInitContainers vs cr pl = Inr ic"
  obtains c where "ic = [c]" "co_VolumeMounts c = [mount (plugins_volume cr) ''/opt/plugins'']"
    "hd (co_Env c) = \<lparr>env_Name = ''GRAFANA_PLUGINS'', env_Value = EnvLiteral pl\<rparr>"
  using assms by (auto simp: getInitContainers_def go_bind_eq_Inr)

subsection \<open>Properties\<close>

text \<open>
  C20: every volume that the Grafana container or the init container mounts is a volume of the
  pod, whatever secrets, config maps and storage the specification asks for, also when the user
  mounts a volume of his own at the plugins path; provided the extra mounts of the
  specification name extra volumes of it.
\<close>

theorem mounts_have_volumes:
  assumes "GrafanaDeploymentReconciled vs cr cur ch pl dh = Inr d"
    "vm_Name ` set (extraVolumeMounts cr) \<subseteq> vol_Name ` set (extraVolumes cr)"
  shows "vm_Name ` set (co_VolumeMounts (hd (dep_Containers d))) \<subseteq> vol_Name ` set (dep_Volumes d)
    \<and> vm_Name ` set (co_VolumeMounts (hd (dep_InitContainers d))) \<subseteq> vol_Name ` set (dep_Volumes d)"
proof -
  obtain ic cs where d: "getInitContainers vs cr pl = Inr ic" "getContainers vs cr ch dh = Inr cs"
    "dep_InitContainers d = ic" "dep_Containers d = cs" "dep_Volumes d = getVolumes cr"
    using assms(1) unfolding GrafanaDeploymentReconciled_def by (rule getDeploymentSpec_Inr)
  have mounts: "co_VolumeMounts (hd cs) = getVolumeMounts cr"
    using d(2) by (rule getContainers_hd) (simp add: grafana_container_def Let_def)
  have init: "co_VolumeMounts (hd ic) = [mount (plugins_volume cr) ''/opt/plugins'']"
    using d(1) by (rule getInitContainers_Inr) simp
  have vols: "vol_Name ` set (getVolumes cr) = set (map vol_Name (getVolumes cr))" by simp
  have "plugins_volume cr \<in> vol_Name ` set (getVolumes cr)"
    unfolding vols getVolumes_names
    using plugins_volume_cases [of cr] assms(2) by (auto split: if_splits)
  moreover have "vm_Name ` set (getVolumeMounts cr) \<subseteq> vol_Name ` set (getVolumes cr)"
    unfolding vols getVolumes_names list.set_map [symmetric] getVolumeMounts_names
    using assms(2) by auto
  ultimately show ?thesis
    by (simp add: d mounts init mount_def)
qed

lemma bare_deployment:
  "\<exists>d. GrafanaDeploymentReconciled (\<lambda>_. None) bare_grafana cur ch pl dh = Inr d"
  by (simp add: GrafanaDeploymentReconciled_def getDeploymentSpec_def getInitContainers_def
      getContainers_def image_of_def GetConfigString_def HasConfigItem_def Let_def
      bare_grafana_def bare_spec_def)

lemma mounts_have_volumes_witness:
  "\<exists>d. GrafanaDeploymentReconciled (\<lambda>_. None) bare_grafana (empty_deployment (meta bare_grafana)) [] [] [] = Inr d
     \<and> vm_Name ` set (co_VolumeMounts (hd (dep_Containers d))) \<subseteq> vol_Name ` set (dep_Volumes d)"
proof -
  obtain d where d: "GrafanaDeploymentReconciled (\<lambda>_. None) bare_grafana
      (empty_deployment (meta bare_grafana)) [] [] [] = Inr d"
    using bare_deployment by blast
  have "vm_Name ` set (extraVolumeMounts bare_grafana) \<subseteq> vol_Name ` set (extraVolumes bare_grafana)"
    by (simp add: extraVolumeMounts_def bare_grafana_def bare_spec_def)
  from mounts_have_volumes [OF d this] d show ?thesis by blast
qed

text \<open>
  The names of the volumes of the pod are distinct, as Kubernetes requires, if the secrets,
  the config maps and the extra volumes of the specification are, and no extra volume takes a
  name of the operator's.
\<close>

theorem volume_names_distinct:
  assumes "distinct (spec_Secrets (Spec cr))" "distinct (spec_ConfigMaps (Spec cr))"
    "distinct (map vol_Name (extraVolumes cr))"
    "list_all (\<lambda>v. vol_Name v \<notin> set (builtin_volumes cr) \<and> vol_Name v \<noteq> GrafanaPluginsVolumeName
       \<and> vol_Name v \<noteq> GrafanaDatasourcesConfigMapName \<and> \<not> HasPrefix (vol_Name v) ''secret-''
       \<and> \<not> HasPrefix (vol_Name v) ''configmap-'') (extraVolumes cr)"
  shows "distinct (map vol_Name (getVolumes cr))"
proof -
  have inj: "distinct (map secret_volume (spec_Secrets (Spec cr)))"
    "distinct (map configmap_volume (spec_ConfigMaps (Spec cr)))"
    using assms(1,2) by (auto simp: distinct_map inj_on_def secret_volume_def configmap_volume_def)
  have pre: "HasPrefix (secret_volume s) ''secret-''" "HasPrefix (configmap_volume s) ''configmap-''"
    "secret_volume s \<noteq> configmap_volume t" for s t
    by (simp_all add: HasPrefix_def secret_volume_def configmap_volume_def)
  let ?own = "builtin_volumes cr @ [GrafanaPluginsVolumeName, GrafanaDatasourcesConfigMapName]"
  have own: "distinct ?own"
    by (simp add: builtin_volumes_def volume_names)
  have own_pre: "\<not> HasPrefix v ''secret-'' \<and> \<not> HasPrefix v ''configmap-''" if "v \<in> set ?own" for v
    using that by (auto simp: builtin_volumes_def volume_names HasPrefix_def)
  have sc: "set (map secret_volume (spec_Secrets (Spec cr))) \<inter> set (map configmap_volume (spec_ConfigMaps (Spec cr))) = {}"
    using pre by auto
  have eo: "set (map vol_Name (extraVolumes cr)) \<inter> set ?own = {}"
    using assms(4) by (auto simp: list_all_iff)
  have es: "set (map vol_Name (extraVolumes cr))
      \<inter> (set (map secret_volume (spec_Secrets (Spec cr))) \<union> set (map configmap_volume (spec_ConfigMaps (Spec cr)))) = {}"
    using assms(4) pre by (fastforce simp: list_all_iff)
  have os: "set ?own
      \<inter> (set (map secret_volume (spec_Secrets (Spec cr))) \<union> set (map configmap_volume (spec_ConfigMaps (Spec cr)))) = {}"
    by (intro disjoint_iff [THEN iffD2] allI impI notI)
      (drule own_pre, use pre(1,2) in auto)
  show ?thesis
    unfolding getVolumes_names using inj own sc eo es os assms(3)
    by (cases "mountsPlugins cr") auto
qed

lemma volume_names_distinct_witness:
  "distinct (map vol_Name (getVolumes (bare_grafana\<lparr>Spec := bare_spec\<lparr>spec_Secrets := [''a'', ''b'']\<rparr>\<rparr>)))"
  by (rule volume_names_distinct) (simp_all add: bare_spec_def extraVolumes_def)

text \<open>
  C21: the selector of the deployment always selects the pods of its template: the label it
  selects cannot be overridden by the labels of the specification, which are otherwise all kept.
\<close>

theorem selector_matches_template:
  assumes "GrafanaDeploymentReconciled vs cr cur ch pl dh = Inr d"
  shows "\<exists>sel tmpl. dep_SelectorLabels d = Some sel \<and> dep_TemplateLabels d = Some tmpl
           \<and> sel \<subseteq>\<^sub>m tmpl \<and> tmpl = getDeploymentLabels cr ++ sel
           \<and> sel = the (svc_Selector (GrafanaService cr))"
proof -
  have "dep_SelectorLabels d = Some [''app'' \<mapsto> GrafanaPodLabel]"
    "dep_TemplateLabels d = Some (getPodLabels cr)"
    using assms unfolding GrafanaDeploymentReconciled_def by (auto elim!: getDeploymentSpec_Inr)
  moreover have "getPodLabels cr = getDeploymentLabels cr ++ [''app'' \<mapsto> GrafanaPodLabel]"
    by (simp add: getPodLabels_def getDeploymentLabels_def Let_def)
  ultimately show ?thesis
    by (auto simp: map_le_def GrafanaService_def)
qed

lemma selector_matches_template_witness:
  "\<exists>d sel. GrafanaDeploymentReconciled (\<lambda>_. None) bare_grafana (empty_deployment (meta bare_grafana)) [] [] [] = Inr d
     \<and> dep_SelectorLabels d = Some sel"
proof -
  obtain d where d: "GrafanaDeploymentReconciled (\<lambda>_. None) bare_grafana
      (empty_deployment (meta bare_grafana)) [] [] [] = Inr d"
    using bare_deployment by blast
  from selector_matches_template [OF this] d show ?thesis by blast
qed

lemma deployment_env_digests:
  assumes "GrafanaDeploymentReconciled vs cr c h p k = Inr e"
  shows "take 2 (co_Env (hd (dep_Containers e))) =
      [\<lparr>env_Name = LastConfigEnvVar, env_Value = EnvLiteral h\<rparr>,
       \<lparr>env_Name = LastDatasourcesConfigEnvVar, env_Value = EnvLiteral k\<rparr>]"
proof -
  obtain cs where "getContainers vs cr h k = Inr cs" "dep_Containers e = cs"
    using assms unfolding GrafanaDeploymentReconciled_def by (rule getDeploymentSpec_Inr)
  then show ?thesis
    by (elim getContainers_hd) (simp add: grafana_container_def Let_def split: option.split)
qed

text \<open>
  A change of the configuration or of the datasources changes the pod template and so
  restarts Grafana: deployments built from different digests have different containers.
\<close>

theorem digest_change_restarts:
  assumes "GrafanaDeploymentReconciled vs cr cur ch pl dh = Inr d"
    "GrafanaDeploymentReconciled vs cr cur' ch' pl' dh' = Inr d'"
    "dep_Containers d = dep_Containers d'"
  shows "ch = ch' \<and> dh = dh'"
  using deployment_env_digests [OF assms(1)] deployment_env_digests [OF assms(2)] assms(3) by simp

lemma digest_change_restarts_witness:
  "dep_Containers (projr (GrafanaDeploymentReconciled (\<lambda>_. None) bare_grafana (empty_deployment (meta bare_grafana)) ''x'' [] []))
   \<noteq> dep_Containers (projr (GrafanaDeploymentReconciled (\<lambda>_. None) bare_grafana (empty_deployment (meta bare_grafana)) ''y'' [] []))"
proof -
  let ?r = "\<lambda>h. GrafanaDeploymentReconciled (\<lambda>_. None) bare_grafana (empty_deployment (meta bare_grafana)) h [] []"
  obtain d d' where d: "?r ''x'' = Inr d" "?r ''y'' = Inr d'"
    using bare_deployment by blast
  from digest_change_restarts [OF d] show ?thesis by (auto simp: d)
qed

lemma deployment_update_idem:
  "GrafanaDeploymentReconciled vs cr cur ch pl dh = Inr d \<Longrightarrow>
   GrafanaDeploymentReconciled vs cr d ch pl dh = Inr d"
  by (auto simp: GrafanaDeploymentReconciled_def getDeploymentSpec_def go_bind_eq_Inr)

text \<open>
  Updating the deployment is idempotent: with the same configuration, plugins and
  datasources, a second update changes nothing, the merged annotations included.
\<close>

theorem deployment_update_idempotent:
  assumes "GrafanaDeploymentReconciled vs cr cur ch pl dh = Inr d"
  shows "GrafanaDeploymentReconciled vs cr d ch pl dh = Inr d"
  using assms by (rule deployment_update_idem)

lemma deployment_update_idempotent_witness:
  "\<exists>d. GrafanaDeploymentReconciled (\<lambda>_. None) bare_grafana d ''x'' ''p:1'' ''y'' = Inr d"
  using bare_deployment deployment_update_idempotent by metis

text \<open>
  The Grafana container gets its admin credentials from the operator's secret exactly if
  the operator creates the account, and all ports agree: the probes ask the port that the
  container opens, under the name that the service targets.
\<close>

theorem container_credentials_and_ports:
  assumes "GrafanaDeploymentReconciled vs cr cur ch pl dh = Inr d"
  shows "(\<exists>rest. co_Env (hd (dep_Containers d)) = rest @ (if getSkipCreateAdminAccount cr then [] else admin_env)
             \<and> list_all (\<lambda>e. e \<notin> set admin_env) (take 2 rest))
    \<and> (let c = hd (dep_Containers d); p = hd (co_Ports c) in
         map_option pr_Port (co_LivenessProbe c) = Some (FromInt (cp_ContainerPort p))
         \<and> map_option pr_Port (co_ReadinessProbe c) = Some (FromInt (cp_ContainerPort p))
         \<and> sp_TargetPort (hd (getServicePorts cr None)) = FromString (cp_Name p)
         \<and> sp_Port (hd (getServicePorts cr None)) = cp_ContainerPort p)"
proof -
  obtain cs where cs: "getContainers vs cr ch dh = Inr cs" "dep_Containers d = cs"
    using assms unfolding GrafanaDeploymentReconciled_def by (rule getDeploymentSpec_Inr)
  obtain img where hd: "hd cs = (grafana_container cr img ch dh)
       \<lparr>co_Env := co_Env (grafana_container cr img ch dh)
                  @ (if getSkipCreateAdminAccount cr then [] else admin_env)\<rparr>"
    using cs(1) by (rule getContainers_hd)
  have "list_all (\<lambda>e. e \<notin> set admin_env) (take 2 (co_Env (grafana_container cr img ch dh)))"
    by (simp add: grafana_container_def Let_def admin_env_def split: option.split)
  then show ?thesis
    by (simp add: cs(2) hd) (simp add: grafana_container_def Let_def getLivenessProbe_def
        getReadinessProbe_def probe_of_def intstr_FromInt_def getServicePorts_eq default_port_def)
qed

lemma container_credentials_and_ports_witness:
  "\<exists>d rest. GrafanaDeploymentReconciled (\<lambda>_. None) bare_grafana (empty_deployment (meta bare_grafana)) [] [] [] = Inr d
     \<and> co_Env (hd (dep_Containers d)) = rest @ admin_env"
proof -
  obtain d where d: "GrafanaDeploymentReconciled (\<lambda>_. None) bare_grafana
      (empty_deployment (meta bare_grafana)) [] [] [] = Inr d"
    using bare_deployment by blast
  have "\<not> getSkipCreateAdminAccount bare_grafana"
    by (simp add: getSkipCreateAdminAccount_def bare_grafana_def bare_spec_def)
  with container_credentials_and_ports [OF d] d show ?thesis by auto
qed

text \<open>
  The success threshold of the specification ends up as the period of the probe, and the
  probe's own success threshold is one.
\<close>

lemma success_threshold_overwrites_period:
  "ps_SuccessThreshold s = Some n \<Longrightarrow>
   pr_PeriodSeconds (probe_of cr (Some s) a b c) = n \<and> pr_SuccessThreshold (probe_of cr (Some s) a b c) = 1"
  by (simp add: probe_of_def Let_def or_default_def)

text \<open>A deployment that the operator creates installs no plugins; only an update passes them.\<close>

lemma created_deployment_has_no_plugins:
  assumes "GrafanaDeployment vs cr ch dh = Inr d"
  shows "hd (co_Env (hd (dep_InitContainers d))) = \<lparr>env_Name = ''GRAFANA_PLUGINS'', env_Value = EnvLiteral []\<rparr>"
  using assms unfolding GrafanaDeployment_def
  by (elim getDeploymentSpec_Inr getInitContainers_Inr) simp

end
