(* ===== verification/Cluster.thy ===== *)
theory Cluster
  imports Model_Deployment
begin

text \<open>
  Reading the cluster and acting on it: \<open>controllers/common/clusterState.go\<close>,
  \<open>clusterActions.go\<close> and \<open>readiness_checks.go\<close>. The client of the Kubernetes API and
  \<open>controllerutil.SetControllerReference\<close> are the libraries': a record \<open>'w api\<close> of
  functions on a world \<open>'w\<close>, which every result leaves arbitrary. A result of the client is
  an error, where only \<open>IsNotFound\<close> and \<open>IsConflict\<close> are told apart, or a value.
\<close>

datatype api_error = NotFound | Conflict | ApiError string

datatype error = FromApi api_error | Error string

datatype k8s_object = KService Service | KPVC PersistentVolumeClaim | KServiceAccount ServiceAccount
  | KConfigMap ConfigMap | KRoute Route | KIngress Ingress | KDeployment Deployment | KSecret Secret

record 'w api =
  get_Service :: "ObjectKey \<Rightarrow> 'w \<Rightarrow> api_error + Service"
  get_PVC :: "ObjectKey \<Rightarrow> 'w \<Rightarrow> api_error + PersistentVolumeClaim"
  get_ServiceAccount :: "ObjectKey \<Rightarrow> 'w \<Rightarrow> api_error + ServiceAccount"
  get_ConfigMap :: "ObjectKey \<Rightarrow> 'w \<Rightarrow> api_error + ConfigMap"
  get_Route :: "ObjectKey \<Rightarrow> 'w \<Rightarrow> api_error + Route"
  get_Ingress :: "ObjectKey \<Rightarrow> 'w \<Rightarrow> api_error + Ingress"
  get_Deployment :: "ObjectKey \<Rightarrow> 'w \<Rightarrow> api_error + Deployment"
  get_Secret :: "ObjectKey \<Rightarrow> 'w \<Rightarrow> api_error + Secret"
  api_Create :: "k8s_object \<Rightarrow> 'w \<Rightarrow> api_error option \<times> 'w"
  api_Update :: "k8s_object \<Rightarrow> 'w \<Rightarrow> api_error option \<times> 'w"
  api_Delete :: "k8s_object \<Rightarrow> 'w \<Rightarrow> api_error option \<times> 'w"
  SetControllerReference :: "Grafana \<Rightarrow> k8s_object \<Rightarrow> string + k8s_object"

subsection \<open>Cluster state\<close>

record ClusterState =
  cs_Service :: "Service option"
  cs_PVC :: "PersistentVolumeClaim option"
  cs_ServiceAccount :: "ServiceAccount option"
  cs_Config :: "ConfigMap option"
  cs_Route :: "Route option"
  cs_Ingress :: "Ingress option"
  cs_Deployment :: "Deployment option"
  cs_DataSourceConfig :: "ConfigMap option"
  cs_AdminSecret :: "Secret option"

definition NewClusterState :: ClusterState where
  "NewClusterState =
     \<lparr>cs_Service = None, cs_PVC = None, cs_ServiceAccount = None, cs_Config = None, cs_Route = None,
      cs_Ingress = None, cs_Deployment = None, cs_DataSourceConfig = None, cs_AdminSecret = None\<rparr>"

text \<open>An object that is not found leaves the state, any other error is returned.\<close>

definition found :: "api_error + 'a \<Rightarrow> ('a \<Rightarrow> ClusterState) \<Rightarrow> ClusterState \<Rightarrow> api_error + ClusterState" where
  "found r store st =
     (case r of
        Inl err \<Rightarrow> if err = NotFound then Inr st else Inl err
      | Inr currentState \<Rightarrow> Inr (store currentState))"

definition readGrafanaService :: "'w api \<Rightarrow> 'w \<Rightarrow> Grafana \<Rightarrow> ClusterState \<Rightarrow> api_error + ClusterState" where
  "readGrafanaService api w cr st =
     found (get_Service api (GrafanaServiceSelector cr) w) (\<lambda>x. st\<lparr>cs_Service := Some x\<rparr>) st"

definition readGrafanaDataPVC :: "'w api \<Rightarrow> 'w \<Rightarrow> Grafana \<Rightarrow> ClusterState \<Rightarrow> api_error + ClusterState" where
  "readGrafanaDataPVC api w cr st =
     found (get_PVC api (GrafanaDataStorageSelector cr) w) (\<lambda>x. st\<lparr>cs_PVC := Some x\<rparr>) st"

definition readGrafanaServiceAccount :: "'w api \<Rightarrow> 'w \<Rightarrow> Grafana \<Rightarrow> ClusterState \<Rightarrow> api_error + ClusterState" where
  "readGrafanaServiceAccount api w cr st =
     found (get_ServiceAccount api (GrafanaServiceAccountSelector cr) w)
       (\<lambda>x. st\<lparr>cs_ServiceAccount := Some x\<rparr>) st"

definition readGrafanaConfig :: "'w api \<Rightarrow> 'w \<Rightarrow> Grafana \<Rightarrow> ClusterState \<Rightarrow> api_error + ClusterState" where
  "readGrafanaConfig api w cr st =
     found (get_ConfigMap api (GrafanaConfigSelector cr) w) (\<lambda>x. st\<lparr>cs_Config := Some x\<rparr>) st"

definition readGrafanaDatasourceConfig :: "'w api \<Rightarrow> 'w \<Rightarrow> Grafana \<Rightarrow> ClusterState \<Rightarrow> api_error + ClusterState" where
  "readGrafanaDatasourceConfig api w cr st =
     found (get_ConfigMap api (GrafanaDatasourceConfigSelector cr) w)
       (\<lambda>x. st\<lparr>cs_DataSourceConfig := Some x\<rparr>) st"

definition readGrafanaRoute :: "'w api \<Rightarrow> 'w \<Rightarrow> Grafana \<Rightarrow> ClusterState \<Rightarrow> api_error + ClusterState" where
  "readGrafanaRoute api w cr st =
     found (get_Route api (GrafanaRouteSelector cr) w) (\<lambda>x. st\<lparr>cs_Route := Some x\<rparr>) st"

definition readGrafanaIngress :: "'w api \<Rightarrow> 'w \<Rightarrow> Grafana \<Rightarrow> ClusterState \<Rightarrow> api_error + ClusterState" where
  "readGrafanaIngress api w cr st =
     found (get_Ingress api (GrafanaIngressSelector cr) w) (\<lambda>x. st\<lparr>cs_Ingress := Some x\<rparr>) st"

definition readGrafanaDeployment :: "'w api \<Rightarrow> 'w \<Rightarrow> Grafana \<Rightarrow> ClusterState \<Rightarrow> api_error + ClusterState" where
  "readGrafanaDeployment api w cr st =
     found (get_Deployment api (GrafanaDeploymentSelector cr) w) (\<lambda>x. st\<lparr>cs_Deployment := Some x\<rparr>) st"

definition readGrafanaAdminUserSecret :: "'w api \<Rightarrow> 'w \<Rightarrow> Grafana \<Rightarrow> ClusterState \<Rightarrow> api_error + ClusterState" where
  "readGrafanaAdminUserSecret api w cr st =
     found (get_Secret api (AdminSecretSelector cr) w) (\<lambda>x. st\<lparr>cs_AdminSecret := Some x\<rparr>) st"

definition Read :: "'w api \<Rightarrow> 'w \<Rightarrow> (string \<rightharpoonup> conf_value) \<Rightarrow> Grafana \<Rightarrow> ClusterState
    \<Rightarrow> (api_error + ClusterState) go" where
  "Read api w vs cr st =
     go_bind (GetConfigBool vs ConfigOpenshift False) (\<lambda>isOpenshift.
       Inr (go_bind (readGrafanaService api w cr st) (\<lambda>st.
            go_bind (if UsedPersistentVolume cr then readGrafanaDataPVC api w cr st else Inr st) (\<lambda>st.
            go_bind (readGrafanaServiceAccount api w cr st) (\<lambda>st.
            go_bind (readGrafanaConfig api w cr st) (\<lambda>st.
            go_bind (readGrafanaDatasourceConfig api w cr st) (\<lambda>st.
            go_bind (readGrafanaDeployment api w cr st) (\<lambda>st.
            go_bind (readGrafanaAdminUserSecret api w cr st) (\<lambda>st.
              if isOpenshift then readGrafanaRoute api w cr st
              else readGrafanaIngress api w cr st)))))))))"

subsection \<open>Readiness\<close>

text \<open>\<open>routev1.RouteAdmitted\<close>, and the condition types of a deployment.\<close>

definition RouteAdmitted :: string where "RouteAdmitted = ''Admitted''"
definition DeploymentReplicaFailure :: string where "DeploymentReplicaFailure = ''ReplicaFailure''"
definition DeploymentProgressing :: string where "DeploymentProgressing = ''Progressing''"
definition ConditionStatusSuccess :: string where "ConditionStatusSuccess = ''True''"

definition IsRouteReady :: "Route option \<Rightarrow> bool" where
  "IsRouteReady route =
     (case route of
        None \<Rightarrow> False
      | Some r \<Rightarrow>
          \<not> list_ex (list_ex (\<lambda>c. cond_Type c = RouteAdmitted \<and> cond_Status c \<noteq> ConditionStatusSuccess))
              (rt_StatusIngress r))"

definition IsIngressReady :: "Ingress option \<Rightarrow> bool" where
  "IsIngressReady ingress =
     (case ingress of None \<Rightarrow> False | Some i \<Rightarrow> length (ing_LoadBalancer i) > 0)"

text \<open>The loop over the conditions: an early return, or \<open>None\<close> at its end.\<close>

fun deployment_conditions :: "Condition list \<Rightarrow> (string + bool) option" where
  "deployment_conditions [] = None"
| "deployment_conditions (c # cs) =
     (if cond_Type c = DeploymentReplicaFailure then Some (Inl (cond_Reason c))
      else if cond_Type c = DeploymentProgressing \<and> cond_Status c \<noteq> ConditionStatusSuccess
      then Some (Inr False)
      else deployment_conditions cs)"

definition IsDeploymentReady :: "Deployment option \<Rightarrow> string + bool" where
  "IsDeploymentReady deployment =
     (case deployment of
        None \<Rightarrow> Inr False
      | Some d \<Rightarrow>
          (case deployment_conditions (dep_Conditions d) of
             Some r \<Rightarrow> r
           | None \<Rightarrow> Inr (dep_ReadyReplicas d = dep_StatusReplicas d)))"

subsection \<open>Actions\<close>

datatype ClusterAction =
    GenericCreateAction k8s_object string
  | GenericUpdateAction k8s_object string
  | GenericDeleteAction k8s_object string
  | LogAction string
  | RouteReadyAction "Route option" string
  | IngressReadyAction "Ingress option" string
  | DeploymentReadyAction "Deployment option" string
  | ExposeSecretEnvVarAction string string string
  | ExposeConfigMapEnvVarAction string string string

type_synonym DesiredClusterState = "ClusterAction list"

definition AddAction :: "DesiredClusterState \<Rightarrow> ClusterAction option \<Rightarrow> DesiredClusterState" where
  "AddAction d action = (case action of None \<Rightarrow> d | Some a \<Rightarrow> d @ [a])"

definition AddActions :: "DesiredClusterState \<Rightarrow> ClusterAction list \<Rightarrow> DesiredClusterState" where
  "AddActions d actions = foldl (\<lambda>d a. AddAction d (Some a)) d actions"

text \<open>What the runner acts on: the world behind the client and the process environment.\<close>

type_synonym 'w runner_state = "'w \<times> environment"

definition lift_api :: "(api_error option \<times> 'w) \<Rightarrow> environment \<Rightarrow> error option \<times> 'w runner_state" where
  "lift_api r env = (map_option FromApi (fst r), (snd r, env))"

definition run_create :: "'w api \<Rightarrow> Grafana \<Rightarrow> k8s_object \<Rightarrow> 'w runner_state \<Rightarrow> error option \<times> 'w runner_state" where
  "run_create api cr obj s =
     (case SetControllerReference api cr obj of
        Inl err \<Rightarrow> (Some (Error err), s)
      | Inr obj \<Rightarrow> lift_api (api_Create api obj (fst s)) (snd s))"

definition run_update :: "'w api \<Rightarrow> Grafana \<Rightarrow> k8s_object \<Rightarrow> 'w runner_state \<Rightarrow> error option \<times> 'w runner_state" where
  "run_update api cr obj s =
     (case SetControllerReference api cr obj of
        Inl err \<Rightarrow> (Some (Error err), s)
      | Inr obj \<Rightarrow>
          (case lift_api (api_Update api obj (fst s)) (snd s) of
             (Some err, s') \<Rightarrow> (if err = FromApi Conflict then None else Some err, s')
           | (None, s') \<Rightarrow> (None, s')))"

definition run_delete :: "'w api \<Rightarrow> k8s_object \<Rightarrow> 'w runner_state \<Rightarrow> error option \<times> 'w runner_state" where
  "run_delete api obj s = lift_api (api_Delete api obj (fst s)) (snd s)"

definition run_routeReady :: "Route option \<Rightarrow> error option" where
  "run_routeReady r = (if \<not> IsRouteReady r then Some (Error ''route not ready'') else None)"

definition run_ingressReady :: "Ingress option \<Rightarrow> error option" where
  "run_ingressReady i = (if \<not> IsIngressReady i then Some (Error ''ingress not ready'') else None)"

definition run_deploymentReady :: "Deployment option \<Rightarrow> error option" where
  "run_deploymentReady d =
     (case IsDeploymentReady d of
        Inl err \<Rightarrow> Some (Error err)
      | Inr ready \<Rightarrow> if \<not> ready then Some (Error ''deployment not ready'') else None)"

text \<open>The loops over the variables and the data of a secret or config map.\<close>

definition expose :: "string list \<Rightarrow> labels \<Rightarrow> environment \<Rightarrow> environment" where
  "expose vars data env =
     foldl (\<lambda>env v. case data of
                      None \<Rightarrow> env
                    | Some d \<Rightarrow> (case d v of None \<Rightarrow> env | Some x \<Rightarrow> env(v \<mapsto> x))) env vars"

definition run_exposeSecret :: "'w api \<Rightarrow> string \<Rightarrow> string \<Rightarrow> string list \<Rightarrow> 'w runner_state
    \<Rightarrow> error option \<times> 'w runner_state" where
  "run_exposeSecret api ns ref vars s =
     (case get_Secret api \<lparr>key_Namespace = ns, key_Name = ref\<rparr> (fst s) of
        Inl err \<Rightarrow> (Some (FromApi err), s)
      | Inr secret \<Rightarrow> (None, (fst s, expose vars (sec_Data secret) (snd s))))"

definition run_exposeConfigMap :: "'w api \<Rightarrow> string \<Rightarrow> string \<Rightarrow> string list \<Rightarrow> 'w runner_state
    \<Rightarrow> error option \<times> 'w runner_state" where
  "run_exposeConfigMap api ns ref vars s =
     (case get_ConfigMap api \<lparr>key_Namespace = ns, key_Name = ref\<rparr> (fst s) of
        Inl err \<Rightarrow> (Some (FromApi err), s)
      | Inr configMap \<Rightarrow> (None, (fst s, expose vars (cm_Data configMap) (snd s))))"

definition Run :: "'w api \<Rightarrow> Grafana \<Rightarrow> ClusterAction \<Rightarrow> 'w runner_state \<Rightarrow> error option \<times> 'w runner_state" where
  "Run api cr a s =
     (case a of
        GenericCreateAction obj _ \<Rightarrow> run_create api cr obj s
      | GenericUpdateAction obj _ \<Rightarrow> run_update api cr obj s
      | GenericDeleteAction obj _ \<Rightarrow> run_delete api obj s
      | LogAction _ \<Rightarrow> (None, s)
      | RouteReadyAction r _ \<Rightarrow> (run_routeReady r, s)
      | IngressReadyAction i _ \<Rightarrow> (run_ingressReady i, s)
      | DeploymentReadyAction d _ \<Rightarrow> (run_deploymentReady d, s)
      | ExposeSecretEnvVarAction ref ns _ \<Rightarrow>
          run_exposeSecret api ns ref [GrafanaAdminUserEnvVar, GrafanaAdminPasswordEnvVar] s
      | ExposeConfigMapEnvVarAction ref ns _ \<Rightarrow>
          run_exposeConfigMap api ns ref [GrafanaAdminUserEnvVar, GrafanaAdminPasswordEnvVar] s)"

fun RunAll :: "'w api \<Rightarrow> Grafana \<Rightarrow> DesiredClusterState \<Rightarrow> 'w runner_state
    \<Rightarrow> error option \<times> 'w runner_state" where
  "RunAll api cr [] s = (None, s)"
| "RunAll api cr (a # as) s =
     (case Run api cr a s of
        (Some err, s') \<Rightarrow> (Some err, s')
      | (None, s') \<Rightarrow> RunAll api cr as s')"

subsection \<open>Facts\<close>

lemma AddActions_append: "AddActions d as = d @ as"
  by (induction as arbitrary: d) (simp_all add: AddActions_def AddAction_def)

lemma RunAll_append:
  "RunAll api cr (as @ bs) s =
     (case RunAll api cr as s of
        (Some err, s') \<Rightarrow> (Some err, s')
      | (None, s') \<Rightarrow> RunAll api cr bs s')"
  by (induction as arbitrary: s) (auto split: prod.split option.split)

lemma RunAll_fails:
  "RunAll api cr as s = (Some err, s') \<Longrightarrow>
   \<exists>done a rest s1. as = done @ a # rest \<and> RunAll api cr done s = (None, s1)
     \<and> Run api cr a s1 = (Some err, s')"
proof (induction as arbitrary: s)
  case (Cons b as)
  obtain e s1 where b: "Run api cr b s = (e, s1)" by (cases "Run api cr b s")
  show ?case
  proof (cases e)
    case None
    with Cons.prems b have "RunAll api cr as s1 = (Some err, s')" by simp
    from Cons.IH [OF this] obtain dn a rest s2 where
      "as = dn @ a # rest" "RunAll api cr dn s1 = (None, s2)" "Run api cr a s2 = (Some err, s')"
      by blast
    with b None have "b # as = (b # dn) @ a # rest" "RunAll api cr (b # dn) s = (None, s2)" by simp_all
    with \<open>Run api cr a s2 = (Some err, s')\<close> show ?thesis by blast
  next
    case (Some err')
    with Cons.prems b have "b # as = [] @ b # as" "RunAll api cr [] s = (None, s)"
      "Run api cr b s = (Some err, s')" by simp_all
    then show ?thesis by blast
  qed
qed simp

lemma deployment_conditions_None:
  "deployment_conditions cs = None \<longleftrightarrow>
   list_all (\<lambda>c. cond_Type c \<noteq> DeploymentReplicaFailure
     \<and> (cond_Type c \<noteq> DeploymentProgressing \<or> cond_Status c = ConditionStatusSuccess)) cs"
  by (induction cs) auto

lemma deployment_conditions_not_ready:
  "deployment_conditions cs \<noteq> Some (Inr True)"
  by (induction cs) auto

text \<open>
  The abstract run: every action of the list succeeds, each in the state its predecessor left.
\<close>

inductive executes :: "'w api \<Rightarrow> Grafana \<Rightarrow> DesiredClusterState \<Rightarrow> 'w runner_state \<Rightarrow> 'w runner_state \<Rightarrow> bool"
  for api cr where
  executes_Nil: "executes api cr [] s s"
| executes_Cons: "Run api cr a s = (None, s1) \<Longrightarrow> executes api cr as s1 s2 \<Longrightarrow> executes api cr (a # as) s s2"

inductive_simps executes_Nil_iff [simp]: "executes api cr [] s s'"
inductive_simps executes_Cons_iff [simp]: "executes api cr (a # as) s s'"

lemma RunAll_succeeds: "RunAll api cr as s = (None, s') \<longleftrightarrow> executes api cr as s s'"
  by (induction as arbitrary: s) (auto split: prod.split option.split)

lemma RunAll_Cons_Some:
  "Run api cr a s = (Some err, s') \<Longrightarrow> RunAll api cr (a # as) s = (Some err, s')"
  by simp

text \<open>
  C8: running a desired state executes its actions in order and stops at the first one that
  fails. It reports no error exactly when every action succeeded in turn; it reports an
  error exactly when some prefix of the list succeeded and the action after it failed with
  that error, and the state it leaves is the one that action left, so nothing behind the
  failing action has had an effect.
\<close>
theorem run_stops_at_first_failure:
  "(RunAll api cr as s = (None, s') \<longleftrightarrow> executes api cr as s s')
   \<and> (RunAll api cr as s = (Some err, s') \<longleftrightarrow>
       (\<exists>pre a post s1. as = pre @ a # post \<and> executes api cr pre s s1
          \<and> Run api cr a s1 = (Some err, s')))"
proof
  show "RunAll api cr as s = (None, s') \<longleftrightarrow> executes api cr as s s'"
    by (rule RunAll_succeeds)
  show "RunAll api cr as s = (Some err, s') \<longleftrightarrow>
       (\<exists>pre a post s1. as = pre @ a # post \<and> executes api cr pre s s1
          \<and> Run api cr a s1 = (Some err, s'))"
    using RunAll_fails [of api cr as s err s']
    by (auto simp: RunAll_append RunAll_succeeds [symmetric])
qed

lemma expose_frame:
  "v \<notin> set vars \<Longrightarrow> expose vars data env v = env v"
  by (induction vars arbitrary: env)
    (simp_all add: expose_def split: option.split)

definition credential_vars :: "string set" where
  "credential_vars = {GrafanaAdminUserEnvVar, GrafanaAdminPasswordEnvVar}"

lemma expose_credentials:
  "expose [GrafanaAdminUserEnvVar, GrafanaAdminPasswordEnvVar] data env |` (- credential_vars)
   = env |` (- credential_vars)"
  by (rule ext) (auto simp: restrict_map_def credential_vars_def expose_frame)

lemma Run_environment:
  "snd (snd (Run api cr a s)) |` (- credential_vars) = snd s |` (- credential_vars)"
  by (cases a)
    (simp_all add: Run_def run_create_def run_update_def run_delete_def lift_api_def
      run_exposeSecret_def run_exposeConfigMap_def expose_credentials
      split: sum.split option.split prod.split)

text \<open>
  Whatever the plan and whatever the cluster answers, running it changes no variable of
  the operator's environment except the two credentials of the administrator.
\<close>
theorem environment_frame:
  "snd (snd (RunAll api cr as s)) |` (- credential_vars) = snd s |` (- credential_vars)"
proof (induction as arbitrary: s)
  case (Cons a as)
  then show ?case
    using Run_environment [of api cr a s] by (auto split: prod.split option.split)
qed simp

text \<open>What a read tells about an object, and whether the code goes on after it.\<close>

definition observed :: "api_error + 'a \<Rightarrow> 'a option" where
  "observed r = (case r of Inl _ \<Rightarrow> None | Inr x \<Rightarrow> Some x)"

definition tolerable :: "api_error + 'a \<Rightarrow> bool" where
  "tolerable r = (case r of Inl err \<Rightarrow> err = NotFound | Inr _ \<Rightarrow> True)"

lemma found_eq:
  "found r store st =
     (if tolerable r then Inr (case observed r of None \<Rightarrow> st | Some x \<Rightarrow> store x) else Inl (projl r))"
  by (cases r) (auto simp: found_def tolerable_def observed_def)

text \<open>Storing what was observed is an update of one field.\<close>

definition kept :: "'a option \<Rightarrow> 'a option \<Rightarrow> 'a option" where
  "kept old q = (case q of None \<Rightarrow> old | Some _ \<Rightarrow> q)"

lemma kept_None [simp]: "kept None q = q"
  by (cases q) (simp_all add: kept_def)

lemma observed_fields:
  "(case q1 of None \<Rightarrow> st | Some x \<Rightarrow> st\<lparr>cs_Service := Some x\<rparr>)
     = st\<lparr>cs_Service := kept (cs_Service st) q1\<rparr>"
  "(case q2 of None \<Rightarrow> st | Some x \<Rightarrow> st\<lparr>cs_PVC := Some x\<rparr>)
     = st\<lparr>cs_PVC := kept (cs_PVC st) q2\<rparr>"
  "(case q3 of None \<Rightarrow> st | Some x \<Rightarrow> st\<lparr>cs_ServiceAccount := Some x\<rparr>)
     = st\<lparr>cs_ServiceAccount := kept (cs_ServiceAccount st) q3\<rparr>"
  "(case q4 of None \<Rightarrow> st | Some x \<Rightarrow> st\<lparr>cs_Config := Some x\<rparr>)
     = st\<lparr>cs_Config := kept (cs_Config st) q4\<rparr>"
  "(case q5 of None \<Rightarrow> st | Some x \<Rightarrow> st\<lparr>cs_DataSourceConfig := Some x\<rparr>)
     = st\<lparr>cs_DataSourceConfig := kept (cs_DataSourceConfig st) q5\<rparr>"
  "(case q6 of None \<Rightarrow> st | Some x \<Rightarrow> st\<lparr>cs_Route := Some x\<rparr>)
     = st\<lparr>cs_Route := kept (cs_Route st) q6\<rparr>"
  "(case q7 of None \<Rightarrow> st | Some x \<Rightarrow> st\<lparr>cs_Ingress := Some x\<rparr>)
     = st\<lparr>cs_Ingress := kept (cs_Ingress st) q7\<rparr>"
  "(case q8 of None \<Rightarrow> st | Some x \<Rightarrow> st\<lparr>cs_Deployment := Some x\<rparr>)
     = st\<lparr>cs_Deployment := kept (cs_Deployment st) q8\<rparr>"
  "(case q9 of None \<Rightarrow> st | Some x \<Rightarrow> st\<lparr>cs_AdminSecret := Some x\<rparr>)
     = st\<lparr>cs_AdminSecret := kept (cs_AdminSecret st) q9\<rparr>"
  by (simp_all add: kept_def split: option.split)

lemma if_Inr: "(if b then Inr x else Inl e) = Inr y \<longleftrightarrow> b \<and> y = x"
  by auto

lemma go_bind_if_Inr:
  "go_bind (if b then Inr x else Inl e) f = Inr y \<longleftrightarrow> b \<and> f x = Inr y"
  by simp

lemmas read_defs = readGrafanaService_def readGrafanaDataPVC_def readGrafanaServiceAccount_def
  readGrafanaConfig_def readGrafanaDatasourceConfig_def readGrafanaRoute_def readGrafanaIngress_def
  readGrafanaDeployment_def readGrafanaAdminUserSecret_def

text \<open>Each read updates one field, or fails.\<close>

lemma read_eqs:
  "readGrafanaService api w cr st =
     (if tolerable (get_Service api (GrafanaServiceSelector cr) w)
      then Inr (st\<lparr>cs_Service := kept (cs_Service st) (observed (get_Service api (GrafanaServiceSelector cr) w))\<rparr>)
      else Inl (projl (get_Service api (GrafanaServiceSelector cr) w)))"
  "readGrafanaDataPVC api w cr st =
     (if tolerable (get_PVC api (GrafanaDataStorageSelector cr) w)
      then Inr (st\<lparr>cs_PVC := kept (cs_PVC st) (observed (get_PVC api (GrafanaDataStorageSelector cr) w))\<rparr>)
      else Inl (projl (get_PVC api (GrafanaDataStorageSelector cr) w)))"
  "readGrafanaServiceAccount api w cr st =
     (if tolerable (get_ServiceAccount api (GrafanaServiceAccountSelector cr) w)
      then Inr (st\<lparr>cs_ServiceAccount := kept (cs_ServiceAccount st) (observed (get_ServiceAccount api (GrafanaServiceAccountSelector cr) w))\<rparr>)
      else Inl (projl (get_ServiceAccount api (GrafanaServiceAccountSelector cr) w)))"
  "readGrafanaConfig api w cr st =
     (if tolerable (get_ConfigMap api (GrafanaConfigSelector cr) w)
      then Inr (st\<lparr>cs_Config := kept (cs_Config st) (observed (get_ConfigMap api (GrafanaConfigSelector cr) w))\<rparr>)
      else Inl (projl (get_ConfigMap api (GrafanaConfigSelector cr) w)))"
  "readGrafanaDatasourceConfig api w cr st =
     (if tolerable (get_ConfigMap api (GrafanaDatasourceConfigSelector cr) w)
      then Inr (st\<lparr>cs_DataSourceConfig := kept (cs_DataSourceConfig st) (observed (get_ConfigMap api (GrafanaDatasourceConfigSelector cr) w))\<rparr>)
      else Inl (projl (get_ConfigMap api (GrafanaDatasourceConfigSelector cr) w)))"
  "readGrafanaRoute api w cr st =
     (if tolerable (get_Route api (GrafanaRouteSelector cr) w)
      then Inr (st\<lparr>cs_Route := kept (cs_Route st) (observed (get_Route api (GrafanaRouteSelector cr) w))\<rparr>)
      else Inl (projl (get_Route api (GrafanaRouteSelector cr) w)))"
  "readGrafanaIngress api w cr st =
     (if tolerable (get_Ingress api (GrafanaIngressSelector cr) w)
      then Inr (st\<lparr>cs_Ingress := kept (cs_Ingress st) (observed (get_Ingress api (GrafanaIngressSelector cr) w))\<rparr>)
      else Inl (projl (get_Ingress api (GrafanaIngressSelector cr) w)))"
  "readGrafanaDeployment api w cr st =
     (if tolerable (get_Deployment api (GrafanaDeploymentSelector cr) w)
      then Inr (st\<lparr>cs_Deployment := kept (cs_Deployment st) (observed (get_Deployment api (GrafanaDeploymentSelector cr) w))\<rparr>)
      else Inl (projl (get_Deployment api (GrafanaDeploymentSelector cr) w)))"
  "readGrafanaAdminUserSecret api w cr st =
     (if tolerable (get_Secret api (AdminSecretSelector cr) w)
      then Inr (st\<lparr>cs_AdminSecret := kept (cs_AdminSecret st) (observed (get_Secret api (AdminSecretSelector cr) w))\<rparr>)
      else Inl (projl (get_Secret api (AdminSecretSelector cr) w)))"
  by (simp_all add: read_defs found_eq observed_fields)

text \<open>
  C9: reading the cluster into a fresh state succeeds exactly when every object the code
  asks for is there or not found. Then each field holds the object the API returned, and
  nothing where the object was not found or was not asked for: the volume claim only with a
  data storage in the resource, the route only on OpenShift and the ingress only elsewhere.
\<close>
theorem read_reflects_cluster:
  "Read api w vs cr NewClusterState = Inr (Inr st) \<longleftrightarrow>
   (\<exists>openshift. GetConfigBool vs ConfigOpenshift False = Inr openshift
     \<and> tolerable (get_Service api (GrafanaServiceSelector cr) w)
     \<and> (if UsedPersistentVolume cr then tolerable (get_PVC api (GrafanaDataStorageSelector cr) w) else True)
     \<and> tolerable (get_ServiceAccount api (GrafanaServiceAccountSelector cr) w)
     \<and> tolerable (get_ConfigMap api (GrafanaConfigSelector cr) w)
     \<and> tolerable (get_ConfigMap api (GrafanaDatasourceConfigSelector cr) w)
     \<and> tolerable (get_Deployment api (GrafanaDeploymentSelector cr) w)
     \<and> tolerable (get_Secret api (AdminSecretSelector cr) w)
     \<and> (if openshift then tolerable (get_Route api (GrafanaRouteSelector cr) w)
        else tolerable (get_Ingress api (GrafanaIngressSelector cr) w))
     \<and> st = \<lparr>cs_Service = observed (get_Service api (GrafanaServiceSelector cr) w),
          cs_PVC = (if UsedPersistentVolume cr
                    then observed (get_PVC api (GrafanaDataStorageSelector cr) w) else None),
          cs_ServiceAccount = observed (get_ServiceAccount api (GrafanaServiceAccountSelector cr) w),
          cs_Config = observed (get_ConfigMap api (GrafanaConfigSelector cr) w),
          cs_Route = (if openshift then observed (get_Route api (GrafanaRouteSelector cr) w) else None),
          cs_Ingress = (if openshift then None else observed (get_Ingress api (GrafanaIngressSelector cr) w)),
          cs_Deployment = observed (get_Deployment api (GrafanaDeploymentSelector cr) w),
          cs_DataSourceConfig = observed (get_ConfigMap api (GrafanaDatasourceConfigSelector cr) w),
          cs_AdminSecret = observed (get_Secret api (AdminSecretSelector cr) w)\<rparr>)"
proof (cases "GetConfigBool vs ConfigOpenshift False")
  case (Inr b)
  show ?thesis
    by (cases b; cases "UsedPersistentVolume cr")
      (simp_all add: Inr Read_def read_eqs go_bind_if_Inr NewClusterState_def if_Inr ex_bool_eq split del: if_split)
qed (simp add: Read_def)

text \<open>A condition that does not hold a deployment back.\<close>

definition benign :: "Condition \<Rightarrow> bool" where
  "benign c \<longleftrightarrow> cond_Type c \<noteq> DeploymentReplicaFailure
     \<and> (cond_Type c \<noteq> DeploymentProgressing \<or> cond_Status c = ConditionStatusSuccess)"

lemma deployment_conditions_skip:
  "list_all benign pre \<Longrightarrow> deployment_conditions (pre @ cs) = deployment_conditions cs"
  by (induction pre) (auto simp: benign_def)

lemma deployment_conditions_stop:
  "deployment_conditions cs = Some r \<Longrightarrow>
   \<exists>pre c post. cs = pre @ c # post \<and> list_all benign pre \<and> \<not> benign c
     \<and> deployment_conditions (c # post) = Some r"
proof (induction cs)
  case (Cons c cs)
  show ?case
  proof (cases "benign c")
    case True
    with Cons.prems have "deployment_conditions cs = Some r" by (auto simp: benign_def)
    from Cons.IH [OF this] obtain pre d post where
      "cs = pre @ d # post" "list_all benign pre" "\<not> benign d" "deployment_conditions (d # post) = Some r"
      by blast
    with True show ?thesis by (intro exI [of _ "c # pre"] exI [of _ d] exI [of _ post]) simp
  next
    case False
    with Cons.prems show ?thesis by (intro exI [of _ "[]"] exI [of _ c] exI [of _ cs]) simp
  qed
qed simp

lemma deployment_conditions_failure:
  "deployment_conditions cs = Some (Inl reason) \<longleftrightarrow>
   (\<exists>pre c post. cs = pre @ c # post \<and> list_all benign pre
      \<and> cond_Type c = DeploymentReplicaFailure \<and> cond_Reason c = reason)" (is "?l = ?r")
proof
  assume ?l
  from deployment_conditions_stop [OF this] obtain pre c post where
    b: "cs = pre @ c # post" "list_all benign pre" "\<not> benign c"
      "deployment_conditions (c # post) = Some (Inl reason)" by blast
  then have "cond_Type c = DeploymentReplicaFailure \<and> cond_Reason c = reason"
    by (auto simp: benign_def split: if_splits)
  with b show ?r by blast
qed (auto simp: deployment_conditions_skip)

text \<open>
  C38: a deployment counts as ready exactly when it exists, no condition reports a replica
  failure, no progress condition is other than \<open>True\<close>, and all its replicas are ready. An
  error is reported exactly when a replica failure is met before any stalled progress
  condition, and it is the reason of the first such failure.
\<close>
theorem deployment_ready_iff:
  "(IsDeploymentReady d = Inr True \<longleftrightarrow>
      (\<exists>x. d = Some x \<and> list_all benign (dep_Conditions x) \<and> dep_ReadyReplicas x = dep_StatusReplicas x))
   \<and> (IsDeploymentReady d = Inl reason \<longleftrightarrow>
      (\<exists>x pre c post. d = Some x \<and> dep_Conditions x = pre @ c # post \<and> list_all benign pre
         \<and> cond_Type c = DeploymentReplicaFailure \<and> cond_Reason c = reason))"
proof (cases d)
  case (Some x)
  have none: "deployment_conditions (dep_Conditions x) = None \<longleftrightarrow> list_all benign (dep_Conditions x)"
    by (simp add: deployment_conditions_None benign_def [abs_def])
  show ?thesis
  proof (cases "deployment_conditions (dep_Conditions x)")
    case None
    with Some none deployment_conditions_failure [of "dep_Conditions x" reason]
    show ?thesis by (simp add: IsDeploymentReady_def)
  next
    case (Some r)
    with \<open>d = Some x\<close> none deployment_conditions_failure [of "dep_Conditions x" reason]
      deployment_conditions_not_ready [of "dep_Conditions x"]
    show ?thesis by (simp add: IsDeploymentReady_def)
  qed
qed (simp add: IsDeploymentReady_def)

end
