(* ===== verification/Grafana_Reconciler.thy ===== *)
theory Grafana_Reconciler
  imports Cluster
begin

text \<open>
  The reconciler, \<open>controllers/grafana/grafana_reconciler.go\<close>: from the state read from the
  cluster and the resource it computes the list of actions to run. Each step is a function on
  the reconciler's state, which holds the fields of \<open>GrafanaReconciler\<close> and everything the
  steps write: the resource, the controller configuration, the process environment and the
  global \<open>HyperauthUrl\<close>. A step that dereferences nil or indexes out of range panics, the
  whole reconciliation with it.
\<close>

subsection \<open>State and surroundings\<close>

record recon =
  rc_DsHash :: string
  rc_ConfigHash :: string
  rc_PluginsEnv :: string
  rc_cr :: Grafana
  rc_Config :: ControllerConfig
  rc_env :: environment
  rc_HyperauthUrl :: string

definition NewGrafanaReconciler :: "Grafana \<Rightarrow> ControllerConfig \<Rightarrow> environment \<Rightarrow> string \<Rightarrow> recon" where
  "NewGrafanaReconciler cr cfg env url =
     \<lparr>rc_DsHash = [], rc_ConfigHash = [], rc_PluginsEnv = [], rc_cr = cr, rc_Config = cfg,
      rc_env = env, rc_HyperauthUrl = url\<rparr>"

text \<open>
  What the steps use of libraries and of the outside: the random bytes of the password, the
  rendering of a float, the version library and the HTTP client.
\<close>

record 'v outside =
  out_Rand :: "int list"
  out_ParseFloat :: "string \<Rightarrow> string option"
  out_NewVersion :: "string \<Rightarrow> string + 'v"
  out_Compare :: "'v \<Rightarrow> 'v \<Rightarrow> int"
  out_Get :: "string \<Rightarrow> string + int"

definition rc_Values :: "recon \<Rightarrow> string \<rightharpoonup> conf_value" where
  "rc_Values rc = cc_Values (rc_Config rc)"

subsection \<open>The steps\<close>

definition validateServiceName :: "string \<Rightarrow> bool" where
  "validateServiceName s = list_ex is_lower s"

definition obsolete_service :: "Grafana \<Rightarrow> Service" where
  "obsolete_service cr =
     \<lparr>svc_meta = new_meta (st_PreviousServiceName (Status cr)) (om_Namespace (meta cr)) None None,
      svc_Ports = [], svc_Selector = None, svc_ClusterIP = [], svc_Type = [], svc_rest = []\<rparr>"

definition set_PreviousServiceName :: "string \<Rightarrow> recon \<Rightarrow> recon" where
  "set_PreviousServiceName n rc =
     rc\<lparr>rc_cr := (rc_cr rc)\<lparr>Status := (Status (rc_cr rc))\<lparr>st_PreviousServiceName := n\<rparr>\<rparr>\<rparr>"

definition getGrafanaServiceDesiredState :: "ClusterState \<Rightarrow> recon \<Rightarrow> (ClusterAction option \<times> recon) go" where
  "getGrafanaServiceDesiredState state rc =
     (let cr = rc_cr rc; previous = st_PreviousServiceName (Status cr) in
      case cs_Service state of
        None \<Rightarrow> Inr (Some (GenericCreateAction (KService (GrafanaService cr)) ''create grafana service''), rc)
      | Some svc \<Rightarrow>
          let nam = om_Name (svc_meta svc);
              update = (let rc = (if previous = [] then set_PreviousServiceName nam rc else rc)
                        in Inr (Some (GenericUpdateAction
                              (KService (GrafanaServiceReconciled (rc_cr rc) svc)) ''update grafana service''), rc))
          in if previous \<noteq> [] \<and> nam \<noteq> [] \<and> previous \<noteq> nam
             then go_bind (deref (spec_Service (Spec cr))) (\<lambda>s.
                    if validateServiceName (gs_Name s)
                    then Inr (Some (GenericDeleteAction (KService (obsolete_service cr))
                                ''delete obsolete grafana service''),
                              set_PreviousServiceName [] rc)
                    else update)
             else update)"

definition getGrafanaDataPvcDesiredState :: "ClusterState \<Rightarrow> recon \<Rightarrow> (ClusterAction option \<times> recon) go" where
  "getGrafanaDataPvcDesiredState state rc =
     (case cs_PVC state of
        None \<Rightarrow> go_bind (GrafanaDataPVC (rc_cr rc)) (\<lambda>pvc.
          Inr (Some (GenericCreateAction (KPVC pvc) ''create grafana data persistentVolumeClaim''), rc))
      | Some cur \<Rightarrow>
          Inr (Some (GenericUpdateAction (KPVC (GrafanaPVCReconciled (rc_cr rc) cur))
                 ''update grafana data persistentVolumeClaim''), rc))"

definition skips_service_account :: "Grafana \<Rightarrow> bool" where
  "skips_service_account cr =
     (case spec_ServiceAccount (Spec cr) of
        None \<Rightarrow> False
      | Some sa \<Rightarrow> (case gsa_Skip sa of None \<Rightarrow> False | Some b \<Rightarrow> b))"

definition getGrafanaServiceAccountDesiredState :: "ClusterState \<Rightarrow> recon \<Rightarrow> (ClusterAction option \<times> recon) go" where
  "getGrafanaServiceAccountDesiredState state rc =
     (if skips_service_account (rc_cr rc) then Inr (None, rc)
      else case cs_ServiceAccount state of
        None \<Rightarrow> Inr (Some (GenericCreateAction
                  (KServiceAccount (Model_Resources.GrafanaServiceAccount (rc_cr rc)))
                  ''create grafana service account''), rc)
      | Some cur \<Rightarrow> Inr (Some (GenericUpdateAction
                  (KServiceAccount (GrafanaServiceAccountReconciled (rc_cr rc) cur))
                  ''update grafana service account''), rc))"

text \<open>The third part of the URL of the OAuth API, its host.\<close>

definition getGrafanaConfigDesiredState :: "'v outside \<Rightarrow> ClusterState \<Rightarrow> recon
    \<Rightarrow> (ClusterAction list \<times> recon) go" where
  "getGrafanaConfigDesiredState out state rc =
     go_bind (deref (cfg_AuthGenericOauth (spec_Config (Spec (rc_cr rc))))) (\<lambda>oauth.
     go_bind (index (Split (CHR ''/'') (AuthGenericOauth_ApiUrl oauth)) 2) (\<lambda>url.
       let rc = rc\<lparr>rc_HyperauthUrl := url\<rparr> in
       case cs_Config state of
         None \<Rightarrow>
           let config = GrafanaConfigMap (out_ParseFloat out) (rc_cr rc)
           in Inr ([GenericCreateAction (KConfigMap config) ''create grafana config''],
                   rc\<lparr>rc_ConfigHash := label_get (om_Annotations (cm_meta config)) LastConfigAnnotation\<rparr>)
       | Some cur \<Rightarrow>
           go_bind (GrafanaConfigReconciled (out_ParseFloat out) (rc_cr rc) cur) (\<lambda>config.
             Inr ([GenericUpdateAction (KConfigMap config) ''update grafana config''],
                  rc\<lparr>rc_ConfigHash := label_get (om_Annotations (cm_meta config)) LastConfigAnnotation\<rparr>))))"

definition getGrafanaDatasourceConfigDesiredState :: "ClusterState \<Rightarrow> recon \<Rightarrow> (ClusterAction option \<times> recon) go" where
  "getGrafanaDatasourceConfigDesiredState state rc =
     (case cs_DataSourceConfig state of
        None \<Rightarrow> Inr (Some (GenericCreateAction (KConfigMap (GrafanaDatasourcesConfig (rc_cr rc)))
                       ''create grafanadatasource config''), rc)
      | Some cm \<Rightarrow>
          (case om_Annotations (cm_meta cm) of
             None \<Rightarrow> Inr (None, rc)
           | Some anns \<Rightarrow> Inr (None, rc\<lparr>rc_DsHash := label_get (Some anns) LastConfigAnnotation\<rparr>)))"

definition getGrafanaIngressDesiredState :: "ClusterState \<Rightarrow> recon \<Rightarrow> (ClusterAction option \<times> recon) go" where
  "getGrafanaIngressDesiredState state rc =
     (case cs_Ingress state of
        None \<Rightarrow> go_bind (Model_Resources.GrafanaIngress (rc_cr rc)) (\<lambda>ing.
          Inr (Some (GenericCreateAction (KIngress ing) ''create grafana ingress''), rc))
      | Some cur \<Rightarrow> go_bind (GrafanaIngressReconciled (rc_cr rc) cur) (\<lambda>ing.
          Inr (Some (GenericUpdateAction (KIngress ing) ''update grafana ingress''), rc)))"

definition getGrafanaRouteDesiredState :: "ClusterState \<Rightarrow> recon \<Rightarrow> (ClusterAction option \<times> recon) go" where
  "getGrafanaRouteDesiredState state rc =
     (case cs_Route state of
        None \<Rightarrow> Inr (Some (GenericCreateAction (KRoute (GrafanaRoute (rc_cr rc))) ''create grafana route''), rc)
      | Some cur \<Rightarrow> Inr (Some (GenericUpdateAction (KRoute (GrafanaRouteReconciled (rc_cr rc) cur))
                                 ''update grafana route''), rc))"

definition external_access :: "Grafana \<Rightarrow> bool" where
  "external_access cr = (case spec_Ingress (Spec cr) of None \<Rightarrow> False | Some i \<Rightarrow> gi_Enabled i)"

definition getGrafanaExternalAccessDesiredState :: "ClusterState \<Rightarrow> recon \<Rightarrow> (ClusterAction option \<times> recon) go" where
  "getGrafanaExternalAccessDesiredState state rc =
     go_bind (GetConfigBool (rc_Values rc) ConfigOpenshift False) (\<lambda>isOpenshift.
       if \<not> external_access (rc_cr rc)
       then Inr (case (isOpenshift, cs_Route state, cs_Ingress state) of
                   (True, Some r, _) \<Rightarrow> Some (GenericDeleteAction (KRoute r) ''delete grafana route'')
                 | (False, _, Some i) \<Rightarrow> Some (GenericDeleteAction (KIngress i) ''delete grafana ingress'')
                 | _ \<Rightarrow> None, rc)
       else if isOpenshift then getGrafanaRouteDesiredState state rc
       else getGrafanaIngressDesiredState state rc)"

definition getGrafanaAdminUserSecretDesiredState :: "'v outside \<Rightarrow> ClusterState \<Rightarrow> recon
    \<Rightarrow> (ClusterAction option \<times> recon) go" where
  "getGrafanaAdminUserSecretDesiredState out state rc =
     (if getSkipCreateAdminAccount (rc_cr rc) then Inr (None, rc)
      else case cs_AdminSecret state of
        None \<Rightarrow>
          let (s, env) = AdminSecret (out_Rand out) (rc_env rc) (rc_cr rc)
          in Inr (Some (GenericCreateAction (KSecret s) ''create admin credentials secret''),
                  rc\<lparr>rc_env := env\<rparr>)
      | Some cur \<Rightarrow>
          let (s, env) = AdminSecretReconciled (out_Rand out) (rc_env rc) (rc_cr rc) cur
          in Inr (Some (GenericUpdateAction (KSecret s) ''update admin credentials secret''),
                  rc\<lparr>rc_env := env\<rparr>))"

text \<open>
  \<open>getPodLabels\<close> writes its label into the label map of the resource when there is one, so a
  computed deployment leaves the resource with it.
\<close>

definition share_pod_labels :: "recon \<Rightarrow> recon" where
  "share_pod_labels rc =
     (let cr = rc_cr rc in
      case spec_Deployment (Spec cr) of
        Some d \<Rightarrow>
          if deployment_labels_shared cr
          then rc\<lparr>rc_cr := cr\<lparr>Spec := (Spec cr)\<lparr>spec_Deployment := Some (d\<lparr>gd_Labels := Some (getPodLabels cr)\<rparr>)\<rparr>\<rparr>\<rparr>
          else rc
      | None \<Rightarrow> rc)"

definition getGrafanaDeploymentDesiredState :: "ClusterState \<Rightarrow> recon \<Rightarrow> (ClusterAction option \<times> recon) go" where
  "getGrafanaDeploymentDesiredState state rc =
     (case cs_Deployment state of
        None \<Rightarrow>
          go_bind (Model_Deployment.GrafanaDeployment (rc_Values rc) (rc_cr rc) (rc_ConfigHash rc) (rc_DsHash rc)) (\<lambda>d.
            Inr (Some (GenericCreateAction (KDeployment d) ''create grafana deployment''), share_pod_labels rc))
      | Some cur \<Rightarrow>
          go_bind (GrafanaDeploymentReconciled (rc_Values rc) (rc_cr rc) cur
                     (rc_ConfigHash rc) (rc_PluginsEnv rc) (rc_DsHash rc)) (\<lambda>d.
            Inr (Some (GenericUpdateAction (KDeployment d) ''update grafana deployment''), share_pod_labels rc)))"

text \<open>One source of the environment of a container.\<close>

definition env_source_action :: "string \<Rightarrow> EnvFromSource \<Rightarrow> ClusterAction list" where
  "env_source_action namespace src =
     (case ef_ConfigMapRef src of
        Some nam \<Rightarrow>
          if nam \<noteq> []
          then [ExposeConfigMapEnvVarAction nam namespace
                  (''looking for admin credentials in config map '' @ nam)]
          else (case ef_SecretRef src of
                  Some sec \<Rightarrow> if sec \<noteq> []
                    then [ExposeSecretEnvVarAction sec namespace
                            (''looking for admin credentials in secret '' @ sec)] else []
                | None \<Rightarrow> [])
      | None \<Rightarrow>
          (case ef_SecretRef src of
             Some sec \<Rightarrow> if sec \<noteq> []
               then [ExposeSecretEnvVarAction sec namespace
                       (''looking for admin credentials in secret '' @ sec)] else []
           | None \<Rightarrow> []))"

definition creates_account_explicitly :: "Grafana \<Rightarrow> bool" where
  "creates_account_explicitly cr =
     (case spec_Deployment (Spec cr) of
        None \<Rightarrow> False
      | Some d \<Rightarrow> (case gd_SkipCreateAdminAccount d of None \<Rightarrow> False | Some b \<Rightarrow> \<not> b))"

definition getEnvVarsDesiredState :: "ClusterState \<Rightarrow> Grafana \<Rightarrow> ClusterAction list" where
  "getEnvVarsDesiredState state cr =
     (case cs_Deployment state of
        None \<Rightarrow> []
      | Some d \<Rightarrow>
          if creates_account_explicitly cr then []
          else concat (map (\<lambda>c. if co_Name c \<noteq> ''grafana'' then []
                                 else concat (map (env_source_action (om_Namespace (meta cr))) (co_EnvFrom c)))
                 (dep_Containers d)))"

definition getGrafanaPluginsDesiredState :: "'v outside \<Rightarrow> recon \<Rightarrow> (ClusterAction option \<times> recon) go" where
  "getGrafanaPluginsDesiredState out rc =
     (let requested = GetAllPlugins (rc_Config rc);
          (filtered, updated) = FilterPlugins (out_NewVersion out) (out_Compare out) (rc_cr rc) requested
      in if updated
         then let cr = reconcilePlugins (PluginExists (out_Get out)) (rc_cr rc) filtered;
                  rc = rc\<lparr>rc_cr := cr, rc_PluginsEnv := BuildEnv cr,
                          rc_Config := InvalidateDashboards (rc_Config rc)\<rparr>
              in Inr (Some (LogAction (''plugins updated to '' @ rc_PluginsEnv rc)), rc)
         else Inr (Some (LogAction ''plugins unchanged''), rc\<lparr>rc_PluginsEnv := BuildEnv (rc_cr rc)\<rparr>))"

definition getGrafanaReadiness :: "ClusterState \<Rightarrow> recon \<Rightarrow> ClusterAction list go" where
  "getGrafanaReadiness state rc =
     go_bind (GetConfigBool (rc_Values rc) ConfigOpenshift False) (\<lambda>openshift.
       let exposed = external_access (rc_cr rc) \<and> \<not> GetPreferServiceValue (rc_cr rc)
       in Inr ((if openshift \<and> exposed
                then [RouteReadyAction (cs_Route state) ''check route readiness''] else [])
               @ (if \<not> openshift \<and> exposed
                  then [IngressReadyAction (cs_Ingress state) ''check ingress readiness''] else [])
               @ [DeploymentReadyAction (cs_Deployment state) ''check deployment readiness'']))"

definition Reconcile :: "'v outside \<Rightarrow> ClusterState \<Rightarrow> recon \<Rightarrow> (DesiredClusterState \<times> recon) go" where
  "Reconcile out state rc =
     go_bind (getGrafanaAdminUserSecretDesiredState out state rc) (\<lambda>(a, rc).
     let desired = AddAction [] a in
     go_bind (getGrafanaServiceDesiredState state rc) (\<lambda>(a, rc).
     let desired = AddAction desired a in
     go_bind (if UsedPersistentVolume (rc_cr rc) then getGrafanaDataPvcDesiredState state rc
              else Inr (None, rc)) (\<lambda>(a, rc).
     let desired = AddAction desired a in
     go_bind (getGrafanaServiceAccountDesiredState state rc) (\<lambda>(a, rc).
     let desired = AddAction desired a in
     go_bind (getGrafanaConfigDesiredState out state rc) (\<lambda>(as, rc).
     let desired = AddActions desired as in
     go_bind (getGrafanaDatasourceConfigDesiredState state rc) (\<lambda>(a, rc).
     let desired = AddAction desired a in
     go_bind (getGrafanaExternalAccessDesiredState state rc) (\<lambda>(a, rc).
     let desired = AddAction desired a in
     go_bind (getGrafanaPluginsDesiredState out rc) (\<lambda>(a, rc).
     let desired = AddAction desired a in
     go_bind (getGrafanaDeploymentDesiredState state rc) (\<lambda>(a, rc).
     let desired = AddAction desired a;
         desired = AddActions desired (getEnvVarsDesiredState state (rc_cr rc)) in
     go_bind (getGrafanaReadiness state rc) (\<lambda>as.
       Inr (AddActions desired as, rc)))))))))))"

subsection \<open>Facts about the steps\<close>

definition opt_list :: "'a option \<Rightarrow> 'a list" where
  "opt_list x = (case x of None \<Rightarrow> [] | Some y \<Rightarrow> [y])"

lemma opt_list_simps [simp]: "opt_list None = []" "opt_list (Some y) = [y]"
  by (simp_all add: opt_list_def)

lemma AddAction_append: "AddAction d a = d @ opt_list a"
  by (simp add: AddAction_def split: option.split)

text \<open>
  What no step changes: the specification and the metadata of the resource, apart from the
  label that the deployment step adds, and the values of the controller configuration.
\<close>

definition frame :: "recon \<Rightarrow> recon \<Rightarrow> bool" where
  "frame rc rc' \<longleftrightarrow> Spec (rc_cr rc') = Spec (rc_cr rc) \<and> meta (rc_cr rc') = meta (rc_cr rc)
     \<and> rc_Values rc' = rc_Values rc"

lemma frame_refl [simp]: "frame rc rc"
  by (simp add: frame_def)

lemma frame_trans: "frame a b \<Longrightarrow> frame b c \<Longrightarrow> frame a c"
  by (simp add: frame_def)

lemma frame_updates [simp]:
  "frame rc (set_PreviousServiceName n rc)"
  "frame rc (rc\<lparr>rc_env := e\<rparr>)"
  "frame rc (rc\<lparr>rc_HyperauthUrl := u, rc_ConfigHash := h\<rparr>)"
  "frame rc (rc\<lparr>rc_DsHash := h\<rparr>)"
  by (simp_all add: frame_def set_PreviousServiceName_def rc_Values_def)

lemma secret_step_frame:
  "getGrafanaAdminUserSecretDesiredState out st rc = Inr (a, rc') \<Longrightarrow>
   frame rc rc' \<and> Status (rc_cr rc') = Status (rc_cr rc) \<and> rc_Config rc' = rc_Config rc
     \<and> rc_DsHash rc' = rc_DsHash rc"
  by (auto simp: getGrafanaAdminUserSecretDesiredState_def frame_def rc_Values_def
      split: if_splits option.splits prod.splits)

lemma service_step_frame:
  "getGrafanaServiceDesiredState st rc = Inr (a, rc') \<Longrightarrow>
   frame rc rc' \<and> rc_Config rc' = rc_Config rc \<and> rc_env rc' = rc_env rc \<and> rc_DsHash rc' = rc_DsHash rc
   \<and> Status (rc_cr rc') = (Status (rc_cr rc))\<lparr>st_PreviousServiceName := st_PreviousServiceName (Status (rc_cr rc'))\<rparr>"
  by (auto simp: getGrafanaServiceDesiredState_def frame_def rc_Values_def set_PreviousServiceName_def
      Let_def go_bind_eq_Inr split: if_splits option.splits)

lemma pvc_step_state:
  "getGrafanaDataPvcDesiredState st rc = Inr (a, rc') \<Longrightarrow> rc' = rc"
  by (auto simp: getGrafanaDataPvcDesiredState_def go_bind_eq_Inr split: option.splits)

lemma service_account_step_state:
  "getGrafanaServiceAccountDesiredState st rc = Inr (a, rc') \<Longrightarrow> rc' = rc"
  by (auto simp: getGrafanaServiceAccountDesiredState_def split: if_splits option.splits)

lemma config_step_frame:
  "getGrafanaConfigDesiredState out st rc = Inr (as, rc') \<Longrightarrow>
   frame rc rc' \<and> Status (rc_cr rc') = Status (rc_cr rc) \<and> rc_Config rc' = rc_Config rc
     \<and> rc_env rc' = rc_env rc \<and> rc_DsHash rc' = rc_DsHash rc"
  by (auto simp: getGrafanaConfigDesiredState_def go_bind_eq_Inr Let_def split: option.splits)

lemma datasource_step_frame:
  "getGrafanaDatasourceConfigDesiredState st rc = Inr (a, rc') \<Longrightarrow>
   frame rc rc' \<and> rc_cr rc' = rc_cr rc \<and> rc_Config rc' = rc_Config rc
     \<and> rc_env rc' = rc_env rc \<and> rc_ConfigHash rc' = rc_ConfigHash rc"
  by (auto simp: getGrafanaDatasourceConfigDesiredState_def split: option.splits)

lemma access_step_state:
  "getGrafanaExternalAccessDesiredState st rc = Inr (a, rc') \<Longrightarrow> rc' = rc"
  by (auto simp: getGrafanaExternalAccessDesiredState_def getGrafanaRouteDesiredState_def
      getGrafanaIngressDesiredState_def go_bind_eq_Inr split: if_splits option.splits)

lemma InvalidateDashboards_Values [simp]: "cc_Values (InvalidateDashboards c) = cc_Values c"
  by (simp add: InvalidateDashboards_def)

lemma reconcilePlugins_frame [simp]:
  "Spec (reconcilePlugins ex cr ps) = Spec cr" "meta (reconcilePlugins ex cr ps) = meta cr"
  by (simp_all add: reconcilePlugins_def)

lemma plugin_step_frame:
  "getGrafanaPluginsDesiredState out rc = Inr (a, rc') \<Longrightarrow>
   frame rc rc' \<and> rc_env rc' = rc_env rc \<and> rc_DsHash rc' = rc_DsHash rc
   \<and> rc_ConfigHash rc' = rc_ConfigHash rc \<and> rc_PluginsEnv rc' = BuildEnv (rc_cr rc')"
  by (auto simp: getGrafanaPluginsDesiredState_def frame_def rc_Values_def Let_def split: if_splits prod.splits)

lemma deployment_step_state:
  "getGrafanaDeploymentDesiredState st rc = Inr (a, rc') \<Longrightarrow> rc' = share_pod_labels rc"
  by (auto simp: getGrafanaDeploymentDesiredState_def go_bind_eq_Inr split: option.splits)

lemma share_pod_labels_frame [simp]:
  "meta (rc_cr (share_pod_labels rc)) = meta (rc_cr rc)"
  "Status (rc_cr (share_pod_labels rc)) = Status (rc_cr rc)"
  "rc_Config (share_pod_labels rc) = rc_Config rc"
  "rc_Values (share_pod_labels rc) = rc_Values rc"
  "rc_env (share_pod_labels rc) = rc_env rc"
  "rc_PluginsEnv (share_pod_labels rc) = rc_PluginsEnv rc"
  "spec_Ingress (Spec (rc_cr (share_pod_labels rc))) = spec_Ingress (Spec (rc_cr rc))"
  "spec_Client (Spec (rc_cr (share_pod_labels rc))) = spec_Client (Spec (rc_cr rc))"
  "creates_account_explicitly (rc_cr (share_pod_labels rc)) = creates_account_explicitly (rc_cr rc)"
  by (simp_all add: share_pod_labels_def Let_def rc_Values_def creates_account_explicitly_def split: option.split)

lemma share_pod_labels_readers [simp]:
  "external_access (rc_cr (share_pod_labels rc)) = external_access (rc_cr rc)"
  "GetPreferServiceValue (rc_cr (share_pod_labels rc)) = GetPreferServiceValue (rc_cr rc)"
  "getEnvVarsDesiredState st (rc_cr (share_pod_labels rc)) = getEnvVarsDesiredState st (rc_cr rc)"
  by (simp_all add: external_access_def GetPreferServiceValue_def getEnvVarsDesiredState_def cong: if_cong option.case_cong)

lemma go_bind_pairE:
  assumes "go_bind r (\<lambda>(a, s). f a s) = Inr y"
  obtains a s where "r = Inr (a, s)" "f a s = Inr y"
  using assms by (auto simp: go_bind_eq_Inr)

text \<open>The parts of a completed reconciliation, in the order of the code.\<close>

lemma Reconcile_parts:
  assumes "Reconcile out st rc = Inr (plan, rc')"
  obtains a1 rc1 a2 rc2 a3 a4 as5 rc5 a6 rc6 a7 a8 rc8 a9 as where
    "getGrafanaAdminUserSecretDesiredState out st rc = Inr (a1, rc1)"
    "getGrafanaServiceDesiredState st rc1 = Inr (a2, rc2)"
    "(if UsedPersistentVolume (rc_cr rc2) then getGrafanaDataPvcDesiredState st rc2 else Inr (None, rc2))
       = Inr (a3, rc2)"
    "getGrafanaServiceAccountDesiredState st rc2 = Inr (a4, rc2)"
    "getGrafanaConfigDesiredState out st rc2 = Inr (as5, rc5)"
    "getGrafanaDatasourceConfigDesiredState st rc5 = Inr (a6, rc6)"
    "getGrafanaExternalAccessDesiredState st rc6 = Inr (a7, rc6)"
    "getGrafanaPluginsDesiredState out rc6 = Inr (a8, rc8)"
    "getGrafanaDeploymentDesiredState st rc8 = Inr (a9, rc')" "rc' = share_pod_labels rc8"
    "getGrafanaReadiness st rc8 = Inr as"
    "plan = opt_list a1 @ opt_list a2 @ opt_list a3 @ opt_list a4 @ as5 @ opt_list a6 @ opt_list a7
       @ opt_list a8 @ opt_list a9 @ getEnvVarsDesiredState st (rc_cr rc8) @ as"
proof -
  have pvc: "r = rc2" if
    "(if UsedPersistentVolume (rc_cr rc2) then getGrafanaDataPvcDesiredState st rc2 else Inr (None, rc2))
       = Inr (a, r)" for a r rc2
    using that pvc_step_state by (auto split: if_splits)
  have rd: "getGrafanaReadiness st (share_pod_labels r) = getGrafanaReadiness st r" for r
    by (simp add: getGrafanaReadiness_def)
  show thesis
    using assms that
    unfolding Reconcile_def AddAction_append AddActions_append Let_def append_assoc append_Nil
    apply (elim go_bind_pairE)
    subgoal premises h for a1 rc1 a2 rc2 a3 rc3 a4 rc4 as5 rc5 a6 rc6 a7 rc7 a8 rc8 a9 rc9
    proof -
      have eqs: "rc3 = rc2" "rc4 = rc2" "rc7 = rc6" "rc9 = share_pod_labels rc8"
        using pvc [OF h(4)] service_account_step_state [OF h(5)] access_step_state [OF h(8)]
          deployment_step_state [OF h(10)] by simp_all
      from h(11) obtain as where as: "getGrafanaReadiness st rc8 = Inr as" "rc' = share_pod_labels rc8"
        "plan = opt_list a1 @ opt_list a2 @ opt_list a3 @ opt_list a4 @ as5 @ opt_list a6 @ opt_list a7
           @ opt_list a8 @ opt_list a9 @ getEnvVarsDesiredState st (rc_cr rc8) @ as"
        by (auto simp: go_bind_eq_Inr eqs rd)
      show thesis
        by (rule h(1) [OF h(2,3) _ _ _ _ _ _ _ as(2) as(1) as(3)]) (use h eqs as(2) in simp_all)
    qed
    done
qed

subsection \<open>When a reconciliation completes\<close>

definition readable_bool :: "(string \<rightharpoonup> conf_value) \<Rightarrow> string \<Rightarrow> bool" where
  "readable_bool vs k = (case vs k of None \<Rightarrow> True | Some v \<Rightarrow> (case v of VBool _ \<Rightarrow> True | _ \<Rightarrow> False))"

definition readable_string :: "(string \<rightharpoonup> conf_value) \<Rightarrow> string \<Rightarrow> bool" where
  "readable_string vs k = (case vs k of None \<Rightarrow> True | Some v \<Rightarrow> (case v of VString _ \<Rightarrow> True | _ \<Rightarrow> False))"

lemma readable_bool_iff: "readable_bool vs k \<longleftrightarrow> (\<exists>b. GetConfigBool vs k d = Inr b)"
  by (auto simp: readable_bool_def GetConfigBool_def HasConfigItem_def split: option.splits conf_value.splits)

lemma readable_string_iff: "readable_string vs k \<longleftrightarrow> (\<exists>b. GetConfigString vs k d = Inr b)"
  by (auto simp: readable_string_def GetConfigString_def HasConfigItem_def split: option.splits conf_value.splits)

text \<open>The type assertions on the configuration that a reconciliation makes.\<close>

definition image_readable :: "(string \<rightharpoonup> conf_value) \<Rightarrow> string \<Rightarrow> string \<Rightarrow> string \<Rightarrow> bool" where
  "image_readable vs fixed k t \<longleftrightarrow> fixed \<noteq> [] \<or> (readable_string vs k \<and> readable_string vs t)"

lemma image_readable_iff: "image_readable vs fixed k t \<longleftrightarrow> (\<exists>i. image_of vs fixed k d t e = Inr i)"
  by (auto simp: image_readable_def image_of_def go_bind_eq_Inr readable_string_iff [of vs k d]
      readable_string_iff [of vs t e])

definition values_readable :: "(string \<rightharpoonup> conf_value) \<Rightarrow> Grafana \<Rightarrow> bool" where
  "values_readable vs cr \<longleftrightarrow>
     readable_bool vs ConfigOpenshift
     \<and> image_readable vs (spec_BaseImage (Spec cr)) ConfigGrafanaImage ConfigGrafanaImageTag
     \<and> image_readable vs (spec_InitImage (Spec cr)) ConfigPluginsInitContainerImage
         ConfigPluginsInitContainerTag"

text \<open>The service can be renamed only with a service in the specification.\<close>

definition service_given :: "ClusterState \<Rightarrow> Grafana \<Rightarrow> bool" where
  "service_given st cr =
     (case cs_Service st of
        None \<Rightarrow> True
      | Some svc \<Rightarrow> st_PreviousServiceName (Status cr) = [] \<or> om_Name (svc_meta svc) = []
          \<or> st_PreviousServiceName (Status cr) = om_Name (svc_meta svc)
          \<or> spec_Service (Spec cr) \<noteq> None)"

definition oauth_url_given :: "Grafana \<Rightarrow> bool" where
  "oauth_url_given cr =
     (case cfg_AuthGenericOauth (spec_Config (Spec cr)) of
        None \<Rightarrow> False
      | Some oauth \<Rightarrow> 2 \<le> count_list (AuthGenericOauth_ApiUrl oauth) (CHR ''/''))"

definition config_data_given :: "ClusterState \<Rightarrow> bool" where
  "config_data_given st = (case cs_Config st of None \<Rightarrow> True | Some cm \<Rightarrow> cm_Data cm \<noteq> None)"

lemma length_Split: "length (Split sep s) = Suc (count_list s sep)"
  by (induction s) (auto split: list.split)

lemma secret_step_returns: "\<exists>a rc'. getGrafanaAdminUserSecretDesiredState out st rc = Inr (a, rc')"
  by (simp add: getGrafanaAdminUserSecretDesiredState_def split: option.split prod.split)

lemma service_step_returns:
  "(\<exists>a rc'. getGrafanaServiceDesiredState st rc = Inr (a, rc')) \<longleftrightarrow> service_given st (rc_cr rc)"
  by (cases "spec_Service (Spec (rc_cr rc))")
    (auto simp: getGrafanaServiceDesiredState_def service_given_def Let_def split: option.split)

lemma pvc_step_returns:
  "\<exists>a. (if UsedPersistentVolume (rc_cr rc) then getGrafanaDataPvcDesiredState st rc else Inr (None, rc))
     = Inr (a, rc)"
  by (auto simp: UsedPersistentVolume_def getGrafanaDataPvcDesiredState_def GrafanaDataPVC_def
      split: option.split)

lemma service_account_step_returns: "\<exists>a. getGrafanaServiceAccountDesiredState st rc = Inr (a, rc)"
  by (auto simp: getGrafanaServiceAccountDesiredState_def split: option.split)

lemma config_step_returns:
  "(\<exists>as rc'. getGrafanaConfigDesiredState out st rc = Inr (as, rc')) \<longleftrightarrow>
   oauth_url_given (rc_cr rc) \<and> config_data_given st"
proof (cases "oauth_url_given (rc_cr rc)")
  case True
  then obtain oauth where "cfg_AuthGenericOauth (spec_Config (Spec (rc_cr rc))) = Some oauth"
    "2 \<le> count_list (AuthGenericOauth_ApiUrl oauth) (CHR ''/'')"
    by (auto simp: oauth_url_given_def split: option.splits)
  then show ?thesis
    by (cases "cs_Config st")
      (simp_all add: True getGrafanaConfigDesiredState_def config_data_given_def index_def length_Split
        GrafanaConfigReconciled_def Let_def split: option.split prod.split)
next
  case False
  then show ?thesis
    by (auto simp: getGrafanaConfigDesiredState_def oauth_url_given_def go_bind_eq_Inr index_def
        length_Split split: option.splits)
qed

lemma datasource_step_returns: "\<exists>a rc'. getGrafanaDatasourceConfigDesiredState st rc = Inr (a, rc')"
  by (simp add: getGrafanaDatasourceConfigDesiredState_def split: option.split)

lemma getIngressSpec_returns: "spec_Ingress (Spec cr) \<noteq> None \<Longrightarrow> \<exists>s. getIngressSpec cr = Inr s"
  by (auto simp: getIngressSpec_def GetIngressClassName_def GetIngressPathType_def Let_def)

lemma access_step_returns:
  "(\<exists>a. getGrafanaExternalAccessDesiredState st rc = Inr (a, rc)) \<longleftrightarrow>
   readable_bool (rc_Values rc) ConfigOpenshift"
proof -
  have route: "\<exists>a. getGrafanaRouteDesiredState st rc = Inr (a, rc)"
    by (simp add: getGrafanaRouteDesiredState_def split: option.split)
  have ingress: "\<exists>a. getGrafanaIngressDesiredState st rc = Inr (a, rc)" if "external_access (rc_cr rc)"
  proof -
    from that have "spec_Ingress (Spec (rc_cr rc)) \<noteq> None"
      by (cases "spec_Ingress (Spec (rc_cr rc))") (simp_all add: external_access_def)
    from getIngressSpec_returns [OF this] show ?thesis
      by (auto simp: getGrafanaIngressDesiredState_def GrafanaIngress_def GrafanaIngressReconciled_def
          split: option.split)
  qed
  from route ingress show ?thesis
    by (cases "GetConfigBool (rc_Values rc) ConfigOpenshift False")
      (simp_all add: getGrafanaExternalAccessDesiredState_def readable_bool_iff [where d = False])
qed

lemma plugin_step_returns: "\<exists>a rc'. getGrafanaPluginsDesiredState out rc = Inr (a, rc')"
  by (simp add: getGrafanaPluginsDesiredState_def Let_def split: prod.split)

lemma getDeploymentSpec_returns:
  "(\<exists>d. getDeploymentSpec vs cr anns ch pl dh dep = Inr d) \<longleftrightarrow>
   image_readable vs (spec_BaseImage (Spec cr)) ConfigGrafanaImage ConfigGrafanaImageTag
   \<and> image_readable vs (spec_InitImage (Spec cr)) ConfigPluginsInitContainerImage
       ConfigPluginsInitContainerTag"
  by (cases "image_of vs (spec_BaseImage (Spec cr)) ConfigGrafanaImage GrafanaImage
          ConfigGrafanaImageTag GrafanaVersion";
      cases "image_of vs (spec_InitImage (Spec cr)) ConfigPluginsInitContainerImage
          PluginsInitContainerImage ConfigPluginsInitContainerTag PluginsInitContainerTag")
    (simp_all add: getDeploymentSpec_def getInitContainers_def getContainers_def Let_def
      image_readable_iff [where k = ConfigGrafanaImage and d = GrafanaImage and e = GrafanaVersion]
      image_readable_iff [where k = ConfigPluginsInitContainerImage and d = PluginsInitContainerImage
        and e = PluginsInitContainerTag])

lemma deployment_step_returns:
  "(\<exists>a rc'. getGrafanaDeploymentDesiredState st rc = Inr (a, rc')) \<longleftrightarrow>
   image_readable (rc_Values rc) (spec_BaseImage (Spec (rc_cr rc))) ConfigGrafanaImage ConfigGrafanaImageTag
   \<and> image_readable (rc_Values rc) (spec_InitImage (Spec (rc_cr rc))) ConfigPluginsInitContainerImage
       ConfigPluginsInitContainerTag"
  unfolding getDeploymentSpec_returns [symmetric, where anns = "case cs_Deployment st of None \<Rightarrow> None
      | Some cur \<Rightarrow> dep_TemplateAnnotations cur" and ch = "rc_ConfigHash rc" and pl = "if cs_Deployment st = None
      then [] else rc_PluginsEnv rc" and dh = "rc_DsHash rc" and dep = "case cs_Deployment st of Some cur \<Rightarrow> cur
      | None \<Rightarrow> empty_deployment (new_meta GrafanaDeploymentName (om_Namespace (meta (rc_cr rc)))
          (Some (if deployment_labels_shared (rc_cr rc) then getPodLabels (rc_cr rc)
                 else getDeploymentLabels (rc_cr rc))) None)"]
  by (cases "cs_Deployment st")
    (auto simp: getGrafanaDeploymentDesiredState_def GrafanaDeployment_def GrafanaDeploymentReconciled_def
      go_bind_eq_Inr)

lemma readiness_returns:
  "(\<exists>as. getGrafanaReadiness st rc = Inr as) \<longleftrightarrow> readable_bool (rc_Values rc) ConfigOpenshift"
  by (auto simp: getGrafanaReadiness_def go_bind_eq_Inr readable_bool_iff [where d = False] Let_def)

text \<open>The conditions depend only on what the steps keep.\<close>

lemma frame_conditions:
  assumes "frame rc rc'"
  shows "oauth_url_given (rc_cr rc') = oauth_url_given (rc_cr rc)"
    "rc_Values rc' = rc_Values rc" "Spec (rc_cr rc') = Spec (rc_cr rc)"
    "meta (rc_cr rc') = meta (rc_cr rc)"
  using assms by (simp_all add: frame_def oauth_url_given_def)

text \<open>What the steps of a completed reconciliation keep, seen from its start.\<close>

lemma step_frames:
  assumes "getGrafanaAdminUserSecretDesiredState out st rc = Inr (a1, rc1)" "getGrafanaServiceDesiredState st rc1 = Inr (a2, rc2)"
    and "getGrafanaConfigDesiredState out st rc2 = Inr (as5, rc5)" "getGrafanaDatasourceConfigDesiredState st rc5 = Inr (a6, rc6)"
    and "getGrafanaPluginsDesiredState out rc6 = Inr (a8, rc8)"
  shows "frame rc rc1" "rc_cr rc1 = rc_cr rc" "frame rc rc2" "frame rc rc5" "frame rc rc6" "frame rc rc8"
    "rc_DsHash rc5 = rc_DsHash rc" "rc_ConfigHash rc8 = rc_ConfigHash rc5" "rc_DsHash rc8 = rc_DsHash rc6"
proof -
  note frames = secret_step_frame [OF assms(1)] service_step_frame [OF assms(2)] config_step_frame [OF assms(3)]
    datasource_step_frame [OF assms(4)] plugin_step_frame [OF assms(5)]
  show f1: "frame rc rc1" using frames by blast
  show "rc_cr rc1 = rc_cr rc" using frames(1,2) by (auto simp: frame_def intro: Grafana.equality)
  show f2: "frame rc rc2" using f1 frames frame_trans by blast
  show f5: "frame rc rc5" using f2 frames frame_trans by blast
  show f6: "frame rc rc6" using f5 frames frame_trans by blast
  show "frame rc rc8" using f6 frames frame_trans by blast
  show "rc_DsHash rc5 = rc_DsHash rc" "rc_ConfigHash rc8 = rc_ConfigHash rc5" "rc_DsHash rc8 = rc_DsHash rc6"
    using frames by simp_all
qed

lemma Reconcile_frames:
  assumes "Reconcile out st rc = Inr (plan, rc')"
  shows "\<exists>rc8. frame rc rc8 \<and> rc' = share_pod_labels rc8"
  using assms by (rule Reconcile_parts) (metis step_frames(6))

lemma Reconcile_needs:
  assumes "Reconcile out st rc = Inr (plan, rc')"
  shows "values_readable (rc_Values rc) (rc_cr rc) \<and> oauth_url_given (rc_cr rc) \<and> config_data_given st
    \<and> service_given st (rc_cr rc)"
  using assms
proof (rule Reconcile_parts)
  fix a1 rc1 a2 rc2 a3 a4 as5 rc5 a6 rc6 a7 a8 rc8 a9 as
  assume s: "getGrafanaAdminUserSecretDesiredState out st rc = Inr (a1, rc1)"
    "getGrafanaServiceDesiredState st rc1 = Inr (a2, rc2)"
    "getGrafanaConfigDesiredState out st rc2 = Inr (as5, rc5)"
    "getGrafanaDatasourceConfigDesiredState st rc5 = Inr (a6, rc6)"
    "getGrafanaExternalAccessDesiredState st rc6 = Inr (a7, rc6)"
    "getGrafanaPluginsDesiredState out rc6 = Inr (a8, rc8)"
    "getGrafanaDeploymentDesiredState st rc8 = Inr (a9, rc')"
  note f = step_frames [OF s(1-4,6)]
  have "service_given st (rc_cr rc)" using s(2) service_step_returns [of st rc1] f(2) by auto
  moreover have "oauth_url_given (rc_cr rc) \<and> config_data_given st"
    using s(3) config_step_returns [of out st rc2] frame_conditions(1) [OF f(3)] by auto
  moreover have "readable_bool (rc_Values rc) ConfigOpenshift"
    using s(5) access_step_returns [of st rc6] frame_conditions(2) [OF f(5)] by auto
  moreover have "image_readable (rc_Values rc) (spec_BaseImage (Spec (rc_cr rc))) ConfigGrafanaImage ConfigGrafanaImageTag
     \<and> image_readable (rc_Values rc) (spec_InitImage (Spec (rc_cr rc))) ConfigPluginsInitContainerImage
         ConfigPluginsInitContainerTag"
    using s(7) deployment_step_returns [of st rc8] frame_conditions [OF f(6)] by auto
  ultimately show ?thesis by (simp add: values_readable_def)
qed

lemma Reconcile_suffices:
  assumes "values_readable (rc_Values rc) (rc_cr rc)" "oauth_url_given (rc_cr rc)" "config_data_given st"
    and "service_given st (rc_cr rc)"
  shows "\<exists>plan rc'. Reconcile out st rc = Inr (plan, rc')"
proof -
  obtain a1 rc1 where s1: "getGrafanaAdminUserSecretDesiredState out st rc = Inr (a1, rc1)"
    using secret_step_returns by blast
  have f1: "frame rc rc1" "rc_cr rc1 = rc_cr rc"
    using secret_step_frame [OF s1] by (auto simp: frame_def intro: Grafana.equality)
  obtain a2 rc2 where s2: "getGrafanaServiceDesiredState st rc1 = Inr (a2, rc2)"
    using assms f1 service_step_returns by metis
  have f2: "frame rc rc2" using f1(1) service_step_frame [OF s2] frame_trans by blast
  obtain a3 where s3: "(if UsedPersistentVolume (rc_cr rc2) then getGrafanaDataPvcDesiredState st rc2
      else Inr (None, rc2)) = Inr (a3, rc2)"
    using pvc_step_returns by blast
  obtain a4 where s4: "getGrafanaServiceAccountDesiredState st rc2 = Inr (a4, rc2)"
    using service_account_step_returns by blast
  obtain as5 rc5 where s5: "getGrafanaConfigDesiredState out st rc2 = Inr (as5, rc5)"
    using assms config_step_returns frame_conditions(1) [OF f2] by metis
  obtain a6 rc6 where s6: "getGrafanaDatasourceConfigDesiredState st rc5 = Inr (a6, rc6)"
    using datasource_step_returns by blast
  obtain a8 rc8 where s8: "getGrafanaPluginsDesiredState out rc6 = Inr (a8, rc8)"
    using plugin_step_returns by blast
  note f = step_frames [OF s1 s2 s5 s6 s8]
  obtain a7 where s7: "getGrafanaExternalAccessDesiredState st rc6 = Inr (a7, rc6)"
    using assms access_step_returns frame_conditions(2) [OF f(5)] by (metis values_readable_def)
  obtain a9 rc9 where s9: "getGrafanaDeploymentDesiredState st rc8 = Inr (a9, rc9)"
    using assms deployment_step_returns [of st rc8] frame_conditions [OF f(6)] by (metis values_readable_def)
  obtain as where "getGrafanaReadiness st rc9 = Inr as"
    using assms readiness_returns [of st rc9] frame_conditions(2) [OF f(6)] deployment_step_state [OF s9]
    by (metis values_readable_def share_pod_labels_frame(4))
  with s1 s2 s3 s4 s5 s6 s7 s8 s9 show ?thesis by (simp add: Reconcile_def Let_def)
qed

lemma Reconcile_returns:
  "(\<exists>plan rc'. Reconcile out st rc = Inr (plan, rc')) \<longleftrightarrow>
   values_readable (rc_Values rc) (rc_cr rc) \<and> oauth_url_given (rc_cr rc) \<and> config_data_given st
   \<and> service_given st (rc_cr rc)"
  using Reconcile_needs Reconcile_suffices by blast

subsection \<open>What a completed reconciliation plans\<close>

text \<open>The object that an action of the plan creates or updates.\<close>

definition written :: "ClusterAction \<Rightarrow> k8s_object option" where
  "written a = (case a of GenericCreateAction obj _ \<Rightarrow> Some obj | GenericUpdateAction obj _ \<Rightarrow> Some obj
                        | _ \<Rightarrow> None)"

definition deleted :: "ClusterAction \<Rightarrow> k8s_object option" where
  "deleted a = (case a of GenericDeleteAction obj _ \<Rightarrow> Some obj | _ \<Rightarrow> None)"

text \<open>
  The cluster as the reconciler sees it, after an action whose call the API has accepted as it
  is. The obsolete service that is deleted has another name than the service of the state.
\<close>

definition store :: "ClusterState \<Rightarrow> k8s_object \<Rightarrow> ClusterState" where
  "store st obj = (case obj of
       KService x \<Rightarrow> st\<lparr>cs_Service := Some x\<rparr> | KPVC x \<Rightarrow> st\<lparr>cs_PVC := Some x\<rparr>
     | KServiceAccount x \<Rightarrow> st\<lparr>cs_ServiceAccount := Some x\<rparr>
     | KConfigMap x \<Rightarrow>
         if om_Name (cm_meta x) = GrafanaDatasourcesConfigMapName
         then st\<lparr>cs_DataSourceConfig := Some x\<rparr> else st\<lparr>cs_Config := Some x\<rparr>
     | KRoute x \<Rightarrow> st\<lparr>cs_Route := Some x\<rparr> | KIngress x \<Rightarrow> st\<lparr>cs_Ingress := Some x\<rparr>
     | KDeployment x \<Rightarrow> st\<lparr>cs_Deployment := Some x\<rparr> | KSecret x \<Rightarrow> st\<lparr>cs_AdminSecret := Some x\<rparr>)"

definition remove :: "ClusterState \<Rightarrow> k8s_object \<Rightarrow> ClusterState" where
  "remove st obj = (case obj of
       KRoute _ \<Rightarrow> st\<lparr>cs_Route := None\<rparr> | KIngress _ \<Rightarrow> st\<lparr>cs_Ingress := None\<rparr> | _ \<Rightarrow> st)"

definition apply_action :: "ClusterState \<Rightarrow> ClusterAction \<Rightarrow> ClusterState" where
  "apply_action st a =
     (case written a of Some obj \<Rightarrow> store st obj
      | None \<Rightarrow> (case deleted a of Some obj \<Rightarrow> remove st obj | None \<Rightarrow> st))"

definition apply_plan :: "ClusterState \<Rightarrow> DesiredClusterState \<Rightarrow> ClusterState" where
  "apply_plan st plan = foldl apply_action st plan"

lemma apply_plan_simps [simp]:
  "apply_plan st [] = st"
  "apply_plan st (a # as) = apply_plan (apply_action st a) as"
  "apply_plan st (as @ bs) = apply_plan (apply_plan st as) bs"
  by (simp_all add: apply_plan_def)

lemma apply_action_simps [simp]:
  "apply_action st (GenericCreateAction obj m) = store st obj"
  "apply_action st (GenericUpdateAction obj m) = store st obj"
  "apply_action st (GenericDeleteAction obj m) = remove st obj"
  "apply_action st (LogAction m) = st"
  "apply_action st (RouteReadyAction r m) = st"
  "apply_action st (IngressReadyAction i m) = st"
  "apply_action st (DeploymentReadyAction d m) = st"
  "apply_action st (ExposeSecretEnvVarAction n ns m) = st"
  "apply_action st (ExposeConfigMapEnvVarAction n ns m) = st"
  by (simp_all add: apply_action_def written_def deleted_def)

text \<open>Actions that only look.\<close>

definition read_only :: "ClusterAction \<Rightarrow> bool" where
  "read_only a \<longleftrightarrow> written a = None \<and> deleted a = None"

lemma apply_read_only: "list_all read_only as \<Longrightarrow> apply_plan st as = st"
  by (induction as) (simp_all add: read_only_def apply_action_def)

lemma read_only_simps [simp]:
  "read_only (LogAction m)" "read_only (RouteReadyAction r m)" "read_only (IngressReadyAction i m)"
  "read_only (DeploymentReadyAction d m)" "read_only (ExposeSecretEnvVarAction n ns m)"
  "read_only (ExposeConfigMapEnvVarAction n ns m)"
  by (simp_all add: read_only_def written_def deleted_def)

lemma env_source_action_read_only: "list_all read_only (env_source_action ns src)"
  by (simp add: env_source_action_def split: option.split)

lemma list_all_concat: "list_all P (concat xss) \<longleftrightarrow> list_all (list_all P) xss"
  by (induction xss) simp_all

lemma list_all_True: "list_all (\<lambda>x. True) xs"
  by (induction xs) simp_all

lemma getEnvVarsDesiredState_read_only [simp]: "list_all read_only (getEnvVarsDesiredState st cr)"
  by (simp add: getEnvVarsDesiredState_def list_all_concat env_source_action_read_only list.pred_map
      comp_def list_all_True split: option.split)

lemma getGrafanaReadiness_read_only:
  "getGrafanaReadiness st rc = Inr as \<Longrightarrow> list_all read_only as
     \<and> last as = DeploymentReadyAction (cs_Deployment st) ''check deployment readiness'' \<and> as \<noteq> []"
  by (auto simp: getGrafanaReadiness_def go_bind_eq_Inr Let_def)

lemma plugin_step_read_only:
  "getGrafanaPluginsDesiredState out rc = Inr (a, rc') \<Longrightarrow> list_all read_only (opt_list a)"
  by (auto simp: getGrafanaPluginsDesiredState_def Let_def split: prod.splits if_splits)

subsection \<open>The next object of each kind\<close>

text \<open>
  What a reconciliation leaves in the cluster, kind by kind: a function of the resource and of
  the object that is there, if any.
\<close>

definition next_secret :: "int list \<Rightarrow> Grafana \<Rightarrow> Secret option \<Rightarrow> Secret option" where
  "next_secret rnd cr cur =
     (if getSkipCreateAdminAccount cr then cur
      else Some (case cur of None \<Rightarrow> fst (AdminSecret rnd (\<lambda>_. None) cr)
                           | Some x \<Rightarrow> fst (AdminSecretReconciled rnd (\<lambda>_. None) cr x)))"

definition next_service :: "Grafana \<Rightarrow> Service option \<Rightarrow> Service option" where
  "next_service cr cur = Some (case cur of None \<Rightarrow> Model_Resources.GrafanaService cr
                                         | Some x \<Rightarrow> GrafanaServiceReconciled cr x)"

definition next_pvc :: "Grafana \<Rightarrow> PersistentVolumeClaim option \<Rightarrow> PersistentVolumeClaim option" where
  "next_pvc cr cur =
     (if UsedPersistentVolume cr
      then Some (case cur of None \<Rightarrow> projr (GrafanaDataPVC cr) | Some x \<Rightarrow> GrafanaPVCReconciled cr x)
      else cur)"

definition next_account :: "Grafana \<Rightarrow> ServiceAccount option \<Rightarrow> ServiceAccount option" where
  "next_account cr cur =
     (if skips_service_account cr then cur
      else Some (case cur of None \<Rightarrow> Model_Resources.GrafanaServiceAccount cr
                           | Some x \<Rightarrow> GrafanaServiceAccountReconciled cr x))"

definition next_datasources :: "Grafana \<Rightarrow> ConfigMap option \<Rightarrow> ConfigMap option" where
  "next_datasources cr cur = Some (case cur of None \<Rightarrow> GrafanaDatasourcesConfig cr | Some x \<Rightarrow> x)"

definition next_route :: "bool \<Rightarrow> Grafana \<Rightarrow> Route option \<Rightarrow> Route option" where
  "next_route openshift cr cur =
     (if openshift
      then if external_access cr
           then Some (case cur of None \<Rightarrow> GrafanaRoute cr | Some x \<Rightarrow> GrafanaRouteReconciled cr x)
           else None
      else cur)"

definition next_ingress :: "bool \<Rightarrow> Grafana \<Rightarrow> Ingress option \<Rightarrow> Ingress option" where
  "next_ingress openshift cr cur =
     (if openshift then cur
      else if external_access cr
           then Some (case cur of None \<Rightarrow> projr (Model_Resources.GrafanaIngress cr)
                                | Some x \<Rightarrow> projr (GrafanaIngressReconciled cr x))
           else None)"

text \<open>Each is idempotent.\<close>

lemma next_secret_idem: "next_secret rnd' cr (next_secret rnd cr cur) = next_secret rnd cr cur"
  by (cases cur) (simp_all add: next_secret_def secret_update_idem)

lemma next_service_idem: "next_service cr (next_service cr cur) = next_service cr cur"
  by (cases cur) (simp_all add: next_service_def service_update_idem)

lemma next_pvc_idem: "next_pvc cr (next_pvc cr cur) = next_pvc cr cur"
proof (cases cur)
  case None
  then show ?thesis
    by (auto simp: next_pvc_def UsedPersistentVolume_def GrafanaDataPVC_def pvc_update_idem(2))
qed (simp add: next_pvc_def pvc_update_idem)

lemma next_account_idem: "next_account cr (next_account cr cur) = next_account cr cur"
  by (cases cur) (simp_all add: next_account_def account_update_idem)

lemma next_datasources_idem: "next_datasources cr (next_datasources cr cur) = next_datasources cr cur"
  by (simp add: next_datasources_def)

lemma next_route_idem: "next_route b cr (next_route b cr cur) = next_route b cr cur"
  by (cases cur) (simp_all add: next_route_def route_update_idem)

lemma next_ingress_idem: "next_ingress b cr (next_ingress b cr cur) = next_ingress b cr cur"
proof (cases "external_access cr")
  case True
  then have "spec_Ingress (Spec cr) \<noteq> None" by (cases "spec_Ingress (Spec cr)") (simp_all add: external_access_def)
  from getIngressSpec_returns [OF this] obtain s where s: "getIngressSpec cr = Inr s" by blast
  with True show ?thesis
    by (cases cur) (simp_all add: next_ingress_def GrafanaIngress_def GrafanaIngressReconciled_def new_meta_def)
qed (simp add: next_ingress_def)

subsection \<open>The effect of each step\<close>

lemma apply_secret_step:
  assumes "getGrafanaAdminUserSecretDesiredState out st rc = Inr (a, rc')"
    "cs_AdminSecret s = cs_AdminSecret st"
  shows "apply_plan s (opt_list a) = s\<lparr>cs_AdminSecret := next_secret (out_Rand out) (rc_cr rc) (cs_AdminSecret st)\<rparr>"
  using assms
  by (auto simp: getGrafanaAdminUserSecretDesiredState_def next_secret_def store_def AdminSecret_def
      AdminSecretReconciled_def getData_def Let_def split: if_splits option.splits)

definition no_rename :: "ClusterState \<Rightarrow> Grafana \<Rightarrow> bool" where
  "no_rename st cr =
     (case cs_Service st of
        None \<Rightarrow> True
      | Some svc \<Rightarrow> st_PreviousServiceName (Status cr) = [] \<or> om_Name (svc_meta svc) = []
          \<or> st_PreviousServiceName (Status cr) = om_Name (svc_meta svc))"

lemma apply_service_step:
  assumes "getGrafanaServiceDesiredState st rc = Inr (a, rc')" "no_rename st (rc_cr rc)"
  shows "apply_plan s (opt_list a) = s\<lparr>cs_Service := next_service (rc_cr rc') (cs_Service st)\<rparr>"
  using assms
  by (auto simp: getGrafanaServiceDesiredState_def next_service_def store_def no_rename_def Let_def
      split: if_splits option.splits)

lemma apply_pvc_step:
  assumes "(if UsedPersistentVolume (rc_cr rc) then getGrafanaDataPvcDesiredState st rc else Inr (None, rc))
      = Inr (a, rc')" "cs_PVC s = cs_PVC st"
  shows "apply_plan s (opt_list a) = s\<lparr>cs_PVC := next_pvc (rc_cr rc) (cs_PVC st)\<rparr>"
  using assms
  by (auto simp: getGrafanaDataPvcDesiredState_def next_pvc_def store_def go_bind_eq_Inr
      split: if_splits option.splits)

lemma apply_account_step:
  assumes "getGrafanaServiceAccountDesiredState st rc = Inr (a, rc')"
    "cs_ServiceAccount s = cs_ServiceAccount st"
  shows "apply_plan s (opt_list a) = s\<lparr>cs_ServiceAccount := next_account (rc_cr rc) (cs_ServiceAccount st)\<rparr>"
  using assms
  by (auto simp: getGrafanaServiceAccountDesiredState_def next_account_def store_def
      split: if_splits option.splits)

text \<open>The configuration map of the instance is told from the one of the datasources by its name.\<close>

definition config_named :: "ClusterState \<Rightarrow> bool" where
  "config_named st =
     (case cs_Config st of None \<Rightarrow> False | Some cm \<Rightarrow> om_Name (cm_meta cm) = GrafanaConfigName)"

lemma apply_config_step:
  assumes "getGrafanaConfigDesiredState out st rc = Inr (as, rc')" "cs_Config st = Some cur"
    "om_Name (cm_meta cur) = GrafanaConfigName"
  obtains cm where "GrafanaConfigReconciled (out_ParseFloat out) (rc_cr rc) cur = Inr cm"
    "\<And>s. apply_plan s as = s\<lparr>cs_Config := Some cm\<rparr>" "om_Name (cm_meta cm) = GrafanaConfigName"
    "rc_ConfigHash rc' = label_get (om_Annotations (cm_meta cm)) LastConfigAnnotation"
proof -
  from assms(1,2) obtain cm url where cm: "GrafanaConfigReconciled (out_ParseFloat out) (rc_cr rc) cur = Inr cm"
    "as = [GenericUpdateAction (KConfigMap cm) ''update grafana config'']"
    "rc_ConfigHash rc' = label_get (om_Annotations (cm_meta cm)) LastConfigAnnotation"
    by (auto simp: getGrafanaConfigDesiredState_def go_bind_eq_Inr Let_def GrafanaConfigReconciled_def)
  moreover from cm(1) assms(3) have nm: "om_Name (cm_meta cm) = GrafanaConfigName"
    by (auto simp: GrafanaConfigReconciled_def split: option.splits prod.splits)
  moreover from cm(2) nm have "apply_plan s as = s\<lparr>cs_Config := Some cm\<rparr>" for s
    by (simp add: store_def GrafanaConfigName_def GrafanaDatasourcesConfigMapName_def)
  ultimately show thesis using that by blast
qed

lemma apply_datasource_step:
  assumes "getGrafanaDatasourceConfigDesiredState st rc = Inr (a, rc')"
    "cs_DataSourceConfig s = cs_DataSourceConfig st"
  shows "apply_plan s (opt_list a) = s\<lparr>cs_DataSourceConfig := next_datasources (rc_cr rc) (cs_DataSourceConfig st)\<rparr>"
  using assms
  by (auto simp: getGrafanaDatasourceConfigDesiredState_def next_datasources_def store_def
      GrafanaDatasourcesConfig_def new_meta_def split: option.splits)

lemma datasource_digest:
  assumes "getGrafanaDatasourceConfigDesiredState st rc = Inr (a, rc')" "rc_DsHash rc = []"
  shows "rc_DsHash rc' = (case next_datasources (rc_cr rc) (cs_DataSourceConfig st) of
           None \<Rightarrow> [] | Some cm \<Rightarrow> label_get (om_Annotations (cm_meta cm)) LastConfigAnnotation)"
  using assms
  by (auto simp: getGrafanaDatasourceConfigDesiredState_def next_datasources_def
      GrafanaDatasourcesConfig_def new_meta_def split: option.splits)

lemma apply_access_step:
  assumes "getGrafanaExternalAccessDesiredState st rc = Inr (a, rc')"
    "GetConfigBool (rc_Values rc) ConfigOpenshift False = Inr openshift"
    "cs_Route s = cs_Route st" "cs_Ingress s = cs_Ingress st"
  shows "apply_plan s (opt_list a) =
    s\<lparr>cs_Route := next_route openshift (rc_cr rc) (cs_Route st),
      cs_Ingress := next_ingress openshift (rc_cr rc) (cs_Ingress st)\<rparr>"
  using assms
  by (auto simp: getGrafanaExternalAccessDesiredState_def getGrafanaRouteDesiredState_def
      getGrafanaIngressDesiredState_def next_route_def next_ingress_def store_def remove_def go_bind_eq_Inr
      split: if_splits option.splits)

lemma apply_deployment_step:
  assumes "getGrafanaDeploymentDesiredState st rc = Inr (a, rc')" "cs_Deployment st = Some cur"
  obtains d where "GrafanaDeploymentReconciled (rc_Values rc) (rc_cr rc) cur
       (rc_ConfigHash rc) (rc_PluginsEnv rc) (rc_DsHash rc) = Inr d"
    "\<And>s. apply_plan s (opt_list a) = s\<lparr>cs_Deployment := Some d\<rparr>"
    "a = Some (GenericUpdateAction (KDeployment d) ''update grafana deployment'')"
  using assms by (auto simp: getGrafanaDeploymentDesiredState_def go_bind_eq_Inr store_def)

subsection \<open>Nothing depends on the status\<close>

lemma readers_of_spec [simp]:
  "getServiceName (cr\<lparr>Status := s\<rparr>) = getServiceName cr"
  "getServiceLabels (cr\<lparr>Status := s\<rparr>) = getServiceLabels cr"
  "getServiceAnnotations (cr\<lparr>Status := s\<rparr>) = getServiceAnnotations cr"
  "getServiceType (cr\<lparr>Status := s\<rparr>) = getServiceType cr"
  "getClusterIP (cr\<lparr>Status := s\<rparr>) = getClusterIP cr"
  "GetGrafanaPort (cr\<lparr>Status := s\<rparr>) = GetGrafanaPort cr"
  "getPVCLabels (cr\<lparr>Status := s\<rparr>) = getPVCLabels cr"
  "getPVCAnnotations (cr\<lparr>Status := s\<rparr>) = getPVCAnnotations cr"
  "getStorageClass (cr\<lparr>Status := s\<rparr>) = getStorageClass cr"
  "getServiceAccountLabels (cr\<lparr>Status := s\<rparr>) = getServiceAccountLabels cr"
  "getServiceAccountAnnotations (cr\<lparr>Status := s\<rparr>) = getServiceAccountAnnotations cr"
  "getServiceAccountImagePullSecrets (cr\<lparr>Status := s\<rparr>) = getServiceAccountImagePullSecrets cr"
  "GetIngressLabels (cr\<lparr>Status := s\<rparr>) = GetIngressLabels cr"
  "GetIngressAnnotations (cr\<lparr>Status := s\<rparr>) = GetIngressAnnotations cr"
  "getRouteSpec (cr\<lparr>Status := s\<rparr>) = getRouteSpec cr"
  "getIngressSpec (cr\<lparr>Status := s\<rparr>) = getIngressSpec cr"
  "getAdminUser (cr\<lparr>Status := s\<rparr>) = getAdminUser cr"
  "getAdminPassword rnd (cr\<lparr>Status := s\<rparr>) = getAdminPassword rnd cr"
  "getSkipCreateAdminAccount (cr\<lparr>Status := s\<rparr>) = getSkipCreateAdminAccount cr"
  "UsedPersistentVolume (cr\<lparr>Status := s\<rparr>) = UsedPersistentVolume cr"
  "skips_service_account (cr\<lparr>Status := s\<rparr>) = skips_service_account cr"
  "external_access (cr\<lparr>Status := s\<rparr>) = external_access cr"
  by (simp_all add: getServiceName_def getServiceLabels_def getServiceAnnotations_def getServiceType_def
      getClusterIP_def GetGrafanaPort_def getPVCLabels_def getPVCAnnotations_def getStorageClass_def
      getServiceAccountLabels_def getServiceAccountAnnotations_def getServiceAccountImagePullSecrets_def
      GetIngressLabels_def GetIngressAnnotations_def getRouteSpec_def getIngressSpec_def getAdminUser_def
      getAdminPassword_def getSkipCreateAdminAccount_def UsedPersistentVolume_def skips_service_account_def
      external_access_def GetHost_def GetPath_def GetIngressTargetPort_def getTermination_def getIngressTLS_def
      GetIngressPathType_def GetIngressClassName_def fun_eq_iff)

lemma getServicePorts_status [simp]: "getServicePorts (cr\<lparr>Status := s\<rparr>) = getServicePorts cr"
  by (simp add: getServicePorts_def fun_eq_iff)

lemma next_status [simp]:
  "next_secret rnd (cr\<lparr>Status := s\<rparr>) = next_secret rnd cr"
  "next_service (cr\<lparr>Status := s\<rparr>) = next_service cr"
  "next_pvc (cr\<lparr>Status := s\<rparr>) = next_pvc cr"
  "next_account (cr\<lparr>Status := s\<rparr>) = next_account cr"
  "next_datasources (cr\<lparr>Status := s\<rparr>) = next_datasources cr"
  "next_route b (cr\<lparr>Status := s\<rparr>) = next_route b cr"
  "next_ingress b (cr\<lparr>Status := s\<rparr>) = next_ingress b cr"
  "GrafanaConfigReconciled pf (cr\<lparr>Status := s\<rparr>) = GrafanaConfigReconciled pf cr"
  by (simp_all add: fun_eq_iff next_secret_def next_service_def next_pvc_def next_account_def
      next_datasources_def next_route_def next_ingress_def AdminSecret_def AdminSecretReconciled_def
      getData_def GrafanaService_def GrafanaServiceReconciled_def GrafanaDataPVC_def
      GrafanaPVCReconciled_def GrafanaServiceAccount_def GrafanaServiceAccountReconciled_def
      GrafanaDatasourcesConfig_def GrafanaRoute_def GrafanaRouteReconciled_def
      GrafanaIngress_def GrafanaIngressReconciled_def GrafanaConfigReconciled_def
      split: option.split)

lemma deployment_status [simp]:
  "GrafanaDeploymentReconciled vs (cr\<lparr>Status := s\<rparr>) = GrafanaDeploymentReconciled vs cr"
  by (simp add: fun_eq_iff GrafanaDeploymentReconciled_def getDeploymentSpec_def getInitContainers_def
      getContainers_def grafana_container_def getReplicas_def getPodLabels_def getPodAnnotations_def
      getNodeSelectors_def getTolerations_def getAffinities_def getSecurityContext_def getVolumes_def
      getTerminationGracePeriod_def getPodPriorityClassName_def getDeploymentStrategy_def
      http_proxy_env_def getInitResources_def plugins_volume_def extraVolumeMounts_def extraVolumes_def
      mountsPlugins_def getEnvFrom_def getResources_def getVolumeMounts_def getLivenessProbe_def
      getReadinessProbe_def probe_of_def getContainerSecurityContext_def getExtraContainerVolumeMounts_def)

lemma frame_status:
  assumes "frame rc rc'"
  obtains s where "rc_cr rc' = (rc_cr rc)\<lparr>Status := s\<rparr>"
proof
  show "rc_cr rc' = (rc_cr rc)\<lparr>Status := Status (rc_cr rc')\<rparr>"
    using assms by (auto simp: frame_def intro: Grafana.equality)
qed

lemma frame_readers:
  assumes "frame rc rc'"
  shows "next_secret rnd (rc_cr rc') = next_secret rnd (rc_cr rc)"
    "next_service (rc_cr rc') = next_service (rc_cr rc)" "next_pvc (rc_cr rc') = next_pvc (rc_cr rc)"
    "next_account (rc_cr rc') = next_account (rc_cr rc)"
    "next_datasources (rc_cr rc') = next_datasources (rc_cr rc)"
    "next_route b (rc_cr rc') = next_route b (rc_cr rc)"
    "next_ingress b (rc_cr rc') = next_ingress b (rc_cr rc)"
    "GrafanaConfigReconciled pf (rc_cr rc') = GrafanaConfigReconciled pf (rc_cr rc)"
    "GrafanaDeploymentReconciled vs (rc_cr rc') = GrafanaDeploymentReconciled vs (rc_cr rc)"
  using assms by (auto elim: frame_status)

subsection \<open>A reconciliation as one update of the cluster\<close>

text \<open>
  For a cluster that already has configuration map and deployment, and a service that is not
  renamed, a completed reconciliation with a fresh reconciler leaves exactly the next object of
  every kind.
\<close>

lemma Reconcile_effect:
  assumes r: "Reconcile out st rc = Inr (plan, rc')"
    and cm: "config_named st" and dep: "cs_Deployment st = Some d0"
    and fresh: "rc_DsHash rc = []" and nr: "no_rename st (rc_cr rc)"
  obtains openshift cm0 cm d where
    "GetConfigBool (rc_Values rc) ConfigOpenshift False = Inr openshift"
    "cs_Config st = Some cm0" "GrafanaConfigReconciled (out_ParseFloat out) (rc_cr rc) cm0 = Inr cm"
    "om_Name (cm_meta cm) = GrafanaConfigName"
    "GrafanaDeploymentReconciled (rc_Values rc) (rc_cr rc) d0
       (label_get (om_Annotations (cm_meta cm)) LastConfigAnnotation) (rc_PluginsEnv rc')
       (case next_datasources (rc_cr rc) (cs_DataSourceConfig st) of
           None \<Rightarrow> [] | Some ds \<Rightarrow> label_get (om_Annotations (cm_meta ds)) LastConfigAnnotation) = Inr d"
    "apply_plan st plan =
       \<lparr>cs_Service = next_service (rc_cr rc) (cs_Service st), cs_PVC = next_pvc (rc_cr rc) (cs_PVC st),
        cs_ServiceAccount = next_account (rc_cr rc) (cs_ServiceAccount st), cs_Config = Some cm,
        cs_Route = next_route openshift (rc_cr rc) (cs_Route st),
        cs_Ingress = next_ingress openshift (rc_cr rc) (cs_Ingress st), cs_Deployment = Some d,
        cs_DataSourceConfig = next_datasources (rc_cr rc) (cs_DataSourceConfig st),
        cs_AdminSecret = next_secret (out_Rand out) (rc_cr rc) (cs_AdminSecret st)\<rparr>"
proof -
  obtain cm0 where cm0: "cs_Config st = Some cm0" "om_Name (cm_meta cm0) = GrafanaConfigName"
    using cm by (auto simp: config_named_def split: option.splits)
  show thesis
    using r
  proof (rule Reconcile_parts)
    fix a1 rc1 a2 rc2 a3 a4 as5 rc5 a6 rc6 a7 a8 rc8 a9 as
    assume s: "getGrafanaAdminUserSecretDesiredState out st rc = Inr (a1, rc1)"
      "getGrafanaServiceDesiredState st rc1 = Inr (a2, rc2)"
      "(if UsedPersistentVolume (rc_cr rc2) then getGrafanaDataPvcDesiredState st rc2 else Inr (None, rc2))
         = Inr (a3, rc2)"
      "getGrafanaServiceAccountDesiredState st rc2 = Inr (a4, rc2)"
      "getGrafanaConfigDesiredState out st rc2 = Inr (as5, rc5)"
      "getGrafanaDatasourceConfigDesiredState st rc5 = Inr (a6, rc6)"
      "getGrafanaExternalAccessDesiredState st rc6 = Inr (a7, rc6)"
      "getGrafanaPluginsDesiredState out rc6 = Inr (a8, rc8)"
      "getGrafanaDeploymentDesiredState st rc8 = Inr (a9, rc')" "rc' = share_pod_labels rc8"
      "getGrafanaReadiness st rc8 = Inr as"
      "plan = opt_list a1 @ opt_list a2 @ opt_list a3 @ opt_list a4 @ as5 @ opt_list a6 @ opt_list a7
         @ opt_list a8 @ opt_list a9 @ getEnvVarsDesiredState st (rc_cr rc8) @ as"
    note f = step_frames [OF s(1,2,5,6,8)]
    have nr1: "no_rename st (rc_cr rc1)" using nr f(2) by simp
    obtain os where os: "GetConfigBool (rc_Values rc6) ConfigOpenshift False = Inr os"
      using s(7) by (auto simp: getGrafanaExternalAccessDesiredState_def go_bind_eq_Inr)
    obtain cm where c: "GrafanaConfigReconciled (out_ParseFloat out) (rc_cr rc2) cm0 = Inr cm"
      "\<And>s. apply_plan s as5 = s\<lparr>cs_Config := Some cm\<rparr>" "om_Name (cm_meta cm) = GrafanaConfigName"
      "rc_ConfigHash rc5 = label_get (om_Annotations (cm_meta cm)) LastConfigAnnotation"
      using apply_config_step [OF s(5) cm0] by blast
    obtain d where d: "GrafanaDeploymentReconciled (rc_Values rc8) (rc_cr rc8) d0
       (rc_ConfigHash rc8) (rc_PluginsEnv rc8) (rc_DsHash rc8) = Inr d"
      "\<And>s. apply_plan s (opt_list a9) = s\<lparr>cs_Deployment := Some d\<rparr>"
      using apply_deployment_step [OF s(9) dep] by blast
    note effects = apply_secret_step [OF s(1)] apply_service_step [OF s(2) nr1] apply_pvc_step [OF s(3)]
      apply_account_step [OF s(4)] apply_datasource_step [OF s(6)] apply_access_step [OF s(7) os]
      apply_read_only [OF plugin_step_read_only [OF s(8)]]
      apply_read_only [OF conjunct1 [OF getGrafanaReadiness_read_only [OF s(11)]]]
      apply_read_only [OF getEnvVarsDesiredState_read_only]
    show thesis
    proof (rule that)
      show "GetConfigBool (rc_Values rc) ConfigOpenshift False = Inr os"
        using os f(5) by (simp add: frame_def)
      show "GrafanaConfigReconciled (out_ParseFloat out) (rc_cr rc) cm0 = Inr cm"
        using c(1) frame_readers [OF f(3)] by simp
      show "GrafanaDeploymentReconciled (rc_Values rc) (rc_cr rc) d0
         (label_get (om_Annotations (cm_meta cm)) LastConfigAnnotation) (rc_PluginsEnv rc')
         (case next_datasources (rc_cr rc) (cs_DataSourceConfig st) of
             None \<Rightarrow> [] | Some ds \<Rightarrow> label_get (om_Annotations (cm_meta ds)) LastConfigAnnotation) = Inr d"
        using d(1) c(4) f(6,8,9) s(10) datasource_digest [OF s(6)] f(7) fresh frame_readers [OF f(6)]
          frame_readers [OF f(4)] by (simp add: frame_def)
      show "apply_plan st plan =
       \<lparr>cs_Service = next_service (rc_cr rc) (cs_Service st), cs_PVC = next_pvc (rc_cr rc) (cs_PVC st),
        cs_ServiceAccount = next_account (rc_cr rc) (cs_ServiceAccount st), cs_Config = Some cm,
        cs_Route = next_route os (rc_cr rc) (cs_Route st),
        cs_Ingress = next_ingress os (rc_cr rc) (cs_Ingress st), cs_Deployment = Some d,
        cs_DataSourceConfig = next_datasources (rc_cr rc) (cs_DataSourceConfig st),
        cs_AdminSecret = next_secret (out_Rand out) (rc_cr rc) (cs_AdminSecret st)\<rparr>"
        unfolding s(12) apply_plan_simps
        using frame_readers [OF f(3)] frame_readers [OF f(4)] frame_readers [OF f(5)]
        by (simp add: effects c(2) d(2))
    qed (fact cm0 c(3))+
  qed
qed

subsection \<open>Properties\<close>

text \<open>
  C6: a reconciliation panics unless these conditions hold, and completes whenever they do:
  the configuration values it reads have their types, the resource configures a generic OAuth
  with an API URL that has at least two slashes, the configuration map of the cluster has
  data, and the resource has a service when the service has been renamed. No other state of
  the cluster, resource, plugins or dashboards can make it panic.
\<close>
theorem reconcile_returns_iff:
  "(\<exists>plan rc'. Reconcile out st rc = Inr (plan, rc')) \<longleftrightarrow>
   values_readable (rc_Values rc) (rc_cr rc) \<and> oauth_url_given (rc_cr rc) \<and> config_data_given st
   \<and> service_given st (rc_cr rc)"
  by (rule Reconcile_returns)

end
