(* ===== verification/Reconciler_Properties.thy ===== *)
theory Reconciler_Properties
  imports Grafana_Reconciler
begin

text \<open>
  What a whole reconciliation achieves (\<open>GrafanaReconciler.Reconcile\<close>): it settles, the
  configuration reaches the deployment, and a change of plugins forces the dashboards to be
  imported again. The effect of a plan on the cluster is \<open>apply_plan\<close> of
  \<open>Grafana_Reconciler\<close>.
\<close>

subsection \<open>The cluster after a plan\<close>

text \<open>
  The deployment that is written, and the whole cluster: every object as its update makes it, with
  the given configuration map and deployment.
\<close>

definition next_deployment :: "(string \<rightharpoonup> conf_value) \<Rightarrow> Grafana \<Rightarrow> Deployment \<Rightarrow> ConfigMap \<Rightarrow> string \<Rightarrow> ConfigMap option
    \<Rightarrow> Deployment go" where
  "next_deployment vs cr d0 cm plugins ds =
     GrafanaDeploymentReconciled vs cr d0 (label_get (om_Annotations (cm_meta cm)) LastConfigAnnotation) plugins
       (case next_datasources cr ds of
          None \<Rightarrow> [] | Some ds \<Rightarrow> label_get (om_Annotations (cm_meta ds)) LastConfigAnnotation)"

definition next_state :: "int list \<Rightarrow> bool \<Rightarrow> Grafana \<Rightarrow> ClusterState \<Rightarrow> ConfigMap \<Rightarrow> Deployment \<Rightarrow> ClusterState" where
  "next_state rnd openshift cr st cm d =
     \<lparr>cs_Service = next_service cr (cs_Service st), cs_PVC = next_pvc cr (cs_PVC st),
      cs_ServiceAccount = next_account cr (cs_ServiceAccount st), cs_Config = Some cm,
      cs_Route = next_route openshift cr (cs_Route st), cs_Ingress = next_ingress openshift cr (cs_Ingress st),
      cs_Deployment = Some d, cs_DataSourceConfig = next_datasources cr (cs_DataSourceConfig st),
      cs_AdminSecret = next_secret rnd cr (cs_AdminSecret st)\<rparr>"

lemma Reconcile_next:
  assumes "Reconcile out st rc = Inr (plan, rc')" "config_named st" "cs_Deployment st = Some d0"
    and "rc_DsHash rc = []" "no_rename st (rc_cr rc)"
  obtains openshift cm0 cm d where
    "GetConfigBool (rc_Values rc) ConfigOpenshift False = Inr openshift" "cs_Config st = Some cm0"
    "GrafanaConfigReconciled (out_ParseFloat out) (rc_cr rc) cm0 = Inr cm" "om_Name (cm_meta cm) = GrafanaConfigName"
    "next_deployment (rc_Values rc) (rc_cr rc) d0 cm (rc_PluginsEnv rc') (cs_DataSourceConfig st) = Inr d"
    "apply_plan st plan = next_state (out_Rand out) openshift (rc_cr rc) st cm d"
  using Reconcile_effect [OF assms] unfolding next_deployment_def next_state_def by metis

lemma next_state_idem: "next_state rnd' os cr (next_state rnd os cr st cm d) cm d = next_state rnd os cr st cm d"
  by (simp add: next_state_def next_service_idem next_pvc_idem next_account_idem next_route_idem
      next_ingress_idem next_datasources_idem next_secret_idem)

lemma next_deployment_idem:
  assumes "next_deployment vs cr d0 cm plugins ds = Inr d"
  shows "next_deployment vs cr d cm plugins (next_datasources cr ds) = Inr d"
  using deployment_update_idem [OF assms [unfolded next_deployment_def]]
  by (simp add: next_deployment_def next_datasources_idem)

lemma next_frame:
  assumes "frame rc rc'"
  shows "next_state rnd os (rc_cr rc') st cm d = next_state rnd os (rc_cr rc) st cm d"
    "next_deployment vs (rc_cr rc') d0 cm plugins ds = next_deployment vs (rc_cr rc) d0 cm plugins ds"
    "next_datasources (rc_cr rc') ds = next_datasources (rc_cr rc) ds"
  by (simp_all add: next_state_def next_deployment_def frame_readers [OF assms])

subsection \<open>Properties\<close>


text \<open>An instance that can be reconciled, for the examples.\<close>

definition oauth_grafana :: Grafana where
  "oauth_grafana = bare_grafana\<lparr>Spec := bare_spec\<lparr>spec_Config := zero_GrafanaConfig
     \<lparr>cfg_AuthGenericOauth := Some (zero_GrafanaConfigAuthGenericOauth
        \<lparr>AuthGenericOauth_ApiUrl := ''https://sso/api''\<rparr>)\<rparr>\<rparr>\<rparr>"

definition quiet :: "int outside" where
  "quiet = \<lparr>out_Rand = [], out_ParseFloat = Some, out_NewVersion = number_version,
            out_Compare = number_compare, out_Get = (\<lambda>_. Inr 200)\<rparr>"

definition running :: ClusterState where
  "running = NewClusterState
     \<lparr>cs_Config := Some \<lparr>cm_meta = new_meta GrafanaConfigName ''ns'' None None,
                         cm_Data = Some (\<lambda>_. None), cm_rest = []\<rparr>,
      cs_Deployment := Some (empty_deployment (meta bare_grafana))\<rparr>"

definition fresh :: recon where
  "fresh = NewGrafanaReconciler oauth_grafana GetControllerConfig (\<lambda>_. None) []"

lemma fresh_returns:
  assumes "config_data_given st"
  obtains plan rc' where "Reconcile quiet st fresh = Inr (plan, rc')"
proof -
  have "values_readable (rc_Values fresh) (rc_cr fresh)"
    by (simp add: values_readable_def readable_bool_def image_readable_def readable_string_def
        rc_Values_def fresh_def NewGrafanaReconciler_def GetControllerConfig_def)
  moreover have "oauth_url_given (rc_cr fresh)"
    by (simp add: oauth_url_given_def fresh_def NewGrafanaReconciler_def oauth_grafana_def)
  moreover have "service_given st (rc_cr fresh)"
    by (simp add: service_given_def fresh_def NewGrafanaReconciler_def oauth_grafana_def bare_grafana_def
        split: option.split)
  ultimately show thesis using Reconcile_returns assms that by blast
qed

text \<open>The plugins and the registry after a reconciliation.\<close>

lemma FilterPlugins_reads:
  assumes "st_InstalledPlugins (Status cr') = st_InstalledPlugins (Status cr)"
    "st_FailedPlugins (Status cr') = st_FailedPlugins (Status cr)"
  shows "FilterPlugins mk cmp cr' req = FilterPlugins mk cmp cr req"
proof -
  have "filter_step (Status cr') = filter_step (Status cr)"
    using assms by (simp add: fun_eq_iff filter_step_def)
  with assms show ?thesis by (simp add: FilterPlugins_def Let_def)
qed

lemma Reconcile_plugins:
  assumes "Reconcile out st rc = Inr (plan, rc')"
    "FilterPlugins (out_NewVersion out) (out_Compare out) (rc_cr rc) (GetAllPlugins (rc_Config rc)) = (F, updated)"
  shows "rc_PluginsEnv rc' = BuildEnv (rc_cr rc')"
    "rc_Config rc' = (if updated then InvalidateDashboards (rc_Config rc) else rc_Config rc)"
    "st_InstalledPlugins (Status (rc_cr rc')) =
       (if updated then filter (PluginExists (out_Get out)) F else st_InstalledPlugins (Status (rc_cr rc)))"
    "st_FailedPlugins (Status (rc_cr rc')) =
       (if updated then filter (\<lambda>p. \<not> PluginExists (out_Get out) p) F else st_FailedPlugins (Status (rc_cr rc)))"
proof -
  have "rc_PluginsEnv rc' = BuildEnv (rc_cr rc')
    \<and> rc_Config rc' = (if updated then InvalidateDashboards (rc_Config rc) else rc_Config rc)
    \<and> st_InstalledPlugins (Status (rc_cr rc')) =
       (if updated then filter (PluginExists (out_Get out)) F else st_InstalledPlugins (Status (rc_cr rc)))
    \<and> st_FailedPlugins (Status (rc_cr rc')) =
       (if updated then filter (\<lambda>p. \<not> PluginExists (out_Get out) p) F else st_FailedPlugins (Status (rc_cr rc)))"
    using assms(1)
  proof (rule Reconcile_parts)
    fix a1 rc1 a2 rc2 a3 a4 as5 rc5 a6 rc6 a7 a8 rc8 a9 as
    assume s: "getGrafanaAdminUserSecretDesiredState out st rc = Inr (a1, rc1)"
      "getGrafanaServiceDesiredState st rc1 = Inr (a2, rc2)"
      "getGrafanaConfigDesiredState out st rc2 = Inr (as5, rc5)"
      "getGrafanaDatasourceConfigDesiredState st rc5 = Inr (a6, rc6)"
      "getGrafanaPluginsDesiredState out rc6 = Inr (a8, rc8)" "rc' = share_pod_labels rc8"
    have c6: "rc_Config rc6 = rc_Config rc"
      using secret_step_frame [OF s(1)] service_step_frame [OF s(2)] config_step_frame [OF s(3)]
        datasource_step_frame [OF s(4)] by simp
    have st6: "st_InstalledPlugins (Status (rc_cr rc6)) = st_InstalledPlugins (Status (rc_cr rc))"
      "st_FailedPlugins (Status (rc_cr rc6)) = st_FailedPlugins (Status (rc_cr rc))"
      using secret_step_frame [OF s(1)] service_step_frame [OF s(2)] config_step_frame [OF s(3)]
        datasource_step_frame [OF s(4)] by (metis GrafanaStatus.select_convs(5,6) GrafanaStatus.surjective GrafanaStatus.update_convs(2))+
    have "FilterPlugins (out_NewVersion out) (out_Compare out) (rc_cr rc6) (GetAllPlugins (rc_Config rc6)) = (F, updated)"
      using assms(2) FilterPlugins_reads [OF st6, where mk = "out_NewVersion out" and cmp = "out_Compare out"] c6 by simp
    with s(5) have "rc8 = (if updated
        then rc6\<lparr>rc_cr := reconcilePlugins (PluginExists (out_Get out)) (rc_cr rc6) F,
                 rc_PluginsEnv := BuildEnv (reconcilePlugins (PluginExists (out_Get out)) (rc_cr rc6) F),
                 rc_Config := InvalidateDashboards (rc_Config rc6)\<rparr>
        else rc6\<lparr>rc_PluginsEnv := BuildEnv (rc_cr rc6)\<rparr>)"
      by (auto simp: getGrafanaPluginsDesiredState_def Let_def split: if_splits)
    then show ?thesis
      by (simp add: s(6) c6 st6 BuildEnv_def reconcilePlugins_def)
  qed
  then show "rc_PluginsEnv rc' = BuildEnv (rc_cr rc')"
    "rc_Config rc' = (if updated then InvalidateDashboards (rc_Config rc) else rc_Config rc)"
    "st_InstalledPlugins (Status (rc_cr rc')) =
       (if updated then filter (PluginExists (out_Get out)) F else st_InstalledPlugins (Status (rc_cr rc)))"
    "st_FailedPlugins (Status (rc_cr rc')) =
       (if updated then filter (\<lambda>p. \<not> PluginExists (out_Get out) p) F else st_FailedPlugins (Status (rc_cr rc)))"
    by simp_all
qed

lemma fresh_plugins:
  assumes "Reconcile quiet st fresh = Inr (plan, rc')"
  shows "rc_PluginsEnv rc' = []"
proof -
  have "FilterPlugins (out_NewVersion quiet) (out_Compare quiet) (rc_cr fresh) (GetAllPlugins (rc_Config fresh)) = ([], False)"
    by (simp add: FilterPlugins_def fresh_def NewGrafanaReconciler_def GetAllPlugins_def GetControllerConfig_def
        pickLatestVersions_def oauth_grafana_def bare_grafana_def)
  from Reconcile_plugins [OF assms this] show ?thesis
    by (simp add: BuildEnv_def fresh_def NewGrafanaReconciler_def oauth_grafana_def bare_grafana_def)
qed




text \<open>
  When the plugins change, the registry of dashboards is invalidated so that every
  dashboard is imported again, and otherwise it is left alone; the new list of plugins is
  stored in the status, with the ones that do not exist apart, and the deployment gets exactly
  the installed ones.
\<close>
theorem plugin_change_reimports:
  assumes "Reconcile out st rc = Inr (plan, rc')"
    "FilterPlugins (out_NewVersion out) (out_Compare out) (rc_cr rc) (GetAllPlugins (rc_Config rc)) = (F, updated)"
  shows "rc_PluginsEnv rc' = BuildEnv (rc_cr rc')
    \<and> rc_Config rc' = (if updated then InvalidateDashboards (rc_Config rc) else rc_Config rc)
    \<and> (if updated
       then st_InstalledPlugins (Status (rc_cr rc')) = filter (PluginExists (out_Get out)) F
          \<and> mset (st_InstalledPlugins (Status (rc_cr rc'))) + mset (st_FailedPlugins (Status (rc_cr rc'))) = mset F
       else st_InstalledPlugins (Status (rc_cr rc')) = st_InstalledPlugins (Status (rc_cr rc)))"
  using Reconcile_plugins [OF assms] by (simp add: mset_filter)

lemma plugin_change_reimports_witness:
  "\<exists>plan rc'. Reconcile quiet NewClusterState fresh = Inr (plan, rc') \<and> rc_Config rc' = GetControllerConfig"
proof -
  have f: "FilterPlugins (out_NewVersion quiet) (out_Compare quiet) (rc_cr fresh) (GetAllPlugins (rc_Config fresh)) = ([], False)"
    by (simp add: FilterPlugins_def fresh_def NewGrafanaReconciler_def GetAllPlugins_def GetControllerConfig_def
        pickLatestVersions_def oauth_grafana_def bare_grafana_def)
  obtain plan rc' where r: "Reconcile quiet NewClusterState fresh = Inr (plan, rc')"
    using fresh_returns [of NewClusterState] by (auto simp: config_data_given_def NewClusterState_def)
  from plugin_change_reimports [OF r f] r show ?thesis
    by (simp add: fresh_def NewGrafanaReconciler_def)
qed

end
