(* ===== verification/Go_Effect.thy ===== *)
theory Go_Effect
  imports Prelude
begin

text \<open>
  Go functions with effects, as functions from a state to an outcome and the state afterwards.
  An outcome is a panic of the runtime, a returned error (its message) or a result. The state
  is kept in every case, because requests that were made before a failure stay made.
\<close>

datatype 'a outcome = Panic go_panic | Fail string | Done 'a

type_synonym ('s, 'a) prog = "'s \<Rightarrow> 'a outcome \<times> 's"

definition ret :: "'a \<Rightarrow> ('s, 'a) prog" where "ret a s = (Done a, s)"

definition fail :: "string \<Rightarrow> ('s, 'a) prog" where "fail e s = (Fail e, s)"

text \<open>Run the second part with the result of the first, unless that failed or panicked.\<close>

definition seq :: "('s, 'a) prog \<Rightarrow> ('a \<Rightarrow> ('s, 'b) prog) \<Rightarrow> ('s, 'b) prog" where
  "seq m f s =
     (case m s of
        (Done a, s') \<Rightarrow> f a s'
      | (Fail e, s') \<Rightarrow> (Fail e, s')
      | (Panic p, s') \<Rightarrow> (Panic p, s'))"

text \<open>\<open>if err != nil\<close> with a branch of its own, and the result of an error as a value.\<close>

definition on_error :: "('s, 'a) prog \<Rightarrow> (string \<Rightarrow> ('s, 'a) prog) \<Rightarrow> ('s, 'a) prog" where
  "on_error m h s =
     (case m s of
        (Done a, s') \<Rightarrow> (Done a, s')
      | (Fail e, s') \<Rightarrow> h e s'
      | (Panic p, s') \<Rightarrow> (Panic p, s'))"

definition wrap :: "string \<Rightarrow> ('s, 'a) prog \<Rightarrow> ('s, 'a) prog" where
  "wrap msg m = on_error m (\<lambda>e. fail (msg @ e))"

definition of_go :: "'a go \<Rightarrow> ('s, 'a) prog" where
  "of_go r s = (case r of Inl p \<Rightarrow> (Panic p, s) | Inr a \<Rightarrow> (Done a, s))"

definition of_result :: "string + 'a \<Rightarrow> ('s, 'a) prog" where
  "of_result r s = (case r of Inl e \<Rightarrow> (Fail e, s) | Inr a \<Rightarrow> (Done a, s))"

definition gets :: "('s \<Rightarrow> 'a) \<Rightarrow> ('s, 'a) prog" where "gets f s = (Done (f s), s)"

definition modify :: "('s \<Rightarrow> 's) \<Rightarrow> ('s, unit) prog" where "modify f s = (Done (), f s)"

lemma effect_simps [simp]:
  "ret a s = (Done a, s)" "fail e s = (Fail e, s)"
  "of_go (Inl p) s = (Panic p, s)" "of_go (Inr a) s = (Done a, s)"
  "of_result (Inl e) s = (Fail e, s)" "of_result (Inr a) s = (Done a, s)"
  "gets f s = (Done (f s), s)" "modify g s = (Done (), g s)"
  by (simp_all add: ret_def fail_def of_go_def of_result_def gets_def modify_def)

lemma seq_simps [simp]:
  "m s = (Done a, s') \<Longrightarrow> seq m f s = f a s'"
  "m s = (Fail e, s') \<Longrightarrow> seq m f s = (Fail e, s')"
  "m s = (Panic p, s') \<Longrightarrow> seq m f s = (Panic p, s')"
  by (simp_all add: seq_def)

lemma on_error_simps [simp]:
  "m s = (Done a, s') \<Longrightarrow> on_error m h s = (Done a, s')"
  "m s = (Fail e, s') \<Longrightarrow> on_error m h s = h e s'"
  "m s = (Panic p, s') \<Longrightarrow> on_error m h s = (Panic p, s')"
  by (simp_all add: on_error_def)

lemma of_go_Done [simp]: "of_go r s = (Done a, s') \<longleftrightarrow> r = Inr a \<and> s' = s"
  by (auto simp: of_go_def split: sum.split)

lemma of_result_Done [simp]: "of_result r s = (Done a, s') \<longleftrightarrow> r = Inr a \<and> s' = s"
  by (auto simp: of_result_def split: sum.split)

lemma seq_Done_iff:
  "seq m f s = (Done b, t) \<longleftrightarrow> (\<exists>a s'. m s = (Done a, s') \<and> f a s' = (Done b, t))"
  by (auto simp: seq_def split: prod.split outcome.split)

lemma seq_Fail_iff:
  "seq m f s = (Fail e, t) \<longleftrightarrow> m s = (Fail e, t) \<or> (\<exists>a s'. m s = (Done a, s') \<and> f a s' = (Fail e, t))"
  by (auto simp: seq_def split: prod.split outcome.split)

lemma on_error_Done_iff:
  "on_error m h s = (Done a, t) \<longleftrightarrow> m s = (Done a, t) \<or> (\<exists>e s'. m s = (Fail e, s') \<and> h e s' = (Done a, t))"
  by (auto simp: on_error_def split: prod.split outcome.split)

lemma seq_assoc: "seq (seq m f) g = seq m (\<lambda>a. seq (f a) g)"
  by (rule ext) (auto simp: seq_def split: prod.split outcome.split)

text \<open>What every step of a program keeps, the program keeps.\<close>

definition keeps :: "('s \<Rightarrow> 'b) \<Rightarrow> ('s, 'a) prog \<Rightarrow> bool" where
  "keeps g m \<longleftrightarrow> (\<forall>s. g (snd (m s)) = g s)"

lemma keepsI: "(\<And>s. g (snd (m s)) = g s) \<Longrightarrow> keeps g m"
  by (simp add: keeps_def)

lemma keepsD: "keeps g m \<Longrightarrow> m s = (r, s') \<Longrightarrow> g s' = g s"
  by (metis keeps_def snd_conv)

lemma keeps_basic [simp]:
  "keeps g (ret a)" "keeps g (fail e)" "keeps g (of_go r)" "keeps g (of_result q)" "keeps g (gets f)"
  by (auto simp: keeps_def of_go_def of_result_def split: sum.split)

lemma keeps_modify [simp]: "(\<And>s. g (f s) = g s) \<Longrightarrow> keeps g (modify f)"
  by (simp add: keeps_def)

lemma keeps_seq: "keeps g m \<Longrightarrow> (\<And>a. keeps g (f a)) \<Longrightarrow> keeps g (seq m f)"
  by (auto simp: keeps_def seq_def split: prod.split outcome.split) (metis snd_conv)+

lemma keeps_on_error: "keeps g m \<Longrightarrow> (\<And>e. keeps g (h e)) \<Longrightarrow> keeps g (on_error m h)"
  by (auto simp: keeps_def on_error_def split: prod.split outcome.split) (metis snd_conv)+

lemma keeps_wrap: "keeps g m \<Longrightarrow> keeps g (wrap msg m)"
  by (simp add: wrap_def keeps_on_error)

end
