(* ===== verification/Go_Http.thy ===== *)
theory Go_Http
  imports Go_Effect Go_Text
begin

text \<open>
  The HTTP client of Go as a parameter: sending a request gives an error or a response, and
  changes the world \<open>'w\<close> behind it. Of a response the code reads the status and the body, where
  reading the body may fail after some bytes.
\<close>

record http_request =
  rq_Method :: string
  rq_Url :: string
  rq_Header :: "(string \<times> string) list"
  rq_Body :: string

record http_response =
  resp_StatusCode :: int
  resp_Body :: string
  resp_ReadError :: "string option"

type_synonym 'w http_do = "http_request \<Rightarrow> 'w \<Rightarrow> (string + http_response) \<times> 'w"

definition ReadAll :: "http_response \<Rightarrow> string + string" where
  "ReadAll resp = (case resp_ReadError resp of Some e \<Rightarrow> Inl e | None \<Rightarrow> Inr (resp_Body resp))"

text \<open>
  \<open>request, _ := http.NewRequest(\<dots>)\<close>: \<open>accepted\<close> says whether the library accepts the url; a
  rejected one leaves a nil request, and using that panics.
\<close>

definition new_request :: "(string \<Rightarrow> bool) \<Rightarrow> string \<Rightarrow> string \<Rightarrow> (string \<times> string) list \<Rightarrow> string \<Rightarrow> http_request go" where
  "new_request accepted method url header body =
     (if accepted url
      then Inr \<lparr>rq_Method = method, rq_Url = url, rq_Header = header, rq_Body = body\<rparr>
      else Inl NilDeref)"

end
