(* ===== verification/Go_Json_Marshal.thy ===== *)
theory Go_Json_Marshal
  imports Go_Json
begin

text \<open>
  \<open>json.Marshal\<close> of what \<open>json.Unmarshal\<close> reads: \<open>null\<close>, booleans, numbers, strings, slices
  and maps, whose keys are written in order. Strings are escaped as Go 1.16 does it, with the
  HTML characters and the two line separators of Unicode. A number is a \<open>float64\<close> between
  reading and writing: how its literal is written again is the parameter \<open>mf\<close>. The theory
  proves that reading back what was written gives the same value, with the members of objects
  in order and the numbers as they were written.
\<close>

subsection \<open>Strings\<close>

definition quote :: char where "quote = CHR 0x22"
definition backslash :: char where "backslash = CHR 0x5C"

lemma code_quote [simp]: "code quote = 34" "code backslash = 92"
  by (simp_all add: quote_def backslash_def code_def)

definition hexd :: "nat \<Rightarrow> char" where
  "hexd n = (if n < 10 then char_of (48 + n) else char_of (87 + n))"

definition plain_byte :: "char \<Rightarrow> bool" where
  "plain_byte c \<longleftrightarrow> 32 \<le> code c \<and> code c \<noteq> 34 \<and> code c \<noteq> 92 \<and> code c \<noteq> 60 \<and> code c \<noteq> 62 \<and> code c \<noteq> 38"

definition escape_byte :: "char \<Rightarrow> string" where
  "escape_byte c =
     (if code c = 34 \<or> code c = 92 then [backslash, c]
      else if code c = 10 then [backslash, CHR ''n'']
      else if code c = 13 then [backslash, CHR ''r'']
      else if code c = 9 then [backslash, CHR ''t'']
      else [backslash, CHR ''u'', CHR ''0'', CHR ''0'', hexd (code c div 16), hexd (code c mod 16)])"

text \<open>The two bytes after 0xE2 in U+2028 and U+2029.\<close>

definition line_separator :: "char \<Rightarrow> char \<Rightarrow> bool" where
  "line_separator d e \<longleftrightarrow> code d = 128 \<and> (code e = 168 \<or> code e = 169)"

definition encode_byte :: "char \<Rightarrow> string" where
  "encode_byte c = (if plain_byte c \<or> 128 \<le> code c then [c] else escape_byte c)"

fun encode_string :: "string \<Rightarrow> string" where
  "encode_string (c # d # e # s) =
     (if code c = 226 \<and> line_separator d e
      then backslash # ''u202'' @ [hexd (code e mod 16)] @ encode_string s
      else encode_byte c @ encode_string (d # e # s))"
| "encode_string [] = []"
| "encode_string (c # s) = encode_byte c @ encode_string s"

definition Marshal_string :: "string \<Rightarrow> string" where
  "Marshal_string s = [quote] @ encode_string s @ [quote]"

text \<open>Reading one escaped byte.\<close>

lemma code_less: "code c < 256"
  by (simp add: code_def)

lemma char_of_code [simp]: "char_of (code c) = c"
  by (simp add: code_def)

lemma code_eqD: "code c = k \<Longrightarrow> c = char_of k"
  by auto

lemma code_letters:
  "code (CHR ''n'') = 110" "code (CHR ''r'') = 114" "code (CHR ''t'') = 116" "code (CHR ''u'') = 117"
  "char_of (34::nat) \<noteq> CHR ''u''" "char_of (92::nat) \<noteq> CHR ''u''"
proof -
  show letters: "code (CHR ''n'') = 110" "code (CHR ''r'') = 114" "code (CHR ''t'') = 116"
    "code (CHR ''u'') = 117"
    by (simp_all add: code_def)
  have "code (char_of (34::nat)) \<noteq> code (CHR ''u'')" "code (char_of (92::nat)) \<noteq> code (CHR ''u'')"
    by (simp_all add: letters(4))
  then show "char_of (34::nat) \<noteq> CHR ''u''" "char_of (92::nat) \<noteq> CHR ''u''"
    by (metis, metis)
qed

lemma hex_digit_hexd: "n < 16 \<Longrightarrow> hex_digit (hexd n) = Some n"
  by (simp add: hex_digit_def hexd_def is_digit_def)

lemma hex_digit_0: "hex_digit (CHR ''0'') = Some 0" "hex_digit (CHR ''2'') = Some 2"
  by (simp_all add: hex_digit_def is_digit_def code_def)

lemma utf8_ascii: "n < 128 \<Longrightarrow> utf8 n = [char_of n]"
  by (simp add: utf8_def)

lemma parse_string_escape:
  assumes "\<not> plain_byte c" "code c < 128"
  shows "parse_string (Suc n) (escape_byte c @ s) = map_option (\<lambda>(t, r). (c # t, r)) (parse_string n s)"
proof -
  consider "code c = 34" | "code c = 92" | "code c = 10" | "code c = 13" | "code c = 9"
    | "code c \<noteq> 34" "code c \<noteq> 92" "code c \<noteq> 10" "code c \<noteq> 13" "code c \<noteq> 9" by blast
  then show ?thesis
  proof cases
    case 6
    have "(code c div 16 * 16 + code c mod 16) = code c" by simp
    moreover have "code c div 16 < 16" using assms(2) by simp
    ultimately show ?thesis using 6 assms(2)
      by (simp add: escape_byte_def unicode_escape_def hex4_def hex_digit_0 hex_digit_hexd utf8_ascii)
  qed (drule code_eqD, simp add: escape_byte_def simple_escape_def code_letters)+
qed

lemma parse_string_more:
  "parse_string n s = Some x \<Longrightarrow> n \<le> m \<Longrightarrow> parse_string m s = Some x"
proof (induction n s arbitrary: m x rule: parse_string.induct)
  case (3 n c s)
  from 3(5) obtain k where m: "m = Suc k" "n \<le> k" by (cases m) auto
  show ?case
  proof (cases "code c = 34 \<or> code c < 32")
    case True
    with 3(4) m show ?thesis by auto
  next
    case False
    note nf = this
    show ?thesis
    proof (cases "code c = 92")
      case True
      with nf 3(4) obtain e s' where s: "s = e # s'" by (auto split: list.splits)
      show ?thesis
      proof (cases "e = CHR ''u''")
        case u: True
        with 3(4) True nf s obtain v rest where "unicode_escape s' = Some (v, rest)"
          by (auto split: option.splits)
        with 3(1)[OF _ _ True s u this refl, of _ k] 3(4) m nf True s u show ?thesis by auto
      next
        case nu: False
        with 3(4) True nf s obtain d where "simple_escape e = Some d"
          by (auto split: option.splits)
        with 3(2)[OF _ _ True s nu this, of _ k] 3(4) m nf True s nu show ?thesis by auto
      qed
    next
      case False
      with 3(3)[of _ k] 3(4) m nf show ?thesis by auto
    qed
  qed
qed auto

lemma parse_string_fuel:
  "length s < n \<Longrightarrow> n \<le> m \<Longrightarrow> parse_string m s = parse_string n s"
proof (induction n s arbitrary: m rule: parse_string.induct)
  case (2 n)
  then show ?case by (cases m) auto
next
  case (3 n c s)
  from 3(5) obtain k where m: "m = Suc k" "n \<le> k" by (cases m) auto
  have l: "length s < n" using 3(4) by simp
  show ?case
  proof (cases "code c = 34 \<or> code c < 32")
    case False
    note nf = this
    show ?thesis
    proof (cases "code c = 92")
      case True
      show ?thesis
      proof (cases s)
        case (Cons e s')
        show ?thesis
        proof (cases "e = CHR ''u''")
          case u: True
          show ?thesis
          proof (cases "unicode_escape s'")
            case (Some p)
            obtain v rest where p: "p = (v, rest)" by (cases p)
            have "length rest < n" using unicode_escape_length [OF Some [unfolded p]] l Cons by simp
            then have "parse_string k rest = parse_string n rest"
              using 3(1)[OF _ _ True Cons u Some p [symmetric] _ m(2)] nf by blast
            then show ?thesis using m nf True Cons u Some p by simp
          qed (use m nf True Cons u in simp)
        next
          case nu: False
          show ?thesis
          proof (cases "simple_escape e")
            case (Some d)
            have "parse_string k s' = parse_string n s'"
              using 3(2)[OF _ _ True Cons nu Some _ m(2)] nf l Cons by auto
            then show ?thesis using m nf True Cons nu Some by simp
          qed (use m nf True Cons nu in simp)
        qed
      qed (use m nf True in simp)
    next
      case False
      have "parse_string k s = parse_string n s" using 3(3)[OF _ _ False l m(2)] nf by blast
      then show ?thesis using m nf False by simp
    qed
  qed (use m in auto)
qed auto

lemma parse_string_byte:
  assumes "parse_string n t = Some (u, r)"
  shows "parse_string (Suc n) (encode_byte c @ t) = Some (c # u, r)"
  using assms parse_string_escape [of c n t] by (auto simp: encode_byte_def plain_byte_def)

lemma utf8_separator:
  assumes "code c = 226" "line_separator d e"
  shows "utf8 (0x2020 + code e mod 16) = [c, d, e]"
proof -
  have "c = char_of (226::nat)" "d = char_of (128::nat)"
    using assms by (simp_all add: line_separator_def code_eqD)
  moreover have "e = char_of (168::nat) \<or> e = char_of (169::nat)"
    using assms(2) unfolding line_separator_def by (metis code_eqD)
  ultimately show ?thesis using assms by (auto simp: utf8_def line_separator_def)
qed

lemma parse_string_encode:
  "\<exists>n. parse_string n (encode_string s @ quote # rest) = Some (s, rest)"
proof (induction s rule: encode_string.induct, goal_cases)
  case (1 c d e s)
  show ?case
  proof (cases "code c = 226 \<and> line_separator d e")
    case True
    with 1(1) obtain n where n: "parse_string n (encode_string s @ quote # rest) = Some (s, rest)" by blast
    have "code e mod 16 < 16" by simp
    then have nlt: "\<not> 47072 \<le> code e mod 16" by linarith
    have "unicode_escape (''202'' @ hexd (code e mod 16) # encode_string s @ quote # rest)
        = Some (0x2020 + code e mod 16, encode_string s @ quote # rest)"
      using nlt by (simp add: unicode_escape_def hex4_def hex_digit_0 hex_digit_hexd)
    with n True utf8_separator [of c d e] show ?thesis
      by (intro exI [of _ "Suc n"]) simp
  next
    case False
    with 1(2) obtain n where "parse_string n (encode_string (d # e # s) @ quote # rest) = Some (d # e # s, rest)"
      by blast
    from parse_string_byte [OF this, of c] show ?thesis
      unfolding encode_string.simps(1) if_not_P [OF False] append_assoc by blast
  qed
next
  case 2
  show ?case by (intro exI [of _ 1]) simp
next
  case (3 c)
  then obtain n where "parse_string n (encode_string [] @ quote # rest) = Some ([], rest)" by blast
  from parse_string_byte [OF this, of c] show ?case by (intro exI [of _ "Suc n"]) simp
next
  case (4 c v)
  then obtain n where "parse_string n (encode_string [v] @ quote # rest) = Some ([v], rest)" by blast
  from parse_string_byte [OF this, of c] show ?case by (intro exI [of _ "Suc n"]) simp
qed

lemma string_lit_Marshal: "string_lit (Marshal_string s @ rest) = Some (s, rest)"
proof -
  obtain n where n: "parse_string n (encode_string s @ quote # rest) = Some (s, rest)"
    using parse_string_encode by blast
  let ?t = "encode_string s @ quote # rest"
  have "parse_string (Suc (length ?t)) ?t = parse_string (n + Suc (length ?t)) ?t"
    using parse_string_fuel [of ?t "Suc (length ?t)" "n + Suc (length ?t)"] by simp
  also have "\<dots> = Some (s, rest)" using parse_string_more [OF n] by simp
  finally show ?thesis by (simp add: string_lit_def Marshal_string_def)
qed

subsection \<open>Numbers\<close>

text \<open>What may follow a number: the end of the text, of an element or of a member.\<close>

definition number_end :: "string \<Rightarrow> bool" where
  "number_end s = (case s of [] \<Rightarrow> True | c # _ \<Rightarrow> c = CHR '','' \<or> c = CHR '']'' \<or> c = CHR ''}'')"

lemma number_end_cases:
  assumes "number_end s"
  obtains "s = []" | c r where "s = c # r" "c \<in> {CHR '','', CHR '']'', CHR ''}''}"
  using assms by (cases s) (auto simp: number_end_def)

lemma span_digits_append:
  assumes "span_digits s = (ds, r)" "number_end rest"
  shows "span_digits (s @ rest) = (ds, r @ rest)"
proof -
  have "takeWhile is_digit rest = []" "dropWhile is_digit rest = rest"
    using assms(2) by (cases rest rule: number_end_cases; auto simp: is_digit_def code_def)+
  with assms(1) show ?thesis
    by (auto simp: span_digits_def takeWhile_append dropWhile_append dropWhile_eq_Nil_conv)
      (metis takeWhile_eq_all_conv)
qed

definition valid_number :: "string \<Rightarrow> bool" where
  "valid_number l \<longleftrightarrow> parse_number l = Some (JNum l, [])"

lemma code_marks:
  "code (CHR '','') = 44" "code (CHR '']'') = 93" "code (CHR ''}'') = 125" "code (CHR ''['') = 91"
  "code (CHR ''{'') = 123" "code (CHR ''-'') = 45" "code (CHR ''0'') = 48" "code (CHR ''.'') = 46"
  "code (CHR ''e'') = 101" "code (CHR ''E'') = 69" "code (CHR ''+'') = 43" "code (CHR '':'') = 58"
  by (simp_all add: code_def)

lemma span_digits_more:
  assumes "number_end rest"
  shows "span_digits (s @ rest) = (fst (span_digits s), snd (span_digits s) @ rest)"
    "span_digits (a # s @ rest) = (fst (span_digits (a # s)), snd (span_digits (a # s)) @ rest)"
  using span_digits_append [of s _ _ rest] span_digits_append [of "a # s" _ _ rest] assms
  by (metis prod.collapse append_Cons)+

lemma parse_int_part_append:
  assumes "parse_int_part s = Some (i, r)" "number_end rest"
  shows "parse_int_part (s @ rest) = Some (i, r @ rest)"
proof (cases s)
  case (Cons c t)
  show ?thesis
  proof (cases "c = CHR ''-''")
    case True
    with assms(1) Cons obtain d u where "t = d # u"
      by (auto simp: parse_int_part_def split: list.splits)
    with True Cons assms show ?thesis
      by (auto simp: parse_int_part_def Let_def case_prod_beta span_digits_more split: if_splits)
  next
    case False
    with Cons assms show ?thesis
      by (auto simp: parse_int_part_def Let_def case_prod_beta span_digits_more split: if_splits)
  qed
qed (use assms in \<open>simp add: parse_int_part_def\<close>)

lemma parse_frac_append:
  assumes "parse_frac s = Some (f, r)" "number_end rest"
  shows "parse_frac (s @ rest) = Some (f, r @ rest)"
proof (cases s)
  case Nil
  from assms(2) show ?thesis using assms(1) Nil
    by (cases rest rule: number_end_cases) (auto simp: parse_frac_def)
next
  case (Cons c t)
  then show ?thesis using assms
    by (auto simp: parse_frac_def Let_def case_prod_beta span_digits_more split: if_splits)
qed

lemma parse_exp_append:
  assumes "parse_exp s = Some (e, r)" "number_end rest"
  shows "parse_exp (s @ rest) = Some (e, r @ rest)"
proof (cases s)
  case Nil
  from assms(2) show ?thesis using assms(1) Nil
    by (cases rest rule: number_end_cases) (auto simp: parse_exp_def)
next
  case c: (Cons c t)
  show ?thesis
  proof (cases t)
    case Nil
    then show ?thesis using assms c by (auto simp: parse_exp_def span_digits_def Let_def split: if_splits)
  next
    case (Cons d u)
    then show ?thesis using assms c
      by (auto simp: parse_exp_def Let_def case_prod_beta span_digits_more split: if_splits)
  qed
qed

lemma parse_number_append:
  assumes "valid_number l" "number_end rest"
  shows "parse_number (l @ rest) = Some (JNum l, rest)"
proof -
  obtain i s1 f s2 e where "parse_int_part l = Some (i, s1)" "parse_frac s1 = Some (f, s2)"
    "parse_exp s2 = Some (e, [])" "i @ f @ e = l"
    using assms(1) by (auto simp: valid_number_def parse_number_def split: option.splits)
  with parse_int_part_append [of l i s1 rest] parse_frac_append [of s1 f s2 rest]
    parse_exp_append [of s2 e "[]" rest] assms(2)
  show ?thesis by (simp add: parse_number_def)
qed

lemma valid_number_head:
  assumes "valid_number l"
  obtains c r where "l = c # r" "c = CHR ''-'' \<or> is_digit c"
  using assms
  by (cases l) (auto simp: valid_number_def parse_number_def parse_int_part_def span_digits_def Let_def
      is_digit_def code_marks split: option.splits list.splits if_splits)

subsection \<open>Values\<close>

fun Marshal :: "(string \<Rightarrow> string) \<Rightarrow> json \<Rightarrow> string" where
  "Marshal mf JNull = ''null''"
| "Marshal mf (JBool b) = (if b then ''true'' else ''false'')"
| "Marshal mf (JNum l) = mf l"
| "Marshal mf (JStr s) = Marshal_string s"
| "Marshal mf (JArr js) = ''['' @ Join '','' (map (Marshal mf) js) @ '']''"
| "Marshal mf (JObj ms) =
     ''{'' @ Join '','' (map (\<lambda>(k, t). Marshal_string k @ '':'' @ t)
                     (map_members (map (\<lambda>(k, v). (k, Marshal mf v)) ms))) @ ''}''"

text \<open>The value that is read back.\<close>

fun canonical :: "(string \<Rightarrow> string) \<Rightarrow> json \<Rightarrow> json" where
  "canonical mf JNull = JNull"
| "canonical mf (JBool b) = JBool b"
| "canonical mf (JNum l) = JNum (mf l)"
| "canonical mf (JStr s) = JStr s"
| "canonical mf (JArr js) = JArr (map (canonical mf) js)"
| "canonical mf (JObj ms) = JObj (map_members (map (\<lambda>(k, v). (k, canonical mf v)) ms))"

lemma insort_map_ran:
  "insort_key fst (k, g v) (map (\<lambda>(k, v). (k, g v)) xs) = map (\<lambda>(k, v). (k, g v)) (insort_key fst (k, v) xs)"
  by (induction xs) auto

lemma sort_map_ran:
  "sort_key fst (map (\<lambda>(k, v). (k, g v)) xs) = map (\<lambda>(k, v). (k, g v)) (sort_key fst xs)"
  by (induction xs) (auto simp: insort_map_ran)

lemma map_members_map:
  "map_members (map (\<lambda>(k, v). (k, g v)) ms) = map (\<lambda>(k, v). (k, g v)) (map_members ms)"
  using clearjunk_map_ran [of "\<lambda>_. g" "rev ms"]
  by (simp add: map_members_def rev_map sort_map_ran map_ran_def)

lemma distinct_map_members: "distinct (map fst (map_members ms))"
proof -
  have "mset (map fst (map_members ms)) = mset (map fst (AList.clearjunk (rev ms)))"
    by (simp add: map_members_def)
  with distinct_clearjunk [of "rev ms"] show ?thesis by (metis mset_eq_imp_distinct_iff)
qed

lemma map_of_map_members: "map_of (map_members ms) = map_of (rev ms)"
proof
  fix k
  have "map_of (map_members ms) k = Some v \<longleftrightarrow> map_of (AList.clearjunk (rev ms)) k = Some v" for v
    using distinct_map_members [of ms] distinct_clearjunk [of "rev ms"]
    by (simp add: map_of_eq_Some_iff map_members_def)
  then have "map_of (map_members ms) k = map_of (AList.clearjunk (rev ms)) k"
    by (metis not_Some_eq)
  then show "map_of (map_members ms) k = map_of (rev ms) k" by (simp add: map_of_clearjunk)
qed

lemma set_map_members: "set (map_members ms) \<subseteq> set ms"
proof
  fix x assume "x \<in> set (map_members ms)"
  then have "map_of (rev ms) (fst x) = Some (snd x)"
    using distinct_map_members [of ms] by (simp add: map_of_map_members [symmetric])
  then show "x \<in> set ms" using map_of_SomeD by fastforce
qed

text \<open>A text that is read as a value, whatever follows it.\<close>

definition reads :: "string \<Rightarrow> json \<Rightarrow> bool" where
  "reads t j \<longleftrightarrow> t \<noteq> [] \<and> \<not> is_json_space (hd t) \<and> hd t \<noteq> CHR '']'' \<and> hd t \<noteq> CHR ''}''
     \<and> (\<forall>rest. number_end rest \<longrightarrow> (\<exists>N. \<forall>n \<ge> N. parse_value n (t @ rest) = Some (j, rest)))"

lemma readsD:
  assumes "reads t j" "number_end rest"
  obtains N where "\<And>n. n \<ge> N \<Longrightarrow> parse_value n (t @ rest) = Some (j, rest)"
  using assms unfolding reads_def by blast

lemma not_space_marks [simp]:
  "\<not> is_json_space (CHR '','')" "\<not> is_json_space (CHR '']'')" "\<not> is_json_space (CHR ''}'')"
  "\<not> is_json_space (CHR ''['')" "\<not> is_json_space (CHR ''{'')" "\<not> is_json_space (CHR '':'')"
  "\<not> is_json_space quote"
  by (simp_all add: is_json_space_def code_marks)

lemma skip_space_head [simp]: "\<not> is_json_space c \<Longrightarrow> skip_space (c # s) = c # s"
  by (simp add: skip_space_def)

lemma expect_head: "\<not> is_json_space d \<Longrightarrow> expect c (d # s) = (if c = d then Some s else None)"
  by (simp add: expect_def)

lemma number_end_marks [simp]:
  "number_end (CHR '','' # s)" "number_end (CHR '']'' # s)" "number_end (CHR ''}'' # s)" "number_end []"
  by (simp_all add: number_end_def)

lemma reads_elements:
  "list_all2 reads ts js \<Longrightarrow> js \<noteq> [] \<Longrightarrow>
   \<exists>N. \<forall>n \<ge> N. parse_elements n (Join '','' ts @ CHR '']'' # rest) = Some (js, rest)"
proof (induction ts js rule: list_all2_induct)
  case (Cons t ts j js)
  show ?case
  proof (cases js)
    case Nil
    with Cons have "ts = []" by simp
    obtain N where N: "\<And>n. n \<ge> N \<Longrightarrow> parse_value n (t @ CHR '']'' # rest) = Some (j, CHR '']'' # rest)"
      using readsD [OF Cons(1)] number_end_marks(2) by blast
    have "parse_elements n (t @ CHR '']'' # rest) = Some ([j], rest)" if n: "n \<ge> Suc N" for n
    proof -
      obtain k where k: "n = Suc k" "k \<ge> N" using n by (cases n) auto
      show ?thesis by (simp add: k(1) N [OF k(2)] expect_head)
    qed
    with \<open>ts = []\<close> Nil show ?thesis by auto
  next
    case js: (Cons j' js')
    with Cons(2) obtain t' ts' where ts: "ts = t' # ts'" by (cases ts) auto
    let ?r = "Join '','' ts @ CHR '']'' # rest"
    obtain N where N: "\<And>n. n \<ge> N \<Longrightarrow> parse_value n (t @ CHR '','' # ?r) = Some (j, CHR '','' # ?r)"
      using readsD [OF Cons(1)] number_end_marks(1) by blast
    obtain M where M: "\<And>n. n \<ge> M \<Longrightarrow> parse_elements n ?r = Some (js, rest)"
      using Cons(3) js by blast
    have "parse_elements n (t @ CHR '','' # ?r) = Some (j # js, rest)" if n: "n \<ge> Suc (max N M)" for n
    proof -
      obtain k where k: "n = Suc k" "k \<ge> N" "k \<ge> M" using n by (cases n) auto
      show ?thesis by (simp add: k(1) N [OF k(2)] M [OF k(3)] expect_head)
    qed
    then show ?thesis unfolding ts by auto
  qed
qed simp

definition member_text :: "string \<times> string \<Rightarrow> string" where
  "member_text = (\<lambda>(k, t). Marshal_string k @ '':'' @ t)"

lemma reads_members:
  "list_all2 (\<lambda>(k, t) (k', j). k = k' \<and> reads t j) ps ms \<Longrightarrow> ms \<noteq> [] \<Longrightarrow>
   \<exists>N. \<forall>n \<ge> N. parse_members n (Join '','' (map member_text ps) @ CHR ''}'' # rest) = Some (ms, rest)"
proof (induction ps ms rule: list_all2_induct)
  case (Cons p ps m ms)
  obtain k t j where p: "p = (k, t)" "m = (k, j)" "reads t j" using Cons(1) by (cases p; cases m) auto
  have mt: "member_text p = Marshal_string k @ CHR '':'' # t" by (simp add: member_text_def p)
  have start: "skip_space (Marshal_string k @ s) = Marshal_string k @ s" for s
    by (simp add: Marshal_string_def)
  show ?case
  proof (cases ms)
    case Nil
    with Cons have "ps = []" by simp
    obtain N where N: "\<And>n. n \<ge> N \<Longrightarrow> parse_value n (t @ CHR ''}'' # rest) = Some (j, CHR ''}'' # rest)"
      using readsD [OF p(3)] number_end_marks(3) by blast
    have "parse_members n (member_text p @ CHR ''}'' # rest) = Some ([m], rest)" if n: "n \<ge> Suc N" for n
    proof -
      obtain i where i: "n = Suc i" "i \<ge> N" using n by (cases n) auto
      show ?thesis
        by (simp add: i(1) p(2) mt start string_lit_Marshal expect_head N [OF i(2)])
    qed
    with \<open>ps = []\<close> Nil show ?thesis by auto
  next
    case ms: (Cons m' ms')
    with Cons(2) obtain p' ps' where ps: "ps = p' # ps'" by (cases ps) auto
    let ?r = "Join '','' (map member_text ps) @ CHR ''}'' # rest"
    obtain N where N: "\<And>n. n \<ge> N \<Longrightarrow> parse_value n (t @ CHR '','' # ?r) = Some (j, CHR '','' # ?r)"
      using readsD [OF p(3)] number_end_marks(1) by blast
    obtain M where M: "\<And>n. n \<ge> M \<Longrightarrow> parse_members n ?r = Some (ms, rest)"
      using Cons(3) ms by blast
    have "parse_members n (member_text p @ CHR '','' # ?r) = Some (m # ms, rest)"
      if n: "n \<ge> Suc (max N M)" for n
    proof -
      obtain i where i: "n = Suc i" "i \<ge> N" "i \<ge> M" using n by (cases n) auto
      show ?thesis
        by (simp add: i(1) p(2) mt start string_lit_Marshal expect_head N [OF i(2)] M [OF i(3)])
    qed
    then show ?thesis unfolding ps by auto
  qed
qed simp

lemma parse_value_head:
  "\<not> is_json_space c \<Longrightarrow> parse_value (Suc n) (c # r) =
    (if c = CHR ''{''
     then (case expect (CHR ''}'') r of
             Some r' \<Rightarrow> Some (JObj [], r')
           | None \<Rightarrow> map_option (\<lambda>(ms, r'). (JObj ms, r')) (parse_members n r))
     else if c = CHR ''[''
     then (case expect (CHR '']'') r of
             Some r' \<Rightarrow> Some (JArr [], r')
           | None \<Rightarrow> map_option (\<lambda>(js, r'). (JArr js, r')) (parse_elements n r))
     else if code c = 34 then map_option (\<lambda>(t, r'). (JStr t, r')) (string_lit (c # r))
     else if c = CHR ''t'' then literal ''true'' (JBool True) (c # r)
     else if c = CHR ''f'' then literal ''false'' (JBool False) (c # r)
     else if c = CHR ''n'' then literal ''null'' JNull (c # r)
     else parse_number (c # r))"
  by simp

lemma readsI:
  assumes "\<not> is_json_space c" "c \<noteq> CHR '']''" "c \<noteq> CHR ''}''"
    "\<And>rest. number_end rest \<Longrightarrow> \<exists>N. \<forall>n \<ge> N. parse_value (Suc n) (c # t @ rest) = Some (j, rest)"
  shows "reads (c # t) j"
  unfolding reads_def
proof (intro conjI allI impI)
  fix rest assume "number_end rest"
  from assms(4) [OF this] obtain N where N: "\<forall>n \<ge> N. parse_value (Suc n) (c # t @ rest) = Some (j, rest)" by blast
  have "parse_value n ((c # t) @ rest) = Some (j, rest)" if "n \<ge> Suc N" for n
    using N that by (cases n) auto
  then show "\<exists>N. \<forall>n \<ge> N. parse_value n ((c # t) @ rest) = Some (j, rest)" by blast
qed (use assms in simp_all)

lemma marks_distinct:
  "quote \<noteq> CHR ''{''" "quote \<noteq> CHR ''[''" "quote \<noteq> CHR '']''" "quote \<noteq> CHR ''}''"
  by (simp_all add: quote_def)

lemma reads_number:
  assumes "valid_number l"
  shows "reads l (JNum l)"
proof -
  obtain c r where v: "valid_number l" "l = c # r" "c = CHR ''-'' \<or> is_digit c"
    using valid_number_head assms by blast
  then have c: "code c = 45 \<or> (48 \<le> code c \<and> code c \<le> 57)" by (auto simp: is_digit_def code_marks)
  have ne: "code d = 123 \<or> code d = 91 \<or> code d = 93 \<or> code d = 125 \<or> code d = 34 \<or> 100 < code d \<Longrightarrow> c \<noteq> d" for d
    using c by auto
  have n: "c \<noteq> CHR ''{''" "c \<noteq> CHR ''[''" "c \<noteq> CHR ''t''" "c \<noteq> CHR ''f''" "c \<noteq> CHR ''n''" "c \<noteq> CHR '']''"
    "c \<noteq> CHR ''}''" "code c \<noteq> 34"
    using c by (auto intro!: ne simp: code_def)
  show "reads l (JNum l)"
    unfolding v(2)
  proof (rule readsI)
    show "\<not> is_json_space c" using c by (auto simp: is_json_space_def)
    then show "\<exists>N. \<forall>m \<ge> N. parse_value (Suc m) (c # r @ rest) = Some (JNum (c # r), rest)"
      if "number_end rest" for rest
      using parse_number_append [OF v(1) that] by (simp add: parse_value_head n v(2) del: parse_value.simps)
  qed (simp_all add: n)
qed

lemma reads_literals:
  "reads ''null'' JNull" "reads ''true'' (JBool True)" "reads ''false'' (JBool False)"
  by (rule readsI; simp add: literal_def HasPrefix_def is_json_space_def code_def)+

lemma reads_string: "reads (Marshal_string s) (JStr s)"
proof -
  have "string_lit (quote # encode_string s @ quote # rest) = Some (s, rest)" for rest
    using string_lit_Marshal [of s rest] by (simp add: Marshal_string_def)
  then have "reads (quote # encode_string s @ [quote]) (JStr s)"
    by (intro readsI) (simp_all add: marks_distinct)
  then show ?thesis by (simp add: Marshal_string_def)
qed

lemma reads_array:
  assumes "list_all2 reads ts js"
  shows "reads (''['' @ Join '','' ts @ '']'') (JArr js)"
proof -
  have "reads (CHR ''['' # Join '','' ts @ '']'') (JArr js)"
  proof (rule readsI)
    fix rest assume "number_end rest"
    show "\<exists>N. \<forall>n \<ge> N. parse_value (Suc n) (CHR ''['' # (Join '','' ts @ '']'') @ rest) = Some (JArr js, rest)"
    proof (cases js)
      case Nil
      with assms have "ts = []" by simp
      with Nil show ?thesis by (simp add: expect_head)
    next
      case (Cons j js')
      with assms obtain t ts' where ts: "ts = t # ts'" "reads t j" by (cases ts) auto
      then obtain c r where c: "t = c # r" "\<not> is_json_space c" "c \<noteq> CHR '']''"
        by (cases t) (auto simp: reads_def)
      obtain s where s: "Join '','' ts @ CHR '']'' # rest = c # s"
        using ts c by (cases ts') auto
      obtain N where "\<forall>n \<ge> N. parse_elements n (Join '','' ts @ CHR '']'' # rest) = Some (js, rest)"
        using reads_elements [OF assms] Cons by blast
      then show ?thesis using c s by (auto simp: expect_head)
    qed
  qed simp_all
  then show ?thesis by simp
qed

lemma reads_object:
  assumes "list_all2 (\<lambda>(k, t) (k', j). k = k' \<and> reads t j) ps ms"
  shows "reads (''{'' @ Join '','' (map member_text ps) @ ''}'') (JObj ms)"
proof -
  have "reads (CHR ''{'' # Join '','' (map member_text ps) @ ''}'') (JObj ms)"
  proof (rule readsI)
    fix rest assume "number_end rest"
    show "\<exists>N. \<forall>n \<ge> N. parse_value (Suc n) (CHR ''{'' # (Join '','' (map member_text ps) @ ''}'') @ rest)
        = Some (JObj ms, rest)"
    proof (cases ms)
      case Nil
      with assms have "ps = []" by simp
      with Nil show ?thesis by (simp add: expect_head)
    next
      case (Cons m ms')
      with assms obtain p ps' where ps: "ps = p # ps'" by (cases ps) auto
      obtain s where s: "Join '','' (map member_text ps) @ CHR ''}'' # rest = quote # s"
        by (cases p; cases ps') (auto simp: ps member_text_def Marshal_string_def)
      obtain N where "\<forall>n \<ge> N. parse_members n (Join '','' (map member_text ps) @ CHR ''}'' # rest) = Some (ms, rest)"
        using reads_members [OF assms] Cons by blast
      then show ?thesis using s by (auto simp: expect_head marks_distinct marks_distinct [symmetric])
    qed
  qed simp_all
  then show ?thesis by simp
qed

lemma reads_Marshal:
  assumes "\<And>l. valid_number (mf l)"
  shows "reads (Marshal mf j) (canonical mf j)"
  using assms
proof (induction mf j rule: Marshal.induct)
  case (2 mf b)
  then show ?case by (simp add: reads_literals)
next
  case (5 mf js)
  then have "list_all2 reads (map (Marshal mf) js) (map (canonical mf) js)"
    by (simp add: list.rel_map list_all2_same)
  then show ?case by (simp add: reads_array [simplified])
next
  case (6 mf ms)
  let ?ps = "map (\<lambda>(k, v). (k, Marshal mf v)) (map_members ms)"
  have "list_all2 (\<lambda>(k, t) (k', j). k = k' \<and> reads t j) ?ps (map (\<lambda>(k, v). (k, canonical mf v)) (map_members ms))"
    using 6 set_map_members [of ms] by (auto simp: list.rel_map list_all2_same)
  from reads_object [OF this] show ?case
    by (simp add: map_members_map [of "Marshal mf"] map_members_map [of "canonical mf"] member_text_def [abs_def])
qed (simp_all add: reads_literals reads_number reads_string)

subsection \<open>Reading back what was written\<close>

lemma parse_json_reads:
  assumes "reads s j"
  shows "parse_json s = Some j"
proof -
  from assms obtain N where "\<forall>n \<ge> N. parse_value n (s @ []) = Some (j, [])"
    unfolding reads_def using number_end_marks(4) by blast
  then have N: "n \<ge> N \<Longrightarrow> parse_value n s = Some (j, [])" for n by simp
  have "parse_value (2 * length s + 1) s = parse_value (N + (2 * length s + 1)) s"
    using parse_fuel_enough [of s "N + (2 * length s + 1)"] by simp
  also have "\<dots> = Some (j, [])" by (rule N) simp
  finally show ?thesis by (simp add: parse_json_def skip_space_def)
qed

lemma parse_json_Marshal:
  assumes "\<And>l. valid_number (mf l)"
  shows "parse_json (Marshal mf j) = Some (canonical mf j)"
  using assms by (intro parse_json_reads reads_Marshal)

lemma map_members_idem: "map_members (map_members ms) = map_members ms"
proof -
  have d: "distinct (map fst (rev (map_members ms)))"
    using distinct_map_members [of ms] by (simp add: rev_map [symmetric])
  have "AList.clearjunk (rev (map_members ms)) = rev (map_members ms)"
    using d by (rule distinct_clearjunk_id)
  moreover have "sort_key fst (rev (map_members ms)) = map_members ms"
  proof (rule sort_key_inj_key_eq)
    show "inj_on fst (set (rev (map_members ms)))"
      using d by (metis distinct_map)
    show "sorted (map fst (map_members ms))" by (simp add: map_members_def)
  qed simp
  ultimately show ?thesis by (simp add: map_members_def [of "map_members ms"])
qed

lemma numbers_ok_canonical:
  assumes "\<And>l. number_in_range (mf l)"
  shows "numbers_ok (canonical mf j)"
  using assms
proof (induction mf j rule: canonical.induct)
  case (6 mf ms)
  then show ?case using set_map_members [of "map (\<lambda>(k, v). (k, canonical mf v)) ms"]
    by (fastforce simp: list_all_iff)
qed (auto simp: list_all_iff)

text \<open>
  Writing a map and reading it back: the same members in order, with the numbers as they were
  written.
\<close>

lemma Unmarshal_Marshal:
  assumes "\<And>l. valid_number (mf l)" "\<And>l. number_in_range (mf l)"
  shows "Unmarshal_map (Marshal mf (JObj ms)) = Some (Some (map (\<lambda>(k, v). (k, canonical mf v)) (map_members ms)))"
  using parse_json_Marshal [of mf "JObj ms"] numbers_ok_canonical [of mf "JObj ms"] assms
  by (simp add: Unmarshal_map_def map_members_idem map_members_map [of "canonical mf"])

subsection \<open>Integers are numbers\<close>

lemma digits_leading_zero: "digits n = CHR ''0'' # r \<Longrightarrow> r = []"
proof (induction n arbitrary: r rule: digits.induct)
  case (1 n)
  show ?case
  proof (cases "n < 10")
    case True
    with 1(2) show ?thesis by (simp add: digits.simps)
  next
    case False
    with 1(2) have e: "digits (n div 10) @ [char_of (48 + n mod 10)] = CHR ''0'' # r" by (simp add: digits.simps [of n])
    then obtain r' where r': "digits (n div 10) = CHR ''0'' # r'" by (cases "digits (n div 10)") auto
    with 1(1) [OF False] have "digits (n div 10) = ''0''" by simp
    with foldl_digits [of "n div 10"] have "n div 10 = 0" by (simp add: digit_value_def code_marks)
    with False show ?thesis by simp
  qed
qed

lemma span_digits_digits [simp]: "span_digits (digits n) = (digits n, [])"
  using list_all_digits [of n] unfolding span_digits_def list_all_iff
  by (metis dropWhile_eq_Nil_conv takeWhile_eq_all_conv)

lemma parse_int_part_Itoa: "parse_int_part (Itoa n) = Some (Itoa n, [])"
proof -
  have digits: "(case digits m of [] \<Rightarrow> None
      | c # r \<Rightarrow> if c = CHR ''0'' then Some (sgn @ [c], r)
                 else let (ds, r') = span_digits (digits m) in if ds = [] then None else Some (sgn @ ds, r'))
    = Some (sgn @ digits m, [])" for sgn m
    using digits_leading_zero [of m] span_digits_digits [of m] by (cases "digits m") auto
  show ?thesis
  proof (cases "n < 0")
    case True
    then show ?thesis using digits [of "''-''" "nat (- n)"] by (simp add: Itoa_def parse_int_part_def)
  next
    case False
    then show ?thesis using digits [of "[]" "nat n"] hd_digits [of "nat n"]
      by (cases "digits (nat n)") (auto simp: Itoa_def parse_int_part_def)
  qed
qed

lemma valid_number_Itoa: "valid_number (Itoa n)"
  by (simp add: valid_number_def parse_number_def parse_int_part_Itoa parse_frac_def parse_exp_def)

lemma digits_value_Itoa: "digits_value (Itoa n) = nat \<bar>n\<bar>"
proof -
  have "filter is_digit (Itoa n) = digits (nat \<bar>n\<bar>)"
    using list_all_digits [of "nat \<bar>n\<bar>"]
    by (auto simp: Itoa_def list_all_iff is_digit_def code_marks filter_id_conv)
  then show ?thesis using foldl_digits [of "nat \<bar>n\<bar>"] by (simp add: digits_value_def digit_value_def)
qed

lemma float_limit_large: "2 ^ 63 < float_limit"
proof -
  have "(2::nat) ^ 970 + 2 ^ 63 < 2 ^ 970 + 2 ^ 970" by simp
  also have "\<dots> = 2 ^ 971" by simp
  also have "\<dots> \<le> 2 ^ 1024" by (rule power_increasing) auto
  finally show ?thesis unfolding float_limit_def by linarith
qed

lemma number_in_range_Itoa:
  assumes "in_int64 n"
  shows "number_in_range (Itoa n)"
proof -
  have "nat \<bar>n\<bar> \<le> 2 ^ 63" using assms by (auto simp: in_int64_def nat_le_iff abs_le_iff)
  with float_limit_large have "nat \<bar>n\<bar> < float_limit" by linarith
  then show ?thesis
    by (simp add: number_in_range_def parse_int_part_Itoa parse_frac_def parse_exp_def digits_value_Itoa
        exp_value_def Let_def)
qed

end
