(* ===== verification/Go_Json_Decode.thy ===== *)
theory Go_Json_Decode
  imports Go_Json_Marshal
begin

text \<open>
  \<open>json.Unmarshal\<close> into structs. A decoder takes the json and the old value of its target and
  gives the new one, with whether the types fitted: a value of another type leaves the target
  alone, decoding goes on, and the error is returned at the end beside what was filled in. A
  text that is no json changes nothing. \<open>null\<close> leaves a target alone unless it is a pointer or
  a slice.
\<close>

type_synonym 'a decoder = "json \<Rightarrow> 'a \<Rightarrow> 'a \<times> bool"

definition Unmarshal :: "'a decoder \<Rightarrow> string \<Rightarrow> 'a \<Rightarrow> 'a \<times> bool" where
  "Unmarshal dec s v = (case parse_json s of None \<Rightarrow> (v, False) | Some j \<Rightarrow> dec j v)"

definition dec_string :: "string decoder" where
  "dec_string j v = (case j of JStr s \<Rightarrow> (s, True) | JNull \<Rightarrow> (v, True) | _ \<Rightarrow> (v, False))"

definition dec_bool :: "bool decoder" where
  "dec_bool j v = (case j of JBool b \<Rightarrow> (b, True) | JNull \<Rightarrow> (v, True) | _ \<Rightarrow> (v, False))"

text \<open>Integers: a number without fraction and exponent that fits the type, here 64 bits.\<close>

definition dec_int :: "int decoder" where
  "dec_int j v =
     (case j of
        JNum l \<Rightarrow> (case Atoi l of Some n \<Rightarrow> (n, True) | None \<Rightarrow> (v, False))
      | JNull \<Rightarrow> (v, True)
      | _ \<Rightarrow> (v, False))"

definition dec_uint :: "nat decoder" where
  "dec_uint j v =
     (case j of
        JNum l \<Rightarrow> (case parse_digits l of
                     Some n \<Rightarrow> if n < 2 ^ 64 then (n, True) else (v, False)
                   | None \<Rightarrow> (v, False))
      | JNull \<Rightarrow> (v, True)
      | _ \<Rightarrow> (v, False))"

text \<open>A pointer is allocated before the value is looked at.\<close>

definition dec_pointer :: "'a \<Rightarrow> 'a decoder \<Rightarrow> 'a option decoder" where
  "dec_pointer zero dec j p =
     (case j of
        JNull \<Rightarrow> (None, True)
      | _ \<Rightarrow> let (v, ok) = dec j (case p of Some v \<Rightarrow> v | None \<Rightarrow> zero) in (Some v, ok))"

text \<open>
  Field names match without regard to case, where a long s and the Kelvin sign count as letters.
\<close>

fun fold_key :: "string \<Rightarrow> string" where
  "fold_key (a # b # c # s) =
     (if code a = 0xE2 \<and> code b = 0x84 \<and> code c = 0xAA then CHR ''k'' # fold_key s
      else if code a = 0xC5 \<and> code b = 0xBF then CHR ''s'' # fold_key (c # s)
      else to_lower_char a # fold_key (b # c # s))"
| "fold_key [a, b] =
     (if code a = 0xC5 \<and> code b = 0xBF then ''s'' else [to_lower_char a, to_lower_char b])"
| "fold_key s = ToLower s"

declare fold_key.simps [simp del]

lemma fold_key_ascii:
  "list_all (\<lambda>c. code c < 128) s \<Longrightarrow> fold_key s = ToLower s"
  by (induction s rule: fold_key.induct) (auto simp: fold_key.simps ToLower_def)

text \<open>A struct is a list of fields, each with its name in lower case.\<close>

type_synonym 's field = "string \<times> 's decoder"

definition dec_field :: "string \<Rightarrow> ('s \<Rightarrow> 'a) \<Rightarrow> (('a \<Rightarrow> 'a) \<Rightarrow> 's \<Rightarrow> 's) \<Rightarrow> 'a decoder \<Rightarrow> 's field" where
  "dec_field name get upd dec = (name, \<lambda>j s. let (v, ok) = dec j (get s) in (upd (\<lambda>_. v) s, ok))"

definition dec_member :: "'s field list \<Rightarrow> 's \<times> bool \<Rightarrow> string \<times> json \<Rightarrow> 's \<times> bool" where
  "dec_member fields = (\<lambda>(s, ok) (k, j).
     case map_of fields (fold_key k) of
       None \<Rightarrow> (s, ok)
     | Some dec \<Rightarrow> (let (s', ok') = dec j s in (s', ok \<and> ok')))"

definition dec_struct :: "'s field list \<Rightarrow> 's decoder" where
  "dec_struct fields j s =
     (case j of
        JObj ms \<Rightarrow> foldl (dec_member fields) (s, True) ms
      | JNull \<Rightarrow> (s, True)
      | _ \<Rightarrow> (s, False))"

text \<open>
  A slice is its elements and the rest of its array. Elements of a slice that is filled a second
  time start with what is in the array at their place.
\<close>

type_synonym 'a slice = "'a list \<times> 'a list"

fun dec_elements :: "'a \<Rightarrow> 'a decoder \<Rightarrow> json list \<Rightarrow> 'a list \<Rightarrow> 'a slice \<times> bool" where
  "dec_elements zero dec [] array = (([], array), True)"
| "dec_elements zero dec (j # js) array =
     (let (v, ok) = dec j (case array of [] \<Rightarrow> zero | old # _ \<Rightarrow> old);
          ((vs, rest), ok') = dec_elements zero dec js (tl array)
      in ((v # vs, rest), ok \<and> ok'))"

definition dec_slice :: "'a \<Rightarrow> 'a decoder \<Rightarrow> 'a slice decoder" where
  "dec_slice zero dec j sl =
     (case j of
        JNull \<Rightarrow> (([], []), True)
      | JArr [] \<Rightarrow> (([], []), True)
      | JArr js \<Rightarrow> dec_elements zero dec js (fst sl @ snd sl)
      | _ \<Rightarrow> (sl, False))"

lemma dec_member_other:
  assumes "map_of fields (fold_key k) = None"
  shows "dec_member fields acc (k, j) = acc"
  using assms by (cases acc) (simp add: dec_member_def)

lemma dec_member_field:
  assumes "map_of fields (fold_key k) = Some dec" "dec j s = (s', ok')"
  shows "dec_member fields (s, ok) (k, j) = (s', ok \<and> ok')"
  using assms by (simp add: dec_member_def)

end
