(* ===== verification/Operator_State.thy ===== *)
theory Operator_State
  imports Cluster Go_Http Go_Json_Decode
begin

text \<open>
  The state that the controllers of the operator share: the two singletons of
  \<open>controllers/config\<close>, the process environment, the global variables of
  \<open>controllers/grafana\<close> and \<open>controllers/model\<close>, and what has been published on the channel
  \<open>common.ControllerEvents\<close>, oldest first; \<open>'w\<close> is the world outside the process. A call of a
  controller is one step on this state: the interleaving of controllers within a call is left
  out; the blocking of the channel and which of its receivers gets a message are in
  \<open>Controller_Events\<close>.
\<close>

record ControllerState =
  DashboardSelectors :: "LabelSelector list option"
  DashboardNamespaceSelector :: "LabelSelector option"
  AdminUrl :: string
  GrafanaReady :: bool
  ClientTimeout :: int
  AdminUser :: string

definition zero_ControllerState :: ControllerState where
  "zero_ControllerState =
     \<lparr>DashboardSelectors = None, DashboardNamespaceSelector = None, AdminUrl = [], GrafanaReady = False,
      ClientTimeout = 0, AdminUser = []\<rparr>"

record 'w operator =
  op_World :: 'w
  op_Config :: ControllerConfig
  op_Channels :: NotificationControllerConfig
  op_Env :: environment
  op_grafanaId :: string
  op_grafanaPw :: string
  op_GrafanaKey :: string
  op_HyperauthUrl :: string
  op_Events :: "ControllerState list"

type_synonym ('w, 'a) operation = "('w operator, 'a) prog"

text \<open>A function that only acts on the world.\<close>

definition on_world :: "('w \<Rightarrow> 'a \<times> 'w) \<Rightarrow> ('w, 'a) operation" where
  "on_world f s = (let (r, w) = f (op_World s) in (Done r, s\<lparr>op_World := w\<rparr>))"

definition on_config :: "(ControllerConfig \<Rightarrow> ControllerConfig) \<Rightarrow> ('w, unit) operation" where
  "on_config f = modify (\<lambda>s. s\<lparr>op_Config := f (op_Config s)\<rparr>)"

definition publish :: "ControllerState \<Rightarrow> ('w, unit) operation" where
  "publish st = modify (\<lambda>s. s\<lparr>op_Events := op_Events s @ [st]\<rparr>)"

definition Getenv :: "string \<Rightarrow> 'w operator \<Rightarrow> string" where
  "Getenv v s = (case op_Env s v of Some x \<Rightarrow> x | None \<Rightarrow> [])"

text \<open>Loops: a body for every element, and a body that appends to a list.\<close>

fun for_each :: "('a \<Rightarrow> ('s, unit) prog) \<Rightarrow> 'a list \<Rightarrow> ('s, unit) prog" where
  "for_each body [] = ret ()"
| "for_each body (x # xs) = seq (body x) (\<lambda>_. for_each body xs)"

fun collect :: "('a \<Rightarrow> ('s, 'b) prog) \<Rightarrow> 'a list \<Rightarrow> ('s, 'b list) prog" where
  "collect body [] = ret []"
| "collect body (x # xs) = seq (body x) (\<lambda>y. seq (collect body xs) (\<lambda>ys. ret (y # ys)))"

text \<open>The text of a struct: its members in the order of its fields.\<close>

definition object_text :: "(string \<times> string) list \<Rightarrow> string" where
  "object_text members = ''{'' @ Join '','' (map member_text members) @ ''}''"

lemma keeps_for_each: "(\<And>x. keeps g (body x)) \<Longrightarrow> keeps g (for_each body xs)"
  by (induction xs) (simp_all add: keeps_seq)

lemma keeps_collect: "(\<And>x. keeps g (body x)) \<Longrightarrow> keeps g (collect body xs)"
  by (induction xs) (simp_all add: keeps_seq)

lemma on_world_simps [simp]:
  "f (op_World s) = (r, w) \<Longrightarrow> on_world f s = (Done r, s\<lparr>op_World := w\<rparr>)"
  by (simp add: on_world_def)

lemma keeps_on_world: "(\<And>s w. g (s\<lparr>op_World := w\<rparr>) = g s) \<Longrightarrow> keeps g (on_world f)"
  by (simp add: keeps_def on_world_def split: prod.split)

subsection \<open>How a program may change a part of the state\<close>

text \<open>
  \<open>view\<close> is the part of the state and \<open>R\<close> the changes that are allowed; a program keeps to them
  on every path, failures and panics included. If no change is allowed and allowed changes
  compose, then programs that keep to them compose.
\<close>

definition evolves :: "('s \<Rightarrow> 'b) \<Rightarrow> ('b \<Rightarrow> 'b \<Rightarrow> bool) \<Rightarrow> ('s, 'a) prog \<Rightarrow> bool" where
  "evolves view R m \<longleftrightarrow> (\<forall>s. R (view s) (view (snd (m s))))"

lemma evolvesD: "evolves view R m \<Longrightarrow> m s = (r, s') \<Longrightarrow> R (view s) (view s')"
  by (metis evolves_def snd_conv)

lemma evolves_modify: "(\<And>s. R (view s) (view (f s))) \<Longrightarrow> evolves view R (modify f)"
  by (simp add: evolves_def)

locale evolution =
  fixes view :: "'s \<Rightarrow> 'b" and R :: "'b \<Rightarrow> 'b \<Rightarrow> bool"
  assumes unchanged: "R x x"
    and compose: "R x y \<Longrightarrow> R y z \<Longrightarrow> R x z"
begin

lemma evolves_keeps: "keeps view m \<Longrightarrow> evolves view R m"
  by (simp add: evolves_def keeps_def unchanged)

lemma evolves_seq:
  assumes "evolves view R m" "\<And>a. evolves view R (f a)"
  shows "evolves view R (seq m f)"
  unfolding evolves_def
proof
  fix s
  obtain r s1 where m: "m s = (r, s1)" by (cases "m s")
  show "R (view s) (view (snd (seq m f s)))"
  proof (cases r)
    case (Done a)
    obtain q s2 where f: "f a s1 = (q, s2)" by (cases "f a s1")
    show ?thesis
      using compose [OF evolvesD [OF assms(1) m] evolvesD [OF assms(2) f]] by (simp add: m Done f)
  qed (use evolvesD [OF assms(1) m] in \<open>simp_all add: m\<close>)
qed

lemma evolves_for_each: "(\<And>x. x \<in> set xs \<Longrightarrow> evolves view R (body x)) \<Longrightarrow> evolves view R (for_each body xs)"
  by (induction xs) (simp_all add: evolves_keeps evolves_seq)

end

subsection \<open>Worlds with a record\<close>

text \<open>
  A world that keeps a list of what was sent outside, and what a program sends when it completes.
\<close>

definition sent :: "('w \<times> 'r list) operator \<Rightarrow> 'r list" where
  "sent s = snd (op_World s)"

definition emits :: "'r list \<Rightarrow> ('w \<times> 'r list, 'a) operation \<Rightarrow> bool" where
  "emits rqs m \<longleftrightarrow> (\<forall>s a s'. m s = (Done a, s') \<longrightarrow> sent s' = sent s @ rqs)"

lemma emitsD: "emits rqs m \<Longrightarrow> m s = (Done a, s') \<Longrightarrow> sent s' = sent s @ rqs"
  by (simp add: emits_def)

lemma emits_basic [simp]: "emits [] (ret a)" "emits [] (of_go r)" "emits [] (gets f)"
  by (auto simp: emits_def)

lemma emits_keeps: "keeps op_World m \<Longrightarrow> emits [] m"
  by (auto simp: emits_def sent_def dest!: keepsD)

lemma emits_seq: "emits xs m \<Longrightarrow> (\<And>a. emits ys (f a)) \<Longrightarrow> emits (xs @ ys) (seq m f)"
  by (fastforce simp: emits_def seq_Done_iff)

lemma emits_seq_pure: "emits xs m \<Longrightarrow> (\<And>a. emits [] (f a)) \<Longrightarrow> emits xs (seq m f)"
  using emits_seq [of xs m "[]" f] by simp

lemma emits_of_go [simp]: "emits rqs (seq (of_go (Inr a)) f) = emits rqs (f a)"
  by (simp add: emits_def seq_def)

lemma emits_for_each:
  "(\<And>x. emits (g x) (body x)) \<Longrightarrow> emits (concat (map g xs)) (for_each body xs)"
  by (induction xs) (simp_all add: emits_seq)

lemma emits_on_world:
  assumes "\<And>w. snd (snd (f w)) = snd w"
  shows "emits [] (on_world f)"
  unfolding emits_def
proof (intro allI impI)
  fix s a s'
  assume "on_world f s = (Done a, s')"
  then show "sent s' = sent s @ []"
    using assms [of "op_World s"] by (auto simp: on_world_def sent_def split: prod.splits)
qed

end
