(* ===== verification/Dashboard_Client.thy ===== *)
theory Dashboard_Client
  imports Operator_State
begin

text \<open>
  The client of Grafana's HTTP interface for dashboards and folders:
  \<open>controllers/grafanadashboard/grafana_client.go\<close>. Every method sends one or two requests as the
  administrator, and gives the answer together with an error, because the code goes on with an
  answer that was only partly understood.

  \<open>cl_prepare\<close> is what \<open>url.Parse\<close>, \<open>url.UserPassword\<close> and \<open>http.NewRequest\<close> make of a url, a user
  and a password: the url of the request, or the error. \<open>cl_json_error\<close> is the message of
  \<open>encoding/json\<close> for a text that does not fit, \<open>cl_pointer\<close> how \<open>fmt\<close> prints a pointer to a number.
\<close>

subsection \<open>Types\<close>

record GrafanaResponse =
  gr_ID :: "nat option"
  gr_OrgID :: "nat option"
  gr_Message :: "string option"
  gr_Slug :: "string option"
  gr_Version :: "int option"
  gr_Status :: "string option"
  gr_UID :: "string option"
  gr_URL :: "string option"
  gr_FolderId :: "int option"
  gr_FolderName :: string

record GrafanaDashboard_json =
  gd_ID :: "nat option"
  gd_UID :: "string option"
  gd_Title :: "string option"
  gd_Version :: "nat option"

record GrafanaDashboardMeta =
  gm_FolderID :: "nat option"
  gm_FolderTitle :: "string option"
  gm_Version :: "nat option"

record GrafanaDashboardResponse =
  gdr_Meta :: "GrafanaDashboardMeta option"
  gdr_Dashboard :: "GrafanaDashboard_json option"

text \<open>Two fields of the list entry have the same name in json, so neither is filled.\<close>

record GrafanaDashboardListGetResponse =
  gl_Id :: "nat option"
  gl_Uid :: string
  gl_Title :: string
  gl_Uri :: string
  gl_Url :: string
  gl_Type :: string
  gl_FolderId :: int

record GrafanaFolderResponse =
  gf_ID :: "int option"
  gf_Title :: string
  gf_UID :: string

abbreviation dec_ptr_string :: "string option decoder" where "dec_ptr_string \<equiv> dec_pointer [] dec_string"
abbreviation dec_ptr_uint :: "nat option decoder" where "dec_ptr_uint \<equiv> dec_pointer 0 dec_uint"
abbreviation dec_ptr_int :: "int option decoder" where "dec_ptr_int \<equiv> dec_pointer 0 dec_int"

definition response_fields :: "GrafanaResponse field list" where
  "response_fields =
     [dec_field ''id'' gr_ID gr_ID_update dec_ptr_uint,
      dec_field ''orgid'' gr_OrgID gr_OrgID_update dec_ptr_uint,
      dec_field ''message'' gr_Message gr_Message_update dec_ptr_string,
      dec_field ''slug'' gr_Slug gr_Slug_update dec_ptr_string,
      dec_field ''version'' gr_Version gr_Version_update dec_ptr_int,
      dec_field ''resp'' gr_Status gr_Status_update dec_ptr_string,
      dec_field ''uid'' gr_UID gr_UID_update dec_ptr_string,
      dec_field ''url'' gr_URL gr_URL_update dec_ptr_string,
      dec_field ''folderid'' gr_FolderId gr_FolderId_update dec_ptr_int,
      dec_field ''foldername'' gr_FolderName gr_FolderName_update dec_string]"

definition dashboard_fields :: "GrafanaDashboard_json field list" where
  "dashboard_fields =
     [dec_field ''id'' gd_ID gd_ID_update dec_ptr_uint,
      dec_field ''uid'' gd_UID gd_UID_update dec_ptr_string,
      dec_field ''title'' gd_Title gd_Title_update dec_ptr_string,
      dec_field ''version'' gd_Version gd_Version_update dec_ptr_uint]"

definition meta_fields :: "GrafanaDashboardMeta field list" where
  "meta_fields =
     [dec_field ''folderid'' gm_FolderID gm_FolderID_update dec_ptr_uint,
      dec_field ''foldertitle'' gm_FolderTitle gm_FolderTitle_update dec_ptr_string,
      dec_field ''version'' gm_Version gm_Version_update dec_ptr_uint]"

definition dashboard_response_fields :: "GrafanaDashboardResponse field list" where
  "dashboard_response_fields =
     [dec_field ''meta'' gdr_Meta gdr_Meta_update
        (dec_pointer \<lparr>gm_FolderID = None, gm_FolderTitle = None, gm_Version = None\<rparr> (dec_struct meta_fields)),
      dec_field ''dashboard'' gdr_Dashboard gdr_Dashboard_update
        (dec_pointer \<lparr>gd_ID = None, gd_UID = None, gd_Title = None, gd_Version = None\<rparr> (dec_struct dashboard_fields))]"

definition list_entry_fields :: "GrafanaDashboardListGetResponse field list" where
  "list_entry_fields =
     [dec_field ''id'' gl_Id gl_Id_update dec_ptr_uint,
      dec_field ''uid'' gl_Uid gl_Uid_update dec_string,
      dec_field ''title'' gl_Title gl_Title_update dec_string,
      dec_field ''uri'' gl_Uri gl_Uri_update dec_string,
      dec_field ''type'' gl_Type gl_Type_update dec_string]"

definition zero_list_entry :: GrafanaDashboardListGetResponse where
  "zero_list_entry =
     \<lparr>gl_Id = None, gl_Uid = [], gl_Title = [], gl_Uri = [], gl_Url = [], gl_Type = [], gl_FolderId = 0\<rparr>"

definition folder_fields :: "GrafanaFolderResponse field list" where
  "folder_fields =
     [dec_field ''id'' gf_ID gf_ID_update dec_ptr_int,
      dec_field ''title'' gf_Title gf_Title_update dec_string,
      dec_field ''uid'' gf_UID gf_UID_update dec_string]"

definition newFolderResponse :: GrafanaFolderResponse where
  "newFolderResponse = \<lparr>gf_ID = Some 0, gf_Title = [], gf_UID = []\<rparr>"

definition newResponse :: GrafanaResponse where
  "newResponse =
     \<lparr>gr_ID = Some 0, gr_OrgID = Some 0, gr_Message = Some ''(empty)'', gr_Slug = Some [],
      gr_Version = Some 0, gr_Status = Some ''(empty)'', gr_UID = Some [], gr_URL = Some [],
      gr_FolderId = None, gr_FolderName = []\<rparr>"

definition newDashboardResponse :: GrafanaDashboardResponse where
  "newDashboardResponse =
     \<lparr>gdr_Meta = None,
      gdr_Dashboard = Some \<lparr>gd_ID = Some 0, gd_UID = Some [], gd_Title = Some [], gd_Version = Some 0\<rparr>\<rparr>"

subsection \<open>Requests\<close>

record 'w GrafanaClient =
  cl_url :: string
  cl_user :: string
  cl_password :: string
  cl_prepare :: "string \<Rightarrow> string \<Rightarrow> string \<Rightarrow> string + string"
  cl_Do :: "'w http_do"
  cl_json_error :: "string \<Rightarrow> string"
  cl_pointer :: "int \<Rightarrow> string"

definition setHeaders :: "(string \<times> string) list" where
  "setHeaders =
     [(''Accept'', ''application/json''), (''Content-Type'', ''application/json''),
      (''User-Agent'', ''grafana-operator'')]"

text \<open>The part that the methods have in common, up to \<open>r.client.Do(req)\<close>.\<close>

definition send_request :: "'w GrafanaClient \<Rightarrow> string \<Rightarrow> string \<Rightarrow> string \<Rightarrow> ('w, string + http_response) operation" where
  "send_request c method path body =
     (case cl_prepare c (cl_url c @ path) (cl_user c) (cl_password c) of
        Inl err \<Rightarrow> ret (Inl err)
      | Inr url \<Rightarrow>
          on_world (cl_Do c \<lparr>rq_Method = method, rq_Url = url, rq_Header = setHeaders, rq_Body = body\<rparr>))"

text \<open>And the end: read the body and unmarshal it into the answer.\<close>

definition read_answer :: "'w GrafanaClient \<Rightarrow> 'a decoder \<Rightarrow> 'a \<Rightarrow> http_response \<Rightarrow> 'a \<times> string option" where
  "read_answer c dec response resp =
     (case ReadAll resp of
        Inl err \<Rightarrow> (response, Some err)
      | Inr data \<Rightarrow>
          (let (answer, ok) = Unmarshal dec data response
           in (answer, if ok then None else Some (cl_json_error c data))))"

definition unexpected_status :: "string \<Rightarrow> http_response \<Rightarrow> string" where
  "unexpected_status what resp =
     ''error '' @ what @ '', expected status 200 but got '' @ Itoa (resp_StatusCode resp)"

subsection \<open>Methods\<close>

definition GetListDashboard :: "'w GrafanaClient \<Rightarrow> ('w, GrafanaDashboardResponse list \<times> string option) operation" where
  "GetListDashboard c =
     seq (send_request c ''GET'' ''/api/search'' []) (\<lambda>r.
     case r of
       Inl err \<Rightarrow> ret ([], Some err)
     | Inr resp \<Rightarrow>
         if resp_StatusCode resp = 404 then ret ([], None)
         else if resp_StatusCode resp \<noteq> 200 then ret ([], Some (unexpected_status ''searching for dashboard'' resp))
         else (case ReadAll resp of
                 Inl err \<Rightarrow> ret ([], Some err)
               | Inr data \<Rightarrow>
                   (let ((entries, _), ok) = Unmarshal (dec_slice zero_list_entry (dec_struct list_entry_fields)) data ([], [])
                    in if list_ex (\<lambda>res. gl_Type res = ''dash-db'') entries
                       then of_go (Inl NilDeref)
                       else ret ([], if ok then None else Some (cl_json_error c data)))))"

definition GetDashboard :: "'w GrafanaClient \<Rightarrow> string \<Rightarrow> ('w, GrafanaDashboardResponse \<times> string option) operation" where
  "GetDashboard c uid =
     seq (send_request c ''GET'' (''/api/dashboards/uid/'' @ uid) []) (\<lambda>r.
     case r of
       Inl err \<Rightarrow> ret (newDashboardResponse, Some err)
     | Inr resp \<Rightarrow>
         if resp_StatusCode resp = 404 then ret (newDashboardResponse, None)
         else if resp_StatusCode resp \<noteq> 200
         then ret (newDashboardResponse, Some (unexpected_status ''searching for dashboard'' resp))
         else ret (read_answer c (dec_struct dashboard_response_fields) newDashboardResponse resp))"

definition getAllFolders :: "'w GrafanaClient \<Rightarrow> ('w, GrafanaFolderResponse list \<times> string option) operation" where
  "getAllFolders c =
     seq (send_request c ''GET'' ''/api/folders'' []) (\<lambda>r.
     case r of
       Inl err \<Rightarrow> ret ([], Some err)
     | Inr resp \<Rightarrow>
         if resp_StatusCode resp \<noteq> 200
         then ret ([], if resp_StatusCode resp = 503 then None else Some (unexpected_status ''getting folders'' resp))
         else (let ((folders, _), err) =
                 read_answer c (dec_slice \<lparr>gf_ID = None, gf_Title = [], gf_UID = []\<rparr> (dec_struct folder_fields)) ([], []) resp
               in ret (folders, err)))"

definition NonNamespacedFolderName :: string where "NonNamespacedFolderName = ''Non-Namespaced''"

definition CreateOrUpdateFolder :: "'w GrafanaClient \<Rightarrow> string \<Rightarrow> ('w, GrafanaFolderResponse \<times> string option) operation" where
  "CreateOrUpdateFolder c folderInputName =
     seq (getAllFolders c) (\<lambda>(allfolders, err).
     case err of
       Some e \<Rightarrow> ret (newFolderResponse, Some e)
     | None \<Rightarrow>
         (case List.find (\<lambda>folder. gf_Title folder = folderInputName) allfolders of
            Some folder \<Rightarrow> ret (folder, None)
          | None \<Rightarrow>
              (let title = if folderInputName = [] then NonNamespacedFolderName else folderInputName
               in seq (send_request c ''POST'' ''/api/folders'' (object_text [(''title'', Marshal_string title)])) (\<lambda>r.
                  case r of
                    Inl e \<Rightarrow> ret (newFolderResponse, Some e)
                  | Inr resp \<Rightarrow>
                      if resp_StatusCode resp \<noteq> 200
                      then (if resp_StatusCode resp = 503
                            then ret (\<lparr>gf_ID = None, gf_Title = [], gf_UID = []\<rparr>, None)
                            else ret (newFolderResponse, Some (unexpected_status ''creating folder'' resp)))
                      else ret (read_answer c (dec_struct folder_fields) newFolderResponse resp)))))"

text \<open>
  A raw message is checked and compacted when it is marshalled: white space between the tokens
  is left out, and the characters that HTML cares about are escaped.
\<close>

fun compact :: "bool \<Rightarrow> string \<Rightarrow> string" where
  "compact in_string [] = []"
| "compact False (c # s) =
     (if is_json_space c then compact False s else c # compact (c = quote) s)"
| "compact True (c # d # e # s) =
     (if c = backslash then c # d # compact True (e # s)
      else if c = quote then c # compact False (d # e # s)
      else if code c = 226 \<and> line_separator d e
      then backslash # CHR ''u'' # ''202'' @ hexd (code e mod 16) # compact True s
      else (if c = CHR ''<'' \<or> c = CHR ''>'' \<or> c = CHR ''&'' then encode_byte c else [c]) @ compact True (d # e # s))"
| "compact True [c, d] =
     (if c = backslash then [c, d]
      else (if c = CHR ''<'' \<or> c = CHR ''>'' \<or> c = CHR ''&'' then encode_byte c else [c]) @ compact (c \<noteq> quote) [d])"
| "compact True [c] = (if c = CHR ''<'' \<or> c = CHR ''>'' \<or> c = CHR ''&'' then encode_byte c else [c])"

definition Marshal_raw :: "string \<Rightarrow> string option" where
  "Marshal_raw raw = (if parse_json raw = None then None else Some (compact False raw))"

definition Marshal_GrafanaRequest :: "string \<Rightarrow> int \<Rightarrow> string \<Rightarrow> string option" where
  "Marshal_GrafanaRequest dashboard folderID folderName =
     map_option (\<lambda>raw. object_text
         [(''dashboard'', raw), (''folderId'', Itoa folderID), (''folderName'', Marshal_string folderName),
          (''overwrite'', ''true'')])
       (Marshal_raw dashboard)"

definition CreateOrUpdateDashboard :: "'w GrafanaClient \<Rightarrow> string \<Rightarrow> int \<Rightarrow> string
    \<Rightarrow> ('w, GrafanaResponse \<times> string option) operation" where
  "CreateOrUpdateDashboard c dashboard folderID folderName =
     (case Marshal_GrafanaRequest dashboard folderID folderName of
        None \<Rightarrow> ret (newResponse, Some (cl_json_error c dashboard))
      | Some raw \<Rightarrow>
          seq (send_request c ''POST'' ''/api/dashboards/db'' raw) (\<lambda>r.
          case r of
            Inl err \<Rightarrow> ret (newResponse, Some err)
          | Inr resp \<Rightarrow>
              if resp_StatusCode resp \<noteq> 200 \<and> resp_StatusCode resp \<noteq> 503
              then ret (newResponse, Some (unexpected_status ''creating dashboard'' resp))
              else ret (read_answer c (dec_struct response_fields) newResponse resp)))"

definition DeleteDashboardByUID :: "'w GrafanaClient \<Rightarrow> string \<Rightarrow> ('w, GrafanaResponse \<times> string option) operation" where
  "DeleteDashboardByUID c uid =
     seq (send_request c ''DELETE'' (''/api/dashboards/uid/'' @ uid) []) (\<lambda>r.
     case r of
       Inl err \<Rightarrow> ret (newResponse, Some err)
     | Inr resp \<Rightarrow>
         if resp_StatusCode resp \<noteq> 200
         then ret (newResponse, Some (unexpected_status ''deleting dashboard'' resp))
         else ret (read_answer c (dec_struct response_fields) newResponse resp))"

definition getFolderUID :: "'w GrafanaClient \<Rightarrow> int \<Rightarrow> ('w, string + string) operation" where
  "getFolderUID c i =
     seq (send_request c ''GET'' (''/api/folders/id/'' @ Itoa i) []) (\<lambda>r.
     case r of
       Inl err \<Rightarrow> ret (Inl err)
     | Inr resp \<Rightarrow>
         if resp_StatusCode resp \<noteq> 200 then ret (Inl (unexpected_status (''finding folder '' @ cl_pointer c i) resp))
         else (let (response, err) = read_answer c (dec_struct folder_fields) newFolderResponse resp
               in ret (case err of Some e \<Rightarrow> Inl e | None \<Rightarrow> Inr (gf_UID response))))"

definition DeleteFolder :: "'w GrafanaClient \<Rightarrow> int option \<Rightarrow> ('w, string option) operation" where
  "DeleteFolder c deleteID =
     seq (of_go (deref deleteID)) (\<lambda>i.
     seq (getFolderUID c i) (\<lambda>u.
     case u of
       Inl err \<Rightarrow> ret (Some err)
     | Inr deleteUID \<Rightarrow>
         seq (send_request c ''DELETE'' (''/api/folders/'' @ deleteUID) []) (\<lambda>r.
         case r of
           Inl err \<Rightarrow> ret (Some err)
         | Inr resp \<Rightarrow>
             if resp_StatusCode resp \<noteq> 200 then ret (Some (unexpected_status ''deleting folder'' resp))
             else (case ReadAll resp of
                     Inl err \<Rightarrow> ret (Some err)
                   | Inr data \<Rightarrow>
                       (let (response, ok) = Unmarshal (dec_struct response_fields) data newResponse
                        in seq (of_go (deref (gr_Message response))) (\<lambda>_.
                             ret (if ok then None else Some (cl_json_error c data))))))))"

fun SafeToDelete :: "GrafanaDashboardRef list \<Rightarrow> int option \<Rightarrow> bool go" where
  "SafeToDelete [] i = Inr True"
| "SafeToDelete (dashboard # dashlist) i =
     go_bind (deref (ref_FolderId dashboard)) (\<lambda>a.
     go_bind (deref i) (\<lambda>b.
       if a = b then Inr False else SafeToDelete dashlist i))"

end
