(* ===== verification/Dashboard_Pipeline.thy ===== *)
theory Dashboard_Pipeline
  imports Go_Effect Go_Http Go_Json_Decode Cluster
begin

text \<open>
  The pipeline of a dashboard: \<open>controllers/grafanadashboard/dashboard_pipeline.go\<close>. It obtains
  the json of the dashboard from the source with the highest priority that works, skips it when
  nothing changed, fills in the datasources, checks the json and overwrites the members that
  Grafana and the operator own.

  The libraries are the functions of the record \<open>'w pipeline_env\<close>: the HTTP client, the path that
  \<open>url.ParseRequestURI\<close> finds, the jsonnet virtual machine (import path, file name, source), the
  client of the Kubernetes API and the messages of \<open>encoding/json\<close>. \<open>'w\<close> is the world
  behind them. The numbers of a dashboard pass through \<open>float64\<close>; how one is written again is the
  parameter \<open>mf\<close> of \<open>Go_Json_Marshal\<close>.
\<close>

subsection \<open>State\<close>

datatype SourceType = SourceTypeJson | SourceTypeJsonnet | SourceTypeUnknown

definition grafanaComDashboardApiUrlRoot :: string where
  "grafanaComDashboardApiUrlRoot = ''https://grafana.com/api/dashboards''"

text \<open>A value of \<open>Board\<close>: what the json had, or the folder id that the pipeline puts in.\<close>

datatype board_value = Any json | Int64Ptr "int option"

text \<open>The fields of \<open>DashboardPipelineImpl\<close>, and the world.\<close>

record 'w pipeline =
  pl_Dashboard :: GrafanaDashboard
  pl_JSON :: string
  pl_Board :: "(string \<times> board_value) list option"
  pl_Hash :: string
  pl_World :: 'w

record 'w pipeline_env =
  http_Get :: "string \<Rightarrow> 'w \<Rightarrow> (string + http_response) \<times> 'w"
  ParseRequestURI_Path :: "string \<Rightarrow> string option"
  EvaluateSnippet :: "string \<Rightarrow> string \<Rightarrow> string \<Rightarrow> string + string"
  Get_ConfigMap :: "ObjectKey \<Rightarrow> 'w \<Rightarrow> string + ConfigMap"
  Update_Dashboard :: "GrafanaDashboard \<Rightarrow> 'w \<Rightarrow> string option \<times> GrafanaDashboard \<times> 'w"
  json_message :: "string \<Rightarrow> string"

definition NewDashboardPipeline :: "GrafanaDashboard \<Rightarrow> 'w \<Rightarrow> 'w pipeline" where
  "NewDashboardPipeline dashboard w =
     \<lparr>pl_Dashboard = dashboard, pl_JSON = [], pl_Board = None, pl_Hash = [], pl_World = w\<rparr>"

definition NewHash :: "'w pipeline \<Rightarrow> string" where "NewHash = pl_Hash"

definition dspec :: "'w pipeline \<Rightarrow> GrafanaDashboardSpec" where
  "dspec pl = dash_Spec (pl_Dashboard pl)"

definition set_JSON :: "string \<Rightarrow> ('w pipeline, unit) prog" where
  "set_JSON json = modify (\<lambda>pl. pl\<lparr>pl_JSON := json\<rparr>)"

definition get_url :: "'w pipeline_env \<Rightarrow> string \<Rightarrow> ('w pipeline, string + http_response) prog" where
  "get_url env url pl =
     (let (r, w) = http_Get env url (pl_World pl) in (Done r, pl\<lparr>pl_World := w\<rparr>))"

subsection \<open>Where the json comes from\<close>

text \<open>The kind of a file, from the extension of its path.\<close>

definition getFileType :: "string \<Rightarrow> SourceType" where
  "getFileType path =
     (let fragments = Split (CHR ''.'') path
      in if length fragments = 0 then SourceTypeUnknown
         else let extension = ToLower (TrimSpace (last fragments))
              in if extension = ''json'' then SourceTypeJson
                 else if extension = ''grafonnet'' then SourceTypeJsonnet
                 else if extension = ''jsonnet'' then SourceTypeJsonnet
                 else SourceTypeUnknown)"

definition loadJsonnet :: "'w pipeline_env \<Rightarrow> (string \<rightharpoonup> conf_value) \<Rightarrow> string \<Rightarrow> ('w pipeline, string) prog" where
  "loadJsonnet env vs source =
     seq (of_go (GetConfigString vs ConfigJsonnetBasePath JsonnetBasePath)) (\<lambda>jsonnetLocation.
     seq (gets pl_Dashboard) (\<lambda>d.
       of_result (EvaluateSnippet env jsonnetLocation (om_Name (dash_meta d)) source)))"

text \<open>
  The end of both downloads: the json is stored in the specification of the resource when it
  differs. \<open>Client.Update\<close> writes the answer of the API server into the object.
\<close>

definition store_json :: "'w pipeline_env \<Rightarrow> ('w pipeline, unit) prog" where
  "store_json env pl =
     (if pl_JSON pl \<noteq> dash_Json (dspec pl)
      then let d = (pl_Dashboard pl)\<lparr>dash_Spec := (dspec pl)\<lparr>dash_Json := pl_JSON pl\<rparr>\<rparr>;
               (err, d', w) = Update_Dashboard env d (pl_World pl);
               pl' = pl\<lparr>pl_Dashboard := d', pl_World := w\<rparr>
           in (case err of Some e \<Rightarrow> (Fail e, pl') | None \<Rightarrow> (Done (), pl'))
      else (Done (), pl))"

definition loadDashboardFromURL :: "'w pipeline_env \<Rightarrow> (string \<rightharpoonup> conf_value) \<Rightarrow> ('w pipeline, unit) prog" where
  "loadDashboardFromURL env vs =
     seq (gets (\<lambda>pl. dash_Url (dspec pl))) (\<lambda>url.
     case ParseRequestURI_Path env url of
       None \<Rightarrow> fail (''invalid url '' @ url)
     | Some path \<Rightarrow>
         seq (get_url env url) (\<lambda>r.
         case r of
           Inl _ \<Rightarrow> fail (''cannot request '' @ url)
         | Inr resp \<Rightarrow>
             if resp_StatusCode resp \<noteq> 200
             then fail (''request failed with status '' @ Itoa (resp_StatusCode resp))
             else seq (of_result (ReadAll resp)) (\<lambda>body.
                  seq (case getFileType path of
                         SourceTypeJsonnet \<Rightarrow> seq (loadJsonnet env vs body) set_JSON
                       | _ \<Rightarrow> set_JSON body) (\<lambda>_.
                  store_json env))))"

text \<open>The answer to the request for the revisions of a dashboard.\<close>

record dashboardRevisionItem =
  Revision :: int

record listDashboardRevisionsResponse =
  lr_Items :: "dashboardRevisionItem slice"
  lr_OrderBy :: string
  lr_Direction :: string

definition item_fields :: "dashboardRevisionItem field list" where
  "item_fields = [dec_field ''revision'' Revision Revision_update dec_int]"

definition list_response_fields :: "listDashboardRevisionsResponse field list" where
  "list_response_fields =
     [dec_field ''items'' lr_Items lr_Items_update (dec_slice \<lparr>Revision = 0\<rparr> (dec_struct item_fields)),
      dec_field ''orderby'' lr_OrderBy lr_OrderBy_update dec_string,
      dec_field ''direction'' lr_Direction lr_Direction_update dec_string]"

definition unmarshalListDashboardRevisionsResponseBody ::
    "'w pipeline_env \<Rightarrow> http_response \<Rightarrow> string + listDashboardRevisionsResponse" where
  "unmarshalListDashboardRevisionsResponseBody env body =
     go_bind (ReadAll body) (\<lambda>bodyBytes.
       let (resp, ok) = Unmarshal (dec_struct list_response_fields) bodyBytes
                          \<lparr>lr_Items = ([], []), lr_OrderBy = [], lr_Direction = []\<rparr>
       in if ok then Inr resp
          else Inl (''failed to unmarshal raw json to list dashboard revisions response: '' @ json_message env bodyBytes))"

definition getMaximumRevisionFromListDashboardRevisionsResponse ::
    "listDashboardRevisionsResponse \<Rightarrow> int go" where
  "getMaximumRevisionFromListDashboardRevisionsResponse resp =
     (let items = map Revision (fst (lr_Items resp))
      in if lr_OrderBy resp = ''revision'' \<and> lr_Direction resp = ''asc''
         then if items = [] then Inl IndexOutOfRange else Inr (last items)
         else if lr_OrderBy resp = ''revision'' \<and> lr_Direction resp = ''desc''
         then index items 0
         else Inr (foldl (\<lambda>maxRevision r. if maxRevision < r then r else maxRevision) 0 items))"

text \<open>
  The url of a dashboard: \<open>url.Parse\<close>, \<open>path.Join\<close> and \<open>String\<close> on the constant root and
  parts without slashes or dots.
\<close>

definition com_url :: "string list \<Rightarrow> string" where
  "com_url parts = grafanaComDashboardApiUrlRoot @ concat (map (\<lambda>p. CHR ''/'' # p) parts)"

definition getLatestRevisionForGrafanaComDashboard :: "'w pipeline_env \<Rightarrow> int \<Rightarrow> ('w pipeline, int) prog" where
  "getLatestRevisionForGrafanaComDashboard env dashboard_id =
     (let u = com_url [Itoa dashboard_id, ''revisions'']
      in seq (get_url env u) (\<lambda>r.
         case r of
           Inl err \<Rightarrow> fail (''failed to make request to '' @ u @ '': '' @ err)
         | Inr resp \<Rightarrow>
             if resp_StatusCode resp \<noteq> 200
             then fail (''request to list available grafana dashboard revisions failed with status code '' @ [CHR 0x27] @ Itoa (resp_StatusCode resp) @ [CHR 0x27])
             else seq (wrap ''failed to unmarshal list dashboard revisions response: ''
                         (of_result (unmarshalListDashboardRevisionsResponseBody env resp))) (\<lambda>listResponse.
                  if fst (lr_Items listResponse) = []
                  then fail ''list dashboard revisions request succeeded but no revisions returned''
                  else of_go (getMaximumRevisionFromListDashboardRevisionsResponse listResponse))))"

definition getGrafanaComDashboardUrl :: "'w pipeline_env \<Rightarrow> GrafanaComSource \<Rightarrow> ('w pipeline, string) prog" where
  "getGrafanaComDashboardUrl env grafanaComSource =
     seq (case com_Revision grafanaComSource of
            None \<Rightarrow> wrap (''failed to get latest revision for dashboard id '' @ Itoa (com_Id grafanaComSource) @ '': '')
                      (getLatestRevisionForGrafanaComDashboard env (com_Id grafanaComSource))
          | Some revision \<Rightarrow> ret revision) (\<lambda>revision.
       ret (com_url [Itoa (com_Id grafanaComSource), ''revisions'', Itoa revision, ''download'']))"

definition loadDashboardFromGrafanaCom :: "'w pipeline_env \<Rightarrow> GrafanaComSource \<Rightarrow> ('w pipeline, unit) prog" where
  "loadDashboardFromGrafanaCom env source =
     seq (wrap ''failed to get grafana.com dashboard url: '' (getGrafanaComDashboardUrl env source)) (\<lambda>url.
     seq (get_url env url) (\<lambda>r.
       case r of
         Inl err \<Rightarrow> fail (''failed to request dashboard url '' @ [CHR 0x27] @ url @ [CHR 0x27] @ '': '' @ err)
       | Inr resp \<Rightarrow>
           seq (of_result (ReadAll resp)) (\<lambda>body.
           seq (set_JSON body) (\<lambda>_. store_json env))))"

definition loadDashboardFromConfigMap :: "'w pipeline_env \<Rightarrow> ConfigMapKeySelector \<Rightarrow> ('w pipeline, unit) prog" where
  "loadDashboardFromConfigMap env ref =
     seq (gets (\<lambda>pl. Get_ConfigMap env
            \<lparr>key_Namespace = om_Namespace (dash_meta (pl_Dashboard pl)), key_Name = cmk_Name ref\<rparr> (pl_World pl))) (\<lambda>r.
     seq (of_result r) (\<lambda>cm. set_JSON (label_get (cm_Data cm) (cmk_Key ref))))"

text \<open>A source that fails is logged, and the next one is tried; \<open>obtainJson\<close> from its end.\<close>

definition otherwise :: "('w pipeline, unit) prog \<Rightarrow> ('w pipeline, unit) prog \<Rightarrow> ('w pipeline, unit) prog" where
  "otherwise load next_source = on_error load (\<lambda>_. next_source)"

definition unable :: "('w pipeline, unit) prog" where
  "unable = fail ''unable to obtain dashboard contents''"

definition try_jsonnet :: "'w pipeline_env \<Rightarrow> (string \<rightharpoonup> conf_value) \<Rightarrow> ('w pipeline, unit) prog" where
  "try_jsonnet env vs =
     seq (gets (\<lambda>pl. dash_Jsonnet (dspec pl))) (\<lambda>source.
       if source \<noteq> [] then otherwise (seq (loadJsonnet env vs source) set_JSON) unable else unable)"

definition try_json :: "'w pipeline_env \<Rightarrow> (string \<rightharpoonup> conf_value) \<Rightarrow> ('w pipeline, unit) prog" where
  "try_json env vs =
     seq (gets (\<lambda>pl. dash_Json (dspec pl))) (\<lambda>json.
       if json \<noteq> [] then set_JSON json else try_jsonnet env vs)"

definition try_config_map :: "'w pipeline_env \<Rightarrow> (string \<rightharpoonup> conf_value) \<Rightarrow> ('w pipeline, unit) prog" where
  "try_config_map env vs =
     seq (gets (\<lambda>pl. dash_ConfigMapRef (dspec pl))) (\<lambda>ref.
       case ref of
         Some r \<Rightarrow> otherwise (loadDashboardFromConfigMap env r) (try_json env vs)
       | None \<Rightarrow> try_json env vs)"

definition try_url :: "'w pipeline_env \<Rightarrow> (string \<rightharpoonup> conf_value) \<Rightarrow> ('w pipeline, unit) prog" where
  "try_url env vs =
     seq (gets (\<lambda>pl. dash_Url (dspec pl))) (\<lambda>url.
       if url \<noteq> [] then otherwise (loadDashboardFromURL env vs) (try_config_map env vs)
       else try_config_map env vs)"

definition obtainJson :: "'w pipeline_env \<Rightarrow> (string \<rightharpoonup> conf_value) \<Rightarrow> ('w pipeline, unit) prog" where
  "obtainJson env vs =
     seq (gets dspec) (\<lambda>s.
       if dash_Url s \<noteq> [] \<and> dash_GrafanaCom s \<noteq> None
       then fail ''both dashboard url and grafana.com source specified''
       else (case dash_GrafanaCom s of
               Some source \<Rightarrow> otherwise (loadDashboardFromGrafanaCom env source) (try_url env vs)
             | None \<Rightarrow> try_url env vs))"

subsection \<open>From the json to the request\<close>

text \<open>What a failed \<open>Unmarshal\<close> leaves in \<open>Board\<close> is not read again.\<close>

fun resolve_inputs :: "GrafanaDashboardDatasource list \<Rightarrow> string \<Rightarrow> string + string" where
  "resolve_inputs [] currentJson = Inr currentJson"
| "resolve_inputs (input # inputs) currentJson =
     (if DatasourceName input = [] \<or> InputName input = []
      then Inl ''invalid datasource input rule, input or datasource empty''
      else resolve_inputs inputs (ReplaceAll currentJson (''${'' @ InputName input @ ''}'') (DatasourceName input)))"

definition resolveDatasources :: "('w pipeline, unit) prog" where
  "resolveDatasources =
     seq (gets (\<lambda>pl. resolve_inputs (dash_Datasources (dspec pl)) (pl_JSON pl))) (\<lambda>r.
     seq (of_result r) set_JSON)"

definition validateJson :: "'w pipeline_env \<Rightarrow> ('w pipeline, unit) prog" where
  "validateJson env pl =
     (case Parse (pl_Dashboard pl) (pl_JSON pl) of
        None \<Rightarrow> (Fail (json_message env (if pl_JSON pl \<noteq> [] then pl_JSON pl else dash_Json (dspec pl))), pl\<lparr>pl_Board := None\<rparr>)
      | Some contents \<Rightarrow> (Done (), pl\<lparr>pl_Board := map_option (map (\<lambda>(k, v). (k, Any v))) contents\<rparr>))"

definition set_member :: "string \<Rightarrow> board_value \<Rightarrow> ('w pipeline, unit) prog" where
  "set_member k v pl =
     (case pl_Board pl of
        None \<Rightarrow> (Panic NilMapWrite, pl)
      | Some b \<Rightarrow> (Done (), pl\<lparr>pl_Board := Some (AList.update k v b)\<rparr>))"

fun Marshal_value :: "(string \<Rightarrow> string) \<Rightarrow> board_value \<Rightarrow> string" where
  "Marshal_value mf (Any j) = Marshal mf j"
| "Marshal_value mf (Int64Ptr None) = ''null''"
| "Marshal_value mf (Int64Ptr (Some n)) = Itoa n"

definition Marshal_board :: "(string \<Rightarrow> string) \<Rightarrow> (string \<times> board_value) list \<Rightarrow> string" where
  "Marshal_board mf b =
     ''{'' @ Join '','' (map (\<lambda>(k, v). Marshal_string k @ '':'' @ Marshal_value mf v) (sort_key fst b)) @ ''}''"

definition ProcessDashboard :: "'w pipeline_env \<Rightarrow> (string \<Rightarrow> string) \<Rightarrow> (string \<rightharpoonup> conf_value) \<Rightarrow> string \<Rightarrow> int option
    \<Rightarrow> string \<Rightarrow> bool \<Rightarrow> ('w pipeline, string option) prog" where
  "ProcessDashboard env mf vs knownHash folderId folderName forceRecreate =
     seq (obtainJson env vs) (\<lambda>_.
     seq (gets (\<lambda>pl. Hash (pl_Dashboard pl))) (\<lambda>hash.
       if hash = knownHash \<and> \<not> forceRecreate
       then seq (modify (\<lambda>pl. pl\<lparr>pl_Hash := knownHash\<rparr>)) (\<lambda>_. ret None)
       else
         seq (modify (\<lambda>pl. pl\<lparr>pl_Hash := hash\<rparr>)) (\<lambda>_.
         seq resolveDatasources (\<lambda>_.
         seq (validateJson env) (\<lambda>_.
         seq (set_member ''id'' (Any JNull)) (\<lambda>_.
         seq (\<lambda>pl. of_go (UID (pl_Dashboard pl)) pl) (\<lambda>uid.
         seq (set_member ''uid'' (Any (JStr uid))) (\<lambda>_.
         seq (set_member ''folderId'' (Int64Ptr folderId)) (\<lambda>_.
         seq (set_member ''folderName'' (Any (JStr folderName))) (\<lambda>_.
         seq (gets pl_Board) (\<lambda>board.
           ret (Some (TrimSpace (Marshal_board mf (case board of Some b \<Rightarrow> b | None \<Rightarrow> [])))))))))))))))"

end
