(* ===== verification/Dashboard_Properties.thy ===== *)
theory Dashboard_Properties
  imports Dashboard_Pipeline
begin

text \<open>
  What the pipeline of a dashboard achieves: the placeholders of datasources, the choice of a
  revision on grafana.com, the request that is sent, and when nothing is sent.
\<close>

subsection \<open>Datasource inputs\<close>

text \<open>
  The reference: a text with holes, where a hole \<open>${name}\<close> with a rule is filled with the
  datasource and one without a rule stays.
\<close>

datatype piece = Text string | Hole string

fun piece_text :: "piece \<Rightarrow> string" where
  "piece_text (Text t) = t"
| "piece_text (Hole n) = ''${'' @ n @ ''}''"

fun plain_piece :: "piece \<Rightarrow> bool" where
  "plain_piece (Text t) = (CHR ''$'' \<notin> set t)"
| "plain_piece (Hole n) = (CHR ''$'' \<notin> set n \<and> CHR ''}'' \<notin> set n)"

definition plain_input :: "GrafanaDashboardDatasource \<Rightarrow> bool" where
  "plain_input i \<longleftrightarrow> CHR ''$'' \<notin> set (InputName i) \<and> CHR ''}'' \<notin> set (InputName i)
     \<and> CHR ''$'' \<notin> set (DatasourceName i)"

fun fill :: "(string \<rightharpoonup> string) \<Rightarrow> piece \<Rightarrow> piece" where
  "fill rules (Text t) = Text t"
| "fill rules (Hole n) = (case rules n of Some d \<Rightarrow> Text d | None \<Rightarrow> Hole n)"

definition input_rules :: "GrafanaDashboardDatasource list \<Rightarrow> string \<rightharpoonup> string" where
  "input_rules inputs = map_of (map (\<lambda>i. (InputName i, DatasourceName i)) inputs)"

lemma HasPrefix_Cons: "HasPrefix (a # s) (b # p) \<longleftrightarrow> a = b \<and> HasPrefix s p"
  by (auto simp: HasPrefix_def)

lemma ReplaceAll_skip:
  assumes "c \<notin> set t"
  shows "ReplaceAll (t @ s) (c # p) new = t @ ReplaceAll s (c # p) new"
  using assms by (induction t) (auto simp: HasPrefix_Cons ReplaceAll.simps(2))

lemma ReplaceAll_prefix:
  assumes "old \<noteq> []"
  shows "ReplaceAll (old @ s) old new = new @ ReplaceAll s old new"
  using assms by (cases old) (simp_all add: HasPrefix_def ReplaceAll.simps(2))

lemma prefix_until:
  assumes "c \<notin> set n" "c \<notin> set x" "take (length x + 1) (n @ c # s) = x @ [c]"
  shows "n = x"
  using assms
proof (induction x arbitrary: n)
  case Nil
  then show ?case by (cases n) auto
next
  case (Cons a x)
  then show ?case by (cases n) auto
qed

lemma HasPrefix_hole:
  assumes "CHR ''}'' \<notin> set n" "CHR ''}'' \<notin> set x"
  shows "HasPrefix (''${'' @ n @ CHR ''}'' # s) (''${'' @ x @ ''}'') \<longleftrightarrow> n = x"
  using prefix_until [OF assms, of s] by (auto simp: HasPrefix_def)

lemma ReplaceAll_piece:
  assumes "plain_piece p" "CHR ''}'' \<notin> set x"
  shows "ReplaceAll (piece_text p @ s) (''${'' @ x @ ''}'') d =
    piece_text (fill [x \<mapsto> d] p) @ ReplaceAll s (''${'' @ x @ ''}'') d"
proof (cases p)
  case (Text t)
  with assms ReplaceAll_skip [of "CHR ''$''" t s] show ?thesis by simp
next
  case (Hole n)
  with assms have n: "CHR ''$'' \<notin> set n" "CHR ''}'' \<notin> set n" by simp_all
  show ?thesis
  proof (cases "n = x")
    case True
    with ReplaceAll_prefix [of "''${'' @ x @ ''}''" s d] Hole show ?thesis by simp
  next
    case False
    with HasPrefix_hole [OF n(2) assms(2), of s] have "\<not> HasPrefix (''${'' @ n @ CHR ''}'' # s) (''${'' @ x @ ''}'')" by simp
    moreover have "ReplaceAll ((CHR ''{'' # n @ ''}'') @ s) (CHR ''$'' # CHR ''{'' # x @ ''}'') d
        = (CHR ''{'' # n @ ''}'') @ ReplaceAll s (CHR ''$'' # CHR ''{'' # x @ ''}'') d"
      using n by (intro ReplaceAll_skip) auto
    ultimately show ?thesis using False Hole by (simp add: ReplaceAll.simps(2))
  qed
qed

lemma ReplaceAll_template:
  assumes "list_all plain_piece ps" "CHR ''}'' \<notin> set x"
  shows "ReplaceAll (concat (map piece_text ps)) (''${'' @ x @ ''}'') d
    = concat (map piece_text (map (fill [x \<mapsto> d]) ps))"
  using assms(1) by (induction ps) (simp_all only: list.map concat.simps list.pred_inject ReplaceAll_piece [OF _ assms(2)] ReplaceAll.simps(1))

lemma fill_plain: "plain_piece p \<Longrightarrow> CHR ''$'' \<notin> set d \<Longrightarrow> plain_piece (fill [x \<mapsto> d] p)"
  by (cases p) auto

lemma fill_Cons: "fill (input_rules (i # is)) p = fill (input_rules is) (fill [InputName i \<mapsto> DatasourceName i] p)"
  by (cases p) (auto simp: input_rules_def)

lemma resolve_template:
  assumes "list_all plain_piece ps" "list_all plain_input inputs"
  shows "resolve_inputs inputs (concat (map piece_text ps)) =
    (if list_ex (\<lambda>i. DatasourceName i = [] \<or> InputName i = []) inputs
     then Inl ''invalid datasource input rule, input or datasource empty''
     else Inr (concat (map piece_text (map (fill (input_rules inputs)) ps))))"
  using assms
proof (induction inputs arbitrary: ps)
  case Nil
  have "fill (input_rules []) p = p" for p by (cases p) (auto simp: input_rules_def)
  then have "fill (input_rules []) = id" by (simp add: fun_eq_iff)
  then show ?case by simp
next
  case (Cons i "is")
  let ?ps = "map (fill [InputName i \<mapsto> DatasourceName i]) ps"
  have "list_all plain_piece ?ps"
    using Cons.prems by (auto simp: list_all_iff plain_input_def intro: fill_plain)
  from Cons.IH [OF this] Cons.prems
  have ih: "resolve_inputs is (concat (map piece_text ?ps)) =
    (if list_ex (\<lambda>i. DatasourceName i = [] \<or> InputName i = []) is
     then Inl ''invalid datasource input rule, input or datasource empty''
     else Inr (concat (map piece_text (map (fill (input_rules is)) ?ps))))" by simp
  have "ReplaceAll (concat (map piece_text ps)) (''${'' @ InputName i @ ''}'') (DatasourceName i)
      = concat (map piece_text ?ps)"
    using Cons.prems by (intro ReplaceAll_template) (auto simp: plain_input_def)
  with ih show ?case by (simp add: fill_Cons comp_def)
qed

subsection \<open>Revisions\<close>

definition revisions :: "listDashboardRevisionsResponse \<Rightarrow> int list" where
  "revisions r = map Revision (fst (lr_Items r))"

definition ordered_as_claimed :: "listDashboardRevisionsResponse \<Rightarrow> bool" where
  "ordered_as_claimed r \<longleftrightarrow> list_all (\<lambda>n. 0 \<le> n) (revisions r)
     \<and> (if lr_OrderBy r = ''revision'' \<and> lr_Direction r = ''asc'' then sorted (revisions r) else True)
     \<and> (if lr_OrderBy r = ''revision'' \<and> lr_Direction r = ''desc'' then sorted (rev (revisions r)) else True)"

lemma foldl_max: "foldl (\<lambda>m r. if m < r then r else m) (k::int) xs = Max (insert k (set xs))"
proof (induction xs arbitrary: k)
  case (Cons x xs)
  have "Max (insert k (insert x (set xs))) = Max (insert (max k x) (set xs))"
    by (cases "xs = []") (simp_all add: max.assoc)
  with Cons show ?case by (simp add: max_def insert_commute)
qed simp

lemma sorted_last_Max: "sorted xs \<Longrightarrow> xs \<noteq> [] \<Longrightarrow> last xs = Max (set (xs::int list))"
  by (rule Max_eqI [symmetric]) (auto simp: sorted_iff_nth_mono in_set_conv_nth last_conv_nth intro!: exI [of _ "length xs - 1"])

lemma maximum_revision_Max:
  assumes "ordered_as_claimed r" "revisions r \<noteq> []"
  shows "getMaximumRevisionFromListDashboardRevisionsResponse r = Inr (Max (set (revisions r)))"
proof -
  have "index (revisions r) 0 = Inr (Max (set (revisions r)))" if "sorted (rev (revisions r))"
    using sorted_last_Max [OF that] assms(2) by (simp add: index_def last_rev hd_conv_nth)
  moreover have "foldl (\<lambda>m r. if m < r then r else m) 0 (revisions r) = Max (set (revisions r))"
    using assms by (simp add: foldl_max ordered_as_claimed_def list_all_iff max_def Max_ge_iff)
  ultimately show ?thesis
    using assms sorted_last_Max [of "revisions r"]
    by (simp add: getMaximumRevisionFromListDashboardRevisionsResponse_def revisions_def [symmetric] ordered_as_claimed_def Let_def split: if_splits)
qed

subsection \<open>The request\<close>

fun canonical_value :: "(string \<Rightarrow> string) \<Rightarrow> board_value \<Rightarrow> json" where
  "canonical_value mf (Any j) = canonical mf j"
| "canonical_value mf (Int64Ptr None) = JNull"
| "canonical_value mf (Int64Ptr (Some n)) = JNum (Itoa n)"

fun int64_value :: "board_value \<Rightarrow> bool" where
  "int64_value (Int64Ptr (Some n)) = in_int64 n"
| "int64_value _ = True"

lemma reads_value:
  assumes "\<And>l. valid_number (mf l)"
  shows "reads (Marshal_value mf v) (canonical_value mf v)"
proof (cases "(mf, v)" rule: Marshal_value.cases)
  case 1
  then show ?thesis using reads_Marshal [of mf] assms by simp
next
  case 2
  then show ?thesis by (simp add: reads_literals)
next
  case 3
  then show ?thesis by (simp add: reads_number valid_number_Itoa)
qed

lemma numbers_ok_value:
  assumes "\<And>l. number_in_range (mf l)" "int64_value v"
  shows "numbers_ok (canonical_value mf v)"
  using assms by (cases "(mf, v)" rule: Marshal_value.cases) (simp_all add: numbers_ok_canonical number_in_range_Itoa)

definition board_members :: "(string \<Rightarrow> string) \<Rightarrow> (string \<times> board_value) list \<Rightarrow> (string \<times> json) list" where
  "board_members mf b = map (\<lambda>(k, v). (k, canonical_value mf v)) (sort_key fst b)"

lemma reads_board:
  assumes "\<And>l. valid_number (mf l)"
  shows "reads (Marshal_board mf b) (JObj (board_members mf b))"
proof -
  let ?ps = "map (\<lambda>(k, v). (k, Marshal_value mf v)) (sort_key fst b)"
  have "list_all2 (\<lambda>(k, t) (k', j). k = k' \<and> reads t j) ?ps (board_members mf b)"
    using reads_value [OF assms] by (auto simp: board_members_def list.rel_map list_all2_same)
  from reads_object [OF this] show ?thesis
    by (simp add: Marshal_board_def member_text_def comp_def case_prod_unfold)
qed

lemma parse_board:
  assumes "\<And>l. valid_number (mf l)"
  shows "parse_json (Marshal_board mf b) = Some (JObj (board_members mf b))"
  using assms by (intro parse_json_reads reads_board)

lemma map_of_board_members:
  assumes "distinct (map fst b)"
  shows "map_of (map_members (board_members mf b)) k = map_option (canonical_value mf) (map_of b k)"
proof -
  have "map fst (board_members mf b) = map fst (sort_key fst b)"
    by (simp add: board_members_def case_prod_unfold comp_def)
  moreover have "mset (map fst (sort_key fst b)) = mset (map fst b)" by simp
  ultimately have d: "distinct (map fst (board_members mf b))" "distinct (map fst (sort_key fst b))"
    using assms by (metis mset_eq_imp_distinct_iff)+
  then have "map_of (rev (board_members mf b)) = map_of (board_members mf b)"
    by (subst map_of_inject_set) (auto simp: rev_map [symmetric])
  moreover have "map_of (sort_key fst b) = map_of b"
    using d assms by (subst map_of_inject_set) auto
  ultimately show ?thesis
    by (simp add: map_of_map_members board_members_def map_of_map)
qed

lemma Unmarshal_board:
  assumes "\<And>l. valid_number (mf l)" "\<And>l. number_in_range (mf l)" "list_all (int64_value \<circ> snd) b"
  shows "Unmarshal_map (Marshal_board mf b) = Some (Some (map_members (board_members mf b)))"
proof -
  have "list_all (\<lambda>(k, v). numbers_ok v) (board_members mf b)"
    using assms(3) numbers_ok_value [OF assms(2)] by (auto simp: list_all_iff board_members_def)
  then show ?thesis by (simp add: Unmarshal_map_def parse_board [OF assms(1)])
qed

lemma TrimSpace_board [simp]: "TrimSpace (Marshal_board mf b) = Marshal_board mf b"
  by (simp add: TrimSpace_def Marshal_board_def is_space_def code_marks)

lemma ProcessDashboard_sends:
  assumes "ProcessDashboard env mf vs known folderId folderName force pl = (Done (Some bytes), pl')"
  obtains contents uid where "Parse (pl_Dashboard pl') (pl_JSON pl') = Some (Some contents)"
    "UID (pl_Dashboard pl') = Inr uid" "pl_Hash pl' = Hash (pl_Dashboard pl')"
    "bytes = Marshal_board mf (AList.update ''folderName'' (Any (JStr folderName))
       (AList.update ''folderId'' (Int64Ptr folderId) (AList.update ''uid'' (Any (JStr uid))
       (AList.update ''id'' (Any JNull) (map (\<lambda>(k, v). (k, Any v)) contents)))))"
proof -
  obtain pl1 where "obtainJson env vs pl = (Done (), pl1)"
    using assms by (auto simp: ProcessDashboard_def seq_Done_iff)
  with assms that show thesis
    by (auto simp: ProcessDashboard_def seq_Done_iff set_member_def validateJson_def resolveDatasources_def
        set_JSON_def of_result_def of_go_def split: if_splits option.splits sum.splits)
qed

subsection \<open>Unchanged dashboards\<close>

text \<open>A dashboard whose source is not downloaded.\<close>

definition static_source :: "GrafanaDashboard \<Rightarrow> bool" where
  "static_source d \<longleftrightarrow> dash_Url (dash_Spec d) = [] \<and> dash_GrafanaCom (dash_Spec d) = None"

lemma keeps_set_JSON [simp]:
  "keeps pl_Dashboard (set_JSON j)" "keeps pl_World (set_JSON j)"
  by (simp_all add: set_JSON_def)

lemma keeps_loadJsonnet [simp]:
  "keeps pl_Dashboard (loadJsonnet env vs source)" "keeps pl_World (loadJsonnet env vs source)"
  unfolding loadJsonnet_def by (intro keeps_seq; simp)+

lemma keeps_config_map [simp]:
  "keeps pl_Dashboard (loadDashboardFromConfigMap env ref)" "keeps pl_World (loadDashboardFromConfigMap env ref)"
  unfolding loadDashboardFromConfigMap_def by (intro keeps_seq; simp)+

text \<open>The sources that need no download, with what they read from the specification.\<close>

lemma keeps_otherwise: "keeps g m \<Longrightarrow> keeps g n \<Longrightarrow> keeps g (otherwise m n)"
  by (simp add: otherwise_def keeps_on_error)

lemma keeps_gets: "(\<And>a. keeps g (f a)) \<Longrightarrow> keeps g (seq (gets h) f)"
  by (rule keeps_seq) simp_all

lemma keeps_static [simp]:
  "keeps pl_Dashboard (try_config_map env vs)" "keeps pl_World (try_config_map env vs)"
  unfolding try_config_map_def try_json_def try_jsonnet_def unable_def
  by (intro keeps_gets; auto split: option.split intro!: keeps_otherwise keeps_gets keeps_seq)+

lemma obtainJson_static:
  assumes "static_source (pl_Dashboard pl)" "obtainJson env vs pl = (r, pl')"
  shows "pl_Dashboard pl' = pl_Dashboard pl" "pl_World pl' = pl_World pl"
proof -
  have "obtainJson env vs pl = try_config_map env vs pl"
    using assms(1) by (simp add: obtainJson_def try_url_def static_source_def dspec_def)
  with assms(2) show "pl_Dashboard pl' = pl_Dashboard pl" "pl_World pl' = pl_World pl"
    by (metis keepsD keeps_static)+
qed

text \<open>What was obtained does not depend on the json, board and hash of an earlier run.\<close>

lemma ProcessDashboard_unchanged:
  assumes "obtainJson env vs pl = (Done (), pl1)" "Hash (pl_Dashboard pl1) = known"
  shows "ProcessDashboard env mf vs known folderId folderName False pl = (Done None, pl1\<lparr>pl_Hash := known\<rparr>)"
  using assms by (simp add: ProcessDashboard_def)

lemma ProcessDashboard_obtained:
  assumes "ProcessDashboard env mf vs known folderId folderName force pl = (Done r, pl')"
  obtains pl1 where "obtainJson env vs pl = (Done (), pl1)" "pl_Hash pl' = Hash (pl_Dashboard pl1)"
    "pl_Dashboard pl' = pl_Dashboard pl1" "pl_World pl' = pl_World pl1"
proof -
  obtain pl1 where "obtainJson env vs pl = (Done (), pl1)"
    using assms by (auto simp: ProcessDashboard_def seq_Done_iff)
  with assms that show thesis
    by (auto simp: ProcessDashboard_def seq_Done_iff set_member_def validateJson_def resolveDatasources_def
        set_JSON_def of_result_def of_go_def split: if_splits option.splits sum.splits)
qed

lemma list_all_update:
  assumes "list_all P b" "P (k, v)"
  shows "list_all P (AList.update k v b)"
  using assms by (induction b) auto

subsection \<open>Properties\<close>

text \<open>
  C12: what is sent to Grafana reads back as the dashboard that was parsed, with the id cleared,
  the uid of the resource, and the folder; every other member has the same value, its numbers
  as they were written.
\<close>
theorem sent_dashboard_reads_back:
  assumes "\<And>l. valid_number (mf l)" "\<And>l. number_in_range (mf l)"
    and "case folderId of None \<Rightarrow> True | Some n \<Rightarrow> in_int64 n"
    and "ProcessDashboard env mf vs known folderId folderName force pl = (Done (Some bytes), pl')"
  shows "\<exists>contents uid members. Parse (pl_Dashboard pl') (pl_JSON pl') = Some (Some contents)
     \<and> UID (pl_Dashboard pl') = Inr uid \<and> Unmarshal_map bytes = Some (Some members)
     \<and> map_of members = (map_option (canonical mf) \<circ> map_of contents)
         (''id'' \<mapsto> JNull, ''uid'' \<mapsto> JStr uid,
          ''folderId'' \<mapsto> (case folderId of None \<Rightarrow> JNull | Some n \<Rightarrow> JNum (Itoa n)),
          ''folderName'' \<mapsto> JStr folderName)"
proof -
  from assms(4) obtain contents uid where s: "Parse (pl_Dashboard pl') (pl_JSON pl') = Some (Some contents)"
    "UID (pl_Dashboard pl') = Inr uid"
    "bytes = Marshal_board mf (AList.update ''folderName'' (Any (JStr folderName))
       (AList.update ''folderId'' (Int64Ptr folderId) (AList.update ''uid'' (Any (JStr uid))
       (AList.update ''id'' (Any JNull) (map (\<lambda>(k, v). (k, Any v)) contents)))))" (is "_ = Marshal_board mf ?b")
    by (rule ProcessDashboard_sends)
  have c: "distinct (map fst contents)"
    using s(1) by (auto simp: Parse_def Unmarshal_map_def distinct_map_members split: option.splits json.splits if_splits)
  then have d: "distinct (map fst ?b)"
    by (simp add: distinct_update case_prod_unfold comp_def)
  have "int64_value (Int64Ptr folderId)" using assms(3) by (cases folderId) auto
  then have "list_all (int64_value \<circ> snd) ?b"
    by (intro list_all_update) (auto simp: list_all_iff)
  then have "Unmarshal_map bytes = Some (Some (map_members (board_members mf ?b)))"
    unfolding s(3) by (rule Unmarshal_board [OF assms(1,2)])
  moreover have "map_of (map_members (board_members mf ?b)) = (map_option (canonical mf) \<circ> map_of contents)
         (''id'' \<mapsto> JNull, ''uid'' \<mapsto> JStr uid,
          ''folderId'' \<mapsto> (case folderId of None \<Rightarrow> JNull | Some n \<Rightarrow> JNum (Itoa n)),
          ''folderName'' \<mapsto> JStr folderName)"
    by (rule ext) (auto simp: map_of_board_members [OF d] update_conv' map_of_map comp_def option.map_comp
        split: option.split)
  ultimately show ?thesis using s(1,2) by blast
qed

text \<open>An environment without any network, and a dashboard in it, for the examples.\<close>

definition offline :: "unit pipeline_env" where
  "offline = \<lparr>http_Get = (\<lambda>_ w. (Inl ''offline'', w)), ParseRequestURI_Path = Some,
     EvaluateSnippet = (\<lambda>_ _ _. Inl ''no jsonnet''), Get_ConfigMap = (\<lambda>_ _. Inl ''not found''),
     Update_Dashboard = (\<lambda>d w. (None, d, w)), json_message = (\<lambda>_. ''invalid json'')\<rparr>"

definition json_dashboard :: "string \<Rightarrow> GrafanaDashboard" where
  "json_dashboard json =
     \<lparr>dash_meta = new_meta ''d'' ''ns'' None None,
      dash_Spec = \<lparr>dash_Json = json, dash_Jsonnet = [], dash_Plugins = [], dash_Url = [],
        dash_ConfigMapRef = None, dash_Datasources = [], dash_CustomFolderName = [], dash_GrafanaCom = None\<rparr>\<rparr>"

lemma json_dashboard_obtained:
  assumes "json \<noteq> []"
  shows "obtainJson env vs (NewDashboardPipeline (json_dashboard json) w) =
    (Done (), (NewDashboardPipeline (json_dashboard json) w)\<lparr>pl_JSON := json\<rparr>)"
  using assms
  by (simp add: obtainJson_def try_url_def try_config_map_def try_json_def set_JSON_def dspec_def
      NewDashboardPipeline_def json_dashboard_def)

lemma json_dashboard_first:
  assumes "json \<noteq> []"
  shows "seq (obtainJson env vs) f (NewDashboardPipeline (json_dashboard json) w) =
    f () ((NewDashboardPipeline (json_dashboard json) w)\<lparr>pl_JSON := json\<rparr>)"
  using assms by (simp add: json_dashboard_obtained)

lemma parse_examples: "Unmarshal_map ''{}'' = Some (Some [])" "Unmarshal_map ''null'' = Some None"
  by code_simp+

lemmas process_simps = resolveDatasources_def validateJson_def set_member_def set_JSON_def Parse_def dspec_def
  NewDashboardPipeline_def json_dashboard_def

lemma empty_dashboard_sent:
  "\<exists>bytes pl'. ProcessDashboard offline mf vs known folderId folderName True
      (NewDashboardPipeline (json_dashboard ''{}'') ()) = (Done (Some bytes), pl')"
  unfolding ProcessDashboard_def json_dashboard_first [of "''{}''", simplified]
  by (simp add: process_simps parse_examples UID_def json_lookup_def)

lemma sent_dashboard_reads_back_witness:
  "\<exists>bytes pl' members. ProcessDashboard offline (\<lambda>_. ''0'') (\<lambda>_. None) [] (Some 7) ''team'' True
      (NewDashboardPipeline (json_dashboard ''{}'') ()) = (Done (Some bytes), pl')
     \<and> Unmarshal_map bytes = Some (Some members) \<and> map_of members ''folderId'' = Some (JNum ''7'')"
proof -
  obtain bytes pl' where p: "ProcessDashboard offline (\<lambda>_. ''0'') (\<lambda>_. None) [] (Some 7) ''team'' True
      (NewDashboardPipeline (json_dashboard ''{}'') ()) = (Done (Some bytes), pl')"
    using empty_dashboard_sent by blast
  have zero: "Itoa 0 = ''0''" "Itoa 7 = ''7''" by (simp_all add: Itoa_def digits.simps text_simps)
  have "valid_number ''0''" "number_in_range ''0''"
    using valid_number_Itoa [of 0] number_in_range_Itoa [of 0] by (simp_all add: zero in_int64_def)
  from sent_dashboard_reads_back [OF this _ p] show ?thesis
    using p by (fastforce simp: in_int64_def zero)
qed

text \<open>
  C29: a dashboard that is not downloaded is sent once: processing it again with the hash of the
  first time sends nothing, whatever the folder is then.
\<close>
theorem unchanged_dashboard_not_sent:
  assumes "static_source d"
    and "ProcessDashboard env mf vs known folderId folderName force (NewDashboardPipeline d w) = (Done r, pl')"
  shows "pl_Dashboard pl' = d \<and> NewHash pl' = Hash d
     \<and> fst (ProcessDashboard env mf' vs (NewHash pl') folderId' folderName' False (NewDashboardPipeline d (pl_World pl')))
       = Done None"
proof -
  obtain pl1 where o: "obtainJson env vs (NewDashboardPipeline d w) = (Done (), pl1)"
    "pl_Hash pl' = Hash (pl_Dashboard pl1)" "pl_Dashboard pl' = pl_Dashboard pl1" "pl_World pl' = pl_World pl1"
    using assms(2) by (rule ProcessDashboard_obtained)
  have "pl_Dashboard pl1 = d" "pl_World pl1 = w"
    using obtainJson_static [OF _ o(1)] assms(1) by (simp_all add: NewDashboardPipeline_def)
  with o ProcessDashboard_unchanged [OF o(1)] show ?thesis by (simp add: NewHash_def)
qed

lemma unchanged_dashboard_not_sent_witness:
  "\<exists>bytes pl'. ProcessDashboard offline (\<lambda>_. ''0'') (\<lambda>_. None) [] None ''team'' True
      (NewDashboardPipeline (json_dashboard ''{}'') ()) = (Done (Some bytes), pl')
     \<and> fst (ProcessDashboard offline (\<lambda>_. ''0'') (\<lambda>_. None) (NewHash pl') None ''team'' False
              (NewDashboardPipeline (json_dashboard ''{}'') ())) = Done None"
proof -
  obtain bytes pl' where p: "ProcessDashboard offline (\<lambda>_. ''0'') (\<lambda>_. None) [] None ''team'' True
      (NewDashboardPipeline (json_dashboard ''{}'') ()) = (Done (Some bytes), pl')"
    using empty_dashboard_sent by blast
  have "static_source (json_dashboard ''{}'')" by (simp add: static_source_def json_dashboard_def)
  from unchanged_dashboard_not_sent [OF this p, where folderId' = None and folderName' = "''team''"] p
  show ?thesis by (intro exI conjI) auto
qed

text \<open>
  C30: datasource inputs fill exactly their placeholders. On a text whose only dollar signs start
  placeholders, every placeholder with a rule becomes the datasource of the first such rule and
  the rest stays as it is; a rule with an empty side is an error, and the only one.
\<close>
theorem datasource_inputs_filled:
  assumes "list_all plain_piece ps" "list_all plain_input inputs"
  shows "resolve_inputs inputs (concat (map piece_text ps)) =
    (if list_ex (\<lambda>i. DatasourceName i = [] \<or> InputName i = []) inputs
     then Inl ''invalid datasource input rule, input or datasource empty''
     else Inr (concat (map piece_text (map (fill (input_rules inputs)) ps))))"
  using assms by (rule resolve_template)

lemma datasource_inputs_filled_witness:
  "resolve_inputs [\<lparr>InputName = ''DS'', DatasourceName = ''prom''\<rparr>] ''a ${DS} ${X}'' = Inr ''a prom ${X}''"
  using datasource_inputs_filled [of "[Text ''a '', Hole ''DS'', Text '' '', Hole ''X'']"
      "[\<lparr>InputName = ''DS'', DatasourceName = ''prom''\<rparr>]"]
  by (simp add: plain_input_def input_rules_def)

text \<open>
  The newest revision is used. If the list of revisions is sorted the way the answer says,
  and in whatever order otherwise, the revision that is downloaded is the greatest one.
\<close>
theorem newest_revision_used:
  assumes "ordered_as_claimed r" "revisions r \<noteq> []"
  shows "getMaximumRevisionFromListDashboardRevisionsResponse r = Inr (Max (set (revisions r)))"
  using assms by (rule maximum_revision_Max)

lemma newest_revision_used_witness:
  "getMaximumRevisionFromListDashboardRevisionsResponse
     \<lparr>lr_Items = ([\<lparr>Revision = 3\<rparr>, \<lparr>Revision = 2\<rparr>], []), lr_OrderBy = ''revision'', lr_Direction = ''desc''\<rparr> = Inr 3"
  using newest_revision_used [of "\<lparr>lr_Items = ([\<lparr>Revision = 3\<rparr>, \<lparr>Revision = 2\<rparr>], []), lr_OrderBy = ''revision'', lr_Direction = ''desc''\<rparr>"]
  by (simp add: ordered_as_claimed_def revisions_def)

subsection \<open>Observations\<close>

text \<open>The json \<open>null\<close> passes the validation and then makes the operator panic.\<close>

lemma null_dashboard_panics:
  "fst (ProcessDashboard env mf vs known folderId folderName True (NewDashboardPipeline (json_dashboard ''null'') w))
     = Panic NilMapWrite"
  unfolding ProcessDashboard_def json_dashboard_first [of "''null''", simplified]
  by (simp add: process_simps parse_examples)

text \<open>The error page of grafana.com is stored as the json of the dashboard.\<close>

lemma error_page_stored:
  assumes "http_Get env (com_url [Itoa i, ''revisions'', Itoa n, ''download'']) (pl_World pl) =
    (Inr \<lparr>resp_StatusCode = 404, resp_Body = page, resp_ReadError = None\<rparr>, w)"
  shows "pl_JSON (snd (loadDashboardFromGrafanaCom env \<lparr>com_Id = i, com_Revision = Some n\<rparr> pl)) = page"
  using assms
  by (simp add: loadDashboardFromGrafanaCom_def getGrafanaComDashboardUrl_def wrap_def get_url_def set_JSON_def
      store_json_def ReadAll_def Let_def split: prod.split option.split)

text \<open>
  The hash covers the name of a referenced configuration map and not its contents: with other
  contents the dashboard still counts as unchanged.
\<close>

lemma config_map_change_not_seen:
  assumes "static_source (pl_Dashboard pl)" "obtainJson env vs pl = (Done (), pl1)"
  shows "fst (ProcessDashboard env mf vs (Hash (pl_Dashboard pl)) folderId folderName False pl) = Done None"
  using ProcessDashboard_unchanged [OF assms(2)] obtainJson_static(1) [OF assms] by simp

end
