(* ===== verification/Dashboard_Client_Properties.thy ===== *)
theory Dashboard_Client_Properties
  imports Dashboard_Client Dashboard_Properties
begin

text \<open>
  The request that submits a dashboard: marshalling the bytes of the pipeline as a raw message
  keeps them, so Grafana reads the dashboard that the pipeline wrote.
\<close>

subsection \<open>Compacting what was marshalled changes nothing\<close>

definition compacted :: "string \<Rightarrow> bool" where
  "compacted t \<longleftrightarrow> (\<forall>rest. compact False (t @ rest) = t @ compact False rest)"

lemma compactedD: "compacted t \<Longrightarrow> compact False (t @ rest) = t @ compact False rest"
  by (simp add: compacted_def)

lemma compact_outside: "\<not> is_json_space c \<Longrightarrow> c \<noteq> quote \<Longrightarrow> compact False (c # s) = c # compact False s"
  by simp

lemma compacted_plain:
  assumes "list_all (\<lambda>c. \<not> is_json_space c \<and> c \<noteq> quote) t"
  shows "compacted t"
  using assms unfolding compacted_def by (induction t) simp_all

lemma compacted_append: "compacted t \<Longrightarrow> compacted u \<Longrightarrow> compacted (t @ u)"
  by (simp add: compacted_def)

lemma compacted_Cons: "\<not> is_json_space c \<Longrightarrow> c \<noteq> quote \<Longrightarrow> compacted u \<Longrightarrow> compacted (c # u)"
  by (simp add: compacted_def)

lemma compact_escaped: "compact True (backslash # d # s) = backslash # d # compact True s"
  by (cases s) simp_all

lemma backslash_not_quote [simp]: "backslash \<noteq> quote" "quote \<noteq> backslash"
  by (simp_all add: backslash_def quote_def)

lemma compact_end: "compact True (quote # s) = quote # compact False s"
proof -
  have "quote \<noteq> CHR ''<''" "quote \<noteq> CHR ''>''" "quote \<noteq> CHR ''&''" by (simp_all add: quote_def)
  then show ?thesis by (cases s rule: list.exhaust; cases "tl s") auto
qed

definition separator_next :: "char \<Rightarrow> string \<Rightarrow> bool" where
  "separator_next c s = (case s of d # e # _ \<Rightarrow> code c = 226 \<and> line_separator d e | _ \<Rightarrow> False)"

lemma compact_char:
  assumes "c \<noteq> backslash" "c \<noteq> quote" "c \<noteq> CHR ''<''" "c \<noteq> CHR ''>''" "c \<noteq> CHR ''&''" "\<not> separator_next c s"
  shows "compact True (c # s) = c # compact True s"
proof (cases s)
  case (Cons d t)
  then show ?thesis using assms by (cases t) (auto simp: separator_next_def)
qed (use assms in simp)

declare compact.simps [simp del]

lemma compact_Nil [simp]: "compact b [] = []" by (simp add: compact.simps)

lemma code_html: "code (CHR ''<'') = 60" "code (CHR ''>'') = 62" "code (CHR ''&'') = 38"
  by (simp_all add: code_def)

lemma code_neq: "code c \<noteq> code d \<Longrightarrow> c \<noteq> d" by auto

lemma compact_low:
  assumes "code c < 128" "c \<noteq> backslash" "c \<noteq> quote" "c \<noteq> CHR ''<''" "c \<noteq> CHR ''>''" "c \<noteq> CHR ''&''"
  shows "compact True (c # s) = c # compact True s"
  using assms by (intro compact_char) (auto simp: separator_next_def split: list.split)

lemma hexd_low:
  assumes "n < 16"
  shows "code (hexd n) < 128" "hexd n \<noteq> backslash" "hexd n \<noteq> quote" "hexd n \<noteq> CHR ''<''"
    "hexd n \<noteq> CHR ''>''" "hexd n \<noteq> CHR ''&''"
proof -
  have c: "code (hexd n) = (if n < 10 then 48 + n else 87 + n)" using assms by (simp add: hexd_def)
  show "code (hexd n) < 128" using c assms by simp
  show "hexd n \<noteq> backslash" "hexd n \<noteq> quote" "hexd n \<noteq> CHR ''<''" "hexd n \<noteq> CHR ''>''" "hexd n \<noteq> CHR ''&''"
    using c assms by (auto intro!: code_neq simp: code_html split: if_splits)
qed

lemma low_letters:
  "code (CHR ''u'') < 128" "code (CHR ''0'') < 128" "code (CHR ''2'') < 128"
  "CHR ''u'' \<noteq> backslash" "CHR ''0'' \<noteq> backslash" "CHR ''2'' \<noteq> backslash"
  "CHR ''u'' \<noteq> quote" "CHR ''0'' \<noteq> quote" "CHR ''2'' \<noteq> quote"
  by (simp_all add: code_def backslash_def quote_def)

lemma compact_hex: "n < 16 \<Longrightarrow> compact True (hexd n # s) = hexd n # compact True s"
  by (intro compact_low hexd_low)

lemma compact_escape_byte:
  "compact True (escape_byte c @ s) = escape_byte c @ compact True s"
proof -
  have "code c div 16 < 16" using code_less [of c] by simp
  then show ?thesis
    by (simp add: escape_byte_def compact_escaped compact_hex compact_low low_letters)
qed

lemma compact_encode_byte:
  assumes "\<not> separator_next c s"
  shows "compact True (encode_byte c @ s) = encode_byte c @ compact True s"
proof (cases "plain_byte c \<or> 128 \<le> code c")
  case True
  then have "c \<noteq> backslash" "c \<noteq> quote" "c \<noteq> CHR ''<''" "c \<noteq> CHR ''>''" "c \<noteq> CHR ''&''"
    using code_html by (auto simp: plain_byte_def)
  with compact_char [OF this assms] True show ?thesis by (simp add: encode_byte_def)
next
  case False
  then show ?thesis by (simp add: encode_byte_def compact_escape_byte)
qed

lemma encode_byte_high:
  assumes "encode_byte c @ s = x # t" "128 \<le> code x"
  shows "x = c \<and> t = s"
  using assms by (auto simp: encode_byte_def escape_byte_def split: if_splits)

lemma encode_string_high:
  assumes "encode_string s @ r = x # t" "128 \<le> code x" "s \<noteq> []"
  shows "s = x # tl s \<and> t = encode_string (tl s) @ r"
proof (cases s rule: encode_string.cases)
  case (1 c d e s')
  with assms show ?thesis
    using encode_byte_high [of c "encode_string (d # e # s') @ r" x t] by (auto split: if_splits)
qed (use assms encode_byte_high in \<open>fastforce+\<close>)

lemma separator_next_encode:
  assumes "separator_next c (encode_string s @ quote # r)"
  shows "separator_next c s"
proof -
  obtain d e t where t: "encode_string s @ quote # r = d # e # t" "code c = 226" "line_separator d e"
    using assms by (auto simp: separator_next_def split: list.splits)
  then have high: "128 \<le> code d" "128 \<le> code e" by (auto simp: line_separator_def)
  have "s \<noteq> []" using t(1) high by auto
  from encode_string_high [OF t(1) high(1) this] obtain s' where s': "s = d # s'" "encode_string s' @ quote # r = e # t"
    by (cases s) auto
  have "s' \<noteq> []" using s'(2) high by auto
  from encode_string_high [OF s'(2) high(2) this] s' t show ?thesis
    by (cases s') (auto simp: separator_next_def)
qed

lemma compact_string:
  "compact True (encode_string s @ quote # r) = encode_string s @ quote # compact False r"
proof (induction s rule: encode_string.induct, goal_cases)
  case (1 c d e s)
  show ?case
  proof (cases "code c = 226 \<and> line_separator d e")
    case True
    with 1(1) show ?thesis by (simp add: compact_escaped compact_low low_letters compact_hex)
  next
    case False
    then have "\<not> separator_next c (encode_string (d # e # s) @ quote # r)"
      using separator_next_encode by (fastforce simp: separator_next_def)
    from compact_encode_byte [OF this] 1(2) [OF False] show ?thesis
      unfolding encode_string.simps(1) if_not_P [OF False] append_assoc by simp
  qed
next
  case 2
  show ?case by (simp add: compact_end)
next
  case (3 c)
  have "\<not> separator_next c (quote # r)" by (auto simp: separator_next_def line_separator_def split: list.splits)
  from compact_encode_byte [OF this] show ?case by (simp add: compact_end)
next
  case (4 c d)
  have "\<not> separator_next c (encode_string [d] @ quote # r)"
    using separator_next_encode [of c "[d]" r] by (auto simp: separator_next_def)
  from compact_encode_byte [OF this] 4 show ?case by simp
qed

lemma compacted_string: "compacted (Marshal_string s)"
proof -
  have "\<not> is_json_space quote" using code_quote by (auto simp: is_json_space_def)
  then show ?thesis by (simp add: compacted_def Marshal_string_def compact.simps compact_string)
qed


text \<open>Numbers and literals have no white space and no quotes.\<close>

definition number_char :: "char \<Rightarrow> bool" where
  "number_char c \<longleftrightarrow> is_digit c \<or> c \<in> set ''+-.eE''"

lemma digits_number_char: "span_digits s = (ds, r) \<Longrightarrow> list_all number_char ds"
  by (auto simp: span_digits_def list_all_iff number_char_def dest: set_takeWhileD)

lemma number_char_parts:
  "parse_int_part s = Some (i, r) \<Longrightarrow> list_all number_char i"
  "parse_frac s = Some (i, r) \<Longrightarrow> list_all number_char i"
  "parse_exp s = Some (i, r) \<Longrightarrow> list_all number_char i"
  by (auto simp: parse_int_part_def parse_frac_def parse_exp_def number_char_def [of "CHR ''-''"]
      number_char_def [of "CHR ''+''"] number_char_def [of "CHR ''.''"] number_char_def [of "CHR ''e''"]
      number_char_def [of "CHR ''E''"] number_char_def [of "CHR ''0''"] is_digit_def code_marks
      dest!: digits_number_char split: list.splits if_splits prod.splits)

lemma valid_number_chars:
  assumes "valid_number l"
  shows "list_all number_char l"
  using assms number_char_parts
  by (fastforce simp: valid_number_def parse_number_def split: option.splits prod.splits)

lemma number_char_plain:
  assumes "number_char c"
  shows "\<not> is_json_space c \<and> c \<noteq> quote"
proof -
  have "CHR ''+'' \<noteq> quote" "CHR ''-'' \<noteq> quote" "CHR ''.'' \<noteq> quote" "CHR ''e'' \<noteq> quote" "CHR ''E'' \<noteq> quote"
    by (simp_all add: quote_def)
  with assms code_quote show ?thesis
    by (auto simp: number_char_def is_digit_def is_json_space_def code_marks)
qed

lemma compacted_number: "valid_number l \<Longrightarrow> compacted l"
  by (rule compacted_plain) (use valid_number_chars number_char_plain in \<open>auto simp: list_all_iff\<close>)

lemma mark_plain:
  "\<not> is_json_space (CHR '','')" "\<not> is_json_space (CHR '':'')" "\<not> is_json_space (CHR ''['')"
  "\<not> is_json_space (CHR '']'')" "\<not> is_json_space (CHR ''{'')" "\<not> is_json_space (CHR ''}'')"
  "CHR '','' \<noteq> quote" "CHR '':'' \<noteq> quote" "CHR ''['' \<noteq> quote" "CHR '']'' \<noteq> quote" "CHR ''{'' \<noteq> quote"
  "CHR ''}'' \<noteq> quote"
  by (simp_all add: is_json_space_def code_marks quote_def)

lemma compacted_literals: "compacted ''null''" "compacted ''true''" "compacted ''false''"
  by (rule compacted_plain; simp add: is_json_space_def code_def quote_def)+

lemma compacted_Nil [simp]: "compacted []" by (simp add: compacted_def)

lemma compacted_Join:
  assumes "list_all compacted ts"
  shows "compacted (Join '','' ts)"
  using assms
  by (induction "'','' :: string" ts rule: Join.induct) (auto intro!: compacted_append compacted_Cons simp: mark_plain)

lemma compacted_member:
  assumes "compacted t"
  shows "compacted (member_text (k, t))"
  using assms compacted_append [OF compacted_string compacted_Cons [OF mark_plain(2,8)]]
  by (simp add: member_text_def)

lemma compacted_object:
  assumes "list_all (\<lambda>(k, t). compacted t) ms"
  shows "compacted (''{'' @ Join '','' (map member_text ms) @ ''}'')"
proof -
  have "list_all compacted (map member_text ms)"
    using assms by (auto simp: list_all_iff intro: compacted_member)
  from compacted_Cons [OF mark_plain(5,11) compacted_append [OF compacted_Join [OF this]
        compacted_Cons [OF mark_plain(6,12) compacted_Nil]]]
  show ?thesis by simp
qed

lemma compacted_Marshal:
  assumes "\<And>l. valid_number (mf l)"
  shows "compacted (Marshal mf j)"
  using assms
proof (induction mf j rule: Marshal.induct)
  case (5 mf js)
  then have "compacted (Join '','' (map (Marshal mf) js))"
    by (intro compacted_Join) (auto simp: list_all_iff)
  from compacted_Cons [OF mark_plain(3,9) compacted_append [OF this compacted_Cons [OF mark_plain(4,10) compacted_Nil]]]
  show ?case by simp
next
  case (6 mf ms)
  have "list_all (\<lambda>(k, t). compacted t) (map_members (map (\<lambda>(k, v). (k, Marshal mf v)) ms))"
    using 6 set_map_members [of "map (\<lambda>(k, v). (k, Marshal mf v)) ms"] by (fastforce simp: list_all_iff)
  from compacted_object [OF this] show ?case by (simp add: member_text_def [abs_def])
qed (simp_all add: compacted_literals compacted_number compacted_string)

lemma compacted_board:
  assumes "\<And>l. valid_number (mf l)"
  shows "compacted (Marshal_board mf b)"
proof -
  have "compacted (Marshal_value mf v)" for v
    using compacted_Marshal [of mf] assms
    by (cases "(mf, v)" rule: Marshal_value.cases)
      (simp_all add: compacted_literals compacted_number valid_number_Itoa)
  then have "list_all (\<lambda>(k, t). compacted t) (map (\<lambda>(k, v). (k, Marshal_value mf v)) (sort_key fst b))"
    by (auto simp: list_all_iff)
  from compacted_object [OF this] show ?thesis
    by (simp add: Marshal_board_def member_text_def comp_def case_prod_unfold)
qed

lemma compact_compacted: "compacted t \<Longrightarrow> compact False t = t"
  using compactedD [of t "[]"] by simp

subsection \<open>Property\<close>

text \<open>
  C28: the request that submits a dashboard is valid and carries it: the bytes of the pipeline are
  accepted as a raw message, and the body reads as an object with the dashboard as the pipeline
  wrote it, the folder, and the order to overwrite.
\<close>
theorem request_carries_dashboard:
  assumes "\<And>l. valid_number (mf l)"
    and "ProcessDashboard env mf vs known folder folderName' force pl = (Done (Some bytes), pl')"
  shows "\<exists>body members. Marshal_GrafanaRequest bytes folderID folderName = Some body
     \<and> parse_json bytes = Some (JObj members)
     \<and> parse_json body = Some (JObj
         [(''dashboard'', JObj members), (''folderId'', JNum (Itoa folderID)),
          (''folderName'', JStr folderName), (''overwrite'', JBool True)])"
proof -
  obtain b where b: "bytes = Marshal_board mf b"
    using ProcessDashboard_sends [OF assms(2)] by metis
  let ?ps = "[(''dashboard'', bytes), (''folderId'', Itoa folderID),
          (''folderName'', Marshal_string folderName), (''overwrite'', ''true'')]"
  have p: "parse_json bytes = Some (JObj (board_members mf b))"
    unfolding b by (rule parse_board [OF assms(1)])
  then have raw: "Marshal_raw bytes = Some bytes"
    using compact_compacted [OF compacted_board [OF assms(1), where b = b]] by (simp add: Marshal_raw_def b)
  have "reads bytes (JObj (board_members mf b))"
    unfolding b by (rule reads_board [OF assms(1)])
  then have "list_all2 (\<lambda>(k, t) (k', j). k = k' \<and> reads t j) ?ps
      [(''dashboard'', JObj (board_members mf b)), (''folderId'', JNum (Itoa folderID)),
       (''folderName'', JStr folderName), (''overwrite'', JBool True)]"
    by (simp add: reads_number valid_number_Itoa reads_string reads_literals)
  from parse_json_reads [OF reads_object [OF this]] raw p show ?thesis
    by (simp add: Marshal_GrafanaRequest_def object_text_def)
qed

lemma request_carries_dashboard_witness:
  "\<exists>bytes pl' body. ProcessDashboard offline (\<lambda>_. ''0'') (\<lambda>_. None) [] None ''team'' True
      (NewDashboardPipeline (json_dashboard ''{}'') ()) = (Done (Some bytes), pl')
     \<and> Marshal_GrafanaRequest bytes 7 ''team'' = Some body"
proof -
  obtain bytes pl' where p: "ProcessDashboard offline (\<lambda>_. ''0'') (\<lambda>_. None) [] None ''team'' True
      (NewDashboardPipeline (json_dashboard ''{}'') ()) = (Done (Some bytes), pl')"
    using empty_dashboard_sent by blast
  have "valid_number ''0''"
    using valid_number_Itoa [of 0] by (simp add: Itoa_def digits.simps text_simps)
  from request_carries_dashboard [OF this p, of 7 "''team''"] p show ?thesis by blast
qed

end
