(* ===== verification/Grafana_Users.thy ===== *)
theory Grafana_Users
  imports Operator_State
begin

text \<open>
  The users of Grafana: the functions of \<open>controllers/grafana/grafana_controller.go\<close> that talk to
  the monitoring Grafana as its administrator. They ignore most errors: a request that fails or
  an answer of another shape leaves zero values behind.
\<close>

text \<open>
  The libraries: the HTTP client, which urls \<open>http.NewRequest\<close> accepts, \<open>rand.Intn\<close>, whether the
  process runs in a cluster (\<open>rest.InClusterConfig\<close>, whose error leaves a nil configuration) and
  the list of cluster role bindings, empty if it cannot be read.
\<close>

record ClusterRoleBinding =
  crb_RoleRef :: string
  crb_Subjects :: "string list"

record 'w network =
  net_Do :: "'w http_do"
  net_accepts :: "string \<Rightarrow> bool"
  net_Intn :: "nat \<Rightarrow> 'w \<Rightarrow> nat \<times> 'w"
  net_in_cluster :: "'w \<Rightarrow> bool"
  net_bindings :: "'w \<Rightarrow> (string + ClusterRoleBinding list) \<times> 'w"

definition net_send :: "'w network \<Rightarrow> string \<Rightarrow> string \<Rightarrow> (string \<times> string) list \<Rightarrow> string
    \<Rightarrow> ('w, string + http_response) operation" where
  "net_send net method url header body =
     seq (of_go (new_request (net_accepts net) method url header body)) (\<lambda>request.
     on_world (net_Do net request))"

definition json_header :: "(string \<times> string) list" where
  "json_header = [(''Content-Type'', ''application/json; charset=UTF-8'')]"

subsection \<open>Answers\<close>

record Grafana_key =
  key_field_Name :: string
  key_field_Key :: string

definition Grafana_key_fields :: "Grafana_key field list" where
  "Grafana_key_fields =
     [dec_field ''name'' key_field_Name key_field_Name_update dec_string,
      dec_field ''key'' key_field_Key key_field_Key_update dec_string]"

record Grafana_User_Get =
  user_Id :: int
  user_Email :: string
  user_Name :: string
  user_Login :: string
  user_Theme :: string
  user_OrgId :: string
  user_IsGrafanaAdmin :: bool
  user_IsDisabled :: string
  user_IsExternal :: string
  user_AuthLabels :: string
  user_UpdatedAt :: string
  user_CreatedAt :: string
  user_AvatarUrl :: string

definition zero_user :: Grafana_User_Get where
  "zero_user =
     \<lparr>user_Id = 0, user_Email = [], user_Name = [], user_Login = [], user_Theme = [], user_OrgId = [],
      user_IsGrafanaAdmin = False, user_IsDisabled = [], user_IsExternal = [], user_AuthLabels = [],
      user_UpdatedAt = [], user_CreatedAt = [], user_AvatarUrl = []\<rparr>"

definition Grafana_User_Get_fields :: "Grafana_User_Get field list" where
  "Grafana_User_Get_fields =
     [dec_field ''id'' user_Id user_Id_update dec_int,
      dec_field ''email'' user_Email user_Email_update dec_string,
      dec_field ''name'' user_Name user_Name_update dec_string,
      dec_field ''login'' user_Login user_Login_update dec_string,
      dec_field ''light'' user_Theme user_Theme_update dec_string,
      dec_field ''orgid'' user_OrgId user_OrgId_update dec_string,
      dec_field ''isgrafanaadmin'' user_IsGrafanaAdmin user_IsGrafanaAdmin_update dec_bool,
      dec_field ''isdisabled'' user_IsDisabled user_IsDisabled_update dec_string,
      dec_field ''isexternal'' user_IsExternal user_IsExternal_update dec_string,
      dec_field ''authlabels'' user_AuthLabels user_AuthLabels_update dec_string,
      dec_field ''updatedat'' user_UpdatedAt user_UpdatedAt_update dec_string,
      dec_field ''createdat'' user_CreatedAt user_CreatedAt_update dec_string,
      dec_field ''avatarurl'' user_AvatarUrl user_AvatarUrl_update dec_string]"

subsection \<open>Requests\<close>

definition letters :: string where
  "letters = ''abcdefghijklmnopqrstuvwxyzABCDEFGHIJKLMNOPQRSTUVWXYZ0123456789''"

definition RandomString :: "'w network \<Rightarrow> nat \<Rightarrow> ('w, string) operation" where
  "RandomString net n =
     collect (\<lambda>_. seq (on_world (net_Intn net (length letters))) (\<lambda>i. of_go (index letters i))) [0..<n]"

definition login_name :: "string \<Rightarrow> string" where
  "login_name email = (if email = ''kubernetes-admin'' then ''kubernetes-admin@localhost'' else email)"

definition monitoring_url :: "string \<Rightarrow> string \<Rightarrow> string \<Rightarrow> string" where
  "monitoring_url user pw path = ''http://'' @ user @ '':'' @ pw @ ''@'' @ GrafanaMonitoringAddress @ path"

definition set_admin :: "('w, unit) operation" where
  "set_admin = modify (\<lambda>s. s\<lparr>op_grafanaId := ''admin'', op_grafanaPw := ''admin''\<rparr>)"

definition CreateGrafanaUser :: "'w network \<Rightarrow> string \<Rightarrow> ('w, unit) operation" where
  "CreateGrafanaUser net email =
     seq (gets (\<lambda>s. monitoring_url (op_grafanaId s) (op_grafanaPw s) ''api/admin/users'')) (\<lambda>url.
     seq (RandomString net 8) (\<lambda>name.
     seq (RandomString net 8) (\<lambda>login.
     seq (net_send net ''POST'' url json_header
            (object_text [(''name'', Marshal_string name), (''email'', Marshal_string (login_name email)),
                          (''login'', Marshal_string login), (''password'', Marshal_string ''1234'')])) (\<lambda>_.
       ret ()))))"

definition GetGrafanaKey :: "'w network \<Rightarrow> ('w, string) operation" where
  "GetGrafanaKey net =
     seq set_admin (\<lambda>_.
     seq (RandomString net 8) (\<lambda>name.
     seq (net_send net ''POST'' (monitoring_url ''admin'' ''admin'' ''api/auth/keys'') json_header
            (object_text [(''name'', Marshal_string name), (''role'', Marshal_string ''Admin''),
                          (''secondsToLive'', Itoa 300)])) (\<lambda>r.
     case r of
       Inl err \<Rightarrow> ret err
     | Inr resp \<Rightarrow>
         (let (answer, _) = Unmarshal (dec_struct Grafana_key_fields) (resp_Body resp)
                              \<lparr>key_field_Name = [], key_field_Key = []\<rparr>
          in seq (modify (\<lambda>s. s\<lparr>op_GrafanaKey := ''Bearer '' @ key_field_Key answer\<rparr>)) (\<lambda>_.
             gets op_GrafanaKey)))))"

definition GetGrafanaUser :: "'w network \<Rightarrow> string \<Rightarrow> ('w, int) operation" where
  "GetGrafanaUser net email =
     seq set_admin (\<lambda>_.
     seq (net_send net ''GET''
            (monitoring_url ''admin'' ''admin'' (''api/users/lookup?loginOrEmail='' @ login_name email)) [] []) (\<lambda>r.
     case r of
       Inl _ \<Rightarrow> ret 0
     | Inr resp \<Rightarrow>
         (let (user, _) = Unmarshal (dec_struct Grafana_User_Get_fields) (resp_Body resp) zero_user
          in ret (if user_IsGrafanaAdmin user then - 1 else user_Id user))))"

text \<open>The first subject of every binding of the role of cluster administrators.\<close>

fun admins_of :: "ClusterRoleBinding list \<Rightarrow> string list go" where
  "admins_of [] = Inr []"
| "admins_of (crb # crbs) =
     (if crb_RoleRef crb = ''cluster-admin''
      then go_bind (index (crb_Subjects crb) 0) (\<lambda>name. go_bind (admins_of crbs) (\<lambda>names. Inr (name # names)))
      else admins_of crbs)"

definition GetCRBAdmin :: "'w network \<Rightarrow> ('w, string list) operation" where
  "GetCRBAdmin net =
     seq (gets (\<lambda>s. net_in_cluster net (op_World s))) (\<lambda>in_cluster.
       if \<not> in_cluster then of_go (Inl NilDeref)
       else seq (on_world (net_bindings net)) (\<lambda>r.
            of_go (admins_of (case r of Inl _ \<Rightarrow> [] | Inr crbs \<Rightarrow> crbs))))"

definition give_admin_to :: "'w network \<Rightarrow> string \<Rightarrow> ('w, unit) operation" where
  "give_admin_to net user =
     seq (GetGrafanaUser net user) (\<lambda>known.
       if known = 0 \<and> user \<noteq> []
       then seq (CreateGrafanaUser net user) (\<lambda>_.
            seq (GetGrafanaUser net user) (\<lambda>i.
            seq (net_send net ''PUT''
                   (monitoring_url ''admin'' ''admin'' (''api/admin/users/'' @ Itoa i @ ''/permissions''))
                   json_header (''{'' @ Marshal_string ''isGrafanaAdmin'' @ '': true}'')) (\<lambda>_.
            seq (net_send net ''PATCH'' (monitoring_url ''admin'' ''admin'' (''api/orgs/1/users/'' @ Itoa i))
                   json_header (''{'' @ Marshal_string ''role'' @ '':'' @ Marshal_string ''Admin'' @ ''}'')) (\<lambda>_.
              ret ()))))
       else ret ())"

definition GiveAdmin :: "'w network \<Rightarrow> ('w, unit) operation" where
  "GiveAdmin net = seq (GetCRBAdmin net) (\<lambda>hc_admin. for_each (give_admin_to net) hc_admin)"

end
