(* ===== verification/Grafana_Controller.thy ===== *)
theory Grafana_Controller
  imports Grafana_Users Grafana_Reconciler
begin

text \<open>
  The controller of the Grafana resource: \<open>controllers/grafana/grafana_controller.go\<close> and
  \<open>grafonnet_utils.go\<close>. A call reads the cluster, lets the reconciler compute the plan, runs it,
  copies jsonnet libraries to the file system, updates the status and tells the other
  controllers, over the channel, whether Grafana can be used and where.

  Outside of the model: the registration of the controller with its manager and its watches, and
  the recorder of events.
\<close>

subsection \<open>Surroundings\<close>

datatype stat_result = Exists | NotExist | StatError string

text \<open>
  The libraries: the client for the resource itself (an update of the status writes the answer
  of the API server into the object), the comparison of two statuses, the selection of
  configuration maps, the order in which a map is iterated, the file system, and the error
  messages of the API.
\<close>

record ('w, 'v) grafana_env =
  ge_api :: "'w api"
  ge_get :: "ObjectKey \<Rightarrow> 'w \<Rightarrow> api_error + Grafana"
  ge_update_status :: "Grafana \<Rightarrow> 'w \<Rightarrow> api_error option \<times> Grafana \<times> 'w"
  ge_DeepEqual :: "GrafanaStatus \<Rightarrow> GrafanaStatus \<Rightarrow> bool"
  ge_message :: "api_error \<Rightarrow> string"
  ge_outside :: "'w \<Rightarrow> 'v outside"
  ge_network :: "'w network"
  ge_as_selector :: "LabelSelector \<Rightarrow> string option"
  ge_list_ConfigMaps :: "LabelSelector \<Rightarrow> string \<Rightarrow> 'w \<Rightarrow> api_error + ConfigMap list"
  ge_range :: "labels \<Rightarrow> string list"
  ge_Stat :: "string \<Rightarrow> 'w \<Rightarrow> stat_result"
  ge_Mkdir :: "string \<Rightarrow> 'w \<Rightarrow> string option \<times> 'w"
  ge_Create :: "string \<Rightarrow> 'w \<Rightarrow> string option \<times> 'w"
  ge_WriteString :: "string \<Rightarrow> string \<Rightarrow> 'w \<Rightarrow> string option \<times> 'w"
  ge_Close :: "string \<Rightarrow> 'w \<Rightarrow> string option \<times> 'w"

definition error_text :: "('w, 'v) grafana_env \<Rightarrow> error \<Rightarrow> string" where
  "error_text env err = (case err of FromApi e \<Rightarrow> ge_message env e | Error s \<Rightarrow> s)"

text \<open>A call that returns only an error.\<close>

definition attempt :: "('w \<Rightarrow> string option \<times> 'w) \<Rightarrow> ('w, unit) operation" where
  "attempt f =
     seq (on_world f) (\<lambda>err. case err of None \<Rightarrow> ret () | Some e \<Rightarrow> fail e)"

subsection \<open>Jsonnet libraries\<close>

definition JsonnetExtension :: string where "JsonnetExtension = ''.libsonnet''"

definition JsonnetAnnotation :: string where "JsonnetAnnotation = ''jsonnet/library''"

text \<open>\<open>filepath.Ext\<close>: from the last dot of the last element of the path.\<close>

definition path_Ext :: "string \<Rightarrow> string" where
  "path_Ext path =
     (let tail = rev (takeWhile (\<lambda>c. c \<noteq> CHR ''/'') (rev path));
          after_dot = takeWhile (\<lambda>c. c \<noteq> CHR ''.'') (rev tail)
      in if CHR ''.'' \<in> set tail then CHR ''.'' # rev after_dot else [])"

definition validateFileExtension :: "string \<Rightarrow> string option" where
  "validateFileExtension filePath =
     (if path_Ext filePath \<noteq> JsonnetExtension
      then Some (''unknown extension, expected '' @ JsonnetExtension) else None)"

definition createFile :: "('w, 'v) grafana_env \<Rightarrow> string \<Rightarrow> string \<Rightarrow> ('w, unit) operation" where
  "createFile env filePath contents =
     (case validateFileExtension filePath of
        Some err \<Rightarrow> fail err
      | None \<Rightarrow>
          seq (attempt (ge_Create env filePath)) (\<lambda>_.
          seq (attempt (ge_WriteString env filePath contents)) (\<lambda>_.
            attempt (ge_Close env filePath))))"

definition createFolder :: "('w, 'v) grafana_env \<Rightarrow> string \<Rightarrow> string \<Rightarrow> ('w, string) operation" where
  "createFolder env configMapName basePath =
     (let folderPath = basePath @ ''/'' @ configMapName
      in seq (gets (\<lambda>s. ge_Stat env folderPath (op_World s))) (\<lambda>st.
         case st of
           NotExist \<Rightarrow> seq (attempt (ge_Mkdir env folderPath)) (\<lambda>_. ret folderPath)
         | StatError err \<Rightarrow> fail err
         | Exists \<Rightarrow> ret folderPath))"

definition import_library :: "('w, 'v) grafana_env \<Rightarrow> string \<Rightarrow> ConfigMap \<Rightarrow> ('w, unit) operation" where
  "import_library env jsonnetBasePath configMap =
     (if label_get (om_Annotations (cm_meta configMap)) JsonnetAnnotation \<noteq> ''true'' then ret ()
      else seq (on_error (seq (createFolder env (om_Name (cm_meta configMap)) jsonnetBasePath) (\<lambda>p. ret (Some p)))
                  (\<lambda>_. ret None)) (\<lambda>folder.
           case folder of
             None \<Rightarrow> ret ()
           | Some folderPath \<Rightarrow>
               for_each (\<lambda>filename. createFile env (folderPath @ ''/'' @ filename) (label_get (cm_Data configMap) filename))
                 (ge_range env (cm_Data configMap))))"

definition reconcileConfigMaps :: "('w, 'v) grafana_env \<Rightarrow> Grafana \<Rightarrow> ('w, unit) operation" where
  "reconcileConfigMaps env cr =
     (case spec_Jsonnet (Spec cr) of
        None \<Rightarrow> ret ()
      | Some jsonnet \<Rightarrow>
          (case jsonnet_LibraryLabelSelector jsonnet of
             None \<Rightarrow> ret ()
           | Some library_selector \<Rightarrow>
               (case ge_as_selector env library_selector of
                  Some err \<Rightarrow> fail err
                | None \<Rightarrow>
                    seq (gets (\<lambda>s. ge_list_ConfigMaps env library_selector (om_Namespace (meta cr)) (op_World s))) (\<lambda>r.
                    case r of
                      Inl err \<Rightarrow> fail (ge_message env err)
                    | Inr configMaps \<Rightarrow>
                        seq (\<lambda>s. of_go (GetConfigString (cc_Values (op_Config s)) ConfigJsonnetBasePath JsonnetBasePath) s)
                          (\<lambda>jsonnetBasePath. for_each (import_library env jsonnetBasePath) configMaps)))))"

subsection \<open>The outcome of a reconciliation\<close>

record Result =
  Requeue :: bool
  RequeueAfter :: int

definition no_requeue :: Result where "no_requeue = \<lparr>Requeue = False, RequeueAfter = 0\<rparr>"

definition requeue_later :: Result where "requeue_later = \<lparr>Requeue = False, RequeueAfter = RequeueDelay\<rparr>"

definition DefaultClientTimeoutSeconds :: int where "DefaultClientTimeoutSeconds = 5"

definition update_status :: "('w, 'v) grafana_env \<Rightarrow> Grafana \<Rightarrow> ('w, api_error option \<times> Grafana) operation" where
  "update_status env cr =
     on_world (\<lambda>w. let (err, cr', w') = ge_update_status env cr w in ((err, cr'), w'))"

definition manageError :: "('w, 'v) grafana_env \<Rightarrow> ObjectKey \<Rightarrow> Grafana \<Rightarrow> error
    \<Rightarrow> ('w, Result \<times> error option) operation" where
  "manageError env request cr issue =
     (let cr = cr\<lparr>Status := (Status cr)\<lparr>st_Phase := PhaseFailing, st_Message := error_text env issue\<rparr>\<rparr>;
          finish = seq (on_config InvalidateDashboards) (\<lambda>_.
                   seq (publish (zero_ControllerState\<lparr>GrafanaReady := False\<rparr>)) (\<lambda>_.
                     ret (requeue_later, None)))
      in seq (gets (\<lambda>s. ge_get env request (op_World s))) (\<lambda>r.
         case r of
           Inl err \<Rightarrow> ret (no_requeue, Some (FromApi err))
         | Inr inst \<Rightarrow>
             if \<not> ge_DeepEqual env (Status cr) (Status inst)
             then seq (update_status env cr) (\<lambda>(err, _).
                  case err of
                    None \<Rightarrow> finish
                  | Some e \<Rightarrow> ret (no_requeue, if e = Conflict then None else Some (FromApi e)))
             else finish))"

definition getGrafanaAdminUrl :: "Grafana \<Rightarrow> ClusterState \<Rightarrow> string + string" where
  "getGrafanaAdminUrl cr state =
     (let preferService = GetPreferServiceValue cr;
          from_service = (case cs_Service state of
             Some service \<Rightarrow> Inr (''http://'' @ om_Name (svc_meta service) @ ''.'' @ om_Namespace (meta cr)
                             @ ''.svc.cluster.local:'' @ Itoa (sint (to_int32 (GetGrafanaPort cr))))
           | None \<Rightarrow> Inl ''failed to find admin url'');
          from_ingress = (case cs_Ingress state of
             Some ingress \<Rightarrow>
               if preferService then from_service
               else if GetHost cr \<noteq> [] then Inr (''https://'' @ GetHost cr)
               else (case ing_LoadBalancer ingress of
                       lb # _ \<Rightarrow> if lb_Hostname lb \<noteq> [] then Inr (''https://'' @ lb_Hostname lb)
                                 else Inr (''https://'' @ lb_IP lb)
                     | [] \<Rightarrow> from_service)
           | None \<Rightarrow> from_service)
      in case cs_Route state of
           Some route \<Rightarrow> if preferService then from_ingress else Inr (''https://'' @ rs_Host (rt_Spec route))
         | None \<Rightarrow> from_ingress)"

definition controller_state :: "Grafana \<Rightarrow> string \<Rightarrow> ControllerState" where
  "controller_state cr url =
     \<lparr>DashboardSelectors = spec_DashboardLabelSelector (Spec cr),
      DashboardNamespaceSelector = spec_DashboardNamespaceSelector (Spec cr),
      AdminUrl = url, GrafanaReady = True,
      ClientTimeout = (case spec_Client (Spec cr) of
          None \<Rightarrow> DefaultClientTimeoutSeconds
        | Some c \<Rightarrow> (case gc_TimeoutSeconds c of
              None \<Rightarrow> DefaultClientTimeoutSeconds
            | Some seconds \<Rightarrow> if seconds < 0 then DefaultClientTimeoutSeconds else seconds)),
      AdminUser = []\<rparr>"

definition success_status :: "bool \<Rightarrow> GrafanaDashboardRef list \<Rightarrow> Grafana \<Rightarrow> Grafana" where
  "success_status synced dashboards cr =
     (let status = (Status cr)\<lparr>st_Phase := PhaseReconciling, st_Message := ''success''\<rparr>
      in cr\<lparr>Status := if synced then status\<lparr>st_InstalledDashboards := dashboards\<rparr> else status\<rparr>)"

definition publish_state :: "('w, 'v) grafana_env \<Rightarrow> ObjectKey \<Rightarrow> ClusterState \<Rightarrow> Grafana
    \<Rightarrow> ('w, Result \<times> error option) operation" where
  "publish_state env request state cr =
     (case getGrafanaAdminUrl cr state of
        Inl err \<Rightarrow> manageError env request cr (Error err)
      | Inr url \<Rightarrow>
          seq (publish (controller_state cr url)) (\<lambda>_.
          seq (GiveAdmin (ge_network env)) (\<lambda>_. ret (requeue_later, None))))"

definition write_status :: "('w, 'v) grafana_env \<Rightarrow> ObjectKey \<Rightarrow> ClusterState \<Rightarrow> Grafana
    \<Rightarrow> ('w, Result \<times> error option) operation" where
  "write_status env request state cr =
     seq (gets (\<lambda>s. ge_get env request (op_World s))) (\<lambda>r.
     case r of
       Inl err \<Rightarrow> manageError env request cr (FromApi err)
     | Inr inst \<Rightarrow>
         if \<not> ge_DeepEqual env (Status cr) (Status inst)
         then seq (update_status env cr) (\<lambda>(err, cr).
              case err of
                Some e \<Rightarrow> manageError env request cr (FromApi e)
              | None \<Rightarrow> publish_state env request state cr)
         else publish_state env request state cr)"

definition manageSuccess :: "('w, 'v) grafana_env \<Rightarrow> ObjectKey \<Rightarrow> Grafana \<Rightarrow> ClusterState
    \<Rightarrow> ('w, Result \<times> error option) operation" where
  "manageSuccess env request cr state =
     seq (\<lambda>s. of_go (GetConfigBool (cc_Values (op_Config s)) ConfigGrafanaDashboardsSynced False) s) (\<lambda>synced.
     seq (gets (\<lambda>s. cc_Dashboards (op_Config s))) (\<lambda>dashboards.
     seq (if \<not> synced \<and> dashboards = [] then on_config (\<lambda>c. SetDashboards c []) else ret ()) (\<lambda>_.
       write_status env request state (success_status synced dashboards cr))))"

subsection \<open>The reconciliation\<close>

text \<open>
  The reconciler of the cluster objects as an operation: it sees the shared configuration, the
  environment and the global \<open>HyperauthUrl\<close>, and changes the configuration and the resource.
\<close>

definition desired_state :: "('w, 'v) grafana_env \<Rightarrow> ClusterState \<Rightarrow> Grafana
    \<Rightarrow> ('w, DesiredClusterState \<times> Grafana) operation" where
  "desired_state env state cr s =
     (case Reconcile (ge_outside env (op_World s)) state
             (NewGrafanaReconciler cr (op_Config s) (op_Env s) (op_HyperauthUrl s)) of
        Inl p \<Rightarrow> (Panic p, s)
      | Inr (desired, rc) \<Rightarrow>
          (Done (desired, rc_cr rc), s\<lparr>op_Config := rc_Config rc, op_HyperauthUrl := rc_HyperauthUrl rc\<rparr>))"

definition run_plan :: "('w, 'v) grafana_env \<Rightarrow> Grafana \<Rightarrow> DesiredClusterState \<Rightarrow> ('w, error option) operation" where
  "run_plan env cr desired s =
     (let (err, (w, environ)) = RunAll (ge_api env) cr desired (op_World s, op_Env s)
      in (Done err, s\<lparr>op_World := w, op_Env := environ\<rparr>))"

text \<open>The resource was found: read the cluster, plan, run the plan, import the libraries.\<close>

definition reconcile_found :: "('w, 'v) grafana_env \<Rightarrow> ObjectKey \<Rightarrow> Grafana \<Rightarrow> ('w, Result \<times> error option) operation" where
  "reconcile_found env request cr =
     seq (\<lambda>s. of_go (Read (ge_api env) (op_World s) (cc_Values (op_Config s)) cr NewClusterState) s) (\<lambda>read.
     case read of
       Inl err \<Rightarrow> manageError env request cr (FromApi err)
     | Inr currentState \<Rightarrow>
         seq (desired_state env currentState cr) (\<lambda>(desired, cr).
         seq (run_plan env cr desired) (\<lambda>err.
         case err of
           Some e \<Rightarrow> manageError env request cr e
         | None \<Rightarrow>
             seq (on_error (seq (reconcileConfigMaps env cr) (\<lambda>_. ret None)) (\<lambda>e. ret (Some e))) (\<lambda>err.
             case err of
               Some e \<Rightarrow> manageError env request cr (Error e)
             | None \<Rightarrow> manageSuccess env request cr currentState))))"

definition ReconcileGrafana :: "('w, 'v) grafana_env \<Rightarrow> ObjectKey \<Rightarrow> ('w, Result \<times> error option) operation" where
  "ReconcileGrafana env request =
     seq (gets (\<lambda>s. ge_get env request (op_World s))) (\<lambda>r.
     case r of
       Inl err \<Rightarrow>
         if err = NotFound
         then seq (on_config (\<lambda>c. Cleanup (c\<lparr>cc_Values := RemoveConfigItem (cc_Values c) ConfigDashboardLabelSelector\<rparr>) True)) (\<lambda>_.
              seq (publish (zero_ControllerState\<lparr>GrafanaReady := False\<rparr>)) (\<lambda>_.
                ret (no_requeue, None)))
         else ret (no_requeue, Some (FromApi err))
     | Inr cr \<Rightarrow> reconcile_found env request cr)"

subsection \<open>The admission webhook\<close>

record AdmissionResponse =
  ar_UID :: string
  ar_Allowed :: bool

text \<open>The namespace and the labels of the object, if it unmarshals.\<close>

definition Grafanacheck :: "(string \<times> labels) option \<Rightarrow> AdmissionResponse" where
  "Grafanacheck object =
     (case object of
        None \<Rightarrow> \<lparr>ar_UID = [], ar_Allowed = False\<rparr>
      | Some (namespace, label) \<Rightarrow>
          if namespace \<noteq> ''monitoring'' \<or> label_get label ''grafana'' \<noteq> ''hypercloud''
          then \<lparr>ar_UID = [], ar_Allowed = False\<rparr>
          else \<lparr>ar_UID = [], ar_Allowed = True\<rparr>)"

end
