(* ===== verification/Dashboard_Controller.thy ===== *)
theory Dashboard_Controller
  imports Dashboard_Client Grafana_Controller Dashboard_Pipeline
begin

text \<open>
  The controller of the dashboards: \<open>controllers/grafanadashboard/grafanadashboard_controller.go\<close>.
  Every call goes through all dashboards of the cluster, submits the ones that changed to
  Grafana, and deletes the ones whose resource is gone.

  The known dashboards are a slice of the shared configuration. If the request has a namespace,
  the local variable \<open>knownDashboards\<close> shares the array of the configuration, so replacing an
  element shows in both, until an append moves the configuration to a new array; whether an
  append moves it is the library's choice. The model keeps the local view beside the shared state.
\<close>

subsection \<open>Surroundings and state\<close>

record 'w dash_env =
  de_prepare :: "string \<Rightarrow> string \<Rightarrow> string \<Rightarrow> string + string"
  de_Do :: "int \<Rightarrow> 'w http_do"
  de_json_error :: "string \<Rightarrow> string"
  de_pointer :: "int \<Rightarrow> string"
  de_pipeline :: "'w pipeline_env"
  de_number :: "string \<Rightarrow> string"
  de_list :: "'w \<Rightarrow> api_error + GrafanaDashboard list"
  de_get :: "ObjectKey \<Rightarrow> 'w \<Rightarrow> api_error + GrafanaDashboard"
  de_namespace :: "string \<Rightarrow> 'w \<Rightarrow> string + labels"
  de_as_selector :: "LabelSelector \<Rightarrow> string + selector"
  de_network :: "'w network"
  de_append_moves :: "'w \<Rightarrow> bool"

record 'w loop =
  lp_op :: "'w operator"
  lp_known :: "GrafanaDashboardRef list"
  lp_shared :: bool

definition on_op :: "('w, 'a) operation \<Rightarrow> ('w loop, 'a) prog" where
  "on_op m s = (let (r, oper) = m (lp_op s) in (r, s\<lparr>lp_op := oper\<rparr>))"

definition NewGrafanaClient :: "'w dash_env \<Rightarrow> string \<Rightarrow> string \<Rightarrow> string \<Rightarrow> int \<Rightarrow> 'w GrafanaClient" where
  "NewGrafanaClient env url user password timeoutSeconds =
     \<lparr>cl_url = url, cl_user = user, cl_password = password, cl_prepare = de_prepare env,
      cl_Do = de_Do env timeoutSeconds, cl_json_error = de_json_error env, cl_pointer = de_pointer env\<rparr>"

subsection \<open>Lookups\<close>

definition inNamespace :: "GrafanaDashboard list \<Rightarrow> GrafanaDashboardRef \<Rightarrow> bool" where
  "inNamespace namespaceDashboards item \<longleftrightarrow>
     list_ex (\<lambda>d. om_Name (dash_meta d) = ref_Name item \<and> om_Namespace (dash_meta d) = ref_Namespace item)
       namespaceDashboards"

definition find_known :: "GrafanaDashboardRef list \<Rightarrow> GrafanaDashboard \<Rightarrow> GrafanaDashboardRef option" where
  "find_known knownDashboards item =
     List.find (\<lambda>d. om_Name (dash_meta item) = ref_Name d \<and> om_Namespace (dash_meta item) = ref_Namespace d)
       knownDashboards"

definition findHash :: "GrafanaDashboardRef list \<Rightarrow> GrafanaDashboard \<Rightarrow> string" where
  "findHash knownDashboards item = (case find_known knownDashboards item of Some d \<Rightarrow> ref_Hash d | None \<Rightarrow> [])"

definition findUid :: "GrafanaDashboardRef list \<Rightarrow> GrafanaDashboard \<Rightarrow> string" where
  "findUid knownDashboards item = (case find_known knownDashboards item of Some d \<Rightarrow> ref_UID d | None \<Rightarrow> [])"

definition getClient :: "'w dash_env \<Rightarrow> ControllerState \<Rightarrow> 'w operator \<Rightarrow> string + 'w GrafanaClient" where
  "getClient env st s =
     (let url = AdminUrl st;
          username = Getenv GrafanaAdminUserEnvVar s;
          password = Getenv GrafanaAdminPasswordEnvVar s
      in if url = [] then Inl ''cannot get grafana admin url''
         else if username = [] then Inl ''invalid credentials (username)''
         else if password = [] then Inl ''invalid credentials (password)''
         else Inr (NewGrafanaClient env url username password (ClientTimeout st)))"

definition isMatch :: "'w dash_env \<Rightarrow> ControllerState \<Rightarrow> GrafanaDashboard \<Rightarrow> bool" where
  "isMatch env st item =
     (case DashboardSelectors st of
        None \<Rightarrow> False
      | Some selectors \<Rightarrow>
          (case MatchesSelectors (de_as_selector env) item selectors of
             Inl err \<Rightarrow> False
           | Inr match \<Rightarrow> match))"

definition checkNamespaceLabels :: "'w dash_env \<Rightarrow> LabelSelector \<Rightarrow> GrafanaDashboard \<Rightarrow> 'w \<Rightarrow> string + bool" where
  "checkNamespaceLabels env namespace_selector dashboard w =
     (case de_namespace env (om_Namespace (dash_meta dashboard)) w of
        Inl err \<Rightarrow> Inl err
      | Inr ls \<Rightarrow>
          (case de_as_selector env namespace_selector of
             Inl err \<Rightarrow> Inl err
           | Inr selector \<Rightarrow> Inr (Empty selector \<or> Matches selector ls)))"

subsection \<open>After a submission\<close>

record Grafana_Dashboad_dashboard =
  gdd_Id :: int
  gdd_Uid :: string
  gdd_Url :: string
  gdd_Status :: string
  gdd_Version :: string
  gdd_Slug :: string

record Grafana_Dashboad_resp =
  gdp_Meta :: string
  gdp_Dashboard :: Grafana_Dashboad_dashboard

definition Grafana_Dashboad_dashboard_fields :: "Grafana_Dashboad_dashboard field list" where
  "Grafana_Dashboad_dashboard_fields =
     [dec_field ''id'' gdd_Id gdd_Id_update dec_int,
      dec_field ''uid'' gdd_Uid gdd_Uid_update dec_string,
      dec_field ''url'' gdd_Url gdd_Url_update dec_string,
      dec_field ''status'' gdd_Status gdd_Status_update dec_string,
      dec_field ''version'' gdd_Version gdd_Version_update dec_string,
      dec_field ''slug'' gdd_Slug gdd_Slug_update dec_string]"

definition Grafana_Dashboad_resp_fields :: "Grafana_Dashboad_resp field list" where
  "Grafana_Dashboad_resp_fields =
     [dec_field ''meta'' gdp_Meta gdp_Meta_update dec_string,
      dec_field ''dashboard'' gdp_Dashboard gdp_Dashboard_update (dec_struct Grafana_Dashboad_dashboard_fields)]"

definition GetGrafanaDashboardId :: "'w network \<Rightarrow> string \<Rightarrow> ('w, int) operation" where
  "GetGrafanaDashboardId net uid =
     seq (net_send net ''GET'' (monitoring_url ''admin'' ''admin'' (''api/dashboards/uid/'' @ uid)) [] []) (\<lambda>r.
     case r of
       Inl _ \<Rightarrow> ret 0
     | Inr resp \<Rightarrow>
         (let (answer, _) = Unmarshal (dec_struct Grafana_Dashboad_resp_fields) (resp_Body resp)
                \<lparr>gdp_Meta = [], gdp_Dashboard = \<lparr>gdd_Id = 0, gdd_Uid = [], gdd_Url = [], gdd_Status = [],
                                               gdd_Version = [], gdd_Slug = []\<rparr>\<rparr>
          in ret (gdd_Id (gdp_Dashboard answer))))"

text \<open>The request gives every user the permission to view.\<close>

definition indent :: "nat \<Rightarrow> string" where
  "indent n = newline # replicate n (CHR 0x09)"

definition permission_body :: "int list \<Rightarrow> string" where
  "permission_body userIdList =
     ''{'' @ indent 2 @ Marshal_string ''items'' @ '': [''
     @ Join '','' (map (\<lambda>user. indent 3 @ ''{'' @ indent 3 @ Marshal_string ''userId'' @ '': '' @ Itoa user @ '',''
                           @ indent 3 @ Marshal_string ''permission'' @ '': 1'' @ indent 3 @ ''}'') userIdList)
     @ indent 3 @ '']'' @ indent 2 @ ''}''"

definition CreateGrafanaPermission :: "'w dash_env \<Rightarrow> 'w GrafanaClient \<Rightarrow> int list \<Rightarrow> string
    \<Rightarrow> ('w, unit) operation" where
  "CreateGrafanaPermission env c userIdList folderName =
     seq (of_go (index userIdList 0)) (\<lambda>_.
     seq (getAllFolders c) (\<lambda>(folderlist, _).
     let fuid = foldl (\<lambda>u folder. if gf_Title folder = folderName then gf_UID folder else u) [] folderlist
     in seq (GetGrafanaKey (de_network env)) (\<lambda>k.
        seq (modify (\<lambda>s. s\<lparr>op_GrafanaKey := k\<rparr>)) (\<lambda>_.
        seq (net_send (de_network env) ''POST''
               (''http://'' @ GrafanaMonitoringAddress @ ''api/folders/'' @ fuid @ ''/permissions'')
               (json_header @ [(''Authorization'', k)]) (permission_body userIdList)) (\<lambda>_.
          ret ())))))"

definition user_list :: "GrafanaDashboard \<Rightarrow> string list" where
  "user_list dashboard =
     (let userlist1 = label_get (om_Annotations (dash_meta dashboard)) ''userId'';
          userlist = Split (CHR '','') userlist1
      in if hd userlist = [] then userlist1 # tl userlist else userlist)"

definition user_id :: "'w network \<Rightarrow> string \<Rightarrow> ('w, int) operation" where
  "user_id net user =
     seq (GetGrafanaUser net user) (\<lambda>response.
       if response = 0
       then seq (CreateGrafanaUser net user) (\<lambda>_. GetGrafanaUser net user)
       else ret response)"

definition add_dashboard :: "'w dash_env \<Rightarrow> GrafanaDashboard \<Rightarrow> int option \<Rightarrow> string \<Rightarrow> ('w loop, unit) prog" where
  "add_dashboard env dashboard folderId folderName s =
     (case AddDashboard (op_Config (lp_op s)) dashboard folderId folderName of
        Inl p \<Rightarrow> (Panic p, s)
      | Inr cfg \<Rightarrow>
          (let old = cc_Dashboards (op_Config (lp_op s)); new = cc_Dashboards cfg
           in (Done (), s\<lparr>lp_op := (lp_op s)\<lparr>op_Config := cfg\<rparr>,
                          lp_known := if lp_shared s then take (length (lp_known s)) new else lp_known s,
                          lp_shared := lp_shared s \<and>
                            \<not> (length old < length new \<and> de_append_moves env (op_World (lp_op s)))\<rparr>)))"

definition dash_manageSuccess :: "'w dash_env \<Rightarrow> 'w GrafanaClient \<Rightarrow> GrafanaDashboard \<Rightarrow> int \<Rightarrow> string
    \<Rightarrow> ('w loop, unit) prog" where
  "dash_manageSuccess env c dashboard folderId folderName =
     seq (add_dashboard env dashboard (Some folderId) folderName) (\<lambda>_.
     seq (on_op (on_config (\<lambda>cfg. SetPluginsFor cfg dashboard))) (\<lambda>_.
     seq (of_go (UID dashboard)) (\<lambda>uid.
     seq (on_op (GetGrafanaDashboardId (de_network env) uid)) (\<lambda>dashboardId.
     seq (on_op (collect (user_id (de_network env)) (user_list dashboard))) (\<lambda>userIdList.
       on_op (CreateGrafanaPermission env c userIdList folderName))))))"

subsection \<open>One dashboard\<close>

text \<open>The result of \<open>ProcessDashboard\<close>, with its error as a value.\<close>

definition run_pipeline :: "'w dash_env \<Rightarrow> string \<Rightarrow> int \<Rightarrow> string \<Rightarrow> bool \<Rightarrow> 'w pipeline
    \<Rightarrow> ('w loop, (string + string option) \<times> 'w pipeline) prog" where
  "run_pipeline env knownHash folderId folderName force pl s =
     (let (r, pl') = ProcessDashboard (de_pipeline env) (de_number env) (cc_Values (op_Config (lp_op s)))
                       knownHash (Some folderId) folderName force (pl\<lparr>pl_World := op_World (lp_op s)\<rparr>);
          s' = s\<lparr>lp_op := (lp_op s)\<lparr>op_World := pl_World pl'\<rparr>\<rparr>
      in case r of
           Panic p \<Rightarrow> (Panic p, s')
         | Fail err \<Rightarrow> (Done (Inl err, pl'), s')
         | Done processed \<Rightarrow> (Done (Inr processed, pl'), s'))"

text \<open>
  A dashboard that somebody deleted from Grafana is processed again; \<open>None\<close> if that fails. An
  error of the first run stays.
\<close>

definition check_deleted :: "'w dash_env \<Rightarrow> 'w GrafanaClient \<Rightarrow> string \<Rightarrow> string \<Rightarrow> int \<Rightarrow> string
    \<Rightarrow> string + string option \<Rightarrow> 'w pipeline
    \<Rightarrow> ('w loop, ((string + string option) \<times> 'w pipeline) option) prog" where
  "check_deleted env c knownUid knownHash folderId folderName processed pl =
     seq (on_op (GetDashboard c knownUid)) (\<lambda>(response, _).
     seq (of_go (deref (gdr_Dashboard response))) (\<lambda>dash.
     seq (of_go (deref (gd_ID dash))) (\<lambda>i.
       if i = 0
       then seq (run_pipeline env knownHash folderId folderName True pl) (\<lambda>(again, pl').
            case again of
              Inl err \<Rightarrow> ret None
            | Inr bytes \<Rightarrow> ret (Some (case processed of Inl err \<Rightarrow> Inl err | Inr _ \<Rightarrow> Inr bytes, pl')))
       else ret (Some (processed, pl)))))"

definition namespace_matches :: "'w dash_env \<Rightarrow> ControllerState \<Rightarrow> GrafanaDashboard \<Rightarrow> ('w loop, bool) prog" where
  "namespace_matches env st dashboard =
     (case DashboardNamespaceSelector st of
        None \<Rightarrow> ret True
      | Some sel \<Rightarrow>
          gets (\<lambda>s. case checkNamespaceLabels env sel dashboard (op_World (lp_op s)) of
                      Inl err \<Rightarrow> False
                    | Inr matches \<Rightarrow> matches))"

definition submit :: "'w dash_env \<Rightarrow> ControllerState \<Rightarrow> 'w GrafanaClient \<Rightarrow> int \<Rightarrow> string \<Rightarrow> string + string option
    \<Rightarrow> GrafanaDashboard \<Rightarrow> ('w loop, unit) prog" where
  "submit env st c folderId folderName processed dashboard =
     (case processed of
        Inl err \<Rightarrow> ret ()
      | Inr None \<Rightarrow> on_op (on_config (\<lambda>cfg. SetPluginsFor cfg dashboard))
      | Inr (Some bytes) \<Rightarrow>
          seq (namespace_matches env st dashboard) (\<lambda>matches.
            if \<not> matches then ret ()
            else seq (on_op (CreateOrUpdateDashboard c bytes folderId folderName)) (\<lambda>(_, err).
                 case err of
                   Some _ \<Rightarrow> ret ()
                 | None \<Rightarrow> dash_manageSuccess env c dashboard folderId folderName)))"

definition folder_name :: "GrafanaDashboard \<Rightarrow> string" where
  "folder_name dashboard =
     (if dash_CustomFolderName (dash_Spec dashboard) \<noteq> [] then dash_CustomFolderName (dash_Spec dashboard)
      else om_Namespace (dash_meta dashboard))"

definition reconcile_dashboard :: "'w dash_env \<Rightarrow> ControllerState \<Rightarrow> 'w GrafanaClient \<Rightarrow> GrafanaDashboard
    \<Rightarrow> ('w loop, unit) prog" where
  "reconcile_dashboard env st c dashboard =
     (let folderName = folder_name dashboard
      in seq (on_op (CreateOrUpdateFolder c folderName)) (\<lambda>(folder, err).
         case err of
           Some _ \<Rightarrow> ret ()
         | None \<Rightarrow>
             (let folderId = (case gf_ID folder of None \<Rightarrow> 0 | Some i \<Rightarrow> i)
              in seq (gets (\<lambda>s. findHash (lp_known s) dashboard)) (\<lambda>knownHash.
                 seq (gets (\<lambda>s. findUid (lp_known s) dashboard)) (\<lambda>knownUid.
                 seq (gets (\<lambda>s. NewDashboardPipeline dashboard (op_World (lp_op s)))) (\<lambda>pl.
                 seq (run_pipeline env knownHash folderId folderName False pl) (\<lambda>(processed, pl).
                 seq (if knownUid \<noteq> []
                      then check_deleted env c knownUid knownHash folderId folderName processed pl
                      else ret (Some (processed, pl))) (\<lambda>r.
                 case r of
                   None \<Rightarrow> ret ()
                 | Some (processed, pl) \<Rightarrow>
                     submit env st c folderId folderName processed (pl_Dashboard pl)))))))))"

subsection \<open>Deletion\<close>

text \<open>One dashboard; the result says whether the loop goes on.\<close>

definition delete_dashboard :: "'w GrafanaClient \<Rightarrow> string \<Rightarrow> GrafanaDashboardRef \<Rightarrow> ('w, bool) operation" where
  "delete_dashboard c namespace dashboard =
     seq (DeleteDashboardByUID c (ref_UID dashboard)) (\<lambda>(status, err).
     seq (of_go (if err \<noteq> None then deref (gr_Status status) else Inr [])) (\<lambda>_.
     seq (of_go (deref (gr_Message status))) (\<lambda>_.
     seq (on_config (\<lambda>cfg. RemoveDashboard (RemovePluginsFor cfg (ref_Namespace dashboard) (ref_Name dashboard))
                             (ref_UID dashboard))) (\<lambda>_.
     seq (on_config (\<lambda>cfg. cfg\<lparr>cc_Values := AddConfigItem (cc_Values cfg) ConfigGrafanaDashboardsSynced (Some (VBool True))\<rparr>)) (\<lambda>_.
       if ref_FolderName dashboard = [] \<or> ref_FolderName dashboard = ref_Namespace dashboard
       then seq (\<lambda>s. of_go (SafeToDelete (GetDashboards (op_Config s) namespace) (ref_FolderId dashboard)) s) (\<lambda>safe.
              if \<not> safe then ret False
              else seq (DeleteFolder c (ref_FolderId dashboard)) (\<lambda>err.
                   seq (of_go (if err \<noteq> None then deref (ref_FolderId dashboard) else Inr 0)) (\<lambda>_.
                     ret True)))
       else ret True)))))"

fun delete_dashboards :: "'w GrafanaClient \<Rightarrow> string \<Rightarrow> GrafanaDashboardRef list \<Rightarrow> ('w, unit) operation" where
  "delete_dashboards c namespace [] = ret ()"
| "delete_dashboards c namespace (d # ds) =
     seq (delete_dashboard c namespace d) (\<lambda>continue.
       if continue then delete_dashboards c namespace ds else ret ())"

subsection \<open>All dashboards\<close>

definition reconcileDashboards :: "'w dash_env \<Rightarrow> ControllerState \<Rightarrow> ObjectKey \<Rightarrow> 'w GrafanaClient
    \<Rightarrow> ('w, Result \<times> error option) operation" where
  "reconcileDashboards env st request c s =
     (let knownDashboards = GetDashboards (op_Config s) (key_Namespace request)
      in case de_list env (op_World s) of
           Inl err \<Rightarrow> (Done (no_requeue, Some (FromApi err)), s)
         | Inr namespaceDashboards \<Rightarrow>
             (let dashboardsToDelete = filter (\<lambda>d. \<not> inNamespace namespaceDashboards d) knownDashboards;
                  (r, s1) = for_each (reconcile_dashboard env st c) namespaceDashboards
                              \<lparr>lp_op = s, lp_known = knownDashboards, lp_shared = key_Namespace request \<noteq> []\<rparr>
              in seq (\<lambda>_. (r, lp_op s1)) (\<lambda>_.
                 seq (delete_dashboards c (key_Namespace request) dashboardsToDelete) (\<lambda>_.
                   ret (no_requeue, None))) (lp_op s1)))"

definition DashboardReconcile :: "'w dash_env \<Rightarrow> ControllerState \<Rightarrow> ObjectKey
    \<Rightarrow> ('w, Result \<times> error option) operation" where
  "DashboardReconcile env st request =
     (if \<not> GrafanaReady st then ret (no_requeue, None)
      else seq (gets (getClient env st)) (\<lambda>client.
           case client of
             Inl err \<Rightarrow> ret (requeue_later, Some (Error err))
           | Inr c \<Rightarrow>
               if key_Name request = [] then reconcileDashboards env st request c
               else if DashboardSelectors st = None then ret (requeue_later, None)
               else seq (gets (\<lambda>s. de_get env request (op_World s))) (\<lambda>r.
                    case r of
                      Inl err \<Rightarrow> if err = NotFound then reconcileDashboards env st request c
                                 else ret (no_requeue, Some (FromApi err))
                    | Inr cr \<Rightarrow> if \<not> isMatch env st cr then ret (no_requeue, None)
                                else reconcileDashboards env st request c)))"

end
