(* ===== verification/Grafana_Controller_Properties.thy ===== *)
theory Grafana_Controller_Properties
  imports Grafana_Controller
begin

text \<open>
  What a reconciliation of the Grafana resource guarantees to the other controllers: the messages
  on the channel \<open>common.ControllerEvents\<close> and the url of Grafana.
\<close>

subsection \<open>What the other controllers are told\<close>

text \<open>No dashboard counts as up to date: its hash is the one of no dashboard.\<close>

definition all_outdated :: "'w operator \<Rightarrow> bool" where
  "all_outdated s \<longleftrightarrow> list_all (\<lambda>r. ref_Hash r = []) (cc_Dashboards (op_Config s))"

text \<open>The ways a call can end, with what it leaves on the channel.\<close>

definition told_unready :: "'w operator \<Rightarrow> 'w operator \<Rightarrow> bool" where
  "told_unready s s' \<longleftrightarrow> op_Events s' = op_Events s @ [zero_ControllerState] \<and> all_outdated s'"

definition told_ready :: "'w operator \<Rightarrow> 'w operator \<Rightarrow> bool" where
  "told_ready s s' \<longleftrightarrow> (\<exists>e. op_Events s' = op_Events s @ [e] \<and> GrafanaReady e \<and> AdminUrl e \<noteq> []
     \<and> 0 \<le> ClientTimeout e)"

definition told_nothing :: "'w operator \<Rightarrow> 'w operator \<Rightarrow> bool" where
  "told_nothing s s' \<longleftrightarrow> op_Events s' = op_Events s"

lemma keeps_net_send [simp]:
  "keeps op_Events (net_send net m u h b)" "keeps op_Config (net_send net m u h b)"
  unfolding net_send_def by (intro keeps_seq keeps_on_world; simp)+

lemma keeps_RandomString [simp]:
  "keeps op_Events (RandomString net n)" "keeps op_Config (RandomString net n)"
  unfolding RandomString_def by (intro keeps_collect keeps_seq keeps_on_world; simp)+

lemma keeps_users [simp]:
  "keeps op_Events (GetGrafanaUser net u)" "keeps op_Config (GetGrafanaUser net u)"
  "keeps op_Events (CreateGrafanaUser net u)" "keeps op_Config (CreateGrafanaUser net u)"
  unfolding GetGrafanaUser_def CreateGrafanaUser_def set_admin_def
  by (intro keeps_seq; simp split: sum.split prod.split)+

lemma keeps_GiveAdmin [simp]:
  "keeps op_Events (GiveAdmin net)" "keeps op_Config (GiveAdmin net)"
  unfolding GiveAdmin_def GetCRBAdmin_def give_admin_to_def
  by (intro keeps_seq keeps_for_each; auto intro!: keeps_seq keeps_on_world)+

lemma keeps_attempt [simp]:
  "keeps op_Events (attempt f)" "keeps op_Config (attempt f)"
  unfolding attempt_def by (intro keeps_seq keeps_on_world; simp split: option.split)+

lemma keeps_of_go_state [simp]: "keeps g (\<lambda>s. of_go (f s) s)"
  by (auto simp: keeps_def of_go_def split: sum.split)

lemma keeps_createFolder [simp]:
  "keeps op_Events (createFolder env n b)" "keeps op_Config (createFolder env n b)"
  unfolding createFolder_def Let_def by (intro keeps_seq; auto split: stat_result.split intro: keeps_seq)+

lemma keeps_createFile [simp]:
  "keeps op_Events (createFile env p c)" "keeps op_Config (createFile env p c)"
  unfolding createFile_def by (auto split: option.split intro!: keeps_seq)

lemma keeps_import_library [simp]:
  "keeps op_Events (import_library env b c)" "keeps op_Config (import_library env b c)"
  unfolding import_library_def
  by (auto split: option.split intro!: keeps_seq keeps_on_error keeps_for_each)

lemma keeps_reconcileConfigMaps [simp]:
  "keeps op_Events (reconcileConfigMaps env cr)" "keeps op_Config (reconcileConfigMaps env cr)"
  unfolding reconcileConfigMaps_def
  by (auto split: option.split sum.split intro!: keeps_seq keeps_for_each)

lemma keeps_update_status [simp]:
  "keeps op_Events (update_status env cr)" "keeps op_Config (update_status env cr)"
  unfolding update_status_def by (intro keeps_on_world; simp)+

lemma keeps_run_plan [simp]:
  "keeps op_Events (run_plan env cr d)" "keeps op_Config (run_plan env cr d)"
  by (auto simp: keeps_def run_plan_def split: prod.split)

lemma keeps_desired_state [simp]: "keeps op_Events (desired_state env st cr)"
  by (auto simp: keeps_def desired_state_def split: sum.split prod.split)

lemma manageError_tells:
  assumes "manageError env request cr issue s = (Done (res, err), s')"
  shows "if err = None \<and> res = requeue_later then told_unready s s' else told_nothing s s'"
proof -
  have outdated: "list_all (\<lambda>r. ref_Hash r = []) (cc_Dashboards (InvalidateDashboards c))" for c
    by (simp add: InvalidateDashboards_def list_all_iff)
  have distinct: "no_requeue \<noteq> requeue_later"
    by (simp add: no_requeue_def requeue_later_def RequeueDelay_def)
  show ?thesis
  proof (cases "ge_get env request (op_World s)")
    case (Inl e)
    with assms distinct show ?thesis by (auto simp: manageError_def Let_def told_nothing_def)
  next
    case (Inr inst)
    define cr' where "cr' = cr\<lparr>Status := (Status cr)\<lparr>st_Phase := PhaseFailing, st_Message := error_text env issue\<rparr>\<rparr>"
    show ?thesis
    proof (cases "ge_DeepEqual env (Status cr') (Status inst)")
      case True
      with Inr assms show ?thesis
        by (auto simp: manageError_def Let_def cr'_def [symmetric] on_config_def publish_def told_unready_def
            all_outdated_def outdated zero_ControllerState_def)
    next
      case False
      obtain e c s1 where u: "update_status env cr' s = (Done (e, c), s1)"
        by (cases "ge_update_status env cr' (op_World s)") (auto simp: update_status_def on_world_def)
      then have k: "op_Events s1 = op_Events s" using keepsD keeps_update_status(1) by metis
      from u False Inr assms distinct k show ?thesis
        by (cases e) (auto simp: manageError_def Let_def cr'_def [symmetric] on_config_def publish_def
            told_unready_def told_nothing_def all_outdated_def outdated zero_ControllerState_def k)
    qed
  qed
qed

lemma getGrafanaAdminUrl_not_Nil: "getGrafanaAdminUrl cr state = Inr url \<Longrightarrow> url \<noteq> []"
  by (auto simp: getGrafanaAdminUrl_def Let_def split: option.splits list.splits if_splits)

lemma controller_state_ready:
  "GrafanaReady (controller_state cr url)" "AdminUrl (controller_state cr url) = url"
  "0 \<le> ClientTimeout (controller_state cr url)"
  by (auto simp: controller_state_def DefaultClientTimeoutSeconds_def split: option.split)

text \<open>How the calls end; the events of \<open>s0\<close> are those at the start.\<close>

definition told :: "'w operator \<Rightarrow> Result \<times> error option \<Rightarrow> 'w operator \<Rightarrow> bool" where
  "told s0 r s' \<longleftrightarrow>
     (if snd r = None \<and> fst r = requeue_later then told_ready s0 s' \<or> told_unready s0 s' else told_nothing s0 s')"

lemma told_from: "op_Events s1 = op_Events s0 \<Longrightarrow> told s1 r s' = told s0 r s'"
  by (simp add: told_def told_ready_def told_unready_def told_nothing_def)

text \<open>Programs that tell nothing until their last part tells what the result says.\<close>

definition tells :: "'w operator \<Rightarrow> ('w, Result \<times> error option) operation \<Rightarrow> bool" where
  "tells s0 m \<longleftrightarrow> (\<forall>s r s'. op_Events s = op_Events s0 \<longrightarrow> m s = (Done r, s') \<longrightarrow> told s0 r s')"

lemma tellsD: "tells s m \<Longrightarrow> m s = (Done r, s') \<Longrightarrow> told s r s'"
  unfolding tells_def by blast

lemma tells_seq:
  assumes "keeps op_Events m" "\<And>a. tells s0 (f a)"
  shows "tells s0 (seq m f)"
  using assms unfolding tells_def seq_Done_iff by (metis keepsD)

lemma tells_manageError [simp]: "tells s0 (manageError env request cr issue)"
  unfolding tells_def
proof (intro allI impI)
  fix s r s'
  assume "op_Events s = op_Events s0" "manageError env request cr issue s = (Done r, s')"
  then show "told s0 r s'"
    using manageError_tells [of env request cr issue s "fst r" "snd r" s']
    by (auto simp: told_def told_unready_def told_nothing_def split: if_splits)
qed

lemma tells_ready:
  assumes "GrafanaReady e" "AdminUrl e \<noteq> []" "0 \<le> ClientTimeout e" "keeps op_Events m"
  shows "tells s0 (seq (publish e) (\<lambda>_. seq m (\<lambda>_. ret (requeue_later, None))))"
  using assms by (auto simp: tells_def publish_def seq_Done_iff told_def told_ready_def dest!: keepsD)

lemma tells_publish_state [simp]: "tells s0 (publish_state env request state cr)"
  unfolding publish_state_def
  by (auto intro!: tells_ready simp: controller_state_ready getGrafanaAdminUrl_not_Nil split: sum.split)

lemma tells_write_status [simp]: "tells s0 (write_status env request state cr)"
  unfolding write_status_def by (auto intro!: tells_seq split: sum.split option.split)

lemma tells_manageSuccess [simp]: "tells s0 (manageSuccess env request cr state)"
  unfolding manageSuccess_def by (auto intro!: tells_seq simp: on_config_def)

text \<open>The resource is gone: everything is forgotten.\<close>

definition told_deleted :: "'w operator \<Rightarrow> 'w operator \<Rightarrow> bool" where
  "told_deleted s s' \<longleftrightarrow> op_Events s' = op_Events s @ [zero_ControllerState]
     \<and> cc_Dashboards (op_Config s') = [] \<and> cc_Plugins (op_Config s') = []"

lemma tells_reconcile_found: "tells s0 (reconcile_found env request cr)"
  unfolding reconcile_found_def
  by (auto intro!: tells_seq keeps_on_error keeps_seq split: sum.split option.split)

lemma ReconcileGrafana_told:
  assumes "ReconcileGrafana env request s = (Done r, s')"
  shows "if ge_get env request (op_World s) = Inl NotFound
         then r = (no_requeue, None) \<and> told_deleted s s' else told s r s'"
proof (cases "ge_get env request (op_World s)")
  case (Inl e)
  have "no_requeue \<noteq> requeue_later"
    by (simp add: no_requeue_def requeue_later_def RequeueDelay_def)
  with Inl assms show ?thesis
    by (auto simp: ReconcileGrafana_def on_config_def publish_def told_deleted_def told_def told_nothing_def
        Cleanup_def zero_ControllerState_def)
next
  case (Inr cr)
  with assms have "reconcile_found env request cr s = (Done r, s')" by (simp add: ReconcileGrafana_def)
  with Inr show ?thesis using tellsD [OF tells_reconcile_found] by simp
qed

subsection \<open>Properties\<close>


definition broken_api :: "unit api" where
  "broken_api =
     \<lparr>get_Service = (\<lambda>_ _. Inl (ApiError ''down'')), get_PVC = (\<lambda>_ _. Inl NotFound),
      get_ServiceAccount = (\<lambda>_ _. Inl NotFound), get_ConfigMap = (\<lambda>_ _. Inl NotFound),
      get_Route = (\<lambda>_ _. Inl NotFound), get_Ingress = (\<lambda>_ _. Inl NotFound),
      get_Deployment = (\<lambda>_ _. Inl NotFound), get_Secret = (\<lambda>_ _. Inl NotFound),
      api_Create = (\<lambda>_ w. (None, w)), api_Update = (\<lambda>_ w. (None, w)), api_Delete = (\<lambda>_ w. (None, w)),
      SetControllerReference = (\<lambda>_ obj. Inr obj)\<rparr>"

definition broken_env :: "(unit, int) grafana_env" where
  "broken_env =
     \<lparr>ge_api = broken_api, ge_get = (\<lambda>_ _. Inr bare_grafana),
      ge_update_status = (\<lambda>cr w. (None, cr, w)), ge_DeepEqual = (=), ge_message = (\<lambda>_. ''down''),
      ge_outside = (\<lambda>_. \<lparr>out_Rand = [], out_ParseFloat = Some, out_NewVersion = number_version,
                            out_Compare = number_compare, out_Get = (\<lambda>_. Inr 200)\<rparr>),
      ge_network = \<lparr>net_Do = (\<lambda>_ w. (Inl ''down'', w)), net_accepts = (\<lambda>_. True), net_Intn = (\<lambda>_ w. (0, w)),
                    net_in_cluster = (\<lambda>_. True), net_bindings = (\<lambda>w. (Inr [], w))\<rparr>,
      ge_as_selector = (\<lambda>_. None), ge_list_ConfigMaps = (\<lambda>_ _ _. Inr []), ge_range = (\<lambda>_. []),
      ge_Stat = (\<lambda>_ _. Exists), ge_Mkdir = (\<lambda>_ w. (None, w)), ge_Create = (\<lambda>_ w. (None, w)),
      ge_WriteString = (\<lambda>_ _ w. (None, w)), ge_Close = (\<lambda>_ w. (None, w))\<rparr>"

definition start :: "'w \<Rightarrow> 'w operator" where
  "start w = \<lparr>op_World = w, op_Config = GetControllerConfig, op_Channels = GetNotificationControllerConfig,
     op_Env = (\<lambda>_. None), op_grafanaId = [], op_grafanaPw = [], op_GrafanaKey = [], op_HyperauthUrl = [],
     op_Events = []\<rparr>"

definition grafana_key :: ObjectKey where
  "grafana_key = \<lparr>key_Namespace = ''ns'', key_Name = ''g''\<rparr>"

lemma broken_reconcile:
  "\<exists>s'. ReconcileGrafana broken_env grafana_key (start ()) = (Done (requeue_later, None), s')"
  by (simp add: ReconcileGrafana_def reconcile_found_def broken_env_def Read_def GetConfigBool_def HasConfigItem_def start_def
      GetControllerConfig_def readGrafanaService_def found_def broken_api_def manageError_def Let_def
      update_status_def on_world_def on_config_def publish_def)


text \<open>
  Preferring the service, the other controllers reach Grafana where its service is: the url
  has the name and namespace of the service that the operator creates and its first port.
\<close>
theorem admin_url_is_service:
  assumes "GetPreferServiceValue cr" "cs_Service state = Some (Model_Resources.GrafanaService cr)"
  shows "getGrafanaAdminUrl cr state =
    Inr (''http://'' @ om_Name (svc_meta (Model_Resources.GrafanaService cr)) @ ''.''
         @ om_Namespace (svc_meta (Model_Resources.GrafanaService cr)) @ ''.svc.cluster.local:''
         @ Itoa (sint (sp_Port (hd (svc_Ports (Model_Resources.GrafanaService cr))))))"
  using assms
  by (simp add: getGrafanaAdminUrl_def Model_Resources.GrafanaService_def getServicePorts_eq default_port_def new_meta_def Let_def
      split: option.split)

definition service_grafana :: Grafana where
  "service_grafana = bare_grafana\<lparr>Spec := bare_spec\<lparr>spec_Client :=
     Some \<lparr>gc_TimeoutSeconds = None, gc_PreferService = Some True\<rparr>\<rparr>\<rparr>"

lemma admin_url_is_service_witness:
  "\<exists>url. getGrafanaAdminUrl service_grafana
     (NewClusterState\<lparr>cs_Service := Some (Model_Resources.GrafanaService service_grafana)\<rparr>) = Inr url"
  using admin_url_is_service [of service_grafana
      "NewClusterState\<lparr>cs_Service := Some (Model_Resources.GrafanaService service_grafana)\<rparr>"]
  by (simp add: GetPreferServiceValue_def service_grafana_def)

subsection \<open>Observations\<close>

text \<open>A binding of the role of cluster administrators without subjects makes the operator panic.\<close>

lemma binding_without_subjects_panics:
  "admins_of [\<lparr>crb_RoleRef = ''cluster-admin'', crb_Subjects = []\<rparr>] = Inl IndexOutOfRange"
  by simp

text \<open>A user that Grafana knows already does not become an administrator.\<close>

lemma known_user_not_promoted:
  assumes "GetGrafanaUser net user s = (Done i, s')" "i \<noteq> 0"
  shows "give_admin_to net user s = (Done (), s')"
  using assms by (simp add: give_admin_to_def)

end
