(* ===== verification/Dashboard_Controller_Properties.thy ===== *)
theory Dashboard_Controller_Properties
  imports Dashboard_Controller Dashboard_Properties Grafana_Controller_Properties
begin

text \<open>
  The registry of dashboards and the calls of the controller: a submitted dashboard is left
  alone, and deletion follows the registry.
\<close>

subsection \<open>A submitted dashboard is known\<close>

definition same_resource :: "GrafanaDashboard \<Rightarrow> GrafanaDashboardRef \<Rightarrow> bool" where
  "same_resource d r \<longleftrightarrow> om_Name (dash_meta d) = ref_Name r \<and> om_Namespace (dash_meta d) = ref_Namespace r"

lemma find_known_unique:
  assumes "r \<in> set refs" "same_resource d r" "\<And>r'. r' \<in> set refs \<Longrightarrow> same_resource d r' \<Longrightarrow> r' = r"
  shows "find_known refs d = Some r"
  using assms
proof (induction refs)
  case (Cons a refs)
  show ?case
  proof (cases "same_resource d a")
    case True
    then have "a = r" using Cons.prems(3) by simp
    with True show ?thesis by (simp add: find_known_def same_resource_def)
  next
    case False
    with Cons.prems(1,2) have "r \<in> set refs" by auto
    then have "find_known refs d = Some r"
      using Cons.IH Cons.prems(2,3) by (meson list.set_intros(2))
    with False show ?thesis by (auto simp: find_known_def same_resource_def)
  qed
qed simp

lemma AddDashboard_known:
  assumes "dashboards_ok cfg" "UID d = Inr uid"
    and "list_all (\<lambda>r. same_resource d r \<longrightarrow> ref_UID r = uid) (cc_Dashboards cfg)"
    and "AddDashboard cfg d folderId folderName = Inr cfg'"
  shows "findHash (cc_Dashboards cfg') d = Hash d \<and> findUid (cc_Dashboards cfg') d = uid
     \<and> dashboards_ok cfg'"
proof -
  obtain fn where put: "cfg' = put_dashboard (dashboard_ref d uid folderId fn) cfg"
    using assms(2,4) by (auto simp: AddDashboard_put)
  let ?r = "dashboard_ref d uid folderId fn"
  have r: "ref_UID ?r = uid" "same_resource d ?r" "ref_Hash ?r = Hash d"
    by (simp_all add: dashboard_ref_def same_resource_def)
  have set: "set (cc_Dashboards cfg') = insert ?r {x \<in> set (cc_Dashboards cfg). ref_UID x \<noteq> uid}"
    using assms(1) r(1) by (simp add: put put_dashboard_def dashboards_ok_def set_upsert)
  have "find_known (cc_Dashboards cfg') d = Some ?r"
    by (rule find_known_unique) (use set r assms(3) in \<open>auto simp: list_all_iff\<close>)
  moreover have "dashboards_ok cfg'"
    using assms(1) by (simp add: put put_dashboard_def dashboards_ok_def distinct_upsert)
  ultimately show ?thesis by (simp add: findHash_def findUid_def r)
qed

subsection \<open>An unchanged dashboard is left alone\<close>

definition embedded :: "GrafanaDashboard \<Rightarrow> bool" where
  "embedded d \<longleftrightarrow> dash_Url (dash_Spec d) = [] \<and> dash_GrafanaCom (dash_Spec d) = None
     \<and> dash_ConfigMapRef (dash_Spec d) = None \<and> dash_Json (dash_Spec d) \<noteq> []"

lemma embedded_obtained:
  assumes "embedded d"
  shows "obtainJson env vs (NewDashboardPipeline d w) = (Done (), (NewDashboardPipeline d w)\<lparr>pl_JSON := dash_Json (dash_Spec d)\<rparr>)"
  using assms
  by (simp add: obtainJson_def try_url_def try_config_map_def try_json_def set_JSON_def dspec_def
      NewDashboardPipeline_def embedded_def)

lemma embedded_unchanged:
  assumes "embedded d"
  shows "ProcessDashboard env mf vs (Hash d) folderId folderName False (NewDashboardPipeline d w) =
    (Done None, (NewDashboardPipeline d w)\<lparr>pl_JSON := dash_Json (dash_Spec d), pl_Hash := Hash d\<rparr>)"
  by (rule trans [OF ProcessDashboard_unchanged [OF embedded_obtained [OF assms]]])
    (simp_all add: NewDashboardPipeline_def)

lemma New_World [simp]:
  "pl_World (NewDashboardPipeline d w) = w" "(NewDashboardPipeline d w)\<lparr>pl_World := w\<rparr> = NewDashboardPipeline d w"
  "pl_Dashboard (NewDashboardPipeline d w) = d"
  by (simp_all add: NewDashboardPipeline_def)

lemma reconcile_unchanged:
  assumes "embedded d" "find_known (lp_known s) d = Some r" "ref_Hash r = Hash d" "ref_UID r \<noteq> []"
    and "CreateOrUpdateFolder c (folder_name d) (lp_op s) = (Done (folder, None), s1)"
    and "GetDashboard c (ref_UID r) s1 = (Done (answer, e), s2)"
    and "gdr_Dashboard answer = Some known" "gd_ID known = Some i" "i \<noteq> 0"
  shows "reconcile_dashboard env st c d s =
    (Done (), s\<lparr>lp_op := s2\<lparr>op_Config := SetPluginsFor (op_Config s2) d\<rparr>\<rparr>)"
proof -
  have run: "run_pipeline env (Hash d) f n False (NewDashboardPipeline d (op_World s1)) (s\<lparr>lp_op := s1\<rparr>) =
    (Done (Inr None, (NewDashboardPipeline d (op_World s1))\<lparr>pl_JSON := dash_Json (dash_Spec d), pl_Hash := Hash d\<rparr>),
     s\<lparr>lp_op := s1\<rparr>)" for f n
    by (simp add: run_pipeline_def embedded_unchanged [OF assms(1)])
  show ?thesis
    using assms run
    by (simp add: reconcile_dashboard_def Let_def on_op_def findHash_def findUid_def check_deleted_def
        submit_def on_config_def)
qed

subsection \<open>Deletion\<close>

lemma keeps_send_request [simp]: "keeps op_Config (send_request c m p b)"
  unfolding send_request_def by (auto split: sum.split intro!: keeps_on_world)

lemma keeps_DeleteDashboardByUID [simp]: "keeps op_Config (DeleteDashboardByUID c uid)"
  unfolding DeleteDashboardByUID_def by (intro keeps_seq; simp split: sum.split)

lemma keeps_getFolderUID [simp]: "keeps op_Config (getFolderUID c i)"
  unfolding getFolderUID_def by (intro keeps_seq; simp split: sum.split prod.split add: Let_def)

lemma keeps_DeleteFolder [simp]: "keeps op_Config (DeleteFolder c i)"
  unfolding DeleteFolder_def
  by (auto intro!: keeps_seq split: sum.split prod.split)

lemma SafeToDelete_False:
  "SafeToDelete refs i = Inr False \<Longrightarrow> \<exists>r \<in> set refs. ref_FolderId r = i"
proof (induction refs)
  case (Cons a refs)
  then show ?case by (cases "ref_FolderId a"; cases i) (auto split: if_splits)
qed simp

lemma GetDashboards_all [simp]: "GetDashboards cfg ns = cc_Dashboards cfg"
  by (simp add: GetDashboards_def)

text \<open>The shared configuration after one dashboard.\<close>

definition forget :: "GrafanaDashboardRef \<Rightarrow> ControllerConfig \<Rightarrow> ControllerConfig" where
  "forget d cfg =
     (let cfg = RemoveDashboard (RemovePluginsFor cfg (ref_Namespace d) (ref_Name d)) (ref_UID d)
      in cfg\<lparr>cc_Values := AddConfigItem (cc_Values cfg) ConfigGrafanaDashboardsSynced (Some (VBool True))\<rparr>)"

lemma delete_dashboard_effect:
  assumes "delete_dashboard c ns d s = (Done continue, s')"
  shows "op_Config s' = forget d (op_Config s)"
    "\<not> continue \<Longrightarrow> \<exists>r \<in> set (cc_Dashboards (op_Config s')). ref_FolderId r = ref_FolderId d"
proof -
  from assms obtain status err s1 where s1: "DeleteDashboardByUID c (ref_UID d) s = (Done (status, err), s1)"
    by (auto simp: delete_dashboard_def seq_Done_iff)
  then have c1: "op_Config s1 = op_Config s" using keepsD keeps_DeleteDashboardByUID by metis
  define s2 where "s2 = s1\<lparr>op_Config := forget d (op_Config s1)\<rparr>"
  have rest: "(if ref_FolderName d = [] \<or> ref_FolderName d = ref_Namespace d
       then seq (\<lambda>s. of_go (SafeToDelete (GetDashboards (op_Config s) ns) (ref_FolderId d)) s) (\<lambda>safe.
              if \<not> safe then ret False
              else seq (DeleteFolder c (ref_FolderId d)) (\<lambda>err.
                   seq (of_go (if err \<noteq> None then deref (ref_FolderId d) else Inr 0)) (\<lambda>_.
                     ret True)))
       else ret True) s2 = (Done continue, s')"
    using assms s1
    by (auto simp: delete_dashboard_def seq_Done_iff on_config_def s2_def forget_def Let_def simp del: GetDashboards_all)
  show "op_Config s' = forget d (op_Config s)"
    using rest
    by (auto simp: seq_Done_iff s2_def c1 dest!: keepsD [OF keeps_DeleteFolder] split: if_splits)
  show "\<exists>r \<in> set (cc_Dashboards (op_Config s')). ref_FolderId r = ref_FolderId d" if "\<not> continue"
    using rest that by (auto simp: seq_Done_iff split: if_splits dest!: SafeToDelete_False)
qed

lemma find_forget:
  assumes "dashboards_ok cfg"
  shows "dashboards_ok (forget d cfg)"
    "find_dashboard (forget d cfg) k = (if k = ref_UID d then None else find_dashboard cfg k)"
  using dash.ok_del [of "RemovePluginsFor cfg (ref_Namespace d) (ref_Name d)" "ref_UID d"]
    dash.look_del [of "RemovePluginsFor cfg (ref_Namespace d) (ref_Name d)" "ref_UID d" k] assms
  by (simp_all add: forget_def Let_def dashboards_ok_def find_dashboard_def RemovePluginsFor_def)

lemma delete_dashboards_effect:
  assumes "delete_dashboards c ns ds s = (Done (), s')" "dashboards_ok (op_Config s)"
  shows "\<exists>removed rest. ds = removed @ rest
     \<and> (\<forall>k. find_dashboard (op_Config s') k =
           (if k \<in> ref_UID ` set removed then None else find_dashboard (op_Config s) k))
     \<and> (rest = [] \<or> (removed \<noteq> [] \<and> (\<exists>r \<in> set (cc_Dashboards (op_Config s')). ref_FolderId r = ref_FolderId (last removed))))"
  using assms
proof (induction ds arbitrary: s)
  case Nil
  then show ?case by auto
next
  case (Cons d ds)
  from Cons.prems(1) obtain continue s1 where s1: "delete_dashboard c ns d s = (Done continue, s1)"
    "(if continue then delete_dashboards c ns ds else ret ()) s1 = (Done (), s')"
    by (auto simp: seq_Done_iff)
  have cfg: "op_Config s1 = forget d (op_Config s)" by (rule delete_dashboard_effect(1) [OF s1(1)])
  have ok: "dashboards_ok (op_Config s1)" using find_forget(1) [OF Cons.prems(2)] by (simp add: cfg)
  show ?case
  proof (cases continue)
    case True
    with s1(2) have "delete_dashboards c ns ds s1 = (Done (), s')" by simp
    from Cons.IH [OF this ok] obtain removed rest where r: "ds = removed @ rest"
      "\<And>k. find_dashboard (op_Config s') k =
           (if k \<in> ref_UID ` set removed then None else find_dashboard (op_Config s1) k)"
      "rest = [] \<or> (removed \<noteq> [] \<and> (\<exists>r \<in> set (cc_Dashboards (op_Config s')). ref_FolderId r = ref_FolderId (last removed)))"
      by blast
    show ?thesis
      by (rule exI [of _ "d # removed"], rule exI [of _ rest])
        (use r find_forget(2) [OF Cons.prems(2)] in \<open>auto simp: cfg\<close>)
  next
    case False
    with s1(2) have s': "s' = s1" by simp
    show ?thesis
      by (rule exI [of _ "[d]"], rule exI [of _ ds])
        (use find_forget(2) [OF Cons.prems(2)] delete_dashboard_effect(2) [OF s1(1) False] in \<open>auto simp: cfg s'\<close>)
  qed
qed

subsection \<open>Properties\<close>



subsection \<open>A Grafana that answers, for the examples\<close>

definition folders_text :: string where
  "folders_text = ''['' @ object_text [(''id'', ''1''), (''title'', Marshal_string ''ns''), (''uid'', Marshal_string ''f'')] @ '']''"

definition dashboard_text :: string where
  "dashboard_text = object_text [(''dashboard'', object_text [(''id'', ''5'')])]"

definition answering :: "unit GrafanaClient" where
  "answering =
     \<lparr>cl_url = [], cl_user = [], cl_password = [], cl_prepare = (\<lambda>url _ _. Inr url),
      cl_Do = (\<lambda>rq w. (Inr \<lparr>resp_StatusCode = 200,
          resp_Body = (if rq_Url rq = ''/api/folders'' then folders_text else dashboard_text),
          resp_ReadError = None\<rparr>, w)),
      cl_json_error = (\<lambda>_. ''json''), cl_pointer = (\<lambda>_. ''0x'')\<rparr>"

lemma number_texts: "valid_number ''1''" "valid_number ''5''"
  using valid_number_Itoa [of 1] valid_number_Itoa [of 5] by (simp_all add: Itoa_def digits.simps text_simps)

lemma texts_parsed:
  "parse_json folders_text = Some (JArr [JObj [(''id'', JNum ''1''), (''title'', JStr ''ns''), (''uid'', JStr ''f'')]])"
  "parse_json dashboard_text = Some (JObj [(''dashboard'', JObj [(''id'', JNum ''5'')])])"
proof -
  have "reads (object_text [(''id'', ''1''), (''title'', Marshal_string ''ns''), (''uid'', Marshal_string ''f'')])
      (JObj [(''id'', JNum ''1''), (''title'', JStr ''ns''), (''uid'', JStr ''f'')])"
    unfolding object_text_def by (rule reads_object) (simp add: reads_number number_texts reads_string)
  then have "reads folders_text (JArr [JObj [(''id'', JNum ''1''), (''title'', JStr ''ns''), (''uid'', JStr ''f'')]])"
    using reads_array [of "[object_text [(''id'', ''1''), (''title'', Marshal_string ''ns''), (''uid'', Marshal_string ''f'')]]"]
    by (simp add: folders_text_def)
  then show "parse_json folders_text = Some (JArr [JObj [(''id'', JNum ''1''), (''title'', JStr ''ns''), (''uid'', JStr ''f'')]])"
    by (rule parse_json_reads)
  have "reads (object_text [(''id'', ''5'')]) (JObj [(''id'', JNum ''5'')])"
    unfolding object_text_def by (rule reads_object) (simp add: reads_number number_texts)
  then have "reads dashboard_text (JObj [(''dashboard'', JObj [(''id'', JNum ''5'')])])"
    unfolding dashboard_text_def object_text_def [of "[(''dashboard'', _)]"] by (intro reads_object) simp
  then show "parse_json dashboard_text = Some (JObj [(''dashboard'', JObj [(''id'', JNum ''5'')])])"
    by (rule parse_json_reads)
qed

lemma decode_names:
  "fold_key ''id'' = ''id''" "fold_key ''title'' = ''title''" "fold_key ''uid'' = ''uid''"
  "fold_key ''dashboard'' = ''dashboard''" "Atoi ''1'' = Some 1" "parse_digits ''5'' = Some 5"
  by (simp_all add: fold_key_ascii ToLower_def to_lower_char_def is_upper_def code_def Atoi_def parse_digits_def
      is_digit_def digit_value_def in_int64_def)

lemmas decode_simps = dec_slice_def dec_struct_def dec_member_def dec_field_def dec_pointer_def dec_int_def
  dec_uint_def dec_string_def

lemma folders_decoded:
  "Unmarshal (dec_slice \<lparr>gf_ID = None, gf_Title = [], gf_UID = []\<rparr> (dec_struct folder_fields)) folders_text ([], [])
     = (([\<lparr>gf_ID = Some 1, gf_Title = ''ns'', gf_UID = ''f''\<rparr>], []), True)"
  by (simp add: Unmarshal_def texts_parsed decode_simps decode_names folder_fields_def)

lemma dashboard_decoded:
  "Unmarshal (dec_struct dashboard_response_fields) dashboard_text newDashboardResponse
     = (\<lparr>gdr_Meta = None, gdr_Dashboard = Some \<lparr>gd_ID = Some 5, gd_UID = Some [], gd_Title = Some [], gd_Version = Some 0\<rparr>\<rparr>, True)"
  by (simp add: Unmarshal_def texts_parsed decode_simps decode_names dashboard_response_fields_def
      dashboard_fields_def newDashboardResponse_def)

lemma answering_folder:
  "CreateOrUpdateFolder answering ''ns'' s = (Done (\<lparr>gf_ID = Some 1, gf_Title = ''ns'', gf_UID = ''f''\<rparr>, None), s)"
  by (simp add: CreateOrUpdateFolder_def getAllFolders_def send_request_def answering_def on_world_def
      read_answer_def ReadAll_def folders_decoded seq_def)

lemma answering_dashboard:
  "\<exists>a dash. GetDashboard answering uid s = (Done (a, None), s) \<and> gdr_Dashboard a = Some dash \<and> gd_ID dash = Some 5"
  by (simp add: GetDashboard_def send_request_def answering_def on_world_def read_answer_def ReadAll_def
      dashboard_decoded seq_def)


definition unreachable_grafana :: "unit GrafanaClient" where
  "unreachable_grafana = answering\<lparr>cl_Do := \<lambda>_ w. (Inl ''down'', w)\<rparr>"

definition known_ref :: "string \<Rightarrow> int \<Rightarrow> GrafanaDashboardRef" where
  "known_ref uid folder = \<lparr>ref_Name = uid, ref_Namespace = ''ns'', ref_UID = uid, ref_Hash = [],
     ref_FolderId = Some folder, ref_FolderName = ''ns''\<rparr>"

definition three_known :: "unit operator" where
  "three_known = (start ())\<lparr>op_Config := GetControllerConfig\<lparr>cc_Dashboards :=
     [known_ref ''a'' 1, known_ref ''b'' 1, known_ref ''c'' 2]\<rparr>\<rparr>"

lemma unreachable_delete: "DeleteDashboardByUID unreachable_grafana uid s = (Done (newResponse, Some ''down''), s)"
  by (simp add: DeleteDashboardByUID_def send_request_def unreachable_grafana_def answering_def on_world_def seq_def)

lemma used_folder_stops:
  assumes "ref_FolderName d = ref_Namespace d"
    and "SafeToDelete (GetDashboards (forget d (op_Config s)) []) (ref_FolderId d) = Inr False"
  shows "\<exists>s'. delete_dashboards unreachable_grafana [] (d # ds) s = (Done (), s')"
  using assms
  by (simp add: delete_dashboard_def unreachable_delete newResponse_def on_config_def forget_def Let_def seq_def)

lemma three_known_deleted:
  "\<exists>s'. delete_dashboards unreachable_grafana [] [known_ref ''a'' 1, known_ref ''c'' 2] three_known = (Done (), s')"
  by (rule used_folder_stops)
    (simp_all add: known_ref_def three_known_def forget_def RemovePluginsFor_def RemoveDashboard_def HasDashboard_def
      GetDashboards_def GetControllerConfig_def swap_remove_def Let_def)


subsection \<open>Observations\<close>

text \<open>
  When the uid in the json of a dashboard changes, the reference with the old uid stays, and it
  is the one that is found: the dashboard never counts as unchanged again.
\<close>

lemma changed_uid_resubmits:
  assumes "UID d = Inr uid" "same_resource d old" "ref_UID old \<noteq> uid"
    and "AddDashboard (GetControllerConfig\<lparr>cc_Dashboards := [old]\<rparr>) d folderId folderName = Inr cfg'"
  shows "findHash (cc_Dashboards cfg') d = ref_Hash old"
  using assms
  by (auto simp: AddDashboard_def HasDashboard_def findHash_def find_known_def same_resource_def
      split: option.splits)

end
