(* ===== verification/Notification_Channels.thy ===== *)
theory Notification_Channels
  imports Dashboard_Client Grafana_Controller
begin

text \<open>
  The notification channels: \<open>controllers/grafananotificationchannel\<close>, with the pipeline that
  turns the json of a resource into the bytes for Grafana, the client of Grafana's HTTP
  interface and the controller. The client has the fields of the one for dashboards, and what
  the two have in common is taken from there.
\<close>

subsection \<open>The pipeline\<close>

record channel_pipeline =
  cp_NotificationChannel :: NotificationChannel
  cp_JSON :: string
  cp_Channel :: json_map
  cp_Hash :: string

definition NewNotificationChannelPipeline :: "NotificationChannel \<Rightarrow> channel_pipeline" where
  "NewNotificationChannelPipeline notificationChannel =
     \<lparr>cp_NotificationChannel = notificationChannel, cp_JSON = [], cp_Channel = None, cp_Hash = []\<rparr>"

definition channel_obtainJson :: "(channel_pipeline, unit) prog" where
  "channel_obtainJson r =
     (if nc_Json (cp_NotificationChannel r) \<noteq> []
      then (Done (), r\<lparr>cp_JSON := nc_Json (cp_NotificationChannel r)\<rparr>)
      else (Fail ''notificationchannel does not contain json'', r))"

definition channel_generateHash :: "channel_pipeline \<Rightarrow> string" where
  "channel_generateHash r = sha256_hex (nc_Json (cp_NotificationChannel r))"

text \<open>What a failed \<open>Unmarshal\<close> leaves in \<open>Channel\<close> is not read again.\<close>

definition channel_validateJson :: "(string \<Rightarrow> string) \<Rightarrow> (channel_pipeline, unit) prog" where
  "channel_validateJson json_error r =
     (case Unmarshal_map (cp_JSON r) of
        None \<Rightarrow> (Fail (json_error (cp_JSON r)), r\<lparr>cp_Channel := None\<rparr>)
      | Some m \<Rightarrow> (Done (), r\<lparr>cp_Channel := m\<rparr>))"

text \<open>A nil map is written as \<open>null\<close>.\<close>

definition Marshal_map :: "(string \<Rightarrow> string) \<Rightarrow> json_map \<Rightarrow> string" where
  "Marshal_map mf m = (case m of None \<Rightarrow> ''null'' | Some ms \<Rightarrow> Marshal mf (JObj ms))"

definition ProcessNotificationChannel :: "(string \<Rightarrow> string) \<Rightarrow> (string \<Rightarrow> string) \<Rightarrow> string
    \<Rightarrow> (channel_pipeline, string option) prog" where
  "ProcessNotificationChannel json_error mf knownHash =
     seq channel_obtainJson (\<lambda>_.
     seq (gets channel_generateHash) (\<lambda>hash.
       if hash = knownHash
       then seq (modify (\<lambda>r. r\<lparr>cp_Hash := knownHash\<rparr>)) (\<lambda>_. ret None)
       else seq (modify (\<lambda>r. r\<lparr>cp_Hash := hash\<rparr>)) (\<lambda>_.
            seq (channel_validateJson json_error) (\<lambda>_.
            seq (gets cp_Channel) (\<lambda>channel.
              ret (Some (TrimSpace (Marshal_map mf channel))))))))"

subsection \<open>The client\<close>

record ChannelResponse =
  chr_ID :: "nat option"
  chr_UID :: "string option"
  chr_Name :: "string option"
  chr_Type :: "string option"
  chr_IsDefault :: "bool option"
  chr_SendReminder :: "bool option"
  chr_DisableResolveMessage :: "bool option"
  chr_Created :: "string option"
  chr_Updated :: "string option"
  chr_Message :: "string option"

abbreviation dec_ptr_bool :: "bool option decoder" where "dec_ptr_bool \<equiv> dec_pointer False dec_bool"

definition channel_response_fields :: "ChannelResponse field list" where
  "channel_response_fields =
     [dec_field ''id'' chr_ID chr_ID_update dec_ptr_uint,
      dec_field ''uid'' chr_UID chr_UID_update dec_ptr_string,
      dec_field ''name'' chr_Name chr_Name_update dec_ptr_string,
      dec_field ''type'' chr_Type chr_Type_update dec_ptr_string,
      dec_field ''isdefault'' chr_IsDefault chr_IsDefault_update dec_ptr_bool,
      dec_field ''sendreminder'' chr_SendReminder chr_SendReminder_update dec_ptr_bool,
      dec_field ''disableresolvemessage'' chr_DisableResolveMessage chr_DisableResolveMessage_update dec_ptr_bool,
      dec_field ''created'' chr_Created chr_Created_update dec_ptr_string,
      dec_field ''updated'' chr_Updated chr_Updated_update dec_ptr_string,
      dec_field ''message'' chr_Message chr_Message_update dec_ptr_string]"

definition newChannelResponse :: ChannelResponse where
  "newChannelResponse =
     \<lparr>chr_ID = Some 0, chr_UID = Some [], chr_Name = Some ''(empty)'', chr_Type = Some [],
      chr_IsDefault = Some False, chr_SendReminder = Some False, chr_DisableResolveMessage = Some False,
      chr_Created = Some [], chr_Updated = Some [], chr_Message = Some ''(empty)''\<rparr>"

definition opCreate :: string where "opCreate = ''creating''"
definition opRead :: string where "opRead = ''reading''"
definition opUpdate :: string where "opUpdate = ''updating''"
definition opDelete :: string where "opDelete = ''deleting''"

text \<open>The \<open>switch\<close>: the method, the body and the path of the url.\<close>

definition channel_request :: "string \<Rightarrow> string \<Rightarrow> string \<Rightarrow> (string \<times> string \<times> string) option" where
  "channel_request op channel uid =
     (if op = opCreate then Some (''POST'', channel, ''/api/alert-notifications/'')
      else if op = opRead then Some (''GET'', [], ''/api/alert-notifications/uid/'' @ uid)
      else if op = opUpdate then Some (''PUT'', channel, ''/api/alert-notifications/uid/'' @ uid)
      else if op = opDelete then Some (''DELETE'', [], ''/api/alert-notifications/uid/'' @ uid)
      else None)"

definition doRequest :: "'w GrafanaClient \<Rightarrow> string \<Rightarrow> string \<Rightarrow> string
    \<Rightarrow> ('w, ChannelResponse \<times> string option) operation" where
  "doRequest c op channel uid =
     (case channel_request op channel uid of
        None \<Rightarrow> ret (newChannelResponse, Some (''error unknown operation '' @ op))
      | Some (method, body, path) \<Rightarrow>
          seq (send_request c method path body) (\<lambda>r.
          case r of
            Inl err \<Rightarrow> ret (newChannelResponse, Some err)
          | Inr resp \<Rightarrow>
              if resp_StatusCode resp \<noteq> 200
              then ret (newChannelResponse, Some (unexpected_status (op @ '' notificationChannel'') resp))
              else ret (read_answer c (dec_struct channel_response_fields) newChannelResponse resp)))"

definition CreateNotificationChannel :: "'w GrafanaClient \<Rightarrow> string \<Rightarrow> ('w, ChannelResponse \<times> string option) operation" where
  "CreateNotificationChannel c channel = doRequest c opCreate channel []"

definition UpdateNotificationChannel :: "'w GrafanaClient \<Rightarrow> string \<Rightarrow> string \<Rightarrow> ('w, ChannelResponse \<times> string option) operation" where
  "UpdateNotificationChannel c channel uid = doRequest c opUpdate channel uid"

definition GetNotificationChannel :: "'w GrafanaClient \<Rightarrow> string \<Rightarrow> ('w, ChannelResponse \<times> string option) operation" where
  "GetNotificationChannel c uid = doRequest c opRead [] uid"

definition DeleteNotificationChannelByUID :: "'w GrafanaClient \<Rightarrow> string \<Rightarrow> ('w, ChannelResponse \<times> string option) operation" where
  "DeleteNotificationChannelByUID c uid = doRequest c opDelete [] uid"

subsection \<open>Known channels\<close>

text \<open>
  \<open>GetNotificationChannels\<close> gives pointers to the references, which the registry changes in
  place: a pointer is the key of the list in the map and the index in the list. Lists only grow
  until the deletions, which have the pointers in a slice of their own and change no reference.
\<close>

type_synonym channel_pointer = "string \<times> nat"

definition channel_pointers :: "NotificationControllerConfig \<Rightarrow> string \<Rightarrow> channel_pointer list" where
  "channel_pointers c namespace =
     (if namespace = [] then concat (map (\<lambda>(ns, l). map (Pair ns) [0..<length l]) (ncc_Channels c))
      else map (Pair namespace) [0..<length (channels_in c namespace)])"

definition channel_at :: "NotificationControllerConfig \<Rightarrow> channel_pointer \<Rightarrow> NotificationChannelRef" where
  "channel_at c p = channels_in c (fst p) ! snd p"

definition channel_inNamespace :: "NotificationChannel list \<Rightarrow> string \<Rightarrow> bool" where
  "channel_inNamespace namespaceNotificationChannels item \<longleftrightarrow>
     list_ex (\<lambda>n. om_Name (nc_meta n) = item) namespaceNotificationChannels"

definition channel_findHash :: "NotificationChannelRef list \<Rightarrow> NotificationChannel \<Rightarrow> string" where
  "channel_findHash knownNotificationChannels item =
     (case List.find (\<lambda>d. om_Name (nc_meta item) = ncr_Name d) knownNotificationChannels of
        Some d \<Rightarrow> ncr_Hash d
      | None \<Rightarrow> [])"

subsection \<open>Surroundings\<close>

record 'w channel_env =
  ce_prepare :: "string \<Rightarrow> string \<Rightarrow> string \<Rightarrow> string + string"
  ce_Do :: "int \<Rightarrow> 'w http_do"
  ce_json_error :: "string \<Rightarrow> string"
  ce_number :: "string \<Rightarrow> string"
  ce_list :: "'w \<Rightarrow> api_error + NotificationChannel list"
  ce_get :: "ObjectKey \<Rightarrow> 'w \<Rightarrow> api_error + NotificationChannel"
  ce_update_status :: "NotificationChannel \<Rightarrow> 'w \<Rightarrow> api_error option \<times> 'w"
  ce_message :: "api_error \<Rightarrow> string"
  ce_as_selector :: "LabelSelector \<Rightarrow> string + selector"

definition NewChannelClient :: "'w channel_env \<Rightarrow> string \<Rightarrow> string \<Rightarrow> string \<Rightarrow> int \<Rightarrow> 'w GrafanaClient" where
  "NewChannelClient env url user password timeoutSeconds =
     \<lparr>cl_url = url, cl_user = user, cl_password = password, cl_prepare = ce_prepare env,
      cl_Do = ce_Do env timeoutSeconds, cl_json_error = ce_json_error env, cl_pointer = (\<lambda>_. [])\<rparr>"

definition channel_getClient :: "'w channel_env \<Rightarrow> ControllerState \<Rightarrow> 'w operator \<Rightarrow> string + 'w GrafanaClient" where
  "channel_getClient env st s =
     (let url = AdminUrl st;
          username = Getenv GrafanaAdminUserEnvVar s;
          password = Getenv GrafanaAdminPasswordEnvVar s
      in if url = [] then Inl ''cannot get grafana admin url''
         else if username = [] then Inl ''invalid credentials (username)''
         else if password = [] then Inl ''invalid credentials (password)''
         else Inr (NewChannelClient env url username password (ClientTimeout st)))"

definition channel_isMatch :: "'w channel_env \<Rightarrow> ControllerState \<Rightarrow> NotificationChannel \<Rightarrow> bool" where
  "channel_isMatch env st item =
     (case DashboardSelectors st of
        None \<Rightarrow> False
      | Some selectors \<Rightarrow>
          (case nc_MatchesSelectors (ce_as_selector env) item selectors of
             Inl err \<Rightarrow> False
           | Inr match \<Rightarrow> match))"

subsection \<open>One channel\<close>

definition channel_status_update :: "'w channel_env \<Rightarrow> NotificationChannel \<Rightarrow> ('w, api_error option) operation" where
  "channel_status_update env n = on_world (ce_update_status env n)"

definition channel_manageError :: "'w channel_env \<Rightarrow> NotificationChannel \<Rightarrow> string \<Rightarrow> ('w, unit) operation" where
  "channel_manageError env n issue =
     seq (channel_status_update env
            (n\<lparr>nc_Status := (nc_Status n)\<lparr>nc_Phase := PhaseFailing, nc_Message := issue\<rparr>\<rparr>)) (\<lambda>_.
       ret ())"

definition submitted_channel :: "NotificationChannel \<Rightarrow> string \<Rightarrow> nat \<Rightarrow> string \<Rightarrow> NotificationChannel" where
  "submitted_channel n uid i hash =
     n\<lparr>nc_Status := \<lparr>nc_Phase = PhaseReconciling, nc_UID = uid, nc_ID = int i,
                     nc_Message = GrafanaSuccessMsg, nc_Hash = hash\<rparr>\<rparr>"

definition on_channels :: "(NotificationControllerConfig \<Rightarrow> NotificationControllerConfig) \<Rightarrow> ('w, unit) operation" where
  "on_channels f = modify (\<lambda>s. s\<lparr>op_Channels := f (op_Channels s)\<rparr>)"

text \<open>The result is the notification channel as it is then, and the error.\<close>

definition channel_manageSuccess :: "'w channel_env \<Rightarrow> NotificationChannel \<Rightarrow> ChannelResponse \<Rightarrow> string
    \<Rightarrow> ('w, NotificationChannel \<times> api_error option) operation" where
  "channel_manageSuccess env n status hash =
     seq (of_go (deref (chr_UID status))) (\<lambda>uid.
     seq (of_go (deref (chr_ID status))) (\<lambda>i.
     seq (on_channels (\<lambda>cfg. AddNotificationChannel cfg (submitted_channel n uid i hash))) (\<lambda>_.
     seq (channel_status_update env (submitted_channel n uid i hash)) (\<lambda>err.
       ret (submitted_channel n uid i hash, err)))))"

record GrafanaChannel =
  gch_ID :: "nat option"
  gch_UID :: "string option"
  gch_Name :: "string option"
  gch_Type :: "string option"
  gch_IsDefault :: "bool option"
  gch_SendReminder :: "bool option"
  gch_DisableResolveMessage :: "bool option"

definition grafana_channel_fields :: "GrafanaChannel field list" where
  "grafana_channel_fields =
     [dec_field ''id'' gch_ID gch_ID_update dec_ptr_uint,
      dec_field ''uid'' gch_UID gch_UID_update dec_ptr_string,
      dec_field ''name'' gch_Name gch_Name_update dec_ptr_string,
      dec_field ''type'' gch_Type gch_Type_update dec_ptr_string,
      dec_field ''isdefault'' gch_IsDefault gch_IsDefault_update dec_ptr_bool,
      dec_field ''sendreminder'' gch_SendReminder gch_SendReminder_update dec_ptr_bool,
      dec_field ''disableresolvemessage'' gch_DisableResolveMessage gch_DisableResolveMessage_update dec_ptr_bool]"

definition zero_GrafanaChannel :: GrafanaChannel where
  "zero_GrafanaChannel =
     \<lparr>gch_ID = None, gch_UID = None, gch_Name = None, gch_Type = None, gch_IsDefault = None,
      gch_SendReminder = None, gch_DisableResolveMessage = None\<rparr>"

definition create_or_update :: "'w GrafanaClient \<Rightarrow> string \<Rightarrow> string \<Rightarrow> ('w, ChannelResponse \<times> string option) operation" where
  "create_or_update c processed uid =
     seq (GetNotificationChannel c uid) (\<lambda>(_, err).
       case err of
         Some _ \<Rightarrow> CreateNotificationChannel c processed
       | None \<Rightarrow> UpdateNotificationChannel c processed uid)"

text \<open>A channel whose processed json is sent; the result is an error that ends the whole call.\<close>

definition submit_channel :: "'w channel_env \<Rightarrow> 'w GrafanaClient \<Rightarrow> NotificationChannel \<Rightarrow> string \<Rightarrow> string
    \<Rightarrow> ('w, error option) operation" where
  "submit_channel env c item processed hash =
     (let (rawJson, ok) = Unmarshal (dec_struct grafana_channel_fields) processed zero_GrafanaChannel
      in if \<not> ok then ret (Some (Error (ce_json_error env processed)))
         else seq (of_go (deref (gch_UID rawJson))) (\<lambda>uid.
              seq (create_or_update c processed uid) (\<lambda>(status, err).
              case err of
                Some e \<Rightarrow> seq (channel_manageError env item e) (\<lambda>_. ret None)
              | None \<Rightarrow>
                  seq (channel_manageSuccess env item status hash) (\<lambda>(item', err).
                  case err of
                    Some e \<Rightarrow> seq (channel_manageError env item' (ce_message env e)) (\<lambda>_. ret None)
                  | None \<Rightarrow> ret None))))"

definition reconcile_channel :: "'w channel_env \<Rightarrow> ControllerState \<Rightarrow> 'w GrafanaClient \<Rightarrow> channel_pointer list
    \<Rightarrow> NotificationChannel \<Rightarrow> ('w, error option) operation" where
  "reconcile_channel env st c known item =
     (if \<not> channel_isMatch env st item then ret None
      else seq (gets (\<lambda>s. channel_findHash (map (channel_at (op_Channels s)) known) item)) (\<lambda>knownHash.
           let (r, pipeline) = ProcessNotificationChannel (ce_json_error env) (ce_number env) knownHash
                                 (NewNotificationChannelPipeline item)
           in case r of
                Panic p \<Rightarrow> of_go (Inl p)
              | Fail err \<Rightarrow> seq (channel_manageError env item err) (\<lambda>_. ret None)
              | Done None \<Rightarrow> ret None
              | Done (Some processed) \<Rightarrow> submit_channel env c item processed (cp_Hash pipeline)))"

fun reconcile_channels :: "'w channel_env \<Rightarrow> ControllerState \<Rightarrow> 'w GrafanaClient \<Rightarrow> channel_pointer list
    \<Rightarrow> NotificationChannel list \<Rightarrow> ('w, error option) operation" where
  "reconcile_channels env st c known [] = ret None"
| "reconcile_channels env st c known (item # items) =
     seq (reconcile_channel env st c known item) (\<lambda>err.
       case err of
         Some e \<Rightarrow> ret (Some e)
       | None \<Rightarrow> reconcile_channels env st c known items)"

subsection \<open>All channels\<close>

definition delete_channel :: "'w GrafanaClient \<Rightarrow> NotificationChannelRef \<Rightarrow> ('w, unit) operation" where
  "delete_channel c notificationchannel =
     seq (DeleteNotificationChannelByUID c (ncr_UID notificationchannel)) (\<lambda>(status, err).
     seq (of_go (if err \<noteq> None then deref (chr_Message status) else Inr [])) (\<lambda>_.
     seq (of_go (deref (chr_UID status))) (\<lambda>_.
       on_channels (\<lambda>cfg. RemoveNotificationChannel cfg (ncr_Namespace notificationchannel)
                            (ncr_Name notificationchannel)))))"

definition reconcileNotificationChannels :: "'w channel_env \<Rightarrow> ControllerState \<Rightarrow> ObjectKey \<Rightarrow> 'w GrafanaClient
    \<Rightarrow> ('w, Result \<times> error option) operation" where
  "reconcileNotificationChannels env st request c =
     seq (gets (\<lambda>s. channel_pointers (op_Channels s) (key_Namespace request))) (\<lambda>known.
     seq (gets (\<lambda>s. ce_list env (op_World s))) (\<lambda>r.
     case r of
       Inl err \<Rightarrow> ret (no_requeue, Some (FromApi err))
     | Inr items \<Rightarrow>
         seq (gets (\<lambda>s. filter (\<lambda>p. \<not> channel_inNamespace items (ncr_Name (channel_at (op_Channels s) p))) known))
           (\<lambda>toDelete.
         seq (reconcile_channels env st c known items) (\<lambda>err.
         case err of
           Some e \<Rightarrow> ret (no_requeue, Some e)
         | None \<Rightarrow>
             seq (gets (\<lambda>s. map (channel_at (op_Channels s)) toDelete)) (\<lambda>refs.
             seq (for_each (delete_channel c) refs) (\<lambda>_.
             seq (on_channels (\<lambda>cfg. cfg\<lparr>ncc_Values :=
                    AddConfigItem (ncc_Values cfg) ConfigGrafanaNotificationChannelsSynced (Some (VBool True))\<rparr>)) (\<lambda>_.
               ret (no_requeue, None))))))))"

definition ChannelReconcile :: "'w channel_env \<Rightarrow> ControllerState \<Rightarrow> ObjectKey
    \<Rightarrow> ('w, Result \<times> error option) operation" where
  "ChannelReconcile env st request =
     (if \<not> GrafanaReady st then ret (no_requeue, None)
      else seq (gets (channel_getClient env st)) (\<lambda>client.
           case client of
             Inl err \<Rightarrow> ret (requeue_later, None)
           | Inr c \<Rightarrow>
               if key_Name request = [] then reconcileNotificationChannels env st request c
               else if DashboardSelectors st = None then ret (requeue_later, None)
               else seq (gets (\<lambda>s. ce_get env request (op_World s))) (\<lambda>r.
                    case r of
                      Inl err \<Rightarrow> if err = NotFound then reconcileNotificationChannels env st request c
                                 else ret (no_requeue, Some (FromApi err))
                    | Inr cr \<Rightarrow> if \<not> channel_isMatch env st cr then ret (no_requeue, None)
                                else reconcileNotificationChannels env st request c)))"

end
