(* ===== verification/Notification_Channel_Properties.thy ===== *)
theory Notification_Channel_Properties
  imports Notification_Channels Grafana_Controller_Properties "HOL-Library.Sublist"
begin

text \<open>
  What the controller of the notification channels does to the registry: processing only adds
  references, deletion removes the ones whose resource is gone, and a channel that was submitted
  is not submitted again.
\<close>

subsection \<open>Frames\<close>

lemma keeps_channels_request [simp]: "keeps op_Channels (send_request c m p b)"
  unfolding send_request_def by (auto split: sum.split intro!: keeps_on_world)

lemma keeps_doRequest [simp]: "keeps op_Channels (doRequest c op channel uid)"
  unfolding doRequest_def by (auto split: option.split sum.split intro!: keeps_seq)

lemma keeps_channel_client [simp]:
  "keeps op_Channels (CreateNotificationChannel c channel)" "keeps op_Channels (UpdateNotificationChannel c channel uid)"
  "keeps op_Channels (GetNotificationChannel c uid)" "keeps op_Channels (DeleteNotificationChannelByUID c uid)"
  by (simp_all add: CreateNotificationChannel_def UpdateNotificationChannel_def GetNotificationChannel_def
      DeleteNotificationChannelByUID_def)

lemma keeps_create_or_update [simp]: "keeps op_Channels (create_or_update c processed uid)"
  unfolding create_or_update_def by (auto intro!: keeps_seq split: option.split)

lemma keeps_status [simp]:
  "keeps op_Channels (channel_status_update env n)" "keeps op_Channels (channel_manageError env n e)"
  unfolding channel_manageError_def channel_status_update_def by (auto intro!: keeps_seq keeps_on_world)

subsection \<open>Pointers to references\<close>

lemma channels_in_member: "gomap_ok (ncc_Channels c) \<Longrightarrow> (ns, l) \<in> set (ncc_Channels c) \<Longrightarrow> channels_in c ns = l"
  by (simp add: gomap_ok_def channels_in_def)

lemma channel_pointers_known:
  assumes "gomap_ok (ncc_Channels c)"
  shows "map (channel_at c) (channel_pointers c namespace) = GetNotificationChannels c namespace"
proof (cases "namespace = []")
  case True
  have "map (channel_at c) (map (Pair ns) [0..<length l]) = l" if "(ns, l) \<in> set (ncc_Channels c)" for ns l
    using channels_in_member [OF assms that] by (simp add: channel_at_def comp_def map_nth)
  then have "map (map (channel_at c) \<circ> (\<lambda>(ns, l). map (Pair ns) [0..<length l])) (ncc_Channels c) = map snd (ncc_Channels c)"
    by auto
  with True show ?thesis
    by (simp only: channel_pointers_def GetNotificationChannels_def simp_thms if_True map_concat map_map)
next
  case False
  then show ?thesis
    by (simp add: channel_pointers_def GetNotificationChannels_def channel_at_def comp_def channels_in_def map_nth
        split: option.split)
qed

lemma find_channel_iff:
  assumes "channels_ok c"
  shows "find_channel c k = Some r \<longleftrightarrow> r \<in> set (channels_in c (fst k)) \<and> ncr_Name r = snd k"
  using channels_in_ok(1) [OF assms, of "fst k"] lookup_by_Some [of ncr_Name "channels_in c (fst k)" "snd k" r]
  unfolding find_channel_def by (auto simp: distinct_map inj_on_def)


subsection \<open>Processing channels only adds to the registry\<close>

text \<open>
  What processing channels with these names may do to the registry: references with other names
  stay, none is dropped, and a pointer into it still points to a reference of the same name.
\<close>

definition channels_grow :: "(string \<Rightarrow> bool) \<Rightarrow> NotificationControllerConfig \<Rightarrow> NotificationControllerConfig \<Rightarrow> bool" where
  "channels_grow named c c' \<longleftrightarrow>
     (channels_ok c \<longrightarrow> channels_ok c'
        \<and> (\<forall>k. \<not> named (snd k) \<longrightarrow> find_channel c' k = find_channel c k)
        \<and> (\<forall>k. find_channel c k \<noteq> None \<longrightarrow> find_channel c' k \<noteq> None)
        \<and> (\<forall>ns. prefix (map ncr_Name (channels_in c ns)) (map ncr_Name (channels_in c' ns))))"

interpretation grow: evolution op_Channels "channels_grow named" for named
  by unfold_locales (auto simp: channels_grow_def intro: prefix_order.trans)

lemma map_upsert_prefix: "prefix (map f xs) (map f (upsert f r xs))"
proof (cases "find_index (\<lambda>x. f x = f r) xs")
  case None
  then show ?thesis by (simp add: upsert_def del: find_index_None)
next
  case (Some i)
  from find_index_SomeD [OF this] have "f (xs ! i) = f r" "i < length xs" by auto
  then have "map f (xs[i := r]) = map f xs"
    by (metis list_update_id map_update)
  with Some show ?thesis by (simp add: upsert_def)
qed

lemma AddNotificationChannel_grows:
  assumes "named (om_Name (nc_meta n))"
  shows "channels_grow named c (AddNotificationChannel c n)"
proof -
  have key: "channel_key (channel_ref n) = (om_Namespace (nc_meta n), om_Name (nc_meta n))"
    by (simp add: channel_key_def channel_ref_def)
  have p: "prefix (map ncr_Name (channels_in c ns)) (map ncr_Name (channels_in (put_channel r c) ns))" for r ns
    by (simp add: put_channel_def channels_in_update map_upsert_prefix)
  show ?thesis
    unfolding channels_grow_def AddNotificationChannel_put
    using assms p by (auto simp: chan.ok_put chan.look_put key)
qed

lemma on_channels_grows:
  "(\<And>c. channels_grow named c (f c)) \<Longrightarrow> evolves op_Channels (channels_grow named) (on_channels f)"
  unfolding on_channels_def by (rule evolves_modify) simp

lemma manageSuccess_grows:
  assumes "named (om_Name (nc_meta n))"
  shows "evolves op_Channels (channels_grow named) (channel_manageSuccess env n status hash)"
  unfolding channel_manageSuccess_def
  by (intro grow.evolves_seq on_channels_grows AddNotificationChannel_grows)
    (simp_all add: grow.evolves_keeps submitted_channel_def assms)

lemma submit_channel_grows:
  assumes "named (om_Name (nc_meta item))"
  shows "evolves op_Channels (channels_grow named) (submit_channel env c item processed hash)"
  unfolding submit_channel_def Let_def
  by (auto intro!: grow.evolves_seq manageSuccess_grows assms split: prod.split option.split)
    (auto intro!: grow.evolves_keeps keeps_seq)

lemma reconcile_channel_grows:
  assumes "named (om_Name (nc_meta item))"
  shows "evolves op_Channels (channels_grow named) (reconcile_channel env st c known item)"
  unfolding reconcile_channel_def
  by (auto intro!: grow.evolves_seq submit_channel_grows assms split: prod.split outcome.split option.split)
    (auto intro!: grow.evolves_keeps keeps_seq)

lemma reconcile_channels_grows:
  "(\<And>item. item \<in> set items \<Longrightarrow> named (om_Name (nc_meta item))) \<Longrightarrow>
     evolves op_Channels (channels_grow named) (reconcile_channels env st c known items)"
proof (induction items)
  case (Cons item items)
  then show ?case
    by (auto intro!: grow.evolves_seq reconcile_channel_grows simp: grow.evolves_keeps split: option.split)
qed (simp add: grow.evolves_keeps)


subsection \<open>Deletion\<close>

lemma delete_channel_effect:
  assumes "delete_channel c r s = (Done (), s')"
  shows "op_Channels s' = RemoveNotificationChannel (op_Channels s) (ncr_Namespace r) (ncr_Name r)"
  using assms
  by (auto simp: delete_channel_def seq_Done_iff on_channels_def dest!: keepsD [OF keeps_channel_client(4)])

lemma delete_channels_effect:
  assumes "for_each (delete_channel c) refs s = (Done (), s')" "channels_ok (op_Channels s)"
  shows "channels_ok (op_Channels s')
     \<and> (\<forall>k. find_channel (op_Channels s') k =
           (if k \<in> channel_key ` set refs then None else find_channel (op_Channels s) k))"
  using assms
proof (induction refs arbitrary: s)
  case (Cons r refs)
  from Cons.prems(1) obtain s1 where s1: "delete_channel c r s = (Done (), s1)"
    "for_each (delete_channel c) refs s1 = (Done (), s')" by (auto simp: seq_Done_iff)
  have e: "op_Channels s1 = RemoveNotificationChannel (op_Channels s) (ncr_Namespace r) (ncr_Name r)"
    by (rule delete_channel_effect [OF s1(1)])
  have "channels_ok (op_Channels s1)" using channels_ok_remove [OF Cons.prems(2)] by (simp add: e)
  from Cons.IH [OF s1(2) this] show ?case
    using find_channel_remove [OF Cons.prems(2)] by (auto simp: e channel_key_def)
qed simp

text \<open>The pointers of a call, and what they point to when more has been added.\<close>

lemma channel_pointers_valid:
  assumes "p \<in> set (channel_pointers c namespace)" "gomap_ok (ncc_Channels c)"
  shows "snd p < length (channels_in c (fst p)) \<and> (namespace = [] \<or> fst p = namespace)"
  using assms by (auto simp: channel_pointers_def channels_in_member split: if_splits)

lemma channel_pointers_complete:
  assumes "r \<in> set (channels_in c ns)" "namespace = [] \<or> ns = namespace"
  obtains p where "p \<in> set (channel_pointers c namespace)" "fst p = ns" "channel_at c p = r"
proof -
  from assms(1) obtain i where i: "i < length (channels_in c ns)" "channels_in c ns ! i = r"
    by (auto simp: in_set_conv_nth)
  then have "(ns, channels_in c ns) \<in> set (ncc_Channels c)"
    by (auto simp: channels_in_def dest: map_of_SomeD split: option.splits)
  with i assms(2) have "(ns, i) \<in> set (channel_pointers c namespace)"
    by (fastforce simp: channel_pointers_def)
  with i that [of "(ns, i)"] show thesis by (simp add: channel_at_def)
qed

lemma channel_at_grown:
  assumes "channels_grow named c c'" "channels_ok c" "snd p < length (channels_in c (fst p))"
  shows "channel_key (channel_at c' p) = (fst p, ncr_Name (channel_at c p))"
proof -
  from assms(1,2) have ok: "channels_ok c'"
    and pre: "prefix (map ncr_Name (channels_in c (fst p))) (map ncr_Name (channels_in c' (fst p)))"
    by (simp_all add: channels_grow_def)
  from pre obtain more where more: "map ncr_Name (channels_in c' (fst p)) = map ncr_Name (channels_in c (fst p)) @ more"
    by (auto elim: prefixE)
  then have "length (channels_in c' (fst p)) = length (channels_in c (fst p)) + length more"
    by (metis length_append length_map)
  with assms(3) have "snd p < length (channels_in c' (fst p))" by simp
  moreover from this more assms(3) have "ncr_Name (channel_at c' p) = ncr_Name (channel_at c p)"
    by (metis channel_at_def length_map nth_append nth_map)
  ultimately show ?thesis
    using channels_in_ok(2) [OF ok, of "channel_at c' p" "fst p"] by (simp add: channel_key_def channel_at_def)
qed

text \<open>The pointers to channels without a resource, and the keys they stand for.\<close>

definition gone_pointers :: "NotificationChannel list \<Rightarrow> NotificationControllerConfig \<Rightarrow> string \<Rightarrow> (string \<times> nat) list" where
  "gone_pointers items c namespace =
     filter (\<lambda>p. \<not> channel_inNamespace items (ncr_Name (channel_at c p))) (channel_pointers c namespace)"

definition gone_keys :: "NotificationChannel list \<Rightarrow> NotificationControllerConfig \<Rightarrow> string \<Rightarrow> (string \<times> string) set" where
  "gone_keys items c namespace = (\<lambda>p. (fst p, ncr_Name (channel_at c p))) ` set (gone_pointers items c namespace)"

lemma gone_keys_iff:
  assumes "channels_ok c"
  shows "(ns, nam) \<in> gone_keys items c namespace \<Longrightarrow>
      \<not> channel_inNamespace items nam \<and> (namespace = [] \<or> namespace = ns)"
    "\<not> channel_inNamespace items nam \<Longrightarrow> namespace = [] \<or> namespace = ns \<Longrightarrow> find_channel c (ns, nam) = Some r
      \<Longrightarrow> (ns, nam) \<in> gone_keys items c namespace"
proof -
  have gm: "gomap_ok (ncc_Channels c)" using assms by (simp add: channels_ok_def)
  show "\<not> channel_inNamespace items nam \<and> (namespace = [] \<or> namespace = ns)"
    if "(ns, nam) \<in> gone_keys items c namespace"
    using that channel_pointers_valid [OF _ gm] by (fastforce simp: gone_keys_def gone_pointers_def)
  show "(ns, nam) \<in> gone_keys items c namespace"
    if n: "\<not> channel_inNamespace items nam" and m: "namespace = [] \<or> namespace = ns" and f: "find_channel c (ns, nam) = Some r"
  proof -
    from f have r: "r \<in> set (channels_in c ns)" "ncr_Name r = nam"
      by (simp_all add: find_channel_iff [OF assms])
    obtain p where "p \<in> set (channel_pointers c namespace)" "fst p = ns" "channel_at c p = r"
      using channel_pointers_complete [OF r(1), of namespace] m by auto
    with r(2) n show ?thesis by (force simp: gone_keys_def gone_pointers_def)
  qed
qed

lemma gone_keys_later:
  assumes "channels_grow named c c'" "channels_ok c"
  shows "channel_key ` set (map (channel_at c') (gone_pointers items c namespace)) = gone_keys items c namespace"
proof -
  have gm: "gomap_ok (ncc_Channels c)" using assms(2) by (simp add: channels_ok_def)
  have "snd p < length (channels_in c (fst p))" if "p \<in> set (gone_pointers items c namespace)" for p
    using that channel_pointers_valid [OF _ gm] by (auto simp: gone_pointers_def)
  then show ?thesis
    unfolding set_map image_image gone_keys_def
    by (intro image_cong refl channel_at_grown [OF assms])
qed

lemma reconciled_keys:
  assumes "reconcileNotificationChannels env st request c s = (Done (res, None), s')"
    and "channels_ok (op_Channels s)" "ce_list env (op_World s) = Inr items"
  shows "channels_ok (op_Channels s')"
    "\<not> channel_inNamespace items nam \<Longrightarrow> find_channel (op_Channels s') (ns, nam) =
       (if key_Namespace request = [] \<or> key_Namespace request = ns then None
        else find_channel (op_Channels s) (ns, nam))"
    "channel_inNamespace items nam \<Longrightarrow> find_channel (op_Channels s) (ns, nam) \<noteq> None
       \<Longrightarrow> find_channel (op_Channels s') (ns, nam) \<noteq> None"
proof -
  let ?named = "channel_inNamespace items" and ?c = "op_Channels s"
  let ?gone = "gone_pointers items ?c (key_Namespace request)"
  from assms(1,3) obtain s1 s2
    where s1: "reconcile_channels env st c (channel_pointers ?c (key_Namespace request)) items s = (Done None, s1)"
    and s2: "for_each (delete_channel c) (map (channel_at (op_Channels s1)) ?gone) s1 = (Done (), s2)"
    and s': "op_Channels s' = op_Channels s2\<lparr>ncc_Values :=
        AddConfigItem (ncc_Values (op_Channels s2)) ConfigGrafanaNotificationChannelsSynced (Some (VBool True))\<rparr>"
    by (auto simp: reconcileNotificationChannels_def seq_Done_iff gone_pointers_def on_channels_def split: option.splits)
  have grown: "channels_grow ?named ?c (op_Channels s1)"
    by (rule evolvesD [OF reconcile_channels_grows s1]) (auto simp: channel_inNamespace_def list_ex_iff)
  with assms(2) have ok1: "channels_ok (op_Channels s1)" by (simp add: channels_grow_def)
  note del = delete_channels_effect [OF s2 ok1, unfolded gone_keys_later [OF grown assms(2)]]
  have look: "find_channel (op_Channels s') k = find_channel (op_Channels s2) k" for k
    by (simp add: s' find_channel_def channels_in_def)
  show "channels_ok (op_Channels s')" using del by (simp add: s' channels_ok_def)
  show "find_channel (op_Channels s') (ns, nam) =
       (if key_Namespace request = [] \<or> key_Namespace request = ns then None
        else find_channel ?c (ns, nam))" if "\<not> ?named nam"
  proof -
    have "find_channel (op_Channels s1) (ns, nam) = find_channel ?c (ns, nam)"
      using grown assms(2) that by (simp add: channels_grow_def)
    with del gone_keys_iff [OF assms(2), where ns = ns and nam = nam and items = items and namespace = "key_Namespace request"] that show ?thesis
      by (cases "find_channel ?c (ns, nam)") (auto simp: look)
  qed
  show "find_channel (op_Channels s') (ns, nam) \<noteq> None" if "?named nam" "find_channel ?c (ns, nam) \<noteq> None"
    using del gone_keys_iff(1) [OF assms(2), where ns = ns and nam = nam and items = items and namespace = "key_Namespace request"] that grown assms(2)
    by (auto simp: look channels_grow_def)
qed

subsection \<open>What the pipeline sends\<close>

lemma TrimSpace_map [simp]: "TrimSpace (Marshal_map mf m) = Marshal_map mf m"
  by (cases m) (simp_all add: TrimSpace_def Marshal_map_def is_space_def code_marks code_def)

lemma process_channel_cases:
  "ProcessNotificationChannel json_error mf known (NewNotificationChannelPipeline n) =
     (if nc_Json n = [] then (Fail ''notificationchannel does not contain json'', NewNotificationChannelPipeline n)
      else if sha256_hex (nc_Json n) = known
      then (Done None, (NewNotificationChannelPipeline n)\<lparr>cp_JSON := nc_Json n, cp_Hash := known\<rparr>)
      else let p = (NewNotificationChannelPipeline n)\<lparr>cp_JSON := nc_Json n, cp_Hash := sha256_hex (nc_Json n)\<rparr>
           in case Unmarshal_map (nc_Json n) of
                None \<Rightarrow> (Fail (json_error (nc_Json n)), p)
              | Some m \<Rightarrow> (Done (Some (Marshal_map mf m)), p\<lparr>cp_Channel := m\<rparr>))"
  by (simp add: ProcessNotificationChannel_def channel_obtainJson_def channel_generateHash_def
      channel_validateJson_def NewNotificationChannelPipeline_def seq_def split: option.split)

lemma Unmarshal_Marshal_map:
  assumes "\<And>l. valid_number (mf l)" "\<And>l. number_in_range (mf l)" "Unmarshal_map s = Some m"
  shows "Unmarshal_map (Marshal_map mf m) = Some (map_option (map (\<lambda>(k, v). (k, canonical mf v))) m)"
proof (cases m)
  case None
  have "Unmarshal_map ''null'' = Some None" by code_simp
  with None show ?thesis by (simp add: Marshal_map_def)
next
  case (Some ms)
  with assms(3) obtain raw where "ms = map_members raw"
    by (auto simp: Unmarshal_map_def split: option.splits json.splits if_splits)
  then have "map_members ms = ms" by (simp add: map_members_idem)
  with Some Unmarshal_Marshal [OF assms(1,2), where ms = ms] show ?thesis by (simp add: Marshal_map_def)
qed

subsection \<open>A submitted channel is known\<close>

lemma manageSuccess_known:
  assumes "channel_manageSuccess env n status hash s = (Done r, s')" "channels_ok (op_Channels s)"
  shows "channels_ok (op_Channels s')"
    "\<exists>ref. find_channel (op_Channels s') (om_Namespace (nc_meta n), om_Name (nc_meta n)) = Some ref \<and> ncr_Hash ref = hash
       \<and> chr_UID status = Some (ncr_UID ref)"
proof -
  from assms(1) obtain uid i where u: "chr_UID status = Some uid"
    and c: "op_Channels s' = AddNotificationChannel (op_Channels s) (submitted_channel n uid i hash)"
    by (auto simp: channel_manageSuccess_def seq_Done_iff on_channels_def deref_def
        dest!: keepsD [OF keeps_status(1)] split: option.splits)
  show "channels_ok (op_Channels s')" using assms(2) by (simp add: c AddNotificationChannel_put chan.ok_put)
  show "\<exists>ref. find_channel (op_Channels s') (om_Namespace (nc_meta n), om_Name (nc_meta n)) = Some ref
      \<and> ncr_Hash ref = hash \<and> chr_UID status = Some (ncr_UID ref)"
    using assms(2) u
    by (simp add: c AddNotificationChannel_put chan.look_put channel_key_def channel_ref_def submitted_channel_def)
qed

lemma find_in_namespace:
  assumes "channels_ok c" "find_channel c (om_Namespace (nc_meta n), om_Name (nc_meta n)) = Some ref"
    and "om_Namespace (nc_meta n) \<noteq> []"
  shows "channel_findHash (map (channel_at c) (channel_pointers c (om_Namespace (nc_meta n)))) n = ncr_Hash ref"
proof -
  have "map (channel_at c) (channel_pointers c (om_Namespace (nc_meta n))) = channels_in c (om_Namespace (nc_meta n))"
    using assms(1,3) by (simp add: channel_pointers_known channels_ok_def GetNotificationChannels_def channels_in_def)
  then show ?thesis
    using assms(2) by (simp add: channel_findHash_def find_channel_def lookup_by_def
        eq_commute [of "om_Name (nc_meta n)"])
qed

lemma known_channel_skipped:
  assumes "channel_findHash (map (channel_at (op_Channels s)) known) n = sha256_hex (nc_Json n)" "nc_Json n \<noteq> []"
  shows "reconcile_channel env st c known n s = (Done None, s)"
  using assms by (simp add: reconcile_channel_def process_channel_cases)

subsection \<open>Properties\<close>

text \<open>
  C32: what is sent for a notification channel reads back as the json of the resource, member by
  member, with its numbers as they were written; it is sent only if its digest differs from the
  known one, and the pipeline remembers that digest.
\<close>
theorem sent_channel_reads_back:
  assumes "\<And>l. valid_number (mf l)" "\<And>l. number_in_range (mf l)"
    and "ProcessNotificationChannel json_error mf known (NewNotificationChannelPipeline n) = (Done (Some bytes), p)"
  shows "\<exists>contents. Unmarshal_map (nc_Json n) = Some contents
     \<and> Unmarshal_map bytes = Some (map_option (map (\<lambda>(k, v). (k, canonical mf v))) contents)
     \<and> cp_Hash p = sha256_hex (nc_Json n) \<and> known \<noteq> sha256_hex (nc_Json n)"
  using assms(3) Unmarshal_Marshal_map [OF assms(1,2)]
  by (auto simp: process_channel_cases Let_def split: if_splits option.splits)

text \<open>
  C33: a channel that was submitted is left alone. Once the registry has taken it up with the
  digest of its json, the next call for its namespace finds it there under the uid that Grafana
  answered, sends nothing and changes nothing.
\<close>
theorem submitted_channel_left_alone:
  assumes "channel_manageSuccess env n status (sha256_hex (nc_Json n)) s = (Done r, s')"
    and "channels_ok (op_Channels s)" "nc_Json n \<noteq> []" "om_Namespace (nc_meta n) \<noteq> []"
  shows "\<exists>ref. find_channel (op_Channels s') (om_Namespace (nc_meta n), om_Name (nc_meta n)) = Some ref
     \<and> chr_UID status = Some (ncr_UID ref)
     \<and> reconcile_channel env st c (channel_pointers (op_Channels s') (om_Namespace (nc_meta n))) n s' = (Done None, s')"
  using manageSuccess_known [OF assms(1,2)] find_in_namespace known_channel_skipped assms(3,4) by metis

text \<open>
  C15: a completed call forgets exactly the channels that are gone. Of the channels whose name no
  resource has, those in the scope of the request are dropped and the others stay as they were;
  no channel whose name some resource has is dropped; and the registry stays well formed.
\<close>
theorem gone_channels_forgotten:
  assumes "reconcileNotificationChannels env st request c s = (Done (res, None), s')"
    and "channels_ok (op_Channels s)" "ce_list env (op_World s) = Inr items"
  shows "channels_ok (op_Channels s')
     \<and> (if channel_inNamespace items nam
        then find_channel (op_Channels s) (ns, nam) \<noteq> None \<longrightarrow> find_channel (op_Channels s') (ns, nam) \<noteq> None
        else find_channel (op_Channels s') (ns, nam) =
               (if key_Namespace request = [] \<or> key_Namespace request = ns then None
                else find_channel (op_Channels s) (ns, nam)))"
  using reconciled_keys [OF assms] by simp


subsection \<open>Examples\<close>

definition quiet_env :: "NotificationChannel list \<Rightarrow> unit channel_env" where
  "quiet_env items =
     \<lparr>ce_prepare = (\<lambda>url _ _. Inr url), ce_Do = (\<lambda>_ _ w. (Inl ''offline'', w)), ce_json_error = (\<lambda>_. ''json''),
      ce_number = (\<lambda>_. ''0''), ce_list = (\<lambda>_. Inr items), ce_get = (\<lambda>_ _. Inl NotFound),
      ce_update_status = (\<lambda>_ w. (None, w)), ce_message = (\<lambda>_. ''api''), ce_as_selector = (\<lambda>_. Inl ''none'')\<rparr>"

definition example_channel :: "string \<Rightarrow> string \<Rightarrow> NotificationChannel" where
  "example_channel ns json =
     \<lparr>nc_meta = new_meta ''c'' ns None None, nc_Json = json, nc_Name = [],
      nc_Status = \<lparr>nc_Phase = NoPhase, nc_UID = [], nc_ID = 0, nc_Message = [], nc_Hash = []\<rparr>\<rparr>"

lemma empty_object_parsed: "Unmarshal_map ''{}'' = Some (Some [])" "parse_json ''{}'' = Some (JObj [])"
  by code_simp+

lemma sent_channel_reads_back_witness:
  "\<exists>p. ProcessNotificationChannel (\<lambda>_. []) (\<lambda>_. ''0'') [] (NewNotificationChannelPipeline (example_channel ''ns'' ''{}''))
       = (Done (Some (Marshal_map (\<lambda>_. ''0'') (Some []))), p) \<and> cp_Hash p = sha256_hex ''{}''"
proof -
  have zero: "Itoa 0 = ''0''" by (simp add: Itoa_def digits.simps text_simps)
  have n: "valid_number ''0''" "number_in_range ''0''"
    using valid_number_Itoa [of 0] number_in_range_Itoa [of 0] by (simp_all add: zero in_int64_def)
  obtain p where p: "ProcessNotificationChannel (\<lambda>_. []) (\<lambda>_. ''0'') []
      (NewNotificationChannelPipeline (example_channel ''ns'' ''{}'')) = (Done (Some (Marshal_map (\<lambda>_. ''0'') (Some []))), p)"
    by (simp add: process_channel_cases example_channel_def empty_object_parsed)
  from sent_channel_reads_back [OF n p] p show ?thesis by (auto simp: example_channel_def)
qed

lemma submitted_channel_left_alone_witness:
  "\<exists>r s'. channel_manageSuccess (quiet_env []) (example_channel ''ns'' ''{}'') newChannelResponse
          (sha256_hex ''{}'') (start ()) = (Done r, s')
     \<and> find_channel (op_Channels s') (''ns'', ''c'') \<noteq> None"
proof -
  obtain r s' where m: "channel_manageSuccess (quiet_env []) (example_channel ''ns'' ''{}'') newChannelResponse
      (sha256_hex ''{}'') (start ()) = (Done r, s')"
    by (simp add: channel_manageSuccess_def newChannelResponse_def on_channels_def channel_status_update_def
        quiet_env_def on_world_def)
  then have "channel_manageSuccess (quiet_env []) (example_channel ''ns'' ''{}'') newChannelResponse
      (sha256_hex (nc_Json (example_channel ''ns'' ''{}''))) (start ()) = (Done r, s')"
    by (simp add: example_channel_def)
  from submitted_channel_left_alone [OF this] m show ?thesis
    by (auto simp: example_channel_def new_meta_def start_def channels_ok_def GetNotificationControllerConfig_def)
qed

text \<open>A reference whose resource is gone, with a Grafana that cannot be reached.\<close>

definition one_channel :: NotificationControllerConfig where
  "one_channel = AddNotificationChannel GetNotificationControllerConfig (example_channel ''ns'' ''{}'')"

lemma one_channel_ok: "channels_ok one_channel" "find_channel one_channel (''ns'', ''c'') \<noteq> None"
proof -
  have "channels_ok GetNotificationControllerConfig"
    by (simp add: channels_ok_def GetNotificationControllerConfig_def)
  then show "channels_ok one_channel" "find_channel one_channel (''ns'', ''c'') \<noteq> None"
    by (simp_all add: one_channel_def AddNotificationChannel_put chan.ok_put chan.look_put channel_key_def
        channel_ref_def example_channel_def new_meta_def)
qed

lemma offline_delete:
  "delete_channel (NewChannelClient (quiet_env items) [] [] [] 0) r s =
     (Done (), s\<lparr>op_Channels := RemoveNotificationChannel (op_Channels s) (ncr_Namespace r) (ncr_Name r)\<rparr>)"
  by (simp add: delete_channel_def DeleteNotificationChannelByUID_def doRequest_def channel_request_def
      opCreate_def opRead_def opUpdate_def opDelete_def send_request_def NewChannelClient_def quiet_env_def
      on_world_def newChannelResponse_def on_channels_def seq_def)

lemma offline_deletes:
  "\<exists>s'. for_each (delete_channel (NewChannelClient (quiet_env items) [] [] [] 0)) refs s = (Done (), s')"
proof (induction refs arbitrary: s)
  case (Cons r refs)
  then show ?case by (simp add: offline_delete)
qed simp

lemma gone_channels_forgotten_witness:
  "\<exists>s'. reconcileNotificationChannels (quiet_env []) zero_ControllerState \<lparr>key_Namespace = ''ns'', key_Name = []\<rparr>
        (NewChannelClient (quiet_env []) [] [] [] 0) ((start ())\<lparr>op_Channels := one_channel\<rparr>)
        = (Done (no_requeue, None), s')
     \<and> find_channel one_channel (''ns'', ''c'') \<noteq> None \<and> find_channel (op_Channels s') (''ns'', ''c'') = None"
proof -
  let ?c = "NewChannelClient (quiet_env []) [] [] [] 0" and ?s = "(start ())\<lparr>op_Channels := one_channel\<rparr>"
  let ?gone = "map (channel_at one_channel) (channel_pointers one_channel ''ns'')"
  obtain s1 where "for_each (delete_channel ?c) ?gone ?s = (Done (), s1)" using offline_deletes by blast
  then obtain s' where r: "reconcileNotificationChannels (quiet_env []) zero_ControllerState
      \<lparr>key_Namespace = ''ns'', key_Name = []\<rparr> ?c ?s = (Done (no_requeue, None), s')"
    by (simp add: reconcileNotificationChannels_def quiet_env_def channel_inNamespace_def on_channels_def)
  from gone_channels_forgotten [OF r, where items = "[]" and ns = "''ns''" and nam = "''c''"] r one_channel_ok show ?thesis
    by (auto simp: quiet_env_def channel_inNamespace_def)
qed

subsection \<open>Observations\<close>

text \<open>
  A channel whose json gives no uid makes the controller panic, because the uid is read through
  a nil pointer.
\<close>

lemma channel_without_uid_panics:
  "submit_channel env c item (Marshal_map mf (Some [])) hash s = (Panic NilDeref, s)"
proof -
  have "Marshal_map mf (Some []) = ''{}''" by (simp add: Marshal_map_def map_members_def)
  then show ?thesis
    by (simp add: submit_channel_def Unmarshal_def empty_object_parsed dec_struct_def zero_GrafanaChannel_def)
qed

text \<open>
  Channels are compared by name only. With a request for all namespaces, a new channel that
  has the name and the json of a known channel of another namespace is never submitted.
\<close>

lemma same_name_hides_channel:
  assumes "ns \<noteq> ''ns''"
    and "s = (start w)\<lparr>op_Channels := \<lparr>ncc_Values = (\<lambda>_. None), ncc_Channels = [(''ns'',
        [\<lparr>ncr_Name = ''c'', ncr_Namespace = ''ns'', ncr_UID = ''u'', ncr_Hash = sha256_hex ''{}''\<rparr>])]\<rparr>\<rparr>"
  shows "find_channel (op_Channels s) (ns, ''c'') = None"
    "reconcile_channel env st c (channel_pointers (op_Channels s) []) (example_channel ns ''{}'') s = (Done None, s)"
proof -
  show "find_channel (op_Channels s) (ns, ''c'') = None"
    using assms by (simp add: find_channel_def channels_in_def lookup_by_def)
  show "reconcile_channel env st c (channel_pointers (op_Channels s) []) (example_channel ns ''{}'') s = (Done None, s)"
    using assms
    by (intro known_channel_skipped) (simp_all add: channel_pointers_def channel_findHash_def channel_at_def
        channels_in_def example_channel_def new_meta_def)
qed

end
