(* ===== verification/Api_Datasource.thy ===== *)
theory Api_Datasource
  imports Api_Types
begin

text \<open>
  The datasource resource: \<open>api/integreatly/v1alpha1/grafanadatasource_types.go\<close>.
\<close>

record GrafanaDataSourceJsonDerivedFields =
  dsd_DatasourceUid :: string
  dsd_MatcherRegex :: string
  dsd_Name :: string
  dsd_Url :: string

record GrafanaDataSourceJsonTracesToLogs =
  dst_DatasourceUid :: string
  dst_SpanEndTimeShift :: string
  dst_SpanStartTimeShift :: string
  dst_Tags :: "string list"

record GrafanaDataSourceJsonData =
  dsj_OauthPassThru :: bool
  dsj_TlsAuth :: bool
  dsj_TlsAuthWithCACert :: bool
  dsj_TlsSkipVerify :: bool
  dsj_GraphiteVersion :: string
  dsj_TimeInterval :: string
  dsj_EsVersion :: string
  dsj_TimeField :: string
  dsj_Interval :: string
  dsj_LogMessageField :: string
  dsj_LogLevelField :: string
  dsj_AuthType :: string
  dsj_AssumeRoleArn :: string
  dsj_DefaultRegion :: string
  dsj_CustomMetricsNamespaces :: string
  dsj_TsdbVersion :: string
  dsj_TsdbResolution :: string
  dsj_Sslmode :: string
  dsj_Encrypt :: string
  dsj_PostgresVersion :: int
  dsj_Timescaledb :: bool
  dsj_MaxOpenConns :: int
  dsj_MaxIdleConns :: int
  dsj_ConnMaxLifetime :: int
  dsj_AddCorsHeader :: bool
  dsj_DefaultDatabase :: string
  dsj_UsePOST :: bool
  dsj_UseYandexCloudAuthorization :: bool
  dsj_XHeaderUser :: string
  dsj_XHeaderKey :: string
  dsj_HTTPHeaderName1 :: string
  dsj_HTTPHeaderName2 :: string
  dsj_HTTPHeaderName3 :: string
  dsj_HTTPHeaderName4 :: string
  dsj_HTTPHeaderName5 :: string
  dsj_HTTPHeaderName6 :: string
  dsj_HTTPHeaderName7 :: string
  dsj_HTTPHeaderName8 :: string
  dsj_HTTPHeaderName9 :: string
  dsj_TokenUri :: string
  dsj_ClientEmail :: string
  dsj_AuthenticationType :: string
  dsj_DefaultProject :: string
  dsj_AppInsightsAppId :: string
  dsj_AzureLogAnalyticsSameAs :: string
  dsj_ClientId :: string
  dsj_ClusterURL :: string
  dsj_CloudName :: string
  dsj_LogAnalyticsDefaultWorkspace :: string
  dsj_LogAnalyticsClientId :: string
  dsj_LogAnalyticsSubscriptionId :: string
  dsj_LogAnalyticsTenantId :: string
  dsj_SubscriptionId :: string
  dsj_TenantId :: string
  dsj_HTTPMode :: string
  dsj_Version :: string
  dsj_Organization :: string
  dsj_DefaultBucket :: string
  dsj_MaxLines :: int
  dsj_DerivedFields :: "GrafanaDataSourceJsonDerivedFields list"
  dsj_CustomQueryParameters :: string
  dsj_HTTPMethod :: string
  dsj_TracesToLogs :: GrafanaDataSourceJsonTracesToLogs
  dsj_GithubUrl :: string
  dsj_Implementation :: string
  dsj_SigV4Auth :: bool
  dsj_SigV4AuthType :: string
  dsj_SigV4ExternalId :: string
  dsj_SigV4AssumeRoleArn :: string
  dsj_SigV4Region :: string
  dsj_SigV4Profile :: string

record GrafanaDataSourceSecureJsonData =
  dss_TlsCaCert :: string
  dss_TlsClientCert :: string
  dss_TlsClientKey :: string
  dss_Password :: string
  dss_BasicAuthPassword :: string
  dss_AccessKey :: string
  dss_SecretKey :: string
  dss_HTTPHeaderValue1 :: string
  dss_HTTPHeaderValue2 :: string
  dss_HTTPHeaderValue3 :: string
  dss_HTTPHeaderValue4 :: string
  dss_HTTPHeaderValue5 :: string
  dss_HTTPHeaderValue6 :: string
  dss_HTTPHeaderValue7 :: string
  dss_HTTPHeaderValue8 :: string
  dss_HTTPHeaderValue9 :: string
  dss_PrivateKey :: string
  dss_ClientSecret :: string
  dss_AppInsightsApiKey :: string
  dss_LogAnalyticsClientSecret :: string
  dss_Token :: string
  dss_AccessToken :: string
  dss_SigV4AccessKey :: string
  dss_SigV4SecretKey :: string

record GrafanaDataSourceFields =
  dsf_Name :: string
  dsf_Type :: string
  dsf_Uid :: string
  dsf_Access :: string
  dsf_OrgId :: int
  dsf_Url :: string
  dsf_Password :: string
  dsf_User :: string
  dsf_Database :: string
  dsf_BasicAuth :: bool
  dsf_BasicAuthUser :: string
  dsf_BasicAuthPassword :: string
  dsf_WithCredentials :: bool
  dsf_IsDefault :: bool
  dsf_JsonData :: GrafanaDataSourceJsonData
  dsf_SecureJsonData :: GrafanaDataSourceSecureJsonData
  dsf_Version :: int
  dsf_Editable :: bool

record GrafanaDataSourceSpec =
  ds_Datasources :: "GrafanaDataSourceFields list"
  ds_Name :: string

record GrafanaDataSourceStatus =
  ds_Phase :: StatusPhase
  ds_Message :: string

text \<open>The zero values of the large structs.\<close>

definition zero_GrafanaDataSourceJsonData :: GrafanaDataSourceJsonData where
  "zero_GrafanaDataSourceJsonData =
     \<lparr>dsj_OauthPassThru = False, dsj_TlsAuth = False, dsj_TlsAuthWithCACert = False,
      dsj_TlsSkipVerify = False, dsj_GraphiteVersion = [], dsj_TimeInterval = [], dsj_EsVersion =
      [], dsj_TimeField = [], dsj_Interval = [], dsj_LogMessageField = [], dsj_LogLevelField = [],
      dsj_AuthType = [], dsj_AssumeRoleArn = [], dsj_DefaultRegion = [], dsj_CustomMetricsNamespaces
      = [], dsj_TsdbVersion = [], dsj_TsdbResolution = [], dsj_Sslmode = [], dsj_Encrypt = [],
      dsj_PostgresVersion = 0, dsj_Timescaledb = False, dsj_MaxOpenConns = 0, dsj_MaxIdleConns = 0,
      dsj_ConnMaxLifetime = 0, dsj_AddCorsHeader = False, dsj_DefaultDatabase = [], dsj_UsePOST =
      False, dsj_UseYandexCloudAuthorization = False, dsj_XHeaderUser = [], dsj_XHeaderKey = [],
      dsj_HTTPHeaderName1 = [], dsj_HTTPHeaderName2 = [], dsj_HTTPHeaderName3 = [],
      dsj_HTTPHeaderName4 = [], dsj_HTTPHeaderName5 = [], dsj_HTTPHeaderName6 = [],
      dsj_HTTPHeaderName7 = [], dsj_HTTPHeaderName8 = [], dsj_HTTPHeaderName9 = [], dsj_TokenUri =
      [], dsj_ClientEmail = [], dsj_AuthenticationType = [], dsj_DefaultProject = [],
      dsj_AppInsightsAppId = [], dsj_AzureLogAnalyticsSameAs = [], dsj_ClientId = [], dsj_ClusterURL
      = [], dsj_CloudName = [], dsj_LogAnalyticsDefaultWorkspace = [], dsj_LogAnalyticsClientId =
      [], dsj_LogAnalyticsSubscriptionId = [], dsj_LogAnalyticsTenantId = [], dsj_SubscriptionId =
      [], dsj_TenantId = [], dsj_HTTPMode = [], dsj_Version = [], dsj_Organization = [],
      dsj_DefaultBucket = [], dsj_MaxLines = 0, dsj_DerivedFields = [], dsj_CustomQueryParameters =
      [], dsj_HTTPMethod = [], dsj_TracesToLogs = \<lparr>dst_DatasourceUid = [],
      dst_SpanEndTimeShift = [], dst_SpanStartTimeShift = [], dst_Tags = []\<rparr>, dsj_GithubUrl =
      [], dsj_Implementation = [], dsj_SigV4Auth = False, dsj_SigV4AuthType = [],
      dsj_SigV4ExternalId = [], dsj_SigV4AssumeRoleArn = [], dsj_SigV4Region = [], dsj_SigV4Profile
      = []\<rparr>"

definition zero_GrafanaDataSourceSecureJsonData :: GrafanaDataSourceSecureJsonData where
  "zero_GrafanaDataSourceSecureJsonData =
     \<lparr>dss_TlsCaCert = [], dss_TlsClientCert = [], dss_TlsClientKey = [], dss_Password = [],
      dss_BasicAuthPassword = [], dss_AccessKey = [], dss_SecretKey = [], dss_HTTPHeaderValue1 = [],
      dss_HTTPHeaderValue2 = [], dss_HTTPHeaderValue3 = [], dss_HTTPHeaderValue4 = [],
      dss_HTTPHeaderValue5 = [], dss_HTTPHeaderValue6 = [], dss_HTTPHeaderValue7 = [],
      dss_HTTPHeaderValue8 = [], dss_HTTPHeaderValue9 = [], dss_PrivateKey = [], dss_ClientSecret =
      [], dss_AppInsightsApiKey = [], dss_LogAnalyticsClientSecret = [], dss_Token = [],
      dss_AccessToken = [], dss_SigV4AccessKey = [], dss_SigV4SecretKey = []\<rparr>"

definition zero_GrafanaDataSourceFields :: GrafanaDataSourceFields where
  "zero_GrafanaDataSourceFields =
     \<lparr>dsf_Name = [], dsf_Type = [], dsf_Uid = [], dsf_Access = [], dsf_OrgId = 0, dsf_Url =
      [], dsf_Password = [], dsf_User = [], dsf_Database = [], dsf_BasicAuth = False,
      dsf_BasicAuthUser = [], dsf_BasicAuthPassword = [], dsf_WithCredentials = False, dsf_IsDefault
      = False, dsf_JsonData = zero_GrafanaDataSourceJsonData, dsf_SecureJsonData =
      zero_GrafanaDataSourceSecureJsonData, dsf_Version = 0, dsf_Editable = False\<rparr>"

text \<open>The resource, and the name of its file in the configuration map of the datasources.\<close>

record GrafanaDataSource =
  ds_meta :: ObjectMeta
  ds_Spec :: GrafanaDataSourceSpec
  ds_Status :: GrafanaDataSourceStatus

definition Filename :: "GrafanaDataSource \<Rightarrow> string" where
  "Filename ds = om_Namespace (ds_meta ds) @ ''_'' @ ToLower (om_Name (ds_meta ds)) @ ''.yaml''"

end
