(* ===== verification/Datasources.thy ===== *)
theory Datasources
  imports Api_Datasource Dashboard_Client Grafana_Controller
begin

text \<open>
  The datasources: \<open>controllers/grafanadatasource\<close>, with the pipeline for the configuration map
  (which the controller no longer uses), the client of Grafana's HTTP interface and the
  controller.
\<close>

subsection \<open>The pipeline and the digest\<close>

text \<open>
  \<open>yaml.Marshal\<close> is the library's: a function of the version of the file and the datasources.
\<close>

definition DatasourcesApiVersion :: int where "DatasourcesApiVersion = 1"

record datasource_pipeline =
  dp_datasource :: GrafanaDataSource
  dp_contents :: string

definition NewDatasourcePipeline :: "GrafanaDataSource \<Rightarrow> datasource_pipeline" where
  "NewDatasourcePipeline ds = \<lparr>dp_datasource = ds, dp_contents = []\<rparr>"

definition datasource_parse :: "(int \<Rightarrow> GrafanaDataSourceFields list \<Rightarrow> string + string) \<Rightarrow> datasource_pipeline
    \<Rightarrow> string + datasource_pipeline" where
  "datasource_parse yaml_Marshal i =
     (case yaml_Marshal DatasourcesApiVersion (ds_Datasources (ds_Spec (dp_datasource i))) of
        Inl err \<Rightarrow> Inl err
      | Inr bytes \<Rightarrow> Inr (i\<lparr>dp_contents := bytes\<rparr>))"

definition datasource_append :: "datasource_pipeline \<Rightarrow> ConfigMap \<Rightarrow> ConfigMap" where
  "datasource_append i known =
     (let data = (case cm_Data known of None \<Rightarrow> Map.empty | Some d \<Rightarrow> d)
      in known\<lparr>cm_Data := Some (data(Filename (dp_datasource i) \<mapsto> dp_contents i))\<rparr>)"

definition ProcessDatasource :: "(int \<Rightarrow> GrafanaDataSourceFields list \<Rightarrow> string + string) \<Rightarrow> datasource_pipeline
    \<Rightarrow> ConfigMap \<Rightarrow> string + ConfigMap" where
  "ProcessDatasource yaml_Marshal i known =
     (case datasource_parse yaml_Marshal i of
        Inl err \<Rightarrow> Inl (''error parsing datasource: '' @ err)
      | Inr i' \<Rightarrow> Inr (datasource_append i' known))"

text \<open>\<open>keys_of\<close> gives the keys of the map in some order.\<close>

definition updateHash :: "((string \<rightharpoonup> string) \<Rightarrow> string list) \<Rightarrow> ConfigMap option \<Rightarrow> string" where
  "updateHash keys_of known =
     (case known of
        None \<Rightarrow> []
      | Some cm \<Rightarrow>
          (case cm_Data cm of
             None \<Rightarrow> []
           | Some data \<Rightarrow> sha256_hex (concat (map (\<lambda>key. key @ label_get (Some data) key) (sort (keys_of data))))))"

subsection \<open>The client\<close>

record GrafanaDatasourceResponse =
  gds_ID :: "nat option"
  gds_UID :: "string option"
  gds_OrgID :: "nat option"
  gds_Name :: "string option"
  gds_Type :: "string option"
  gds_TypeName :: "string option"
  gds_Access :: "string option"
  gds_URL :: "string option"

record GrafanaDatasourceRequest =
  gdq_Name :: string
  gdq_Type :: string
  gdq_TypeName :: string
  gdq_Access :: string
  gdq_URL :: string

definition datasource_response_fields :: "GrafanaDatasourceResponse field list" where
  "datasource_response_fields =
     [dec_field ''id'' gds_ID gds_ID_update dec_ptr_uint,
      dec_field ''uid'' gds_UID gds_UID_update dec_ptr_string,
      dec_field ''orgid'' gds_OrgID gds_OrgID_update dec_ptr_uint,
      dec_field ''name'' gds_Name gds_Name_update dec_ptr_string,
      dec_field ''type'' gds_Type gds_Type_update dec_ptr_string,
      dec_field ''typename'' gds_TypeName gds_TypeName_update dec_ptr_string,
      dec_field ''access'' gds_Access gds_Access_update dec_ptr_string,
      dec_field ''url'' gds_URL gds_URL_update dec_ptr_string]"

definition zero_datasource :: GrafanaDatasourceResponse where
  "zero_datasource =
     \<lparr>gds_ID = None, gds_UID = None, gds_OrgID = None, gds_Name = None, gds_Type = None, gds_TypeName = None,
      gds_Access = None, gds_URL = None\<rparr>"

definition newDatasourceResponse :: GrafanaDatasourceResponse where
  "newDatasourceResponse =
     \<lparr>gds_ID = Some 0, gds_UID = Some [], gds_OrgID = Some 0, gds_Name = Some [], gds_Type = Some [],
      gds_TypeName = Some [], gds_Access = None, gds_URL = Some []\<rparr>"

definition Marshal_datasource :: "GrafanaDatasourceRequest \<Rightarrow> string" where
  "Marshal_datasource r = object_text
     [(''name'', Marshal_string (gdq_Name r)), (''type'', Marshal_string (gdq_Type r)),
      (''typeName'', Marshal_string (gdq_TypeName r)), (''access'', Marshal_string (gdq_Access r)),
      (''url'', Marshal_string (gdq_URL r))]"

definition GetDatasourceList :: "'w GrafanaClient \<Rightarrow> ('w, GrafanaDatasourceResponse list \<times> string option) operation" where
  "GetDatasourceList c =
     seq (send_request c ''GET'' ''/api/datasources/'' []) (\<lambda>r.
     case r of
       Inl err \<Rightarrow> ret ([], Some err)
     | Inr resp \<Rightarrow>
         if resp_StatusCode resp \<noteq> 200
         then ret ([], if resp_StatusCode resp = 503 then None else Some (unexpected_status ''getting folders'' resp))
         else (let ((datasources, _), err) =
                 read_answer c (dec_slice zero_datasource (dec_struct datasource_response_fields)) ([], []) resp
               in ret (datasources, err)))"

definition GetDatasource :: "'w GrafanaClient \<Rightarrow> string \<Rightarrow> ('w, GrafanaDatasourceResponse \<times> string option) operation" where
  "GetDatasource c uid =
     seq (send_request c ''GET'' (''/api/datasources/id/'' @ uid) []) (\<lambda>r.
     case r of
       Inl err \<Rightarrow> ret (newDatasourceResponse, Some err)
     | Inr resp \<Rightarrow>
         if resp_StatusCode resp = 404 then ret (newDatasourceResponse, None)
         else if resp_StatusCode resp \<noteq> 200
         then ret (newDatasourceResponse, Some (unexpected_status ''searching for dashboard'' resp))
         else ret (read_answer c (dec_struct datasource_response_fields) newDatasourceResponse resp))"

text \<open>
  Only the first datasource of a resource is sent; without one the code panics. If the url is
  rejected as well, the code may return that error instead: the caller reads the first
  datasource before.
\<close>

definition datasource_request :: "GrafanaDataSource \<Rightarrow> GrafanaDatasourceRequest go" where
  "datasource_request datasource =
     go_bind (index (ds_Datasources (ds_Spec datasource)) 0) (\<lambda>f.
       Inr \<lparr>gdq_Name = dsf_Name f, gdq_Type = dsf_Type f, gdq_TypeName = [], gdq_Access = dsf_Access f,
            gdq_URL = dsf_Url f\<rparr>)"

definition CreateGrafanaDatasource :: "'w GrafanaClient \<Rightarrow> GrafanaDataSource
    \<Rightarrow> ('w, GrafanaDatasourceResponse \<times> string option) operation" where
  "CreateGrafanaDatasource c datasource =
     seq (of_go (datasource_request datasource)) (\<lambda>request.
     seq (send_request c ''POST'' ''/api/datasources'' (Marshal_datasource request)) (\<lambda>r.
     case r of
       Inl err \<Rightarrow> ret (newDatasourceResponse, Some err)
     | Inr resp \<Rightarrow>
         if resp_StatusCode resp \<noteq> 200 \<and> resp_StatusCode resp \<noteq> 503
         then ret (newDatasourceResponse, Some (unexpected_status ''creating dashboard'' resp))
         else ret (read_answer c (dec_struct datasource_response_fields) newDatasourceResponse resp)))"

definition DeleteDatasourceByUID :: "'w GrafanaClient \<Rightarrow> string
    \<Rightarrow> ('w, GrafanaDatasourceResponse \<times> string option) operation" where
  "DeleteDatasourceByUID c uid =
     seq (send_request c ''DELETE'' (''/api/datasources/uid/'' @ uid) []) (\<lambda>r.
     case r of
       Inl err \<Rightarrow> ret (newDatasourceResponse, Some err)
     | Inr resp \<Rightarrow>
         if resp_StatusCode resp \<noteq> 200
         then ret (newDatasourceResponse, Some (unexpected_status ''deleting datasrouce'' resp))
         else ret (read_answer c (dec_struct datasource_response_fields) newDatasourceResponse resp))"

subsection \<open>The controller\<close>

text \<open>
  \<open>se_list\<close> lists the resources of a namespace (all of them if it is empty); \<open>se_update_status\<close>
  writes the status of a resource.
\<close>

record 'w datasource_env =
  se_prepare :: "string \<Rightarrow> string \<Rightarrow> string \<Rightarrow> string + string"
  se_Do :: "int \<Rightarrow> 'w http_do"
  se_json_error :: "string \<Rightarrow> string"
  se_list :: "string \<Rightarrow> 'w \<Rightarrow> api_error + GrafanaDataSource list"
  se_get :: "ObjectKey \<Rightarrow> 'w \<Rightarrow> api_error + GrafanaDataSource"
  se_update_status :: "GrafanaDataSource \<Rightarrow> 'w \<Rightarrow> api_error option \<times> 'w"

definition NewDatasourceClient :: "'w datasource_env \<Rightarrow> string \<Rightarrow> string \<Rightarrow> string \<Rightarrow> int \<Rightarrow> 'w GrafanaClient" where
  "NewDatasourceClient env url user password timeoutSeconds =
     \<lparr>cl_url = url, cl_user = user, cl_password = password, cl_prepare = se_prepare env,
      cl_Do = se_Do env timeoutSeconds, cl_json_error = se_json_error env, cl_pointer = (\<lambda>_. [])\<rparr>"

definition datasource_getClient :: "'w datasource_env \<Rightarrow> ControllerState \<Rightarrow> 'w operator \<Rightarrow> string + 'w GrafanaClient" where
  "datasource_getClient env st s =
     (let url = AdminUrl st;
          username = Getenv GrafanaAdminUserEnvVar s;
          password = Getenv GrafanaAdminPasswordEnvVar s
      in if url = [] then Inl ''cannot get grafana admin url''
         else if username = [] then Inl ''invalid credentials (username)''
         else if password = [] then Inl ''invalid credentials (password)''
         else Inr (NewDatasourceClient env url username password (ClientTimeout st)))"

definition checkdup :: "string list \<Rightarrow> string \<Rightarrow> bool" where
  "checkdup knownDatasources item \<longleftrightarrow> list_ex (\<lambda>d. item = d) knownDatasources"

definition datasource_manageError :: "'w datasource_env \<Rightarrow> GrafanaDataSource \<Rightarrow> string \<Rightarrow> ('w, unit) operation" where
  "datasource_manageError env datasource issue =
     seq (on_world (se_update_status env
            (datasource\<lparr>ds_Status := \<lparr>ds_Phase = PhaseFailing, ds_Message = issue\<rparr>\<rparr>))) (\<lambda>_.
       ret ())"

text \<open>The status of a success is set on the local copy only, which nothing reads.\<close>

definition first_url :: "GrafanaDataSource \<Rightarrow> string go" where
  "first_url datasource = go_bind (index (ds_Datasources (ds_Spec datasource)) 0) (\<lambda>f. Inr (dsf_Url f))"

definition reconcile_datasource :: "'w datasource_env \<Rightarrow> 'w GrafanaClient \<Rightarrow> string list \<Rightarrow> GrafanaDataSource
    \<Rightarrow> ('w, string) operation" where
  "reconcile_datasource env c ds_url datasource =
     seq (of_go (first_url datasource)) (\<lambda>url.
       if checkdup ds_url url then ret url
       else seq (CreateGrafanaDatasource c datasource) (\<lambda>(_, err).
            case err of
              Some e \<Rightarrow> seq (datasource_manageError env datasource e) (\<lambda>_. ret url)
            | None \<Rightarrow> ret url))"

fun datasources_to_delete :: "string list \<Rightarrow> GrafanaDatasourceResponse list \<Rightarrow> GrafanaDatasourceResponse list go" where
  "datasources_to_delete k8s_ds_url [] = Inr []"
| "datasources_to_delete k8s_ds_url (ds # dss) =
     go_bind (deref (gds_URL ds)) (\<lambda>url.
     go_bind (datasources_to_delete k8s_ds_url dss) (\<lambda>rest.
       Inr (if checkdup k8s_ds_url url then rest else ds # rest)))"

definition delete_datasource :: "'w GrafanaClient \<Rightarrow> GrafanaDatasourceResponse \<Rightarrow> ('w, unit) operation" where
  "delete_datasource c datasource =
     seq (of_go (deref (gds_UID datasource))) (\<lambda>uid.
     seq (DeleteDatasourceByUID c uid) (\<lambda>_. ret ()))"

definition reconcileDataSources :: "'w datasource_env \<Rightarrow> ObjectKey \<Rightarrow> 'w GrafanaClient
    \<Rightarrow> ('w, Result \<times> error option) operation" where
  "reconcileDataSources env request c =
     seq (GetDatasourceList c) (\<lambda>(knownDatasources, _).
     seq (gets (\<lambda>s. se_list env (key_Namespace request) (op_World s))) (\<lambda>r.
     case r of
       Inl err \<Rightarrow> ret (no_requeue, Some (FromApi err))
     | Inr items \<Rightarrow>
         seq (collect (\<lambda>kds. of_go (deref (gds_URL kds))) knownDatasources) (\<lambda>ds_url.
         seq (collect (reconcile_datasource env c ds_url) items) (\<lambda>k8s_ds_url.
         seq (of_go (datasources_to_delete k8s_ds_url knownDatasources)) (\<lambda>datasourcesToDelete.
         seq (for_each (delete_datasource c) datasourcesToDelete) (\<lambda>_.
           ret (no_requeue, None)))))))"

definition DatasourceReconcile :: "'w datasource_env \<Rightarrow> ControllerState \<Rightarrow> ObjectKey
    \<Rightarrow> ('w, Result \<times> error option) operation" where
  "DatasourceReconcile env st request =
     seq (gets (datasource_getClient env st)) (\<lambda>client.
     case client of
       Inl err \<Rightarrow> ret (requeue_later, Some (Error err))
     | Inr c \<Rightarrow>
         if key_Name request = [] then reconcileDataSources env request c
         else seq (gets (\<lambda>s. se_get env request (op_World s))) (\<lambda>r.
              case r of
                Inl err \<Rightarrow> if err = NotFound then reconcileDataSources env request c
                           else ret (no_requeue, Some (FromApi err))
              | Inr cr \<Rightarrow> reconcileDataSources env request c))"

end
