(* ===== verification/Datasource_Properties.thy ===== *)
theory Datasource_Properties
  imports Datasources Grafana_Controller_Properties
begin

text \<open>
  What the controller of the datasources sends to Grafana: exactly one list, the creations and
  the deletions, in this order.
\<close>

subsection \<open>Requests on record\<close>

text \<open>A client that records its requests in the world.\<close>

definition logging :: "'w http_do \<Rightarrow> ('w \<times> http_request list) http_do" where
  "logging send rq w = (let (r, w') = send rq (fst w) in (r, (w', snd w @ [rq])))"

definition request_to :: "(string \<Rightarrow> string) \<Rightarrow> string \<Rightarrow> string \<Rightarrow> string \<Rightarrow> http_request" where
  "request_to target method path body =
     \<lparr>rq_Method = method, rq_Url = target path, rq_Header = setHeaders, rq_Body = body\<rparr>"

text \<open>A client on such a world that accepts its urls.\<close>

definition recorded :: "(string \<Rightarrow> string) \<Rightarrow> ('w \<times> http_request list) GrafanaClient \<Rightarrow> bool" where
  "recorded target c \<longleftrightarrow>
     (\<exists>send. cl_Do c = logging send)
     \<and> (\<forall>path. cl_prepare c (cl_url c @ path) (cl_user c) (cl_password c) = Inr (target path))"

lemma emits_send_request:
  assumes "recorded target c"
  shows "emits [request_to target method path body] (send_request c method path body)"
  using assms
  by (auto simp: recorded_def emits_def sent_def send_request_def on_world_def logging_def request_to_def
      split: prod.splits)

subsection \<open>What the controller of the datasources sends\<close>

definition item_url :: "GrafanaDataSource \<Rightarrow> string" where
  "item_url d = dsf_Url (hd (ds_Datasources (ds_Spec d)))"

definition list_request :: "(string \<Rightarrow> string) \<Rightarrow> http_request" where
  "list_request target = request_to target ''GET'' ''/api/datasources/'' []"

definition create_request :: "(string \<Rightarrow> string) \<Rightarrow> GrafanaDataSource \<Rightarrow> http_request" where
  "create_request target d =
     (let f = hd (ds_Datasources (ds_Spec d))
      in request_to target ''POST'' ''/api/datasources''
           (object_text [(''name'', Marshal_string (dsf_Name f)), (''type'', Marshal_string (dsf_Type f)),
              (''typeName'', Marshal_string []), (''access'', Marshal_string (dsf_Access f)),
              (''url'', Marshal_string (dsf_Url f))]))"

definition delete_request :: "(string \<Rightarrow> string) \<Rightarrow> GrafanaDatasourceResponse \<Rightarrow> http_request" where
  "delete_request target k = request_to target ''DELETE'' (''/api/datasources/uid/'' @ the (gds_UID k)) []"

lemma checkdup_iff [simp]: "checkdup xs x \<longleftrightarrow> x \<in> set xs"
  by (auto simp: checkdup_def list_ex_iff)

lemma index_0: "index xs 0 = Inr x \<longleftrightarrow> xs \<noteq> [] \<and> x = hd xs"
  by (cases xs) (auto simp: index_def)

lemma first_url_iff: "first_url d = Inr u \<longleftrightarrow> ds_Datasources (ds_Spec d) \<noteq> [] \<and> u = item_url d"
  by (auto simp: first_url_def go_bind_eq_Inr index_0 item_url_def)

lemma emits_GetDatasourceList:
  "recorded target c \<Longrightarrow> emits [list_request target] (GetDatasourceList c)"
  unfolding GetDatasourceList_def list_request_def
  by (rule emits_seq_pure [OF emits_send_request]) (auto split: sum.split prod.split)

lemma emits_create:
  assumes "recorded target c"
  shows "emits [create_request target d] (CreateGrafanaDatasource c d)"
proof (cases "ds_Datasources (ds_Spec d)")
  case Nil
  then show ?thesis by (simp add: emits_def CreateGrafanaDatasource_def datasource_request_def seq_def of_go_def)
next
  case (Cons f fs)
  then have r: "datasource_request d = Inr \<lparr>gdq_Name = dsf_Name f, gdq_Type = dsf_Type f, gdq_TypeName = [],
      gdq_Access = dsf_Access f, gdq_URL = dsf_Url f\<rparr>" by (simp add: datasource_request_def)
  have e: "create_request target d = request_to target ''POST'' ''/api/datasources'' (Marshal_datasource
      \<lparr>gdq_Name = dsf_Name f, gdq_Type = dsf_Type f, gdq_TypeName = [], gdq_Access = dsf_Access f, gdq_URL = dsf_Url f\<rparr>)"
    by (simp add: create_request_def Marshal_datasource_def Cons)
  show ?thesis
    unfolding CreateGrafanaDatasource_def r emits_of_go e
    by (rule emits_seq_pure [OF emits_send_request [OF assms]]) (simp split: sum.split)
qed

lemma emits_delete:
  assumes "recorded target c"
  shows "emits [delete_request target k] (delete_datasource c k)"
proof (cases "gds_UID k")
  case None
  then show ?thesis by (auto simp: emits_def delete_datasource_def seq_Done_iff)
next
  case (Some uid)
  have "emits [delete_request target k] (DeleteDatasourceByUID c uid)"
    unfolding DeleteDatasourceByUID_def delete_request_def Some option.sel
    by (rule emits_seq_pure [OF emits_send_request [OF assms]]) (auto split: sum.split)
  then have "emits [delete_request target k] (seq (DeleteDatasourceByUID c uid) (\<lambda>_. ret ()))"
    by (rule emits_seq_pure) simp
  with Some show ?thesis by (simp add: emits_def delete_datasource_def)
qed

lemma collect_urls:
  assumes "collect (\<lambda>kds. of_go (deref (gds_URL kds))) known s = (Done urls, s')"
  shows "s' = s" "urls = map (the \<circ> gds_URL) known" "\<And>k. k \<in> set known \<Longrightarrow> gds_URL k \<noteq> None"
proof -
  have "s' = s \<and> urls = map (the \<circ> gds_URL) known \<and> (\<forall>k \<in> set known. gds_URL k \<noteq> None)"
    using assms by (induction known arbitrary: urls) (auto simp: seq_Done_iff deref_def split: option.splits)
  then show "s' = s" "urls = map (the \<circ> gds_URL) known" "\<And>k. k \<in> set known \<Longrightarrow> gds_URL k \<noteq> None" by auto
qed

lemma emits_reconcile_datasource:
  assumes "recorded target c" "\<And>d w. snd (snd (se_update_status env d w)) = snd w"
  shows "emits (if item_url d \<in> set ds_url then [] else [create_request target d]) (reconcile_datasource env c ds_url d)"
proof (cases "first_url d")
  case (Inl p)
  then show ?thesis by (simp add: emits_def reconcile_datasource_def seq_def of_go_def)
next
  case (Inr u)
  then have u: "first_url d = Inr (item_url d)" by (simp add: first_url_iff)
  have e: "emits [] (datasource_manageError env d e)" for e
    unfolding datasource_manageError_def by (rule emits_seq_pure [OF emits_on_world]) (simp_all add: assms(2))
  have "emits [create_request target d] (seq (CreateGrafanaDatasource c d) (\<lambda>(_, err).
            case err of Some e \<Rightarrow> seq (datasource_manageError env d e) (\<lambda>_. ret (item_url d)) | None \<Rightarrow> ret (item_url d)))"
    by (rule emits_seq_pure [OF emits_create [OF assms(1)]]) (auto intro!: emits_seq_pure e split: option.split)
  then show ?thesis by (simp add: reconcile_datasource_def u)
qed

lemma reconcile_datasource_url:
  assumes "reconcile_datasource env c ds_url d s = (Done url, s')"
  shows "ds_Datasources (ds_Spec d) \<noteq> [] \<and> url = item_url d"
proof -
  from assms obtain u where u: "first_url d = Inr u" by (auto simp: reconcile_datasource_def seq_Done_iff)
  from assms have "url = u"
    unfolding reconcile_datasource_def u
    by (auto simp: seq_Done_iff split: if_splits option.splits)
  with u show ?thesis by (simp add: first_url_iff)
qed

lemma collect_datasources_sends:
  assumes "recorded target c" "\<And>d w. snd (snd (se_update_status env d w)) = snd w"
    and "collect (reconcile_datasource env c ds_url) items s = (Done urls, s')"
  shows "list_all (\<lambda>d. ds_Datasources (ds_Spec d) \<noteq> []) items \<and> urls = map item_url items
     \<and> sent s' = sent s @ map (create_request target) (filter (\<lambda>d. item_url d \<notin> set ds_url) items)"
  using assms(3)
proof (induction items arbitrary: s urls)
  case (Cons d items)
  then obtain u us s1 where "reconcile_datasource env c ds_url d s = (Done u, s1)"
    "collect (reconcile_datasource env c ds_url) items s1 = (Done us, s')" "urls = u # us"
    by (auto simp: seq_Done_iff)
  note r = this
  from emitsD [OF emits_reconcile_datasource [OF assms(1,2)] r(1)] reconcile_datasource_url [OF r(1)] Cons.IH [OF r(2)]
  show ?case by (simp add: r(3))
qed simp

lemma datasources_to_delete_filter:
  "datasources_to_delete urls known = Inr ds \<Longrightarrow>
     list_all (\<lambda>k. gds_URL k \<noteq> None) known \<and> ds = filter (\<lambda>k. the (gds_URL k) \<notin> set urls) known"
proof (induction known arbitrary: ds)
  case (Cons k known)
  from Cons.prems obtain url rest where "gds_URL k = Some url" "datasources_to_delete urls known = Inr rest"
    "ds = (if url \<in> set urls then rest else k # rest)"
    by (cases "gds_URL k") (auto simp: go_bind_eq_Inr)
  with Cons.IH show ?case by simp
qed simp

lemma reconcile_sends:
  assumes "recorded target c" "\<And>d w. snd (snd (se_update_status env d w)) = snd w"
    and "GetDatasourceList c s = (Done (known, err), s1)"
    and "se_list env (key_Namespace request) (op_World s1) = Inr items"
    and "reconcileDataSources env request c s = (Done res, s')"
  shows "list_all (\<lambda>d. ds_Datasources (ds_Spec d) \<noteq> []) items \<and> list_all (\<lambda>k. gds_URL k \<noteq> None) known
     \<and> sent s' = sent s @ [list_request target]
         @ map (create_request target) (filter (\<lambda>d. Some (item_url d) \<notin> gds_URL ` set known) items)
         @ map (delete_request target) (filter (\<lambda>k. the (gds_URL k) \<notin> item_url ` set items) known)"
proof -
  have "seq (collect (\<lambda>kds. of_go (deref (gds_URL kds))) known) (\<lambda>ds_url.
         seq (collect (reconcile_datasource env c ds_url) items) (\<lambda>k8s_ds_url.
         seq (of_go (datasources_to_delete k8s_ds_url known)) (\<lambda>datasourcesToDelete.
         seq (for_each (delete_datasource c) datasourcesToDelete) (\<lambda>_.
           ret (no_requeue, None))))) s1 = (Done res, s')"
    using assms(5) by (simp add: reconcileDataSources_def assms(3,4))
  then obtain urls us gone s2 s0 u where a0: "collect (\<lambda>kds. of_go (deref (gds_URL kds))) known s1 = (Done urls, s0)"
    and b0: "collect (reconcile_datasource env c urls) items s0 = (Done us, s2)"
    and g: "datasources_to_delete us known = Inr gone" and d: "for_each (delete_datasource c) gone s2 = (Done u, s')"
    by (simp only: seq_Done_iff of_go_Done effect_simps prod.inject) blast
  note a = a0 [unfolded collect_urls(1) [OF a0]]
  note b = b0 [unfolded collect_urls(1) [OF a0]]
  note urls = collect_urls [OF a]
  note made = collect_datasources_sends [OF assms(1,2) b]
  have l: "sent s1 = sent s @ [list_request target]" by (rule emitsD [OF emits_GetDatasourceList [OF assms(1)] assms(3)])
  have "sent s' = sent s2 @ concat (map (\<lambda>k. [delete_request target k]) gone)"
    by (rule emitsD [OF emits_for_each d]) (rule emits_delete [OF assms(1)])
  moreover have "Some u \<in> gds_URL ` set known \<longleftrightarrow> u \<in> set urls" for u
    using urls(3) by (force simp: urls(2) image_iff)
  ultimately show ?thesis
    using made datasources_to_delete_filter [OF g] l by simp
qed

subsection \<open>Properties\<close>

text \<open>
  C16: the requests of a completed call. First the list, then one request for every resource
  whose first url Grafana does not have, in order, with the name, the type, the access mode and the
  url of its first datasource, and then one deletion for every datasource of Grafana whose url no
  resource of the namespace has first; every resource has a datasource and every datasource of
  Grafana a url.
\<close>
theorem datasource_requests:
  assumes "recorded target c" "\<And>d w. snd (snd (se_update_status env d w)) = snd w"
    and "GetDatasourceList c s = (Done (known, err), s1)"
    and "se_list env (key_Namespace request) (op_World s1) = Inr items"
    and "reconcileDataSources env request c s = (Done res, s')"
  shows "list_all (\<lambda>d. ds_Datasources (ds_Spec d) \<noteq> []) items \<and> list_all (\<lambda>k. gds_URL k \<noteq> None) known
     \<and> sent s' = sent s @ [list_request target]
         @ map (create_request target) (filter (\<lambda>d. Some (item_url d) \<notin> gds_URL ` set known) items)
         @ map (delete_request target) (filter (\<lambda>k. the (gds_URL k) \<notin> item_url ` set items) known)"
  using assms by (rule reconcile_sends)

subsection \<open>Examples\<close>

definition example_datasource :: "string \<Rightarrow> GrafanaDataSource" where
  "example_datasource url =
     \<lparr>ds_meta = new_meta ''d'' ''ns'' None None,
      ds_Spec = \<lparr>ds_Datasources = [zero_GrafanaDataSourceFields\<lparr>dsf_Url := url\<rparr>], ds_Name = []\<rparr>,
      ds_Status = \<lparr>ds_Phase = NoPhase, ds_Message = []\<rparr>\<rparr>"

definition unreachable :: "(unit \<times> http_request list) datasource_env" where
  "unreachable =
     \<lparr>se_prepare = (\<lambda>url _ _. Inr url), se_Do = (\<lambda>_. logging (\<lambda>_ w. (Inl ''offline'', w))),
      se_json_error = (\<lambda>_. ''json''), se_list = (\<lambda>_ _. Inr [example_datasource ''u'']), se_get = (\<lambda>_ _. Inl NotFound),
      se_update_status = (\<lambda>_ w. (None, w))\<rparr>"

abbreviation unreachable_client :: "(unit \<times> http_request list) GrafanaClient" where
  "unreachable_client \<equiv> NewDatasourceClient unreachable [] [] [] 0"

lemma unreachable_recorded: "recorded (\<lambda>path. path) unreachable_client"
  by (auto simp: recorded_def NewDatasourceClient_def unreachable_def)

lemma unreachable_sends:
  "send_request unreachable_client method path body s =
     (Done (Inl ''offline''), s\<lparr>op_World := (fst (op_World s),
        snd (op_World s) @ [request_to (\<lambda>path. path) method path body])\<rparr>)"
  by (simp add: send_request_def NewDatasourceClient_def unreachable_def logging_def on_world_def request_to_def)

lemma unreachable_status: "se_update_status unreachable d w = (None, w)"
  by (simp add: unreachable_def)

lemma datasource_requests_witness:
  "\<exists>s'. reconcileDataSources unreachable \<lparr>key_Namespace = ''ns'', key_Name = []\<rparr> unreachable_client (start ((), []))
          = (Done (no_requeue, None), s')
     \<and> sent s' = [list_request (\<lambda>path. path), create_request (\<lambda>path. path) (example_datasource ''u'')]"
proof -
  let ?env = "unreachable" and ?s = "start ((), [])"
  obtain s1 where l: "GetDatasourceList unreachable_client ?s = (Done ([], Some ''offline''), s1)"
    by (simp add: GetDatasourceList_def unreachable_sends)
  have items: "se_list ?env ''ns'' w = Inr [example_datasource ''u'']" for w by (simp add: unreachable_def)
  have one: "first_url (example_datasource ''u'') = Inr ''u''" "item_url (example_datasource ''u'') = ''u''"
    by (simp_all add: first_url_def item_url_def example_datasource_def)
  have "\<exists>req. datasource_request (example_datasource ''u'') = Inr req"
    by (simp add: datasource_request_def example_datasource_def)
  then obtain s2 where "reconcile_datasource ?env unreachable_client [] (example_datasource ''u'') s1 = (Done ''u'', s2)"
    by (auto simp: reconcile_datasource_def one CreateGrafanaDatasource_def unreachable_sends datasource_manageError_def
        on_world_def unreachable_status)
  then obtain s' where r: "reconcileDataSources ?env \<lparr>key_Namespace = ''ns'', key_Name = []\<rparr> unreachable_client ?s
      = (Done (no_requeue, None), s')"
    by (simp add: reconcileDataSources_def l items)
  have status: "snd (snd (se_update_status unreachable d w)) = snd w" for d w by (simp add: unreachable_status)
  have empty: "sent (start ((), [])) = []" by (simp add: sent_def start_def)
  from datasource_requests [OF unreachable_recorded status l _ r] items r show ?thesis by (simp add: one empty)
qed

subsection \<open>Observations\<close>

text \<open>
  A call for one namespace deletes the datasources of all others, because what Grafana has is
  compared with the resources of that namespace only.
\<close>

lemma foreign_datasource_deleted:
  assumes "recorded target c" "\<And>d w. snd (snd (se_update_status env d w)) = snd w"
    and "GetDatasourceList c s = (Done (known, err), s1)" "k \<in> set known"
    and "se_list env ''mine'' (op_World s1) = Inr mine" "the (gds_URL k) \<notin> item_url ` set mine"
    and "reconcileDataSources env \<lparr>key_Namespace = ''mine'', key_Name = n\<rparr> c s = (Done res, s')"
  shows "delete_request target k \<in> set (sent s')"
  using reconcile_sends [OF assms(1,2,3) _ assms(7)] assms(4,5,6) by auto

text \<open>
  A datasource whose url Grafana has is never sent again, whatever else of it changed.
\<close>

lemma changed_datasource_not_sent:
  assumes "first_url d = Inr url" "url \<in> set known_urls"
  shows "reconcile_datasource env c known_urls d s = (Done url, s)"
  using assms by (simp add: reconcile_datasource_def)

text \<open>A resource without datasources makes the controller panic.\<close>

lemma empty_datasource_panics:
  "ds_Datasources (ds_Spec d) = [] \<Longrightarrow> reconcile_datasource env c urls d s = (Panic IndexOutOfRange, s)"
  by (simp add: reconcile_datasource_def first_url_def)

text \<open>The digest of the configuration map does not depend on the order of the map.\<close>

lemma updateHash_order:
  assumes "\<And>m. set (keys1 m) = dom m" "\<And>m. distinct (keys1 m)" "\<And>m. set (keys2 m) = dom m" "\<And>m. distinct (keys2 m)"
  shows "updateHash keys1 known = updateHash keys2 known"
proof -
  have "sort (keys1 m) = sort (keys2 m)" for m
    using assms by (intro sorted_distinct_set_unique) simp_all
  then show ?thesis by (simp add: updateHash_def split: option.split)
qed

end
