(* ===== verification/Datasource_State.thy ===== *)
theory Datasource_State
  imports Datasources
begin

text \<open>
  The older state of the datasources, \<open>controllers/common/dataSourcesState.go\<close>: an earlier copy of
  the client, which also remembers lists of resources, and the code that reads the resources and
  the configuration map. The last section compares it with the client of \<open>Datasources\<close>.
\<close>

subsection \<open>States\<close>

text \<open>
  The client with the two lists it can hold, nil at first. \<open>DataSourcesState\<close> is the other state,
  whose known datasources are a configuration map.
\<close>

record 'w state_client =
  stc_client :: "'w GrafanaClient"
  stc_ClusterDataSources :: "GrafanaDataSource list option"
  stc_KnownDataSources :: "GrafanaDataSource list option"

record DataSourcesState =
  dss_ClusterDataSources :: "GrafanaDataSource list option"
  dss_KnownDataSources :: "ConfigMap option"

definition NewDataSourcesState :: DataSourcesState where
  "NewDataSourcesState = \<lparr>dss_ClusterDataSources = None, dss_KnownDataSources = None\<rparr>"

definition NewStateClient :: "'w datasource_env \<Rightarrow> string \<Rightarrow> string \<Rightarrow> string \<Rightarrow> int \<Rightarrow> 'w state_client" where
  "NewStateClient env url user password timeoutSeconds =
     \<lparr>stc_client = \<lparr>cl_url = url, cl_user = user, cl_password = password, cl_prepare = se_prepare env,
                    cl_Do = se_Do env timeoutSeconds, cl_json_error = se_json_error env, cl_pointer = (\<lambda>_. [])\<rparr>,
      stc_ClusterDataSources = None, stc_KnownDataSources = None\<rparr>"

subsection \<open>The client\<close>

text \<open>
  An answer that could be read sets the known datasources to an empty list, whatever it says.
\<close>

definition state_GetDatasourceList :: "'w state_client
    \<Rightarrow> ('w, (GrafanaDatasourceResponse list \<times> string option) \<times> 'w state_client) operation" where
  "state_GetDatasourceList r =
     seq (send_request (stc_client r) ''GET'' ''/api/datasources/'' []) (\<lambda>answer.
     case answer of
       Inl err \<Rightarrow> ret (([], Some err), r)
     | Inr resp \<Rightarrow>
         if resp_StatusCode resp \<noteq> 200
         then if resp_StatusCode resp = 503 then ret (([], None), r)
              else ret (([], Some (unexpected_status ''getting folders'' resp)), r)
         else (case ReadAll resp of
                 Inl err \<Rightarrow> ret (([], Some err), r)
               | Inr data \<Rightarrow>
                   (let ((datasources, _), ok) = Unmarshal
                          (dec_slice zero_datasource (dec_struct datasource_response_fields)) data ([], [])
                    in ret ((datasources, if ok then None else Some (cl_json_error (stc_client r) data)),
                            r\<lparr>stc_KnownDataSources := Some []\<rparr>))))"

definition state_GetDatasource :: "'w GrafanaClient \<Rightarrow> string
    \<Rightarrow> ('w, GrafanaDatasourceResponse \<times> string option) operation" where
  "state_GetDatasource c uid =
     seq (send_request c ''GET'' (''/api/datasources/id/'' @ uid) []) (\<lambda>r.
     case r of
       Inl err \<Rightarrow> ret (newDatasourceResponse, Some err)
     | Inr resp \<Rightarrow>
         if resp_StatusCode resp = 404 then ret (newDatasourceResponse, None)
         else if resp_StatusCode resp \<noteq> 200
         then ret (newDatasourceResponse, Some (unexpected_status ''searching for dashboard'' resp))
         else ret (read_answer c (dec_struct datasource_response_fields) newDatasourceResponse resp))"

definition state_CreateGrafanaDatasource :: "'w GrafanaClient \<Rightarrow> GrafanaDataSource
    \<Rightarrow> ('w, GrafanaDatasourceResponse \<times> string option) operation" where
  "state_CreateGrafanaDatasource c datasource =
     seq (of_go (datasource_request datasource)) (\<lambda>request.
     seq (send_request c ''POST'' ''/api/datasources/'' (Marshal_datasource (request\<lparr>gdq_Access := []\<rparr>))) (\<lambda>r.
     case r of
       Inl err \<Rightarrow> ret (newDatasourceResponse, Some err)
     | Inr resp \<Rightarrow>
         if resp_StatusCode resp \<noteq> 200 \<and> resp_StatusCode resp \<noteq> 503
         then ret (newDatasourceResponse, Some (unexpected_status ''creating dashboard'' resp))
         else ret (read_answer c (dec_struct datasource_response_fields) newDatasourceResponse resp)))"

definition state_DeleteDatasourceByUID :: "'w GrafanaClient \<Rightarrow> string
    \<Rightarrow> ('w, GrafanaDatasourceResponse \<times> string option) operation" where
  "state_DeleteDatasourceByUID c uid =
     seq (send_request c ''DELETE'' (''/api/datasource/uid/'' @ uid) []) (\<lambda>r.
     case r of
       Inl err \<Rightarrow> ret (newDatasourceResponse, Some err)
     | Inr resp \<Rightarrow>
         if resp_StatusCode resp \<noteq> 200
         then ret (newDatasourceResponse, Some (unexpected_status ''deleting datasrouce'' resp))
         else ret (read_answer c (dec_struct datasource_response_fields) newDatasourceResponse resp))"

subsection \<open>Reading\<close>

text \<open>
  The list of the resources is put into a state that is dropped; what \<open>Read\<close> stores is in local
  variables, but for the known datasources of the client. The list that is compared with nil is
  empty only where no error comes with it or the error is dropped.
\<close>

definition readClusterDataSources :: "(string \<Rightarrow> 'w \<Rightarrow> string + GrafanaDataSource list) \<Rightarrow> string
    \<Rightarrow> ('w, string option) operation" where
  "readClusterDataSources list_datasources ns =
     seq (gets (\<lambda>s. list_datasources ns (op_World s))) (\<lambda>r.
       ret (case r of Inl err \<Rightarrow> Some err | Inr _ \<Rightarrow> None))"

definition state_Read :: "(string \<Rightarrow> 'w \<Rightarrow> string + GrafanaDataSource list) \<Rightarrow> 'w state_client \<Rightarrow> string
    \<Rightarrow> ('w, string option \<times> 'w state_client) operation" where
  "state_Read list_datasources i ns =
     seq (readClusterDataSources list_datasources ns) (\<lambda>err.
     case err of
       Some err \<Rightarrow> ret (Some err, i)
     | None \<Rightarrow>
         seq (state_GetDatasourceList i) (\<lambda>((datasourceList, err), i).
           ret (if datasourceList \<noteq> [] then err else None, i)))"

definition readKnownDataSources :: "(ObjectKey \<Rightarrow> api_error + ConfigMap) \<Rightarrow> string \<Rightarrow> DataSourcesState
    \<Rightarrow> api_error option \<times> DataSourcesState" where
  "readKnownDataSources get ns i =
     (case get \<lparr>key_Namespace = ns, key_Name = GrafanaDatasourcesConfigMapName\<rparr> of
        Inl err \<Rightarrow> (if err = NotFound then None else Some err, i)
      | Inr dataSources \<Rightarrow> (None, i\<lparr>dss_KnownDataSources := Some dataSources\<rparr>))"

subsection \<open>The two clients\<close>

text \<open>What a program gives, seen through a function on its result.\<close>

definition project :: "('a \<Rightarrow> 'b) \<Rightarrow> ('s, 'a) prog \<Rightarrow> ('s, 'b) prog" where
  "project f m = seq m (\<lambda>a. ret (f a))"

lemma project_seq: "project f (seq m k) = seq m (\<lambda>a. project f (k a))"
  by (simp add: project_def seq_assoc)

lemma project_ret [simp]: "project f (ret a) = ret (f a)"
  by (rule ext) (simp add: project_def)

text \<open>
  The older client and the one of the controller ask for datasources alike. Listing and
  looking up are the same requests with the same answers, whatever lists the older client holds,
  and creating a datasource without an access mode differs only in the path.
\<close>
theorem older_client_agrees:
  "project fst (state_GetDatasourceList r) = GetDatasourceList (stc_client r)
   \<and> state_GetDatasource c uid = GetDatasource c uid
   \<and> stc_client (NewStateClient env url user password timeout) = NewDatasourceClient env url user password timeout"
proof (intro conjI)
  show "project fst (state_GetDatasourceList r) = GetDatasourceList (stc_client r)"
    unfolding state_GetDatasourceList_def GetDatasourceList_def project_seq
    by (rule arg_cong2 [where f = seq, OF refl])
      (auto simp: fun_eq_iff read_answer_def Let_def split: sum.split prod.split)
qed (simp_all add: state_GetDatasource_def GetDatasource_def NewStateClient_def NewDatasourceClient_def)

end
