(* ===== verification/Step_System.thy ===== *)
theory Step_System
  imports Main
begin

text \<open>
  Step relations: the states that can be reached from a start, the contract of an invariant, and
  the one of a condition in which nothing can happen any more.
\<close>

inductive reachable :: "('s \<Rightarrow> 's \<Rightarrow> bool) \<Rightarrow> 's \<Rightarrow> 's \<Rightarrow> bool" for next_of start where
  initial: "reachable next_of start start"
| move: "reachable next_of start s \<Longrightarrow> next_of s s' \<Longrightarrow> reachable next_of start s'"

lemma reachable_trans:
  assumes "reachable next_of s t" "reachable next_of t u"
  shows "reachable next_of s u"
  using assms(2,1) by induction (auto intro: reachable.move)

locale invariant_system =
  fixes next_of :: "'s \<Rightarrow> 's \<Rightarrow> bool" and start :: 's and inv :: "'s \<Rightarrow> bool"
  assumes starts: "inv start"
    and preserves: "next_of s s' \<Longrightarrow> inv s \<Longrightarrow> inv s'"
begin

lemma always: "reachable next_of start s \<Longrightarrow> inv s"
  by (induction rule: reachable.induct) (auto intro: starts preserves)

lemma always_later: "reachable next_of start s \<Longrightarrow> reachable next_of s t \<Longrightarrow> inv t"
  by (rule always) (rule reachable_trans)

end

locale halting_system = invariant_system +
  fixes halted :: "'s \<Rightarrow> bool"
  assumes stuck: "inv s \<Longrightarrow> halted s \<Longrightarrow> \<not> next_of s s'"
begin

lemma no_step: "reachable next_of start s \<Longrightarrow> halted s \<Longrightarrow> \<not> Ex (next_of s)"
  using stuck always by blast

lemma stays:
  assumes "reachable next_of start s" "halted s" "reachable next_of s t"
  shows "t = s"
  using assms(3) by induction (use no_step [OF assms(1,2)] in auto)

end

end
