(* ===== verification/Route_Detection.thy ===== *)
theory Route_Detection
  imports Operator_State Step_System
begin

text \<open>
  \<open>internal/k8sutil\<close>, and the detection of OpenShift: the goroutine of
  \<open>controllers/common/auto_detect.go\<close> that announces routes, and the one of
  \<open>controllers/grafana/grafana_controller.go\<close> that watches them, as a step relation.
\<close>

subsection \<open>Helpers of the operator\<close>

definition GetWatchNamespace :: "environment \<Rightarrow> string + string" where
  "GetWatchNamespace environ =
     (case environ ''WATCH_NAMESPACE'' of
        None \<Rightarrow> Inl ''WATCH_NAMESPACE must be set''
      | Some ns \<Rightarrow> Inr ns)"

text \<open>What the file system answers about a path: it is there, it is not, or another error.\<close>

datatype file_state = Present string | Absent | Unreadable string

definition isRunModeCluster :: "(string \<Rightarrow> file_state) \<Rightarrow> bool" where
  "isRunModeCluster files \<longleftrightarrow> files ''/var/run/secrets/kubernetes.io/serviceaccount'' \<noteq> Absent"

definition isRunModeLocal :: "(string \<Rightarrow> file_state) \<Rightarrow> bool" where
  "isRunModeLocal files \<longleftrightarrow> \<not> isRunModeCluster files"

definition ErrNoNamespace :: string where
  "ErrNoNamespace = ''namespace not found for current environment''"

definition ErrRunLocal :: string where
  "ErrRunLocal = ''operator run mode forced to local''"

definition GetOperatorNamespace :: "(string \<Rightarrow> file_state) \<Rightarrow> string + string" where
  "GetOperatorNamespace files =
     (if isRunModeLocal files then Inl ErrRunLocal
      else (case files ''/var/run/secrets/kubernetes.io/serviceaccount/namespace'' of
              Absent \<Rightarrow> Inl ErrNoNamespace
            | Unreadable err \<Rightarrow> Inl err
            | Present nsBytes \<Rightarrow> Inr (TrimSpace nsBytes)))"

record GroupVersionKind =
  gvk_GroupVersion :: string
  gvk_Kind :: string

definition isKubeMetaKind :: "string \<Rightarrow> bool" where
  "isKubeMetaKind kind \<longleftrightarrow>
     HasSuffix kind ''List''
     \<or> List.member [''PatchOptions'', ''GetOptions'', ''DeleteOptions'', ''ExportOptions'', ''APIVersions'',
          ''APIGroupList'', ''APIResourceList'', ''UpdateOptions'', ''CreateOptions'', ''Status'', ''WatchEvent'',
          ''ListOptions'', ''APIGroup''] kind"

text \<open>The types that a function adds to an empty scheme, or its error.\<close>

definition GetGVKsFromAddToScheme :: "string + GroupVersionKind list \<Rightarrow> string + GroupVersionKind list" where
  "GetGVKsFromAddToScheme added =
     (case added of
        Inl err \<Rightarrow> Inl err
      | Inr schemeAllKnownTypes \<Rightarrow> Inr (filter (\<lambda>gvk. \<not> isKubeMetaKind (gvk_Kind gvk)) schemeAllKnownTypes))"

text \<open>The discovery client gives the kinds of a group and version.\<close>

definition ResourceExists :: "(string \<Rightarrow> string + string list) \<Rightarrow> string \<Rightarrow> string \<Rightarrow> string + bool" where
  "ResourceExists dc apiGroupVersion kind =
     (case dc apiGroupVersion of
        Inl err \<Rightarrow> Inl err
      | Inr kinds \<Rightarrow> Inr (list_ex (\<lambda>k. k = kind) kinds))"

subsection \<open>Detection of routes\<close>

definition RouteKind :: string where "RouteKind = ''Route''"

definition routev1_SchemeGroupVersion :: string where "routev1_SchemeGroupVersion = ''route.openshift.io/v1''"

definition route_kind :: GroupVersionKind where
  "route_kind = \<lparr>gvk_GroupVersion = routev1_SchemeGroupVersion, gvk_Kind = RouteKind\<rparr>"

text \<open>
  The goroutine of the detection and the one that watches routes share the configuration and a
  channel with room for one element. \<open>bg_Sending\<close> holds while the detection waits to send,
  \<open>bg_Watcher\<close> while the other goroutine runs; the counters are for the specification: elements
  sent, and watches added.
\<close>

record background =
  bg_Values :: "string \<rightharpoonup> conf_value"
  bg_Channel :: "GroupVersionKind list"
  bg_Sending :: bool
  bg_Watcher :: bool
  bg_Sent :: nat
  bg_Watches :: nat

definition NewAutoDetect :: "(string \<rightharpoonup> conf_value) \<Rightarrow> bool \<Rightarrow> background" where
  "NewAutoDetect vs watcher =
     \<lparr>bg_Values = vs, bg_Channel = [], bg_Sending = False, bg_Watcher = watcher, bg_Sent = 0, bg_Watches = 0\<rparr>"

text \<open>\<open>detectRoute\<close> up to the send.\<close>

definition detectRoute :: "(string \<Rightarrow> string + string list) \<Rightarrow> background \<Rightarrow> background" where
  "detectRoute dc b =
     (case ResourceExists dc routev1_SchemeGroupVersion RouteKind of
        Inr True \<Rightarrow> b\<lparr>bg_Values := AddConfigItem (bg_Values b) ConfigOpenshift (Some (VBool True)), bg_Sending := True\<rparr>
      | _ \<Rightarrow> b)"

definition send_route :: "background \<Rightarrow> background" where
  "send_route b =
     b\<lparr>bg_Channel := bg_Channel b @ [route_kind], bg_Sending := False, bg_Sent := Suc (bg_Sent b)\<rparr>"

text \<open>
  One round of the loop over the channel in \<open>add\<close>; \<open>added\<close> says whether the watch can be added.
\<close>

definition watch_route :: "bool \<Rightarrow> GroupVersionKind \<Rightarrow> background \<Rightarrow> background go" where
  "watch_route added gvk b =
     go_bind (GetConfigBool (bg_Values b) ConfigRouteWatch False) (\<lambda>watched.
       Inr (if watched then b\<lparr>bg_Watcher := False\<rparr>
            else if gvk = route_kind \<and> added
            then b\<lparr>bg_Values := AddConfigItem (bg_Values b) ConfigRouteWatch (Some (VBool True)),
                   bg_Watches := Suc (bg_Watches b)\<rparr>
            else b))"

text \<open>
  The steps: a tick of the detection when it does not wait, a send when there is room, and a
  round of the watcher when there is something to receive.
\<close>

inductive bg_step :: "background \<Rightarrow> background \<Rightarrow> bool" where
  tick: "\<not> bg_Sending b \<Longrightarrow> bg_step b (detectRoute dc b)"
| send: "bg_Sending b \<Longrightarrow> bg_Channel b = [] \<Longrightarrow> bg_step b (send_route b)"
| receive: "bg_Watcher b \<Longrightarrow> bg_Channel b = gvk # rest
    \<Longrightarrow> watch_route added gvk (b\<lparr>bg_Channel := rest\<rparr>) = Inr b' \<Longrightarrow> bg_step b b'"

inductive_cases bg_stepE: "bg_step b b'"

subsection \<open>What the detection does\<close>

lemma detectRoute_cases:
  obtains "detectRoute dc b = b"
  | "detectRoute dc b = b\<lparr>bg_Values := (bg_Values b)(ConfigOpenshift \<mapsto> VBool True), bg_Sending := True\<rparr>"
proof (cases "ResourceExists dc routev1_SchemeGroupVersion RouteKind = Inr True")
  case True
  then show thesis by (intro that(2)) (simp add: detectRoute_def AddConfigItem_def ConfigOpenshift_def)
next
  case False
  then have "detectRoute dc b = b" by (auto simp: detectRoute_def split: sum.split bool.split)
  then show thesis by (rule that(1))
qed

definition bg_invariant :: "background \<Rightarrow> bool" where
  "bg_invariant b \<longleftrightarrow>
     length (bg_Channel b) \<le> 1
     \<and> (bg_Sending b \<or> 0 < bg_Sent b \<longrightarrow> bg_Values b ConfigOpenshift = Some (VBool True))
     \<and> bg_Values b ConfigRouteWatch = (if bg_Watches b = 0 then None else Some (VBool True))
     \<and> bg_Watches b \<le> 1
     \<and> bg_Watches b + length (bg_Channel b) \<le> bg_Sent b"

lemma watch_route_cases:
  assumes "watch_route added gvk b = Inr b'" "bg_Values b ConfigRouteWatch = (if bg_Watches b = 0 then None else Some (VBool True))"
  obtains "bg_Watches b \<noteq> 0" "b' = b\<lparr>bg_Watcher := False\<rparr>" | "bg_Watches b = 0" "b' = b"
  | "bg_Watches b = 0" "b' = b\<lparr>bg_Values := (bg_Values b)(ConfigRouteWatch \<mapsto> VBool True), bg_Watches := 1\<rparr>"
  using assms
  by (auto simp: watch_route_def GetConfigBool_def HasConfigItem_def AddConfigItem_def ConfigRouteWatch_def split: if_splits)

lemma bg_step_invariant:
  assumes "bg_step b b'" "bg_invariant b"
  shows "bg_invariant b'"
  using assms(1)
proof cases
  case (tick dc)
  show ?thesis
    by (rule detectRoute_cases [of dc b]) (use assms(2) tick in \<open>auto simp: bg_invariant_def ConfigOpenshift_def ConfigRouteWatch_def\<close>)
next
  case send
  with assms(2) show ?thesis by (simp add: bg_invariant_def send_route_def)
next
  case (receive gvk rest added)
  have "bg_invariant (b\<lparr>bg_Channel := rest\<rparr>)" and w: "bg_Watches b + Suc (length rest) \<le> bg_Sent b"
    using assms(2) receive(2) by (auto simp: bg_invariant_def)
  with receive(3) show ?thesis
    by (elim watch_route_cases) (auto simp: bg_invariant_def ConfigOpenshift_def ConfigRouteWatch_def split: if_splits)
qed

interpretation detection: invariant_system bg_step "NewAutoDetect (vs(ConfigRouteWatch := None)) watcher" bg_invariant
  for vs watcher
proof
  show "bg_invariant (NewAutoDetect (vs(ConfigRouteWatch := None)) watcher)"
    by (simp add: bg_invariant_def NewAutoDetect_def)
qed (rule bg_step_invariant)

text \<open>Without the watcher nothing leaves the channel.\<close>

definition bg_stalled :: "background \<Rightarrow> bool" where
  "bg_stalled b \<longleftrightarrow> \<not> bg_Watcher b \<and> bg_Sent b = length (bg_Channel b) \<and> length (bg_Channel b) \<le> 1"

lemma bg_step_stalled: "bg_step b b' \<Longrightarrow> bg_stalled b \<Longrightarrow> bg_stalled b'"
proof (induction rule: bg_step.induct)
  case (tick b dc)
  then show ?case by (cases rule: detectRoute_cases [of dc b]) (simp_all add: bg_stalled_def)
qed (auto simp: bg_stalled_def send_route_def)

interpretation unwatched: halting_system bg_step "NewAutoDetect vs False" bg_stalled "\<lambda>b. bg_Sending b \<and> bg_Sent b = 1"
  for vs
proof
  show "bg_stalled (NewAutoDetect vs False)" by (simp add: bg_stalled_def NewAutoDetect_def)
  show "\<not> bg_step b b'" if "bg_stalled b" "bg_Sending b \<and> bg_Sent b = 1" for b b'
    using that by (auto simp: bg_stalled_def elim!: bg_stepE)
qed (rule bg_step_stalled)

subsection \<open>Properties\<close>

text \<open>
  C25: what the detection reaches. The routes are watched at most once, and the flag for that says
  so; every watch and every element that still waits in the channel was sent; and OpenShift is in
  the configuration whenever a route was announced or is about to be.
\<close>
theorem routes_watched_once:
  assumes "reachable bg_step (NewAutoDetect vs watcher) b" "vs ConfigRouteWatch = None"
  shows "bg_Watches b \<le> 1 \<and> (bg_Watches b = 1 \<longleftrightarrow> bg_Values b ConfigRouteWatch = Some (VBool True))
     \<and> bg_Watches b + length (bg_Channel b) \<le> bg_Sent b
     \<and> (bg_Sending b \<or> 0 < bg_Sent b \<longrightarrow> bg_Values b ConfigOpenshift = Some (VBool True))"
  proof -
  have "vs(ConfigRouteWatch := None) = vs" using assms(2) by (simp add: fun_upd_idem)
  with detection.always [of vs watcher b] assms(1) have "bg_invariant b" by simp
  then show ?thesis by (auto simp: bg_invariant_def)
qed

text \<open>
  C39: without the goroutine that receives, which is how the operator starts it, the detection
  announces one route and halts: a second announcement waits for ever, because no step is left.
\<close>
theorem detection_halts:
  assumes "reachable bg_step (NewAutoDetect vs False) b"
  shows "bg_Sent b \<le> 1 \<and> (bg_Sending b \<and> bg_Sent b = 1 \<longrightarrow> \<not> Ex (bg_step b))"
  using unwatched.always [OF assms] unwatched.no_step [OF assms] by (auto simp: bg_stalled_def)

text \<open>A cluster with routes, for the examples.\<close>

definition openshift :: "string \<Rightarrow> string + string list" where
  "openshift = (\<lambda>_. Inr [''Route''])"

lemma openshift_detect:
  "detectRoute openshift b = b\<lparr>bg_Values := (bg_Values b)(ConfigOpenshift \<mapsto> VBool True), bg_Sending := True\<rparr>"
  by (simp add: detectRoute_def ResourceExists_def openshift_def RouteKind_def AddConfigItem_def ConfigOpenshift_def)

lemmas bg_move = reachable.move [where next_of = bg_step]

lemma openshift_run:
  "\<exists>b. reachable bg_step (NewAutoDetect Map.empty watcher) b \<and> bg_Sending b \<and> bg_Sent b = 1 \<and> bg_Watcher b = watcher
     \<and> bg_Watches b = 0"
proof -
  let ?b0 = "NewAutoDetect Map.empty watcher"
  have "reachable bg_step ?b0 (detectRoute openshift ?b0)"
    by (rule bg_move [OF reachable.initial bg_step.tick]) (simp add: NewAutoDetect_def)
  then have "reachable bg_step ?b0 (send_route (detectRoute openshift ?b0))"
    by (rule bg_move [OF _ bg_step.send]) (simp_all add: NewAutoDetect_def openshift_detect)
  then have "reachable bg_step ?b0 (detectRoute openshift (send_route (detectRoute openshift ?b0)))"
    by (rule bg_move [OF _ bg_step.tick]) (simp add: send_route_def)
  then show ?thesis by (intro exI conjI) (auto simp: openshift_detect send_route_def NewAutoDetect_def)
qed

lemma routes_watched_once_witness:
  "\<exists>b. reachable bg_step (NewAutoDetect Map.empty True) b \<and> bg_Sent b = 1 \<and> bg_Values b ConfigOpenshift = Some (VBool True)"
proof -
  obtain b where b: "reachable bg_step (NewAutoDetect Map.empty True) b" "bg_Sending b" "bg_Sent b = 1"
    using openshift_run by blast
  from routes_watched_once [OF b(1)] b show ?thesis by auto
qed

lemma detection_halts_witness:
  "\<exists>b. reachable bg_step (NewAutoDetect Map.empty False) b \<and> bg_Sending b \<and> \<not> Ex (bg_step b)"
proof -
  obtain b where b: "reachable bg_step (NewAutoDetect Map.empty False) b" "bg_Sending b" "bg_Sent b = 1"
    using openshift_run by blast
  from detection_halts [OF b(1)] b show ?thesis by blast
qed

end
