(* ===== verification/Namespace_Controller.thy ===== *)
theory Namespace_Controller
  imports Dashboard_Controller Grafana_Users
begin

text \<open>
  The controller of the namespaces: \<open>controllers/namespace/namespaceclaim_controller.go\<close>, and
  \<open>CreateUserDashboard\<close> of \<open>controllers/grafanadashboard/grafanadashboard_controller.go\<close>, which it
  calls. A namespace gets two dashboards for its owner.
\<close>

subsection \<open>Surroundings\<close>

text \<open>
  Reading a namespace and a file, building a client for the cluster the process runs in, and
  posting a dashboard; the last two give an error message or nothing.
\<close>

record Namespace =
  ns_Name :: string
  ns_Annotations :: labels

record 'w namespace_env =
  ne_get :: "ObjectKey \<Rightarrow> 'w \<Rightarrow> api_error + Namespace"
  ne_ReadFile :: "string \<Rightarrow> 'w \<Rightarrow> string + string"
  ne_client :: "'w \<Rightarrow> string option"
  ne_post :: "string \<Rightarrow> GrafanaDashboard \<Rightarrow> 'w \<Rightarrow> string option \<times> 'w"
  ne_network :: "'w network"

subsection \<open>A dashboard for a user\<close>

definition user_dashboard :: "string \<Rightarrow> string \<Rightarrow> string \<Rightarrow> string \<Rightarrow> GrafanaDashboard" where
  "user_dashboard namespace user opt nsByte =
     (let res1 = ReplaceAll nsByte ''$namespace'' namespace;
          res = ReplaceAll res1 ''$uid'' namespace
      in \<lparr>dash_meta = new_meta (if opt = ''ns'' then ''user-dashboard-'' @ namespace
                                else ''user-dashboard-loki-'' @ namespace) namespace
                        (Some [''app'' \<mapsto> ''grafana'']) (Some [''userId'' \<mapsto> user]),
          dash_Spec = \<lparr>dash_Json = res, dash_Jsonnet = [], dash_Plugins = [], dash_Url = [],
            dash_ConfigMapRef = None, dash_Datasources = [], dash_CustomFolderName = [], dash_GrafanaCom = None\<rparr>\<rparr>)"

text \<open>Outside a cluster it panics; an error of the post is logged.\<close>

definition CreateUserDashboard :: "'w namespace_env \<Rightarrow> string \<Rightarrow> string \<Rightarrow> string \<Rightarrow> string \<Rightarrow> ('w, string option) operation" where
  "CreateUserDashboard env namespace user path opt =
     seq (gets (\<lambda>s. ne_ReadFile env path (op_World s))) (\<lambda>file.
     case file of
       Inl err \<Rightarrow> ret (Some err)
     | Inr nsByte \<Rightarrow>
         seq (gets (\<lambda>s. ne_client env (op_World s))) (\<lambda>client.
         case client of
           Some err \<Rightarrow> of_go (Inl (ExplicitPanic err))
         | None \<Rightarrow> on_world (ne_post env namespace (user_dashboard namespace user opt nsByte))))"

subsection \<open>The controller\<close>

definition namespace_owner :: "labels \<Rightarrow> string" where
  "namespace_owner annotations =
     (let ns_owner = label_get annotations ''owner'';
          ns_owner = (if ns_owner = []
                      then (let creator = label_get annotations ''creator''
                            in if creator = [] then ''kubernetes-admin'' else creator)
                      else ns_owner)
      in if \<not> Contains ns_owner ''@'' then ns_owner @ ''@localhost'' else ns_owner)"

definition NamespaceReconcile :: "'w namespace_env \<Rightarrow> ObjectKey \<Rightarrow> ('w, Result \<times> error option) operation" where
  "NamespaceReconcile env req =
     seq (gets (\<lambda>s. ne_get env req (op_World s))) (\<lambda>r.
     case r of
       Inl err \<Rightarrow> ret (no_requeue, if err = NotFound then None else Some (FromApi err))
     | Inr namespace \<Rightarrow>
         (let ns_owner = namespace_owner (ns_Annotations namespace)
          in seq (GetGrafanaKey (ne_network env)) (\<lambda>k.
             seq (modify (\<lambda>s. s\<lparr>op_GrafanaKey := k\<rparr>)) (\<lambda>_.
               if ns_owner \<noteq> []
               then seq (CreateUserDashboard env (ns_Name namespace) ns_owner ''/var/dashboard/nsdashboard.json'' ''ns'') (\<lambda>_.
                    seq (CreateUserDashboard env (ns_Name namespace) ns_owner ''/var/dashboard/lokidashboard.json'' ''loki'') (\<lambda>_.
                      ret (no_requeue, None)))
               else ret (no_requeue, None)))))"

end
