(* ===== verification/Namespace_Properties.thy ===== *)
theory Namespace_Properties
  imports Namespace_Controller Grafana_Controller_Properties
begin

text \<open>
  Which dashboards the controller of the namespaces posts, and with whom the controller of the
  dashboards then shares them.
\<close>

subsection \<open>The owner\<close>

lemma Contains_at: "Contains s [c] \<longleftrightarrow> c \<in> set s"
  by (induction s) (auto simp: HasPrefix_def)

lemma Split_free: "sep \<notin> set s \<Longrightarrow> Split sep s = [s]"
  by (induction s) auto

lemma namespace_owner_at: "CHR ''@'' \<in> set (namespace_owner annotations)"
  by (auto simp: namespace_owner_def Let_def Contains_at)

lemma user_list_owner:
  assumes "CHR '','' \<notin> set user"
  shows "user_list (user_dashboard namespace user opt text) = [user]"
  using assms by (simp add: user_list_def user_dashboard_def new_meta_def Split_free Let_def)

subsection \<open>What is posted\<close>

text \<open>
  Surroundings in which only posts are recorded, the process runs in a cluster, and the files do
  not change.
\<close>

definition recording :: "(string \<Rightarrow> string) \<Rightarrow> ('w \<times> GrafanaDashboard list) namespace_env \<Rightarrow> bool" where
  "recording files env \<longleftrightarrow>
     (\<forall>path w. ne_ReadFile env path w = Inr (files path)) \<and> (\<forall>w. ne_client env w = None)
     \<and> (\<forall>ns d w. snd (snd (ne_post env ns d w)) = snd w @ [d])
     \<and> (\<forall>rq w. snd (snd (net_Do (ne_network env) rq w)) = snd w)
     \<and> (\<forall>n w. snd (snd (net_Intn (ne_network env) n w)) = snd w)"

lemma emits_collect: "(\<And>x. emits [] (body x)) \<Longrightarrow> emits [] (collect body xs)"
  by (induction xs) (auto intro!: emits_seq_pure)

lemma emits_network:
  assumes "recording files env"
  shows "emits [] (net_send (ne_network env) m u h b)" "emits [] (RandomString (ne_network env) n)"
  unfolding net_send_def RandomString_def
  using assms by (auto simp: recording_def intro!: emits_seq_pure emits_on_world emits_collect)

lemma emits_modify: "(\<And>s. op_World (f s) = op_World s) \<Longrightarrow> emits [] (modify f)"
  by (auto simp: emits_def sent_def)

lemma emits_GetGrafanaKey:
  assumes "recording files env"
  shows "emits [] (GetGrafanaKey (ne_network env))"
  unfolding GetGrafanaKey_def set_admin_def
  by (auto intro!: emits_seq_pure emits_network [OF assms] emits_modify split: sum.split prod.split)

lemma emits_CreateUserDashboard:
  assumes "recording files env"
  shows "emits [user_dashboard namespace user opt (files path)] (CreateUserDashboard env namespace user path opt)"
proof -
  have p: "emits [d] (on_world (ne_post env namespace d))" for d
    unfolding emits_def
  proof (intro allI impI)
    fix s a s'
    assume w: "on_world (ne_post env namespace d) s = (Done a, s')"
    have "snd (snd (ne_post env namespace d (op_World s))) = snd (op_World s) @ [d]"
      using assms unfolding recording_def by blast
    with w show "sent s' = sent s @ [d]" by (auto simp: on_world_def sent_def split: prod.splits)
  qed
  have "CreateUserDashboard env namespace user path opt s
      = on_world (ne_post env namespace (user_dashboard namespace user opt (files path))) s" for s
  proof -
    have "ne_ReadFile env path (op_World s) = Inr (files path)" "ne_client env (op_World s) = None"
      using assms unfolding recording_def by blast+
    then show ?thesis by (simp add: CreateUserDashboard_def)
  qed
  with p show ?thesis by (simp add: emits_def)
qed

definition owner_dashboards :: "(string \<Rightarrow> string) \<Rightarrow> Namespace \<Rightarrow> GrafanaDashboard list" where
  "owner_dashboards files n =
     (let owner = namespace_owner (ns_Annotations n)
      in [user_dashboard (ns_Name n) owner ''ns'' (files ''/var/dashboard/nsdashboard.json''),
          user_dashboard (ns_Name n) owner ''loki'' (files ''/var/dashboard/lokidashboard.json'')])"

lemma NamespaceReconcile_posts:
  assumes "recording files env" "ne_get env req (op_World s) = Inr n"
    and "NamespaceReconcile env req s = (Done (res, err), s')"
  shows "sent s' = sent s @ owner_dashboards files n" "res = no_requeue" "err = None"
proof -
  let ?owner = "namespace_owner (ns_Annotations n)"
  have ne: "?owner \<noteq> []" using namespace_owner_at [of "ns_Annotations n"] by auto
  have "seq (GetGrafanaKey (ne_network env)) (\<lambda>k. seq (modify (\<lambda>s. s\<lparr>op_GrafanaKey := k\<rparr>)) (\<lambda>_.
      seq (CreateUserDashboard env (ns_Name n) ?owner ''/var/dashboard/nsdashboard.json'' ''ns'') (\<lambda>_.
      seq (CreateUserDashboard env (ns_Name n) ?owner ''/var/dashboard/lokidashboard.json'' ''loki'') (\<lambda>_.
        ret (no_requeue, None))))) s = (Done (res, err), s')"
    using assms(2,3) ne by (simp add: NamespaceReconcile_def Let_def)
  then obtain k s1 a s2 b s3 where k: "GetGrafanaKey (ne_network env) s = (Done k, s1)"
    and c1: "CreateUserDashboard env (ns_Name n) ?owner ''/var/dashboard/nsdashboard.json'' ''ns'' (s1\<lparr>op_GrafanaKey := k\<rparr>) = (Done a, s2)"
    and c2: "CreateUserDashboard env (ns_Name n) ?owner ''/var/dashboard/lokidashboard.json'' ''loki'' s2 = (Done b, s3)"
    and r: "s' = s3" "res = no_requeue" "err = None"
    by (auto simp: seq_Done_iff)
  show "res = no_requeue" "err = None" by (rule r)+
  have "sent (s1\<lparr>op_GrafanaKey := k\<rparr>) = sent s1" by (simp add: sent_def)
  then show "sent s' = sent s @ owner_dashboards files n"
    using emitsD [OF emits_GetGrafanaKey [OF assms(1)] k] emitsD [OF emits_CreateUserDashboard [OF assms(1)] c1]
      emitsD [OF emits_CreateUserDashboard [OF assms(1)] c2]
    by (simp add: r owner_dashboards_def Let_def)
qed

subsection \<open>Properties\<close>


definition quiet_network :: "('w \<times> GrafanaDashboard list) network" where
  "quiet_network =
     \<lparr>net_Do = (\<lambda>rq w. (Inl ''offline'', w)), net_accepts = (\<lambda>_. True), net_Intn = (\<lambda>n w. (0, w)),
      net_in_cluster = (\<lambda>_. True), net_bindings = (\<lambda>w. (Inr [], w))\<rparr>"

definition recorder :: "(unit \<times> GrafanaDashboard list) namespace_env" where
  "recorder =
     \<lparr>ne_get = (\<lambda>key w. Inr \<lparr>ns_Name = key_Name key, ns_Annotations = Some [''owner'' \<mapsto> ''ann@x'']\<rparr>),
      ne_ReadFile = (\<lambda>path w. Inr path), ne_client = (\<lambda>w. None),
      ne_post = (\<lambda>ns d w. (None, (fst w, snd w @ [d]))), ne_network = quiet_network\<rparr>"

lemma collect_zero:
  "\<exists>xs. collect (\<lambda>_. seq (on_world (net_Intn quiet_network (length letters))) (\<lambda>i. of_go (index letters i))) ns s = (Done xs, s)"
proof (induction ns)
  case (Cons n ns)
  have "length letters > 0" by (simp add: letters_def)
  with Cons show ?case by (auto simp: on_world_def quiet_network_def seq_def)
qed simp

lemma quiet_key: "\<exists>s'. GetGrafanaKey quiet_network s = (Done ''offline'', s')"
proof -
  let ?s = "s\<lparr>op_grafanaId := ''admin'', op_grafanaPw := ''admin''\<rparr>"
  obtain name where r: "RandomString quiet_network 8 ?s = (Done name, ?s)"
    unfolding RandomString_def using collect_zero by blast
  have send: "net_send quiet_network m u h b t = (Done (Inl ''offline''), t)" for m u h b t
    by (simp add: net_send_def new_request_def quiet_network_def on_world_def)
  show ?thesis by (simp add: GetGrafanaKey_def set_admin_def r send)
qed


subsection \<open>Observations\<close>

text \<open>Outside a cluster the controller panics.\<close>

lemma outside_cluster_panics:
  assumes "ne_ReadFile env path (op_World s) = Inr text" "ne_client env (op_World s) = Some err"
  shows "CreateUserDashboard env namespace user path opt s = (Panic (ExplicitPanic err), s)"
  using assms by (simp add: CreateUserDashboard_def of_go_def)

end
