(* ===== verification/Operator_Main.thy ===== *)
theory Operator_Main
  imports Grafana_Controller
begin

text \<open>
  The start of the operator, \<open>main.go\<close>: the options, the namespaces with controllers of their own,
  the configuration that the controllers find, and the webhook. The order in which \<open>main\<close> starts
  its parts is in \<open>Startup\<close>; the servers and the leader election are the library's and left out.
\<close>

subsection \<open>Options\<close>

record flags =
  flagImage :: string
  flagImageTag :: string
  flagPluginsInitContainerImage :: string
  flagPluginsInitContainerTag :: string
  flagNamespaces :: string
  scanAll :: bool
  flagJsonnetLocation :: string

definition LookupEnvOrString :: "environment \<Rightarrow> string \<Rightarrow> string \<Rightarrow> string" where
  "LookupEnvOrString environ key defaultVal = (case environ key of Some val \<Rightarrow> val | None \<Rightarrow> defaultVal)"

definition LookupEnvOrBool :: "environment \<Rightarrow> string \<Rightarrow> bool \<Rightarrow> bool" where
  "LookupEnvOrBool environ key defaultVal = (case environ key of Some val \<Rightarrow> val = ''true'' | None \<Rightarrow> defaultVal)"

text \<open>The options before the command line is parsed.\<close>

definition assignOpts :: "environment \<Rightarrow> flags" where
  "assignOpts environ =
     \<lparr>flagImage = [], flagImageTag = [], flagPluginsInitContainerImage = [], flagPluginsInitContainerTag = [],
      flagNamespaces = LookupEnvOrString environ ''DASHBOARD_NAMESPACES'' [],
      scanAll = LookupEnvOrBool environ ''DASHBOARD_NAMESPACES_ALL'' False, flagJsonnetLocation = []\<rparr>"

definition getSanitizedNamespaceList :: "flags \<Rightarrow> string list" where
  "getSanitizedNamespaceList f =
     filter (\<lambda>v. v \<noteq> []) (map TrimSpace (Split (CHR '','') (flagNamespaces f)))"

text \<open>The namespaces with controllers of their own; an error is written and the process exits.\<close>

definition dashboardNamespaces :: "flags \<Rightarrow> string \<Rightarrow> string + string list" where
  "dashboardNamespaces f namespace =
     (if scanAll f \<and> flagNamespaces f \<noteq> []
      then Inl ''--scan-all and --namespaces both set. Please provide only one''
      else (let namespaces = [namespace];
                namespaces = (if scanAll f then [[]] else namespaces)
            in if flagNamespaces f \<noteq> []
               then (let namespaces = getSanitizedNamespaceList f
                     in if namespaces = [] then Inl ''--namespaces provided but no valid namespaces in list''
                        else Inr namespaces)
               else Inr namespaces))"

text \<open>The configuration that the controllers find.\<close>

definition startup_values :: "flags \<Rightarrow> string \<Rightarrow> (string \<rightharpoonup> conf_value) \<Rightarrow> (string \<rightharpoonup> conf_value)" where
  "startup_values f namespace vs =
     foldl (\<lambda>vs (key, v). AddConfigItem vs key (Some (VString v))) vs
       [(ConfigGrafanaImage, flagImage f), (ConfigGrafanaImageTag, flagImageTag f),
        (ConfigPluginsInitContainerImage, flagPluginsInitContainerImage f),
        (ConfigPluginsInitContainerTag, flagPluginsInitContainerTag f),
        (ConfigOperatorNamespace, namespace), (ConfigDashboardLabelSelector, []),
        (ConfigJsonnetBasePath, flagJsonnetLocation f)]"

subsection \<open>The webhook\<close>

text \<open>
  \<open>decode\<close> is \<open>json.Unmarshal\<close> into an admission review: its request, if there is one, with the uid
  and what unmarshals of the object, and whether it succeeded. Nothing is written if the content
  type is another one; without a request the code panics.
\<close>

record AdmissionRequest =
  aq_UID :: string
  aq_Object :: "(string \<times> labels) option"

definition serve :: "(string \<Rightarrow> AdmissionRequest option \<times> bool) \<Rightarrow> string \<Rightarrow> string + string
    \<Rightarrow> AdmissionResponse option go" where
  "serve decode contentType read =
     (let body = (case read of Inl _ \<Rightarrow> [] | Inr data \<Rightarrow> data)
      in if contentType \<noteq> ''application/json'' then Inr None
         else (let (request, ok) = decode body
               in go_bind (if ok then go_bind (deref request) (\<lambda>r. Inr (Grafanacheck (aq_Object r)))
                           else Inr \<lparr>ar_UID = [], ar_Allowed = False\<rparr>) (\<lambda>response.
                  go_bind (deref request) (\<lambda>r. Inr (Some (response\<lparr>ar_UID := aq_UID r\<rparr>))))))"

subsection \<open>Trimmed names\<close>

lemma last_dropWhile:
  assumes "xs \<noteq> []" "\<not> P (last xs)"
  shows "last (dropWhile P xs) = last xs"
proof -
  have "dropWhile P xs \<noteq> []" using assms by (metis dropWhile_eq_Nil_conv last_in_set)
  then show ?thesis by (metis last_appendR takeWhile_dropWhile_id)
qed

lemma dropWhile_fixed: "xs = [] \<or> \<not> P (hd xs) \<Longrightarrow> dropWhile P xs = xs"
  by (cases xs) auto

lemma hd_dropWhile_fixed: "dropWhile P xs = [] \<or> \<not> P (hd (dropWhile P xs))"
  using hd_dropWhile [of P xs] by blast

lemma TrimSpace_idem: "TrimSpace (TrimSpace s) = TrimSpace s"
proof -
  let ?d = "dropWhile is_space"
  define a where "a = ?d s"
  define b where "b = ?d (rev a)"
  have b: "b = [] \<or> \<not> is_space (hd b)" unfolding b_def by (rule hd_dropWhile_fixed)
  have a: "a = [] \<or> \<not> is_space (hd a)" unfolding a_def by (rule hd_dropWhile_fixed)
  have "rev b = [] \<or> \<not> is_space (hd (rev b))"
  proof (cases "b = []")
    case False
    then have ne: "rev a \<noteq> []" unfolding b_def by auto
    with a have l: "\<not> is_space (last (rev a))" by (simp add: last_rev)
    have "last b = last (rev a)" unfolding b_def using ne l by (rule last_dropWhile [where P = is_space])
    with l False show ?thesis by (simp add: hd_rev)
  qed simp
  then have "?d (rev b) = rev b" by (rule dropWhile_fixed)
  moreover have "?d b = b" using b by (rule dropWhile_fixed)
  moreover have "TrimSpace s = rev b" by (simp add: TrimSpace_def a_def b_def)
  ultimately show ?thesis by (simp add: TrimSpace_def)
qed

subsection \<open>Properties\<close>

text \<open>
  The namespaces of the operator. There is always one; the ones of the option are trimmed and
  not empty; and all namespaces are watched only if that was asked for, by the option for that or
  by an empty namespace of the operator without any option.
\<close>
theorem scopes_as_asked:
  assumes "dashboardNamespaces f namespace = Inr namespaces"
  shows "namespaces \<noteq> []
     \<and> ([] \<in> set namespaces \<longleftrightarrow> flagNamespaces f = [] \<and> (scanAll f \<or> namespace = []))
     \<and> (flagNamespaces f \<noteq> [] \<longrightarrow> list_all (\<lambda>n. n \<noteq> [] \<and> TrimSpace n = n) namespaces)"
proof (cases "flagNamespaces f = []")
  case True
  with assms show ?thesis by (cases "scanAll f") (auto simp: dashboardNamespaces_def)
next
  case False
  with assms have "namespaces = getSanitizedNamespaceList f" "namespaces \<noteq> []"
    by (auto simp: dashboardNamespaces_def Let_def split: if_splits)
  with False show ?thesis by (auto simp: getSanitizedNamespaceList_def list_all_iff TrimSpace_idem)
qed

lemma scopes_as_asked_witness:
  "dashboardNamespaces ((assignOpts Map.empty)\<lparr>flagNamespaces := ''a, b,''\<rparr>) ''op'' = Inr [''a'', ''b'']
     \<and> [] \<notin> set [''a'', ''b'']"
proof -
  have d: "dashboardNamespaces ((assignOpts Map.empty)\<lparr>flagNamespaces := ''a, b,''\<rparr>) ''op'' = Inr [''a'', ''b'']"
    by (simp add: dashboardNamespaces_def getSanitizedNamespaceList_def assignOpts_def LookupEnvOrString_def
        LookupEnvOrBool_def TrimSpace_def is_space_def code_def)
  from scopes_as_asked [OF d] d show ?thesis by (simp add: assignOpts_def)
qed

text \<open>
  C40: the answer of the webhook. A review with a request is answered with the uid of the request,
  and the object is allowed exactly if the review was understood, the object is in the namespace
  monitoring and its label grafana is hypercloud; another content type gets no answer, and a
  review without a request makes the code panic.
\<close>
theorem webhook_answer:
  "serve decode contentType read =
     (if contentType \<noteq> ''application/json'' then Inr None
      else (case decode (case read of Inl _ \<Rightarrow> [] | Inr data \<Rightarrow> data) of
              (None, _) \<Rightarrow> Inl NilDeref
            | (Some r, ok) \<Rightarrow> Inr (Some
                \<lparr>ar_UID = aq_UID r,
                 ar_Allowed = (ok \<and> (case aq_Object r of
                     None \<Rightarrow> False
                   | Some (namespace, label) \<Rightarrow> namespace = ''monitoring'' \<and> label_get label ''grafana'' = ''hypercloud''))\<rparr>)))"
  by (auto simp: serve_def Let_def Grafanacheck_def simp del: label_get_simps split: prod.splits option.splits)

subsection \<open>Observations\<close>

text \<open>
  Empty options are not stored, so the defaults apply; the selector of the dashboards, which is
  always empty, is never stored.
\<close>

lemma startup_values_lookup:
  "startup_values f namespace vs ConfigGrafanaImage =
     (if flagImage f = [] then vs ConfigGrafanaImage else Some (VString (flagImage f)))"
  "startup_values f namespace vs ConfigDashboardLabelSelector = vs ConfigDashboardLabelSelector"
  by (auto simp: startup_values_def AddConfigItem_def ConfigGrafanaImage_def ConfigGrafanaImageTag_def
      ConfigPluginsInitContainerImage_def ConfigPluginsInitContainerTag_def ConfigOperatorNamespace_def
      ConfigDashboardLabelSelector_def ConfigJsonnetBasePath_def)

end
