(* ===== verification/Startup.thy ===== *)
theory Startup
  imports Operator_Main Route_Detection
begin

text \<open>
  The rest of \<open>main.go\<close>: the order in which the operator is configured and its controllers are
  started, with every exit, and the \<open>SetupWithManager\<close> of the controllers. What the libraries
  answer is a parameter. Servers, health checks and managers in the background run on their own
  and are left out; only that they were started is recorded.
\<close>

subsection \<open>The controllers and their setup\<close>

text \<open>
  The controllers of the process: one for dashboards and one for notification channels per
  namespace, the ones of the main manager, and the second one for dashboards that the main
  manager gets.
\<close>

datatype controller =
    DashboardController string
  | ChannelController string
  | GrafanaController
  | SharedDashboardController
  | NamespaceController
  | DatasourceController

text \<open>What the code asks of the libraries; the answer is an error or none.\<close>

datatype library_call =
    GetConfigOrDie
  | NewMainManager string
  | GetConfig
  | AutoDetect
  | AddToMainScheme string
  | NewManager controller
  | AddToScheme controller
  | NewController controller
  | Watch controller
  | WatchSecondary string
  | Complete controller
  | HealthCheck string
  | StartManager

type_synonym answers = "library_call \<Rightarrow> string option"

text \<open>
  The process: the shared configuration, whether webhook and detection run, the controllers by
  the watches that call them, the ones with a periodic call, the ones that receive from
  \<open>common.ControllerEvents\<close>, the controllers with a manager of their own that was started, and
  whether a goroutine waits for detected routes.
\<close>

record process =
  pc_Values :: "string \<rightharpoonup> conf_value"
  pc_Webhook :: bool
  pc_Detecting :: bool
  pc_Watching :: "controller list"
  pc_Tickers :: "controller list"
  pc_Receivers :: "controller list"
  pc_Managers :: "controller list"
  pc_RouteWatcher :: bool

definition demand :: "answers \<Rightarrow> library_call \<Rightarrow> (process, unit) prog" where
  "demand lib call = (case lib call of None \<Rightarrow> ret () | Some err \<Rightarrow> fail err)"

definition watching :: "controller \<Rightarrow> (process, unit) prog" where
  "watching c = modify (\<lambda>p. p\<lparr>pc_Watching := pc_Watching p @ [c]\<rparr>)"

definition receiving :: "controller \<Rightarrow> (process, unit) prog" where
  "receiving c = modify (\<lambda>p. p\<lparr>pc_Receivers := pc_Receivers p @ [c]\<rparr>)"

definition ticking :: "controller \<Rightarrow> (process, unit) prog" where
  "ticking c = modify (\<lambda>p. p\<lparr>pc_Tickers := pc_Tickers p @ [c]\<rparr>)"

text \<open>The builder of the library: watch the resource and complete.\<close>

definition complete :: "answers \<Rightarrow> controller \<Rightarrow> (process, unit) prog" where
  "complete lib c = seq (demand lib (Complete c)) (\<lambda>_. watching c)"

text \<open>
  The other way to start the Grafana controller, \<open>Add\<close>: it also watches the objects that belong
  to an instance and starts the goroutine that waits for routes. \<open>main\<close> does not take it.
\<close>

definition watchSecondaryResource :: "answers \<Rightarrow> string \<Rightarrow> (process, unit) prog" where
  "watchSecondaryResource lib resource = demand lib (WatchSecondary resource)"

definition grafana_add :: "answers \<Rightarrow> (process, unit) prog" where
  "grafana_add lib =
     seq (demand lib (NewController GrafanaController)) (\<lambda>_.
     seq (demand lib (Watch GrafanaController)) (\<lambda>_.
     seq (watching GrafanaController) (\<lambda>_.
     seq (for_each (watchSecondaryResource lib)
            [''Deployment'', ''Ingress'', ''ConfigMap'', ''Service'', ''ServiceAccount'']) (\<lambda>_.
       modify (\<lambda>p. p\<lparr>pc_RouteWatcher := True\<rparr>)))))"

text \<open>\<open>SetupWithManager\<close> of the dashboards; an error of the first watch is lost.\<close>

definition dashboard_SetupWithManager :: "answers \<Rightarrow> string \<Rightarrow> (process, unit) prog" where
  "dashboard_SetupWithManager lib namespace =
     (let c = DashboardController namespace
      in seq (demand lib (NewController c)) (\<lambda>_.
         seq (if lib (Watch c) = None then watching c else ret ()) (\<lambda>_.
         seq (ticking c) (\<lambda>_.
         seq (receiving c) (\<lambda>_.
           complete lib c)))))"

definition channel_SetupWithManager :: "answers \<Rightarrow> string \<Rightarrow> (process, unit) prog" where
  "channel_SetupWithManager lib namespace =
     (let c = ChannelController namespace
      in seq (demand lib (NewController c)) (\<lambda>_.
         seq (if lib (Watch c) = None then watching c else ret ()) (\<lambda>_.
         seq (ticking c) (\<lambda>_.
         seq (receiving c) (\<lambda>_.
           demand lib (Watch c))))))"

definition datasource_SetupWithManager :: "answers \<Rightarrow> (process, unit) prog" where
  "datasource_SetupWithManager lib =
     seq (receiving DatasourceController) (\<lambda>_. complete lib DatasourceController)"

definition start_manager :: "controller \<Rightarrow> (process, unit) prog" where
  "start_manager c = modify (\<lambda>p. p\<lparr>pc_Managers := pc_Managers p @ [c]\<rparr>)"

definition startDashboardController :: "answers \<Rightarrow> string \<Rightarrow> (process, unit) prog" where
  "startDashboardController lib ns =
     (let c = DashboardController ns
      in seq (demand lib (NewManager c)) (\<lambda>_.
         seq (demand lib (AddToScheme c)) (\<lambda>_.
         seq (on_error (dashboard_SetupWithManager lib ns) (\<lambda>_. ret ())) (\<lambda>_.
           start_manager c))))"

definition startNotificationChannelController :: "answers \<Rightarrow> string \<Rightarrow> (process, unit) prog" where
  "startNotificationChannelController lib ns =
     (let c = ChannelController ns
      in seq (demand lib (NewManager c)) (\<lambda>_.
         seq (demand lib (AddToScheme c)) (\<lambda>_.
         seq (channel_SetupWithManager lib ns) (\<lambda>_.
           start_manager c))))"

text \<open>
  \<open>main\<close> after the options, in three parts; a failure is an exit of the process with the error
  that is logged. Errors of the key pair, the leader election and the detection are only logged.
\<close>

definition configure :: "answers \<Rightarrow> environment \<Rightarrow> flags \<Rightarrow> (process, string list) prog" where
  "configure lib environ f =
     seq (of_result (GetWatchNamespace environ)) (\<lambda>namespace.
     seq (demand lib GetConfigOrDie) (\<lambda>_.
     seq (demand lib (NewMainManager namespace)) (\<lambda>_.
     seq (if scanAll f \<and> flagNamespaces f \<noteq> []
          then fail ''--scan-all and --namespaces both set. Please provide only one'' else ret ()) (\<lambda>_.
     seq (modify (\<lambda>p. p\<lparr>pc_Webhook := True\<rparr>)) (\<lambda>_.
     seq (modify (\<lambda>p. p\<lparr>pc_Values := startup_values f namespace (pc_Values p)\<rparr>)) (\<lambda>_.
       of_result (dashboardNamespaces f namespace)))))))"

definition register_components :: "answers \<Rightarrow> (process, unit) prog" where
  "register_components lib =
     seq (demand lib GetConfig) (\<lambda>_.
     seq (if lib AutoDetect = None then modify (\<lambda>p. p\<lparr>pc_Detecting := True\<rparr>) else ret ()) (\<lambda>_.
     seq (demand lib (AddToMainScheme ''apis'')) (\<lambda>_.
       demand lib (AddToMainScheme ''routev1''))))"

definition start_controllers :: "answers \<Rightarrow> string list \<Rightarrow> (process, unit) prog" where
  "start_controllers lib namespaces =
     seq (for_each (\<lambda>ns. seq (startDashboardController lib ns) (\<lambda>_.
            startNotificationChannelController lib ns)) namespaces) (\<lambda>_.
     seq (complete lib GrafanaController) (\<lambda>_.
     seq (complete lib SharedDashboardController) (\<lambda>_.
     seq (complete lib NamespaceController) (\<lambda>_.
     seq (datasource_SetupWithManager lib) (\<lambda>_.
     seq (demand lib (HealthCheck ''health'')) (\<lambda>_.
     seq (demand lib (HealthCheck ''check'')) (\<lambda>_.
       demand lib StartManager)))))))"

definition operator_main :: "answers \<Rightarrow> environment \<Rightarrow> flags \<Rightarrow> (process, unit) prog" where
  "operator_main lib environ f =
     seq (configure lib environ f) (\<lambda>namespaces.
     seq (register_components lib) (\<lambda>_. start_controllers lib namespaces))"

subsection \<open>What the parts add\<close>

text \<open>A program that completes appends a list to a part of the state.\<close>

definition appends :: "('s \<Rightarrow> 'x list) \<Rightarrow> 'x list \<Rightarrow> ('s, 'a) prog \<Rightarrow> bool" where
  "appends view xs m \<longleftrightarrow> (\<forall>s a s'. m s = (Done a, s') \<longrightarrow> view s' = view s @ xs)"

lemma appendsD: "appends view xs m \<Longrightarrow> m s = (Done a, s') \<Longrightarrow> view s' = view s @ xs"
  by (simp add: appends_def)

lemma appends_keeps: "keeps view m \<Longrightarrow> appends view [] m"
  by (auto simp: appends_def dest!: keepsD)

lemma appends_seq: "appends view xs m \<Longrightarrow> (\<And>a. appends view ys (f a)) \<Longrightarrow> appends view (xs @ ys) (seq m f)"
  by (fastforce simp: appends_def seq_Done_iff)

lemma appends_for_each:
  "(\<And>x. appends view (g x) (body x)) \<Longrightarrow> appends view (concat (map g xs)) (for_each body xs)"
  by (induction xs) (auto intro: appends_seq simp: appends_keeps)

lemma demand_Done [simp]: "demand lib call p = (Done u, p') \<longleftrightarrow> lib call = None \<and> p' = p"
  by (auto simp: demand_def split: option.split)

lemma keeps_demand [simp]: "keeps g (demand lib call)"
  by (simp add: demand_def split: option.split)

lemmas registration_defs = watching_def receiving_def ticking_def start_manager_def

lemma demand_Fail [simp]: "demand lib call p = (Fail e, p') \<longleftrightarrow> lib call = Some e \<and> p' = p"
  by (auto simp: demand_def split: option.split)

text \<open>The watches and receivers of one namespace.\<close>

definition dashboard_watches :: "answers \<Rightarrow> string \<Rightarrow> controller list" where
  "dashboard_watches lib ns =
     (let c = DashboardController ns
      in if lib (NewController c) = None
         then (if lib (Watch c) = None then [c] else []) @ (if lib (Complete c) = None then [c] else [])
         else [])"

definition namespace_watches :: "answers \<Rightarrow> string \<Rightarrow> controller list" where
  "namespace_watches lib ns = dashboard_watches lib ns @ [ChannelController ns]"

definition namespace_receivers :: "answers \<Rightarrow> string \<Rightarrow> controller list" where
  "namespace_receivers lib ns =
     (if lib (NewController (DashboardController ns)) = None then [DashboardController ns] else [])
     @ [ChannelController ns]"

lemma startDashboardController_appends:
  "appends pc_Receivers (if lib (NewController (DashboardController ns)) = None then [DashboardController ns] else [])
     (startDashboardController lib ns)"
  "appends pc_Tickers (if lib (NewController (DashboardController ns)) = None then [DashboardController ns] else [])
     (startDashboardController lib ns)"
  "appends pc_Watching (dashboard_watches lib ns) (startDashboardController lib ns)"
  by (auto simp: appends_def startDashboardController_def dashboard_SetupWithManager_def complete_def Let_def
      seq_Done_iff seq_Fail_iff on_error_Done_iff registration_defs dashboard_watches_def split: if_splits)

lemma startNotificationChannelController_appends:
  "appends pc_Receivers [ChannelController ns] (startNotificationChannelController lib ns)"
  "appends pc_Tickers [ChannelController ns] (startNotificationChannelController lib ns)"
  "appends pc_Watching [ChannelController ns] (startNotificationChannelController lib ns)"
  by (auto simp: appends_def startNotificationChannelController_def channel_SetupWithManager_def Let_def
      seq_Done_iff registration_defs split: if_splits)

lemma start_namespace_appends:
  "appends pc_Receivers (namespace_receivers lib ns)
     (seq (startDashboardController lib ns) (\<lambda>_. startNotificationChannelController lib ns))"
  "appends pc_Tickers (namespace_receivers lib ns)
     (seq (startDashboardController lib ns) (\<lambda>_. startNotificationChannelController lib ns))"
  "appends pc_Watching (namespace_watches lib ns)
     (seq (startDashboardController lib ns) (\<lambda>_. startNotificationChannelController lib ns))"
  unfolding namespace_receivers_def namespace_watches_def
  by (intro appends_seq startDashboardController_appends startNotificationChannelController_appends)+

lemma complete_appends:
  "appends pc_Watching [c] (complete lib c)" "appends pc_Receivers [] (complete lib c)" "appends pc_Tickers [] (complete lib c)"
  by (auto simp: appends_def complete_def seq_Done_iff registration_defs)

lemma datasource_SetupWithManager_appends:
  "appends pc_Watching [DatasourceController] (datasource_SetupWithManager lib)"
  "appends pc_Receivers [DatasourceController] (datasource_SetupWithManager lib)"
  "appends pc_Tickers [] (datasource_SetupWithManager lib)"
  by (auto simp: appends_def datasource_SetupWithManager_def complete_def seq_Done_iff registration_defs)

definition main_controllers :: "controller list" where
  "main_controllers = [GrafanaController, SharedDashboardController, NamespaceController, DatasourceController]"

lemma start_controllers_appends:
  "appends pc_Receivers (concat (map (namespace_receivers lib) namespaces) @ [DatasourceController]) (start_controllers lib namespaces)"
  "appends pc_Tickers (concat (map (namespace_receivers lib) namespaces)) (start_controllers lib namespaces)"
  "appends pc_Watching (concat (map (namespace_watches lib) namespaces) @ main_controllers) (start_controllers lib namespaces)"
proof -
  note starts = start_namespace_appends [THEN appends_for_each]
  note rules = complete_appends datasource_SetupWithManager_appends
  have s: "appends view xs m \<Longrightarrow> (\<And>u. appends view ys (f u)) \<Longrightarrow> zs = xs @ ys \<Longrightarrow> appends view zs (seq m f)"
    for view :: "process \<Rightarrow> controller list" and xs ys zs and m :: "(process, unit) prog" and f :: "unit \<Rightarrow> (process, unit) prog" by (simp add: appends_seq)
  show "appends pc_Receivers (concat (map (namespace_receivers lib) namespaces) @ [DatasourceController]) (start_controllers lib namespaces)"
    unfolding start_controllers_def
    by (rule s, rule starts(1), (rule s, rule rules)+, (rule s, rule appends_keeps, simp)+, rule appends_keeps, simp+)
  show "appends pc_Tickers (concat (map (namespace_receivers lib) namespaces)) (start_controllers lib namespaces)"
    unfolding start_controllers_def
    by (rule s, rule starts(2), (rule s, rule rules)+, (rule s, rule appends_keeps, simp)+, rule appends_keeps, simp+)
  show "appends pc_Watching (concat (map (namespace_watches lib) namespaces) @ main_controllers) (start_controllers lib namespaces)"
    unfolding start_controllers_def main_controllers_def
    by (rule s, rule starts(3), (rule s, rule rules)+, (rule s, rule appends_keeps, simp)+, rule appends_keeps, simp+)
qed

lemma keeps_complete: "keeps pc_Values (complete lib c)"
  by (simp add: complete_def keeps_seq registration_defs)

lemma keeps_dashboard_controller: "keeps pc_Values (startDashboardController lib ns)"
  unfolding startDashboardController_def dashboard_SetupWithManager_def Let_def
  by (intro keeps_seq keeps_on_error keeps_complete) (auto simp: registration_defs)

lemma keeps_channel_controller: "keeps pc_Values (startNotificationChannelController lib ns)"
  unfolding startNotificationChannelController_def channel_SetupWithManager_def Let_def
  by (intro keeps_seq) (auto simp: registration_defs)

lemma keeps_start_controllers: "keeps pc_Values (start_controllers lib namespaces)"
  unfolding start_controllers_def datasource_SetupWithManager_def
  by (intro keeps_seq keeps_for_each keeps_dashboard_controller keeps_channel_controller keeps_complete)
    (simp_all add: registration_defs)

lemma configure_Done:
  assumes "configure lib environ f p = (Done namespaces, p')"
  obtains namespace where "GetWatchNamespace environ = Inr namespace" "dashboardNamespaces f namespace = Inr namespaces"
    "p' = p\<lparr>pc_Webhook := True, pc_Values := startup_values f namespace (pc_Values p)\<rparr>"
  using assms by (auto simp: configure_def seq_Done_iff split: if_splits)

lemma register_components_Done:
  assumes "register_components lib p = (Done u, p')"
  shows "pc_Values p' = pc_Values p" "pc_Watching p' = pc_Watching p" "pc_Receivers p' = pc_Receivers p" "pc_Tickers p' = pc_Tickers p"
  using assms by (auto simp: register_components_def seq_Done_iff split: if_splits)

lemma operator_main_Done:
  assumes "operator_main lib environ f p = (Done u, p')"
  obtains namespace namespaces where "environ ''WATCH_NAMESPACE'' = Some namespace" "dashboardNamespaces f namespace = Inr namespaces"
    "pc_Values p' = startup_values f namespace (pc_Values p)"
    "pc_Watching p' = pc_Watching p @ concat (map (namespace_watches lib) namespaces) @ main_controllers"
    "pc_Receivers p' = pc_Receivers p @ concat (map (namespace_receivers lib) namespaces) @ [DatasourceController]"
    "pc_Tickers p' = pc_Tickers p @ concat (map (namespace_receivers lib) namespaces)"
proof -
  from assms obtain namespaces p1 p2 v where c: "configure lib environ f p = (Done namespaces, p1)"
    and r: "register_components lib p1 = (Done v, p2)" and s: "start_controllers lib namespaces p2 = (Done u, p')"
    by (auto simp: operator_main_def seq_Done_iff)
  from c obtain namespace where n: "GetWatchNamespace environ = Inr namespace" "dashboardNamespaces f namespace = Inr namespaces"
    and p1: "p1 = p\<lparr>pc_Webhook := True, pc_Values := startup_values f namespace (pc_Values p)\<rparr>"
    by (rule configure_Done)
  note adds = start_controllers_appends [THEN appendsD, OF s]
  show thesis
    by (rule that [of namespace namespaces])
      (use n p1 adds register_components_Done [OF r] keepsD [OF keeps_start_controllers s]
        in \<open>auto simp: GetWatchNamespace_def split: option.splits\<close>)
qed

subsection \<open>Properties\<close>

text \<open>
  C35: what a start of the operator that is not cut short sets up. Every namespace gets a
  controller for dashboards and one for notification channels, which receive messages and are
  called periodically; the main manager gets its four controllers, of which only the one for
  datasources receives messages; and the configuration holds the options. A controller for
  dashboards that cannot be created does not stop the start, and its namespace goes without.
\<close>
theorem controllers_started:
  assumes "operator_main lib environ f p = (Done (), p')"
  shows "\<exists>namespace namespaces. environ ''WATCH_NAMESPACE'' = Some namespace
     \<and> dashboardNamespaces f namespace = Inr namespaces
     \<and> pc_Values p' = startup_values f namespace (pc_Values p)
     \<and> pc_Watching p' = pc_Watching p @ concat (map (namespace_watches lib) namespaces) @ main_controllers
     \<and> pc_Receivers p' = pc_Receivers p @ concat (map (namespace_receivers lib) namespaces) @ [DatasourceController]
     \<and> pc_Tickers p' = pc_Tickers p @ concat (map (namespace_receivers lib) namespaces)"
  using assms by (elim operator_main_Done) blast

definition new_process :: process where
  "new_process = \<lparr>pc_Values = Map.empty, pc_Webhook = False, pc_Detecting = False, pc_Watching = [], pc_Tickers = [],
     pc_Receivers = [], pc_Managers = [], pc_RouteWatcher = False\<rparr>"

definition op_environ :: environment where "op_environ = [''WATCH_NAMESPACE'' \<mapsto> ''op'']"

text \<open>If the libraries have no errors and the options are fine, the start completes.\<close>

definition completes :: "('s, 'a) prog \<Rightarrow> bool" where
  "completes m \<longleftrightarrow> (\<forall>s. \<exists>a s'. m s = (Done a, s'))"

lemma completes_basic [simp]: "completes (ret a)" "completes (modify f)" "completes (of_result (Inr b))"
  by (simp_all add: completes_def)

lemma completes_seq: "completes m \<Longrightarrow> (\<And>a. completes (f a)) \<Longrightarrow> completes (seq m f)"
  by (fastforce simp: completes_def seq_Done_iff)

lemma completes_on_error: "completes m \<Longrightarrow> completes (on_error m h)"
  by (fastforce simp: completes_def on_error_Done_iff)

lemma completes_for_each: "(\<And>x. completes (body x)) \<Longrightarrow> completes (for_each body xs)"
  by (induction xs) (simp_all add: completes_seq)

lemma completes_demand: "lib call = None \<Longrightarrow> completes (demand lib call)"
  by (simp add: demand_def)

lemma completes_start_controllers:
  assumes "\<And>call. lib call = None"
  shows "completes (start_controllers lib namespaces)" "completes (register_components lib)"
  unfolding start_controllers_def register_components_def startDashboardController_def dashboard_SetupWithManager_def
    startNotificationChannelController_def channel_SetupWithManager_def datasource_SetupWithManager_def complete_def Let_def
    registration_defs
  by (auto intro!: completes_seq completes_on_error completes_for_each completes_demand simp: assms)

lemma startup_completes:
  assumes "\<And>call. lib call = None" "environ ''WATCH_NAMESPACE'' = Some namespace"
    "dashboardNamespaces f namespace = Inr namespaces"
  shows "\<exists>p'. operator_main lib environ f p = (Done (), p')"
proof -
  have "\<exists>p1. configure lib environ f p = (Done namespaces, p1)"
    using assms by (auto simp: configure_def GetWatchNamespace_def seq_Done_iff dashboardNamespaces_def split: if_splits)
  with completes_start_controllers [OF assms(1)] show ?thesis
    by (fastforce simp: operator_main_def seq_Done_iff completes_def)
qed

lemma plain_namespaces: "dashboardNamespaces (assignOpts op_environ) ''op'' = Inr [''op'']"
  by (simp add: op_environ_def assignOpts_def LookupEnvOrString_def LookupEnvOrBool_def dashboardNamespaces_def)

lemma plain_start: "\<exists>p'. operator_main (\<lambda>_. None) op_environ (assignOpts op_environ) new_process = (Done (), p')"
proof (rule startup_completes)
  show "op_environ ''WATCH_NAMESPACE'' = Some ''op''" by (simp add: op_environ_def)
qed (simp_all add: plain_namespaces)

lemma controllers_started_witness:
  "\<exists>p'. operator_main (\<lambda>_. None) op_environ (assignOpts op_environ) new_process = (Done (), p')
     \<and> pc_Receivers p' = [DashboardController ''op'', ChannelController ''op'', DatasourceController]"
proof -
  obtain p' where "operator_main (\<lambda>_. None) op_environ (assignOpts op_environ) new_process = (Done (), p')"
    using plain_start by blast
  with controllers_started [OF this] show ?thesis
    using plain_namespaces by (auto simp: namespace_receivers_def new_process_def op_environ_def)
qed

subsection \<open>Observations\<close>

text \<open>Both options at once: nothing has been started yet.\<close>

lemma options_exclude_each_other:
  assumes "scanAll f" "flagNamespaces f \<noteq> []" "environ ''WATCH_NAMESPACE'' = Some namespace"
    "lib GetConfigOrDie = None" "lib (NewMainManager namespace) = None"
  shows "operator_main lib environ f p = (Fail ''--scan-all and --namespaces both set. Please provide only one'', p)"
  using assms by (simp add: operator_main_def configure_def GetWatchNamespace_def demand_def)

text \<open>
  If the library has no errors, two watches call the same reconciler for dashboards of a
  namespace: the one of the code and the one of the builder.
\<close>

lemma dashboards_watched_twice:
  "dashboard_watches (\<lambda>_. None) ns = [DashboardController ns, DashboardController ns]"
  by (simp add: dashboard_watches_def Let_def)

text \<open>
  \<open>Add\<close> starts the goroutine that waits for routes exactly when it completes; a start by \<open>main\<close>
  never does, so that the detection of routes has no receiver and no routes are ever watched.
\<close>

lemma grafana_add_iff:
  "(\<exists>p'. grafana_add lib p = (Done (), p') \<and> pc_RouteWatcher p') \<longleftrightarrow> lib (NewController GrafanaController) = None
     \<and> lib (Watch GrafanaController) = None
     \<and> list_all (\<lambda>r. lib (WatchSecondary r) = None)
         [''Deployment'', ''Ingress'', ''ConfigMap'', ''Service'', ''ServiceAccount'']"
  by (auto simp: grafana_add_def watchSecondaryResource_def watching_def seq_Done_iff)

lemma keeps_route_watcher: "keeps pc_RouteWatcher (operator_main lib environ f)"
  unfolding operator_main_def configure_def register_components_def start_controllers_def startDashboardController_def
    dashboard_SetupWithManager_def startNotificationChannelController_def channel_SetupWithManager_def
    datasource_SetupWithManager_def complete_def Let_def registration_defs
  by (intro keeps_seq keeps_on_error keeps_for_each) simp_all

lemma bg_step_unwatched: "bg_step b b' \<Longrightarrow> \<not> bg_Watcher b \<and> bg_Watches b = 0 \<Longrightarrow> \<not> bg_Watcher b' \<and> bg_Watches b' = 0"
proof (induction rule: bg_step.induct)
  case (tick b dc)
  then show ?case by (cases rule: detectRoute_cases [of dc b]) simp_all
qed (simp_all add: send_route_def)

lemma main_watches_no_routes:
  assumes "operator_main lib environ f new_process = (r, p)"
    "reachable bg_step (NewAutoDetect (pc_Values p) (pc_RouteWatcher p)) b"
  shows "bg_Watches b = 0"
proof -
  have "\<not> pc_RouteWatcher p" using keepsD [OF keeps_route_watcher assms(1)] by (simp add: new_process_def)
  with assms(2) have "\<not> bg_Watcher b \<and> bg_Watches b = 0"
    by (induction rule: reachable.induct) (auto simp: NewAutoDetect_def dest: bg_step_unwatched)
  then show ?thesis ..
qed

end
