(* ===== verification/Controller_Events.thy ===== *)
theory Controller_Events
  imports Startup Dashboard_Controller Notification_Channels Datasources
begin

text \<open>
  The channel \<open>common.ControllerEvents\<close> on which the Grafana controller tells the others that
  Grafana is ready, with the goroutines of the \<open>SetupWithManager\<close> functions that receive from
  it, as a step relation; the controllers that have heard nothing are composed with it.
\<close>

subsection \<open>The messages between the controllers\<close>

text \<open>
  \<open>common.ControllerEvents\<close> has room for one message and is shared by all receivers: the
  goroutine that receives a message stores it as the state of its own controller. The Grafana
  controller has at most one message to send, because a call that waits does not return.
  Receivers are numbered; \<open>ev_Published\<close> and \<open>ev_Log\<close> (the receiver with each message)
  are for the specification.
\<close>

record events =
  ev_Waiting :: "ControllerState option"
  ev_Channel :: "ControllerState list"
  ev_States :: "ControllerState list"
  ev_Published :: "ControllerState list"
  ev_Log :: "(nat \<times> ControllerState) list"

definition new_events :: "nat \<Rightarrow> events" where
  "new_events n =
     \<lparr>ev_Waiting = None, ev_Channel = [], ev_States = replicate n zero_ControllerState,
      ev_Published = [], ev_Log = []\<rparr>"

inductive ev_step :: "events \<Rightarrow> events \<Rightarrow> bool" where
  publish: "ev_Waiting d = None
    \<Longrightarrow> ev_step d (d\<lparr>ev_Waiting := Some e, ev_Published := ev_Published d @ [e]\<rparr>)"
| send: "ev_Waiting d = Some e \<Longrightarrow> ev_Channel d = []
    \<Longrightarrow> ev_step d (d\<lparr>ev_Waiting := None, ev_Channel := [e]\<rparr>)"
| receive: "ev_Channel d = e # rest \<Longrightarrow> i < length (ev_States d)
    \<Longrightarrow> ev_step d (d\<lparr>ev_Channel := rest, ev_States := (ev_States d)[i := e], ev_Log := ev_Log d @ [(i, e)]\<rparr>)"

abbreviation ev_reachable :: "nat \<Rightarrow> events \<Rightarrow> bool" where
  "ev_reachable n \<equiv> reachable ev_step (new_events n)"

inductive_cases ev_stepE: "ev_step d d'"

text \<open>What a receiver has heard.\<close>

definition heard :: "nat \<Rightarrow> events \<Rightarrow> ControllerState list" where
  "heard i d = map snd (filter (\<lambda>(j, _). j = i) (ev_Log d))"

lemma heard_log [simp]: "heard i (d\<lparr>ev_Log := l\<rparr>) = map snd (filter (\<lambda>(j, _). j = i) l)"
  by (simp add: heard_def)

subsection \<open>Every message reaches one receiver\<close>

definition ev_invariant :: "nat \<Rightarrow> events \<Rightarrow> bool" where
  "ev_invariant n d \<longleftrightarrow>
     length (ev_States d) = n \<and> length (ev_Channel d) \<le> 1
     \<and> ev_Published d = map snd (ev_Log d) @ ev_Channel d @ (case ev_Waiting d of None \<Rightarrow> [] | Some e \<Rightarrow> [e])
     \<and> (\<forall>i<n. ev_States d ! i = last (zero_ControllerState # heard i d))"

lemma ev_step_invariant:
  assumes "ev_step d d'" "ev_invariant n d"
  shows "ev_invariant n d'"
  using assms(1)
proof cases
  case (receive e rest i)
  with assms(2) show ?thesis
    by (auto simp: ev_invariant_def heard_def nth_list_update)
qed (use assms(2) in \<open>auto simp: ev_invariant_def heard_def\<close>)

interpretation ev: invariant_system ev_step "new_events n" "ev_invariant n" for n
proof
  show "ev_invariant n (new_events n)" by (simp add: ev_invariant_def new_events_def heard_def)
qed (rule ev_step_invariant)

text \<open>The receivers that have heard of a Grafana that is ready are in the log with a message of it.\<close>

lemma ready_receivers_bound:
  assumes "ev_invariant n d"
  shows "card {i. i < n \<and> GrafanaReady (ev_States d ! i)} \<le> length (filter GrafanaReady (ev_Published d))"
proof -
  let ?R = "filter (\<lambda>(_, e). GrafanaReady e) (ev_Log d)"
  have "{i. i < n \<and> GrafanaReady (ev_States d ! i)} \<subseteq> set (map fst ?R)"
  proof
    fix i assume "i \<in> {i. i < n \<and> GrafanaReady (ev_States d ! i)}"
    then have r: "GrafanaReady (last (zero_ControllerState # heard i d))"
      using assms by (auto simp: ev_invariant_def)
    then have "heard i d \<noteq> []" by (auto simp: zero_ControllerState_def)
    then have "last (heard i d) \<in> set (heard i d)" "GrafanaReady (last (heard i d))" using r by simp_all
    then show "i \<in> set (map fst ?R)" by (force simp: heard_def)
  qed
  then have "card {i. i < n \<and> GrafanaReady (ev_States d ! i)} \<le> card (set (map fst ?R))"
    by (intro card_mono) simp_all
  also have "\<dots> \<le> length ?R" by (metis card_length length_map)
  also have "\<dots> = length (filter GrafanaReady (map snd (ev_Log d)))"
    by (simp add: filter_map comp_def case_prod_beta')
  also have "\<dots> \<le> length (filter GrafanaReady (ev_Published d))"
    using assms by (auto simp: ev_invariant_def)
  finally show ?thesis .
qed

lemma ev_run_append: "ev_reachable n d \<Longrightarrow> ev_step d d1 \<Longrightarrow> ev_step d1 d2 \<Longrightarrow> ev_step d2 d3 \<Longrightarrow> ev_reachable n d3"
  by (blast intro: reachable.move)

text \<open>A message that reaches receiver \<open>i\<close>: published, sent and received.\<close>

definition delivered :: "nat \<Rightarrow> ControllerState \<Rightarrow> events \<Rightarrow> events" where
  "delivered i e d =
     d\<lparr>ev_Published := ev_Published d @ [e], ev_Waiting := None, ev_Channel := [],
       ev_States := (ev_States d)[i := e], ev_Log := ev_Log d @ [(i, e)]\<rparr>"

lemma delivered_reachable:
  assumes "ev_reachable n d" "ev_Waiting d = None" "ev_Channel d = []" "i < n"
  shows "ev_reachable n (delivered i e d)"
proof -
  have len: "length (ev_States d) = n" using ev.always [OF assms(1)] by (simp add: ev_invariant_def)
  let ?d1 = "d\<lparr>ev_Waiting := Some e, ev_Published := ev_Published d @ [e]\<rparr>"
  let ?d2 = "?d1\<lparr>ev_Waiting := None, ev_Channel := [e]\<rparr>"
  have "ev_step d ?d1" using assms(2) by (rule ev_step.publish)
  moreover have "ev_step ?d1 ?d2" by (rule ev_step.send) (simp_all add: assms(3))
  moreover have "ev_step ?d2 (?d2\<lparr>ev_Channel := [], ev_States := (ev_States ?d2)[i := e], ev_Log := ev_Log ?d2 @ [(i, e)]\<rparr>)"
    by (rule ev_step.receive) (simp_all add: assms(4) len)
  ultimately have "ev_reachable n (?d2\<lparr>ev_Channel := [], ev_States := (ev_States ?d2)[i := e], ev_Log := ev_Log ?d2 @ [(i, e)]\<rparr>)"
    by (rule ev_run_append [OF assms(1)])
  then show ?thesis by (simp add: delivered_def)
qed

subsection \<open>Properties\<close>

text \<open>
  C23: a message of the Grafana controller reaches one controller and no other. In every reachable
  state the messages that were published are the ones that were received, in this order, followed
  by the one in the channel and the one that waits; a controller has the state of the last
  message that it received itself; and so no more controllers believe that Grafana is ready than
  messages said so.
\<close>
theorem states_reach_one_controller:
  assumes "ev_reachable n d"
  shows "ev_Published d = map snd (ev_Log d) @ ev_Channel d @ (case ev_Waiting d of None \<Rightarrow> [] | Some e \<Rightarrow> [e])
     \<and> length (ev_Channel d) \<le> 1
     \<and> (\<forall>i<n. ev_States d ! i = last (zero_ControllerState # heard i d))
     \<and> card {i. i < n \<and> GrafanaReady (ev_States d ! i)} \<le> length (filter GrafanaReady (ev_Published d))"
proof -
  have inv: "ev_invariant n d" using assms by (rule ev.always)
  with ready_receivers_bound [OF inv] show ?thesis unfolding ev_invariant_def by blast
qed

definition ready_message :: ControllerState where
  "ready_message = zero_ControllerState\<lparr>AdminUrl := ''http://grafana'', GrafanaReady := True\<rparr>"

lemma first_delivery: "ev_reachable 3 (delivered 1 ready_message (new_events 3))"
  by (rule delivered_reachable [OF reachable.initial]) (simp_all add: new_events_def)

lemma states_reach_one_controller_witness:
  "card {i. i < 3 \<and> GrafanaReady (ev_States (delivered 1 ready_message (new_events 3)) ! i)} \<le> 1
     \<and> GrafanaReady (ev_States (delivered 1 ready_message (new_events 3)) ! 1)"
  using states_reach_one_controller [OF first_delivery]
  by (simp add: delivered_def new_events_def ready_message_def numeral_3_eq_3)

text \<open>
  A controller that has not heard of Grafana leaves it alone. In every reachable state the
  calls of a receiver without messages change nothing: the ones for dashboards and notification
  channels return at once without asking to be repeated, the one for datasources with an error.
\<close>
theorem unheard_controllers_idle:
  assumes "ev_reachable n d" "i < n" "heard i d = []"
  shows "DashboardReconcile denv (ev_States d ! i) request s = (Done (no_requeue, None), s)
     \<and> ChannelReconcile cenv (ev_States d ! i) request s = (Done (no_requeue, None), s)
     \<and> DatasourceReconcile senv (ev_States d ! i) request s
         = (Done (requeue_later, Some (Error ''cannot get grafana admin url'')), s)"
proof -
  have "ev_States d ! i = zero_ControllerState"
    using ev.always [OF assms(1)] assms(2,3) by (simp add: ev_invariant_def)
  then show ?thesis
    by (simp add: zero_ControllerState_def DashboardReconcile_def ChannelReconcile_def DatasourceReconcile_def
        datasource_getClient_def)
qed

lemma unheard_controllers_idle_witness:
  "\<forall>denv request (s :: unit operator).
     DashboardReconcile denv (ev_States (delivered 1 ready_message (new_events 3)) ! 0) request s
       = (Done (no_requeue, None), s)"
proof -
  have h: "heard 0 (delivered 1 ready_message (new_events 3)) = []"
    by (simp add: delivered_def new_events_def heard_def)
  have "0 < (3::nat)" by simp
  from unheard_controllers_idle [OF first_delivery this h] show ?thesis by blast
qed

subsection \<open>Observations\<close>

text \<open>
  Whatever is published, with two receivers there are always runs in which one of them hears
  nothing; with the property above it then never submits anything.
\<close>

lemma controller_may_hear_nothing:
  assumes "i < n" "j < n" "i \<noteq> j"
  shows "\<exists>d. ev_reachable n d \<and> ev_Published d = es \<and> ev_Waiting d = None \<and> ev_Channel d = [] \<and> heard i d = []"
proof (induction es rule: rev_induct)
  case Nil
  show ?case by (intro exI [of _ "new_events n"]) (use reachable.initial [of ev_step "new_events n"] in \<open>simp add: new_events_def heard_def\<close>)
next
  case (snoc e es)
  then obtain d where "ev_reachable n d" "ev_Published d = es" "ev_Waiting d = None" "ev_Channel d = []" "heard i d = []"
    by blast
  moreover from this assms have "ev_reachable n (delivered j e d)" by (simp add: delivered_reachable)
  ultimately show ?case
    using assms(3) by (intro exI [of _ "delivered j e d"]) (simp add: delivered_def heard_def)
qed

text \<open>A publisher that waits is never stuck, as long as there is a receiver.\<close>

lemma publisher_not_stuck:
  assumes "ev_reachable n d" "ev_Waiting d = Some e" "0 < n"
  shows "\<exists>d'. ev_step d d' \<and> (ev_Waiting d' = None \<or> ev_Channel d' = [])"
proof (cases "ev_Channel d")
  case Nil
  with assms(2) ev_step.send show ?thesis by fastforce
next
  case (Cons e' rest)
  have inv: "ev_invariant n d" using assms(1) by (rule ev.always)
  with Cons have "rest = []" "0 < length (ev_States d)" using assms(3) by (auto simp: ev_invariant_def)
  with ev_step.receive [OF Cons this(2)] show ?thesis by fastforce
qed

end
