(* ===== verification/Shared_State.thy ===== *)
theory Shared_State
  imports Namespace_Controller Dashboard_Controller_Properties Notification_Channel_Properties Datasources
begin

text \<open>
  What a call of a controller may do to the state that all controllers share: the two registries,
  the values of the configuration, and the messages on the channel. Requests to Grafana and to the
  cluster leave all of it alone; the rest keeps the registries and the types of the values in
  order, and only the Grafana controller adds messages.
\<close>

subsection \<open>Shared state and allowed changes\<close>

text \<open>The values of the configuration by their types; reading one of them never panics then.\<close>

definition bool_items :: "string list" where
  "bool_items = [ConfigOpenshift, ConfigRouteWatch, ConfigGrafanaDashboardsSynced]"

definition string_items :: "string list" where
  "string_items =
     [ConfigGrafanaImage, ConfigGrafanaImageTag, ConfigPluginsInitContainerImage, ConfigPluginsInitContainerTag,
      ConfigOperatorNamespace, ConfigDashboardLabelSelector, ConfigJsonnetBasePath]"

definition values_typed :: "(string \<rightharpoonup> conf_value) \<Rightarrow> bool" where
  "values_typed vs \<longleftrightarrow> list_all (readable_bool vs) bool_items \<and> list_all (readable_string vs) string_items"

definition config_ok :: "ControllerConfig \<Rightarrow> bool" where
  "config_ok c \<longleftrightarrow> dashboards_ok c \<and> values_typed (cc_Values c)"

definition shared :: "'w operator \<Rightarrow> ControllerConfig \<times> NotificationControllerConfig \<times> ControllerState list" where
  "shared s = (op_Config s, op_Channels s, op_Events s)"

lemma shared_update [simp]:
  "shared (s\<lparr>op_World := w\<rparr>) = shared s" "shared (s\<lparr>op_Env := e\<rparr>) = shared s"
  "shared (s\<lparr>op_grafanaId := a\<rparr>) = shared s" "shared (s\<lparr>op_grafanaPw := b\<rparr>) = shared s"
  "shared (s\<lparr>op_GrafanaKey := k\<rparr>) = shared s" "shared (s\<lparr>op_HyperauthUrl := u\<rparr>) = shared s"
  by (simp_all add: shared_def)

text \<open>The changes of a call: \<open>speaks\<close> says whether it may add messages.\<close>

definition changes :: "bool \<Rightarrow> ControllerConfig \<times> NotificationControllerConfig \<times> ControllerState list
    \<Rightarrow> ControllerConfig \<times> NotificationControllerConfig \<times> ControllerState list \<Rightarrow> bool" where
  "changes speaks =
     (\<lambda>(c, n, es) (c', n', es'). (config_ok c \<longrightarrow> config_ok c') \<and> (channels_ok n \<longrightarrow> channels_ok n')
        \<and> (speaks \<or> es' = es))"

interpretation sh: evolution shared "changes speaks" for speaks
  by unfold_locales (auto simp: changes_def)

interpretation lp: evolution "\<lambda>s. shared (lp_op s)" "changes speaks" for speaks
  by unfold_locales (auto simp: changes_def)

abbreviation orderly :: "bool \<Rightarrow> ('w, 'a) operation \<Rightarrow> bool" where
  "orderly speaks \<equiv> evolves shared (changes speaks)"

abbreviation loop_orderly :: "('w loop, 'a) prog \<Rightarrow> bool" where
  "loop_orderly \<equiv> evolves (\<lambda>s. shared (lp_op s)) (changes False)"

lemma orderly_keeps [simp]: "keeps shared m \<Longrightarrow> orderly speaks m"
  by (rule sh.evolves_keeps)

lemma loop_orderly_keeps [simp]: "keeps (\<lambda>s. shared (lp_op s)) m \<Longrightarrow> loop_orderly m"
  by (rule lp.evolves_keeps)

lemma orderly_on_op [simp]: "orderly False m \<Longrightarrow> loop_orderly (on_op m)"
  by (auto simp: evolves_def on_op_def split: prod.split) (metis snd_conv)

lemma orderly_on_config:
  assumes "\<And>c. config_ok c \<Longrightarrow> config_ok (f c)"
  shows "orderly speaks (on_config f)"
  unfolding on_config_def by (rule evolves_modify) (simp add: changes_def shared_def assms)

lemma orderly_on_channels:
  assumes "\<And>c. channels_ok c \<Longrightarrow> channels_ok (f c)"
  shows "orderly speaks (on_channels f)"
  unfolding on_channels_def by (rule evolves_modify) (simp add: changes_def shared_def assms)

lemma orderly_publish [simp]: "orderly True (publish e)"
  unfolding publish_def by (rule evolves_modify) (simp add: changes_def shared_def)

lemma orderly_on_error:
  assumes "orderly speaks m" "\<And>e. orderly speaks (h e)"
  shows "orderly speaks (on_error m h)"
  unfolding evolves_def
proof
  fix s
  obtain r s1 where m: "m s = (r, s1)" by (cases "m s")
  show "changes speaks (shared s) (shared (snd (on_error m h s)))"
  proof (cases r)
    case (Fail e)
    obtain q s2 where h: "h e s1 = (q, s2)" by (cases "h e s1")
    show ?thesis
      using sh.compose [OF evolvesD [OF assms(1) m] evolvesD [OF assms(2) h]] by (simp add: m Fail h)
  qed (use evolvesD [OF assms(1) m] in \<open>simp_all add: m\<close>)
qed

subsection \<open>Values\<close>

lemmas item_names = ConfigOpenshift_def ConfigRouteWatch_def ConfigGrafanaDashboardsSynced_def ConfigGrafanaImage_def
  ConfigGrafanaImageTag_def ConfigPluginsInitContainerImage_def ConfigPluginsInitContainerTag_def
  ConfigOperatorNamespace_def ConfigDashboardLabelSelector_def ConfigJsonnetBasePath_def

lemma values_typed_iff:
  "values_typed vs \<longleftrightarrow> (\<forall>k \<in> set bool_items. readable_bool vs k) \<and> (\<forall>k \<in> set string_items. readable_string vs k)"
  by (simp add: values_typed_def list_all_iff)

lemma items_disjoint: "set bool_items \<inter> set string_items = {}"
  by (simp add: bool_items_def string_items_def item_names)

lemma readable_upd:
  "readable_bool (vs(k \<mapsto> VBool b)) k' \<longleftrightarrow> k' = k \<or> readable_bool vs k'"
  "readable_string (vs(k \<mapsto> VString t)) k' \<longleftrightarrow> k' = k \<or> readable_string vs k'"
  "k' \<noteq> k \<Longrightarrow> readable_bool (vs(k := v)) k' = readable_bool vs k'"
  "k' \<noteq> k \<Longrightarrow> readable_string (vs(k := v)) k' = readable_string vs k'"
  "readable_bool (vs(k := None)) k" "readable_string (vs(k := None)) k"
  by (simp_all add: readable_bool_def readable_string_def)

lemma typed_add_bool [simp]:
  assumes "k \<in> set bool_items" "values_typed vs"
  shows "values_typed (AddConfigItem vs k (Some (VBool b)))"
proof -
  have "k' \<noteq> k" if "k' \<in> set string_items" for k' using items_disjoint that assms(1) by blast
  then show ?thesis using assms(2) by (auto simp: AddConfigItem_def values_typed_iff readable_upd)
qed

lemma typed_add_string [simp]:
  assumes "k \<in> set string_items" "values_typed vs"
  shows "values_typed (AddConfigItem vs k (Some (VString t)))"
proof -
  have "k' \<noteq> k" if "k' \<in> set bool_items" for k' using items_disjoint that assms(1) by blast
  then show ?thesis using assms(2) by (auto simp: AddConfigItem_def values_typed_iff readable_upd)
qed

lemma typed_remove [simp]: "values_typed vs \<Longrightarrow> values_typed (RemoveConfigItem vs k)"
  unfolding values_typed_iff RemoveConfigItem_def by (metis readable_upd(3-6))

lemma values_typed_readable: "values_typed vs \<Longrightarrow> values_readable vs cr"
  by (simp add: values_typed_iff bool_items_def string_items_def values_readable_def image_readable_def)

text \<open>The changes of the configuration.\<close>

lemma config_ok_updates [simp]:
  "config_ok c \<Longrightarrow> config_ok (InvalidateDashboards c)"
  "config_ok c \<Longrightarrow> config_ok (SetDashboards c [])"
  "config_ok c \<Longrightarrow> config_ok (Cleanup (c\<lparr>cc_Values := RemoveConfigItem (cc_Values c) k\<rparr>) p)"
  "config_ok c \<Longrightarrow> config_ok (put_dashboard r c)"
  "config_ok (SetPluginsFor c d) = config_ok c"
  "config_ok (RemovePluginsFor c ns n) = config_ok c"
  "config_ok c \<Longrightarrow> config_ok (RemoveDashboard c uid)"
  "k \<in> set bool_items \<Longrightarrow> config_ok c \<Longrightarrow> config_ok (c\<lparr>cc_Values := AddConfigItem (cc_Values c) k (Some (VBool b))\<rparr>)"
  using dash.ok_put [of c r] dash.ok_del [of c uid] dash.ok_inval [of c]
  by (simp_all add: config_ok_def put_dashboard_def SetPluginsFor_def RemovePluginsFor_def RemoveDashboard_drop
      SetDashboards_def Cleanup_def Let_def dashboards_ok_def)

subsection \<open>Requests leave the shared state alone\<close>

lemma quiet_world [simp]: "keeps shared (on_world f)"
  by (rule keeps_on_world) simp

lemma quiet_send [simp]: "keeps shared (net_send net m u h b)" "keeps shared (send_request c m p b)"
  unfolding net_send_def send_request_def by (auto intro!: keeps_seq split: sum.split)

lemma quiet_users [simp]:
  "keeps shared (RandomString net n)" "keeps shared (GetGrafanaUser net u)" "keeps shared (CreateGrafanaUser net u)"
  "keeps shared (GetGrafanaKey net)" "keeps shared (give_admin_to net u)" "keeps shared (GiveAdmin net)"
proof -
  show r: "keeps shared (RandomString net n)" for n
    unfolding RandomString_def by (intro keeps_collect keeps_seq; simp)
  show g: "keeps shared (GetGrafanaUser net u)" for u
    unfolding GetGrafanaUser_def set_admin_def by (intro keeps_seq; simp split: sum.split prod.split)
  show c: "keeps shared (CreateGrafanaUser net u)" for u
    unfolding CreateGrafanaUser_def by (intro keeps_seq; simp add: r)
  show "keeps shared (GetGrafanaKey net)"
    unfolding GetGrafanaKey_def set_admin_def
    by (auto intro!: keeps_seq simp: r split: sum.split prod.split)
  show a: "keeps shared (give_admin_to net u)" for u
    unfolding give_admin_to_def by (auto intro!: keeps_seq simp: g c)
  show "keeps shared (GiveAdmin net)"
    unfolding GiveAdmin_def GetCRBAdmin_def by (auto intro!: keeps_seq keeps_for_each a)
qed

lemma quiet_dashboard_client [simp]:
  "keeps shared (GetDashboard c uid)" "keeps shared (getAllFolders c)" "keeps shared (CreateOrUpdateFolder c n)"
  "keeps shared (CreateOrUpdateDashboard c b i n)" "keeps shared (DeleteDashboardByUID c uid)"
  "keeps shared (getFolderUID c j)" "keeps shared (DeleteFolder c k)"
proof -
  show f: "keeps shared (getAllFolders c)"
    unfolding getAllFolders_def by (auto intro!: keeps_seq split: sum.split prod.split)
  show u: "keeps shared (getFolderUID c j)" for j
    unfolding getFolderUID_def by (auto intro!: keeps_seq split: sum.split prod.split)
  show "keeps shared (GetDashboard c uid)"
    unfolding GetDashboard_def by (auto intro!: keeps_seq split: sum.split)
  show "keeps shared (CreateOrUpdateFolder c n)"
    unfolding CreateOrUpdateFolder_def Let_def
    by (auto intro!: keeps_seq simp: f split: sum.split option.split prod.split)
  show "keeps shared (CreateOrUpdateDashboard c b i n)"
    unfolding CreateOrUpdateDashboard_def by (auto intro!: keeps_seq split: sum.split option.split)
  show "keeps shared (DeleteDashboardByUID c uid)"
    unfolding DeleteDashboardByUID_def by (auto intro!: keeps_seq split: sum.split)
  show "keeps shared (DeleteFolder c k)"
    unfolding DeleteFolder_def by (auto intro!: keeps_seq simp: u split: sum.split prod.split)
qed

lemma quiet_permissions [simp]:
  "keeps shared (GetGrafanaDashboardId net uid)" "keeps shared (user_id net u)"
  "keeps shared (CreateGrafanaPermission env c us n)"
  unfolding GetGrafanaDashboardId_def user_id_def CreateGrafanaPermission_def Let_def
  by (auto intro!: keeps_seq split: sum.split prod.split)

lemma quiet_channel_client [simp]:
  "keeps shared (doRequest c op channel uid)" "keeps shared (CreateNotificationChannel c channel)"
  "keeps shared (UpdateNotificationChannel c channel uid)" "keeps shared (GetNotificationChannel c uid)"
  "keeps shared (DeleteNotificationChannelByUID c uid)" "keeps shared (create_or_update c processed uid)"
  "keeps shared (channel_status_update cenv n)" "keeps shared (channel_manageError cenv n e)"
  unfolding doRequest_def CreateNotificationChannel_def UpdateNotificationChannel_def GetNotificationChannel_def
    DeleteNotificationChannelByUID_def create_or_update_def channel_status_update_def channel_manageError_def
  by (auto intro!: keeps_seq split: option.split sum.split)

lemma quiet_datasources [simp]:
  "keeps shared (DatasourceReconcile env st request)"
proof -
  have l: "keeps shared (GetDatasourceList c)" for c :: "'a GrafanaClient"
    unfolding GetDatasourceList_def by (auto intro!: keeps_seq split: sum.split prod.split)
  have d: "keeps shared (delete_datasource c ds)" for c :: "'a GrafanaClient" and ds
    unfolding delete_datasource_def DeleteDatasourceByUID_def by (auto intro!: keeps_seq split: sum.split)
  have r: "keeps shared (reconcile_datasource env c urls ds)" for c :: "'a GrafanaClient" and urls ds
    unfolding reconcile_datasource_def CreateGrafanaDatasource_def datasource_manageError_def
    by (auto intro!: keeps_seq split: sum.split option.split prod.split)
  have a: "keeps shared (reconcileDataSources env request c)" for c
    unfolding reconcileDataSources_def
    by (auto intro!: keeps_seq keeps_collect keeps_for_each l d r split: sum.split prod.split)
  show ?thesis
    unfolding DatasourceReconcile_def by (auto intro!: keeps_seq a split: sum.split)
qed

lemma quiet_namespaces [simp]: "keeps shared (NamespaceReconcile env request)"
  unfolding NamespaceReconcile_def CreateUserDashboard_def Let_def
  by (auto intro!: keeps_seq split: sum.split option.split)

subsection \<open>Calls of the controllers for dashboards and channels\<close>

lemma orderly_add_dashboard [simp]: "loop_orderly (add_dashboard env d i n)"
  by (auto simp: evolves_def add_dashboard_def AddDashboard_put go_bind_def shared_def changes_def Let_def
      split: sum.split)

lemma orderly_run_pipeline [simp]: "loop_orderly (run_pipeline env h i n force pl)"
  by (auto simp: evolves_def run_pipeline_def lp.unchanged Let_def split: prod.split outcome.split)

lemma orderly_collect_users: "keeps shared (collect (user_id net) us)"
  by (simp add: keeps_collect)

lemma orderly_submit: "loop_orderly (submit env st c i n processed d)"
proof -
  have "loop_orderly (namespace_matches env st d)"
    unfolding namespace_matches_def by (simp split: option.split)
  moreover have "loop_orderly (dash_manageSuccess env c d i n)"
    unfolding dash_manageSuccess_def
    by (intro lp.evolves_seq orderly_on_op orderly_on_config)
      (simp_all add: orderly_collect_users)
  ultimately show ?thesis
    unfolding submit_def
    by (auto intro!: lp.evolves_seq orderly_on_op orderly_on_config split: sum.split option.split prod.split)
qed

lemma orderly_reconcile_dashboard: "loop_orderly (reconcile_dashboard env st c d)"
proof -
  have "loop_orderly (check_deleted env c uid h i n processed pl)" for uid h i n processed pl
    unfolding check_deleted_def
    by (auto intro!: lp.evolves_seq split: prod.split sum.split)
  then show ?thesis
    unfolding reconcile_dashboard_def Let_def
    by (auto intro!: lp.evolves_seq orderly_submit split: prod.split option.split)
qed

lemma orderly_delete_dashboards: "orderly False (delete_dashboards c ns ds)"
proof -
  have "orderly False (delete_dashboard c ns d)" for d
    unfolding delete_dashboard_def
    by (auto intro!: sh.evolves_seq orderly_on_config config_ok_updates simp: bool_items_def split: prod.split)
  then show ?thesis
    by (induction ds) (auto intro!: sh.evolves_seq)
qed

lemma orderly_reconcileDashboards: "orderly False (reconcileDashboards env st request c)"
  unfolding evolves_def
proof
  fix s
  show "changes False (shared s) (shared (snd (reconcileDashboards env st request c s)))"
  proof (cases "de_list env (op_World s)")
    case (Inr items)
    define l0 where "l0 = \<lparr>lp_op = s, lp_known = GetDashboards (op_Config s) (key_Namespace request),
      lp_shared = key_Namespace request \<noteq> []\<rparr>"
    obtain r s1 where r: "for_each (reconcile_dashboard env st c) items l0 = (r, s1)"
      by (cases "for_each (reconcile_dashboard env st c) items l0")
    have "loop_orderly (for_each (reconcile_dashboard env st c) items)"
      by (rule lp.evolves_for_each) (rule orderly_reconcile_dashboard)
    from evolvesD [OF this r] have one: "changes False (shared s) (shared (lp_op s1))" by (simp add: l0_def)
    define rest where "rest = seq (\<lambda>_. (r, lp_op s1)) (\<lambda>_.
       seq (delete_dashboards c (key_Namespace request)
              (filter (\<lambda>d. \<not> inNamespace items d) (GetDashboards (op_Config s) (key_Namespace request)))) (\<lambda>_.
         ret (no_requeue, None :: error option)))"
    have two: "changes False (shared (lp_op s1)) (shared (snd (rest (lp_op s1))))"
    proof (cases r)
      case (Done u)
      have "orderly False (seq (delete_dashboards c (key_Namespace request)
              (filter (\<lambda>d. \<not> inNamespace items d) (GetDashboards (op_Config s) (key_Namespace request)))) (\<lambda>_.
         ret (no_requeue, None :: error option)))"
        by (intro sh.evolves_seq orderly_delete_dashboards) simp
      then show ?thesis by (auto simp: rest_def Done evolves_def)
    qed (simp_all add: rest_def sh.unchanged)
    from sh.compose [OF one two] Inr r show ?thesis
      by (simp add: reconcileDashboards_def Let_def l0_def rest_def del: GetDashboards_all)
  qed (simp add: reconcileDashboards_def Let_def sh.unchanged)
qed

lemma orderly_DashboardReconcile: "orderly False (DashboardReconcile env st request)"
  unfolding DashboardReconcile_def
  by (auto intro!: sh.evolves_seq orderly_reconcileDashboards split: sum.split)

lemma orderly_reconcile_channels: "orderly False (reconcile_channels env st c known items)"
proof -
  have add: "channels_ok n \<Longrightarrow> channels_ok (AddNotificationChannel n item)" for n item
    by (simp add: AddNotificationChannel_put chan.ok_put)
  have success: "orderly False (channel_manageSuccess env n status hash)" for n status hash
    unfolding channel_manageSuccess_def by (auto intro!: sh.evolves_seq orderly_on_channels add)
  have submit: "orderly False (submit_channel env c item processed hash)" for item processed hash
    unfolding submit_channel_def Let_def
    by (auto intro!: sh.evolves_seq success split: prod.split option.split)
  have one: "orderly False (reconcile_channel env st c known item)" for item
    unfolding reconcile_channel_def
    by (auto intro!: sh.evolves_seq submit split: prod.split outcome.split option.split)
  show ?thesis
  proof (induction items)
    case (Cons item items)
    then show ?case by (auto intro!: sh.evolves_seq one split: option.split)
  qed (simp only: reconcile_channels.simps orderly_keeps keeps_basic)
qed

lemma orderly_ChannelReconcile: "orderly False (ChannelReconcile env st request)"
proof -
  have del: "orderly False (delete_channel c r)" for c :: "'a GrafanaClient" and r
    unfolding delete_channel_def by (auto intro!: sh.evolves_seq orderly_on_channels channels_ok_remove)
  have vals: "channels_ok (n\<lparr>ncc_Values := v\<rparr>) = channels_ok n" for n v
    by (simp add: channels_ok_def)
  have "orderly False (reconcileNotificationChannels env st request c)" for c
    unfolding reconcileNotificationChannels_def
    by (auto intro!: sh.evolves_seq orderly_reconcile_channels sh.evolves_for_each del orderly_on_channels
        simp: vals split: sum.split option.split)
  then show ?thesis
    unfolding ChannelReconcile_def by (auto intro!: sh.evolves_seq split: sum.split)
qed

subsection \<open>Calls of the Grafana controller\<close>

lemma quiet_files [simp]:
  "keeps shared (reconcileConfigMaps env cr)" "keeps shared (update_status env cr)" "keeps shared (run_plan env cr d)"
proof -
  have a: "keeps shared (attempt f)" for f :: "'a \<Rightarrow> string option \<times> 'a"
    unfolding attempt_def by (auto intro!: keeps_seq split: option.split)
  have i: "keeps shared (import_library env b cm)" for b cm
    unfolding import_library_def createFolder_def createFile_def Let_def
    by (auto intro!: keeps_seq keeps_on_error keeps_for_each a split: option.split stat_result.split)
  show "keeps shared (reconcileConfigMaps env cr)"
    unfolding reconcileConfigMaps_def
    by (auto intro!: keeps_seq keeps_for_each i split: option.split sum.split)
  show "keeps shared (update_status env cr)" by (simp add: update_status_def)
  show "keeps shared (run_plan env cr d)" by (auto simp: keeps_def run_plan_def split: prod.split)
qed

text \<open>A plan only invalidates the known dashboards, if anything.\<close>

lemma Reconcile_config:
  assumes "Reconcile out st rc = Inr (plan, rc')"
  shows "rc_Config rc' \<in> {rc_Config rc, InvalidateDashboards (rc_Config rc)}"
  using assms
proof (rule Reconcile_parts)
  fix a1 rc1 a2 rc2 a3 a4 as5 rc5 a6 rc6 a7 a8 rc8 a9 as
  assume "getGrafanaAdminUserSecretDesiredState out st rc = Inr (a1, rc1)" "getGrafanaServiceDesiredState st rc1 = Inr (a2, rc2)"
    "getGrafanaConfigDesiredState out st rc2 = Inr (as5, rc5)" "getGrafanaDatasourceConfigDesiredState st rc5 = Inr (a6, rc6)"
  then have "rc_Config rc6 = rc_Config rc"
    using secret_step_frame service_step_frame config_step_frame datasource_step_frame by metis
  moreover assume "getGrafanaPluginsDesiredState out rc6 = Inr (a8, rc8)"
  then have "rc_Config rc8 \<in> {rc_Config rc6, InvalidateDashboards (rc_Config rc6)}"
    by (auto simp: getGrafanaPluginsDesiredState_def Let_def split: if_splits prod.splits)
  moreover assume "rc' = share_pod_labels rc8"
  ultimately show ?thesis by simp
qed

lemma orderly_desired_state [simp]: "orderly speaks (desired_state env st cr)"
  unfolding evolves_def
proof
  fix s
  show "changes speaks (shared s) (shared (snd (desired_state env st cr s)))"
  proof (cases "Reconcile (ge_outside env (op_World s)) st (NewGrafanaReconciler cr (op_Config s) (op_Env s) (op_HyperauthUrl s))")
    case (Inr p)
    obtain d rc where p: "p = (d, rc)" by (cases p)
    with Reconcile_config [OF Inr [unfolded p]] have "rc_Config rc \<in> {op_Config s, InvalidateDashboards (op_Config s)}"
      by (simp add: NewGrafanaReconciler_def)
    with Inr p show ?thesis by (auto simp: desired_state_def changes_def shared_def)
  qed (simp add: desired_state_def sh.unchanged)
qed

lemma orderly_ReconcileGrafana: "orderly True (ReconcileGrafana env request)"
proof -
  have err: "orderly True (manageError env request cr issue)" for cr issue
    unfolding manageError_def Let_def
    by (auto intro!: sh.evolves_seq orderly_on_config split: sum.split option.split prod.split)
  have state: "orderly True (publish_state env request st cr)" for st cr
    unfolding publish_state_def by (auto intro!: sh.evolves_seq err split: sum.split)
  have status: "orderly True (write_status env request st cr)" for st cr
    unfolding write_status_def by (auto intro!: sh.evolves_seq err state split: sum.split option.split prod.split)
  have success: "orderly True (manageSuccess env request cr st)" for st cr
    unfolding manageSuccess_def by (auto intro!: sh.evolves_seq orderly_on_config status)
  have "orderly True (reconcile_found env request cr)" for cr
    unfolding reconcile_found_def
    by (auto intro!: sh.evolves_seq orderly_on_error err success split: sum.split option.split prod.split)
  then show ?thesis
    unfolding ReconcileGrafana_def
    by (auto intro!: sh.evolves_seq orderly_on_config split: sum.split)
qed

subsection \<open>Calls return or panic\<close>

text \<open>
  An error of a part is a value for the rest of a call, or it is turned into one; so a call of a
  controller has no other end than its result and a panic.
\<close>

definition unfailing :: "('s, 'a) prog \<Rightarrow> bool" where
  "unfailing m \<longleftrightarrow> (\<forall>s e s'. m s \<noteq> (Fail e, s'))"

lemma unfailing_basic [simp]:
  "unfailing (ret a)" "unfailing (of_go r)" "unfailing (gets f)" "unfailing (modify g)" "unfailing (on_world h)"
  "unfailing (\<lambda>s. of_go (q s) s)"
  by (auto simp: unfailing_def on_world_def of_go_def split: sum.split prod.split)

lemma unfailing_seq: "unfailing m \<Longrightarrow> (\<And>a. unfailing (f a)) \<Longrightarrow> unfailing (seq m f)"
  by (simp add: unfailing_def seq_Fail_iff)

lemma unfailing_on_error: "(\<And>e. unfailing (h e)) \<Longrightarrow> unfailing (on_error m h)"
  by (fastforce simp: unfailing_def on_error_def split: prod.split outcome.split)

lemma unfailing_for_each: "(\<And>x. unfailing (body x)) \<Longrightarrow> unfailing (for_each body xs)"
  by (induction xs) (simp_all add: unfailing_seq)

lemma unfailing_collect: "(\<And>x. unfailing (body x)) \<Longrightarrow> unfailing (collect body xs)"
  by (induction xs) (simp_all add: unfailing_seq)

lemma unfailing_on_op [simp]: "unfailing m \<Longrightarrow> unfailing (on_op m)"
  by (fastforce simp: unfailing_def on_op_def split: prod.split)

lemmas unfailing_parts = unfailing_seq unfailing_for_each unfailing_collect unfailing_on_error

lemma unfailing_users [simp]:
  "unfailing (net_send net m u h b)" "unfailing (send_request c m p b)" "unfailing (RandomString net n)"
  "unfailing (GetGrafanaUser net user)" "unfailing (CreateGrafanaUser net user)" "unfailing (GetGrafanaKey net)"
  "unfailing (GiveAdmin net)"
  unfolding net_send_def send_request_def RandomString_def GetGrafanaUser_def CreateGrafanaUser_def GetGrafanaKey_def
    GiveAdmin_def GetCRBAdmin_def give_admin_to_def set_admin_def
  by (auto intro!: unfailing_parts split: sum.split prod.split)

lemma unfailing_channels: "unfailing (ChannelReconcile env st request)"
proof -
  have requests: "unfailing (doRequest c op channel uid)" for c :: "'a GrafanaClient" and op channel uid
    unfolding doRequest_def by (auto intro!: unfailing_parts split: option.split sum.split)
  have status: "unfailing (channel_manageError env item issue)" for item issue
    unfolding channel_manageError_def channel_status_update_def by (auto intro!: unfailing_parts)
  have one: "unfailing (reconcile_channel env st c known item)" for c known item
    unfolding reconcile_channel_def submit_channel_def create_or_update_def CreateNotificationChannel_def
      UpdateNotificationChannel_def GetNotificationChannel_def channel_manageSuccess_def channel_status_update_def
      on_channels_def Let_def
    by (auto intro!: unfailing_parts requests status split: prod.split outcome.split option.split)
  have all: "unfailing (reconcile_channels env st c known items)" for c known items
    by (induction items) (auto intro!: unfailing_parts one split: option.split simp del: effect_simps)
  show ?thesis
    unfolding ChannelReconcile_def reconcileNotificationChannels_def delete_channel_def DeleteNotificationChannelByUID_def
      on_channels_def
    by (auto intro!: unfailing_parts requests all split: sum.split option.split)
qed

lemma unfailing_datasources: "unfailing (DatasourceReconcile env st request)"
  unfolding DatasourceReconcile_def reconcileDataSources_def GetDatasourceList_def delete_datasource_def
    DeleteDatasourceByUID_def reconcile_datasource_def CreateGrafanaDatasource_def datasource_manageError_def
  by (auto intro!: unfailing_parts split: sum.split option.split prod.split)

lemma unfailing_namespaces: "unfailing (NamespaceReconcile env request)"
  unfolding NamespaceReconcile_def CreateUserDashboard_def Let_def
  by (auto intro!: unfailing_parts split: sum.split option.split)

lemma unfailing_dashboards: "unfailing (DashboardReconcile env st request)"
proof -
  have client: "unfailing (getAllFolders c)" "unfailing (getFolderUID c j)" "unfailing (GetDashboard c uid)"
    "unfailing (CreateOrUpdateDashboard c b j n)" "unfailing (DeleteDashboardByUID c uid)"
    for c :: "'a GrafanaClient" and uid j b n
    unfolding getAllFolders_def getFolderUID_def GetDashboard_def CreateOrUpdateDashboard_def DeleteDashboardByUID_def
    by (auto intro!: unfailing_parts split: sum.split prod.split option.split)
  have folders: "unfailing (CreateOrUpdateFolder c n)" "unfailing (DeleteFolder c i)" for c :: "'a GrafanaClient" and n i
    unfolding CreateOrUpdateFolder_def DeleteFolder_def Let_def
    by (auto intro!: unfailing_parts client split: sum.split prod.split option.split)
  have success: "unfailing (dash_manageSuccess env c d i n)" for c d i n
  proof -
    have "unfailing (add_dashboard env d (Some i) n)"
      by (auto simp: unfailing_def add_dashboard_def Let_def split: sum.split)
    moreover have "unfailing (CreateGrafanaPermission env c us n)" for us
      unfolding CreateGrafanaPermission_def Let_def by (auto intro!: unfailing_parts client split: prod.split)
    moreover have "unfailing (collect (user_id (de_network env)) us)" "unfailing (GetGrafanaDashboardId (de_network env) uid)" for us uid
      unfolding user_id_def GetGrafanaDashboardId_def by (auto intro!: unfailing_parts split: sum.split prod.split)
    ultimately show ?thesis
      unfolding dash_manageSuccess_def on_config_def by (auto intro!: unfailing_parts)
  qed
  have pipeline: "unfailing (run_pipeline env h i n force pl)" for h i n force pl
    by (auto simp: unfailing_def run_pipeline_def Let_def split: prod.split outcome.split)
  have one: "unfailing (reconcile_dashboard env st c d)" for c d
    unfolding reconcile_dashboard_def check_deleted_def submit_def namespace_matches_def on_config_def Let_def
    by (auto intro!: unfailing_parts unfailing_on_op client folders success pipeline split: sum.split option.split prod.split)
  have del: "unfailing (delete_dashboards c ns ds)" for c :: "'a GrafanaClient" and ns ds
    unfolding delete_dashboard_def
    by (induction ds) (auto intro!: unfailing_parts client folders simp: delete_dashboard_def on_config_def
        simp del: effect_simps split: prod.split)
  have "unfailing (reconcileDashboards env st request c)" for c
    unfolding unfailing_def
  proof (intro allI notI)
    fix s e s'
    assume "reconcileDashboards env st request c s = (Fail e, s')"
    with unfailing_for_each [of "reconcile_dashboard env st c", OF one] del show False
      unfolding unfailing_def
      by (fastforce simp: reconcileDashboards_def Let_def seq_Fail_iff simp del: GetDashboards_all split: sum.splits prod.splits)
  qed
  then show ?thesis
    unfolding DashboardReconcile_def by (auto intro!: unfailing_parts split: sum.split)
qed

lemma unfailing_grafana: "unfailing (ReconcileGrafana env request)"
proof -
  have desired: "unfailing (desired_state env st cr)" "unfailing (run_plan env cr d)" "unfailing (update_status env cr)" for st cr d
    by (auto simp: unfailing_def desired_state_def run_plan_def update_status_def on_world_def split: sum.split prod.split)
  have err: "unfailing (manageError env request cr issue)" for cr issue
    unfolding manageError_def on_config_def publish_def Let_def
    by (auto intro!: unfailing_parts desired split: sum.split option.split prod.split)
  have "unfailing (manageSuccess env request cr st)" for cr st
    unfolding manageSuccess_def write_status_def publish_state_def on_config_def publish_def
    by (auto intro!: unfailing_parts desired err split: sum.split option.split prod.split)
  then show ?thesis
    unfolding ReconcileGrafana_def reconcile_found_def on_config_def publish_def
    by (auto intro!: unfailing_parts desired err split: sum.split option.split prod.split)
qed

end
