(* ===== verification/Grafana_Readiness.thy ===== *)
theory Grafana_Readiness
  imports Shared_State Startup Reconciler_Properties
begin

text \<open>
  When Grafana becomes ready: on a cluster that takes every write, the plan of a reconciliation
  completes exactly when what it waits for is there, and then the call of the Grafana controller
  tells the other controllers that Grafana is ready.
\<close>

subsection \<open>Plans on a cluster that takes every write\<close>

text \<open>An update that meets a newer version is taken as well, because the runner ignores that.\<close>

definition accepting :: "'w api \<Rightarrow> bool" where
  "accepting api \<longleftrightarrow>
     (\<forall>cr obj. \<not> isl (SetControllerReference api cr obj)) \<and> (\<forall>obj w. fst (api_Create api obj w) = None)
     \<and> (\<forall>obj w. fst (api_Update api obj w) \<in> {None, Some Conflict}) \<and> (\<forall>obj w. fst (api_Delete api obj w) = None)"

text \<open>What an action waits for.\<close>

definition fine :: "'w api \<Rightarrow> ClusterAction \<Rightarrow> bool" where
  "fine api a =
     (case a of
        RouteReadyAction r _ \<Rightarrow> IsRouteReady r
      | IngressReadyAction i _ \<Rightarrow> IsIngressReady i
      | DeploymentReadyAction d _ \<Rightarrow> IsDeploymentReady d = Inr True
      | ExposeSecretEnvVarAction nam ns _ \<Rightarrow> (\<forall>w. \<not> isl (get_Secret api \<lparr>key_Namespace = ns, key_Name = nam\<rparr> w))
      | ExposeConfigMapEnvVarAction nam ns _ \<Rightarrow> (\<forall>w. \<not> isl (get_ConfigMap api \<lparr>key_Namespace = ns, key_Name = nam\<rparr> w))
      | _ \<Rightarrow> True)"

lemma fine_Run:
  assumes "accepting api" "fine api a"
  shows "fst (Run api cr a s) = None"
proof (cases a)
  case (DeploymentReadyAction d msg)
  with assms(2) show ?thesis by (simp add: Run_def fine_def run_deploymentReady_def)
next
  case (GenericUpdateAction obj msg)
  have "\<not> isl (SetControllerReference api cr obj)" using assms(1) by (simp add: accepting_def)
  then obtain obj' where "SetControllerReference api cr obj = Inr obj'" by (cases "SetControllerReference api cr obj") auto
  moreover have "fst (api_Update api obj' (fst s)) \<in> {None, Some Conflict}" using assms(1) by (simp add: accepting_def)
  ultimately show ?thesis
    by (auto simp: GenericUpdateAction Run_def run_update_def lift_api_def split: option.split)
next
  case (GenericCreateAction obj msg)
  have "\<not> isl (SetControllerReference api cr obj)" using assms(1) by (simp add: accepting_def)
  then obtain obj' where "SetControllerReference api cr obj = Inr obj'" by (cases "SetControllerReference api cr obj") auto
  then show ?thesis
    using assms(1) by (simp add: GenericCreateAction Run_def run_create_def lift_api_def accepting_def)
next
  case (ExposeSecretEnvVarAction nam ns msg)
  with assms(2) have "\<not> isl (get_Secret api \<lparr>key_Namespace = ns, key_Name = nam\<rparr> (fst s))" by (simp add: fine_def)
  then show ?thesis by (auto simp: ExposeSecretEnvVarAction Run_def run_exposeSecret_def split: sum.split)
next
  case (ExposeConfigMapEnvVarAction nam ns msg)
  with assms(2) have "\<not> isl (get_ConfigMap api \<lparr>key_Namespace = ns, key_Name = nam\<rparr> (fst s))" by (simp add: fine_def)
  then show ?thesis by (auto simp: ExposeConfigMapEnvVarAction Run_def run_exposeConfigMap_def split: sum.split)
qed (use assms in \<open>simp_all add: Run_def fine_def run_delete_def lift_api_def accepting_def run_routeReady_def
    run_ingressReady_def\<close>)

lemma fine_RunAll:
  assumes "accepting api" "list_all (fine api) as"
  shows "\<exists>s'. RunAll api cr as s = (None, s')"
  using assms(2)
proof (induction as arbitrary: s)
  case (Cons a as)
  obtain s1 where "Run api cr a s = (None, s1)"
    using fine_Run [OF assms(1), of a cr s] Cons.prems by (metis list.pred_inject(2) prod.collapse)
  with Cons show ?case by simp
qed simp

text \<open>Actions that wait do so whatever the cluster takes.\<close>

definition waits :: "ClusterAction \<Rightarrow> bool" where
  "waits a =
     (case a of
        RouteReadyAction r _ \<Rightarrow> \<not> IsRouteReady r
      | IngressReadyAction i _ \<Rightarrow> \<not> IsIngressReady i
      | DeploymentReadyAction d _ \<Rightarrow> IsDeploymentReady d \<noteq> Inr True
      | _ \<Rightarrow> False)"

lemma waits_Run: "waits a \<Longrightarrow> fst (Run api cr a s) \<noteq> None"
  by (auto simp: waits_def Run_def run_routeReady_def run_ingressReady_def run_deploymentReady_def
      split: ClusterAction.splits sum.splits if_splits)

lemma waits_RunAll:
  assumes "waits a" "a \<in> set as"
  shows "RunAll api cr as s \<noteq> (None, s')"
  using assms(2)
proof (induction as arbitrary: s)
  case (Cons b as)
  then show ?case
    using waits_Run [OF assms(1), of api cr s] by (auto split: prod.split option.split)
qed simp

text \<open>What the plans of a reconciliation wait for.\<close>

definition instance_ready :: "ClusterState \<Rightarrow> (string \<rightharpoonup> conf_value) \<Rightarrow> Grafana \<Rightarrow> bool" where
  "instance_ready st vs cr \<longleftrightarrow>
     IsDeploymentReady (cs_Deployment st) = Inr True
     \<and> (external_access cr \<and> \<not> GetPreferServiceValue cr \<longrightarrow>
          (if GetConfigBool vs ConfigOpenshift False = Inr True then IsRouteReady (cs_Route st)
           else IsIngressReady (cs_Ingress st)))"

lemma writes_fine:
  "getGrafanaAdminUserSecretDesiredState out st rc = Inr (a, rc') \<Longrightarrow> list_all (fine api) (opt_list a)"
  "getGrafanaServiceDesiredState st rc = Inr (a, rc') \<Longrightarrow> list_all (fine api) (opt_list a)"
  "(if UsedPersistentVolume (rc_cr rc) then getGrafanaDataPvcDesiredState st rc else Inr (None, rc)) = Inr (a, rc')
     \<Longrightarrow> list_all (fine api) (opt_list a)"
  "getGrafanaServiceAccountDesiredState st rc = Inr (a, rc') \<Longrightarrow> list_all (fine api) (opt_list a)"
  "getGrafanaConfigDesiredState out st rc = Inr (as, rc') \<Longrightarrow> list_all (fine api) as"
  "getGrafanaDatasourceConfigDesiredState st rc = Inr (a, rc') \<Longrightarrow> list_all (fine api) (opt_list a)"
  "getGrafanaPluginsDesiredState out rc = Inr (a, rc') \<Longrightarrow> list_all (fine api) (opt_list a)"
  "getGrafanaDeploymentDesiredState st rc = Inr (a, rc') \<Longrightarrow> list_all (fine api) (opt_list a)"
  by (auto simp: getGrafanaAdminUserSecretDesiredState_def getGrafanaServiceDesiredState_def fine_def
      getGrafanaDataPvcDesiredState_def getGrafanaServiceAccountDesiredState_def getGrafanaConfigDesiredState_def
      getGrafanaDatasourceConfigDesiredState_def getGrafanaPluginsDesiredState_def getGrafanaDeploymentDesiredState_def
      go_bind_eq_Inr Let_def split: option.splits if_splits prod.splits)

lemma access_fine:
  "getGrafanaExternalAccessDesiredState st rc = Inr (a, rc') \<Longrightarrow> list_all (fine api) (opt_list a)"
  by (auto simp: getGrafanaExternalAccessDesiredState_def getGrafanaRouteDesiredState_def fine_def
      getGrafanaIngressDesiredState_def go_bind_eq_Inr split: option.splits if_splits bool.splits)

lemma readiness_fine:
  assumes "getGrafanaReadiness st rc = Inr as"
  shows "list_all (fine api) as \<longleftrightarrow> instance_ready st (rc_Values rc) (rc_cr rc)"
    "list_ex waits as \<longleftrightarrow> \<not> instance_ready st (rc_Values rc) (rc_cr rc)"
  using assms
  by (auto simp: getGrafanaReadiness_def go_bind_eq_Inr instance_ready_def fine_def waits_def Let_def split: if_splits)

lemma plan_waits:
  assumes "Reconcile out st rc = Inr (plan, rc')"
    and "list_all (fine api) (getEnvVarsDesiredState st (rc_cr rc))"
  shows "if instance_ready st (rc_Values rc) (rc_cr rc) then list_all (fine api) plan else list_ex waits plan"
  using assms(1)
proof (rule Reconcile_parts)
  fix a1 rc1 a2 rc2 a3 a4 as5 rc5 a6 rc6 a7 a8 rc8 a9 as
  assume s: "getGrafanaAdminUserSecretDesiredState out st rc = Inr (a1, rc1)"
    "getGrafanaServiceDesiredState st rc1 = Inr (a2, rc2)"
    "(if UsedPersistentVolume (rc_cr rc2) then getGrafanaDataPvcDesiredState st rc2 else Inr (None, rc2)) = Inr (a3, rc2)"
    "getGrafanaServiceAccountDesiredState st rc2 = Inr (a4, rc2)"
    "getGrafanaConfigDesiredState out st rc2 = Inr (as5, rc5)"
    "getGrafanaDatasourceConfigDesiredState st rc5 = Inr (a6, rc6)"
    "getGrafanaExternalAccessDesiredState st rc6 = Inr (a7, rc6)"
    "getGrafanaPluginsDesiredState out rc6 = Inr (a8, rc8)"
    "getGrafanaDeploymentDesiredState st rc8 = Inr (a9, rc')" "getGrafanaReadiness st rc8 = Inr as"
    "plan = opt_list a1 @ opt_list a2 @ opt_list a3 @ opt_list a4 @ as5 @ opt_list a6 @ opt_list a7
       @ opt_list a8 @ opt_list a9 @ getEnvVarsDesiredState st (rc_cr rc8) @ as"
  have f: "frame rc rc8" by (rule step_frames(6) [OF s(1,2,5,6,8)])
  then have "creates_account_explicitly (rc_cr rc8) = creates_account_explicitly (rc_cr rc)"
    by (simp add: frame_def creates_account_explicitly_def)
  with f have env: "getEnvVarsDesiredState st (rc_cr rc8) = getEnvVarsDesiredState st (rc_cr rc)"
    and ready: "instance_ready st (rc_Values rc8) (rc_cr rc8) = instance_ready st (rc_Values rc) (rc_cr rc)"
    by (simp_all add: frame_def getEnvVarsDesiredState_def instance_ready_def external_access_def GetPreferServiceValue_def
        cong: option.case_cong if_cong)
  note w = writes_fine [where api = api]
  note fine = w(1) [OF s(1)] w(2) [OF s(2)] w(3) [OF s(3)] w(4) [OF s(4)]
    w(5) [OF s(5)] w(6) [OF s(6)] access_fine [where api = api, OF s(7)] w(7) [OF s(8)] w(8) [OF s(9)]
  show ?thesis
    using readiness_fine(1) [where api = api, OF s(10)] readiness_fine(2) [OF s(10)] fine assms(2) by (simp add: s(11) env ready)
qed

lemma RunAll_completes:
  assumes "Reconcile out st rc = Inr (plan, rc')" "accepting api"
    and "list_all (fine api) (getEnvVarsDesiredState st (rc_cr rc))"
  shows "(\<exists>s'. RunAll api cr plan s = (None, s')) \<longleftrightarrow> instance_ready st (rc_Values rc) (rc_cr rc)"
proof (cases "instance_ready st (rc_Values rc) (rc_cr rc)")
  case True
  with plan_waits [OF assms(1,3)] fine_RunAll [OF assms(2)] show ?thesis by simp
next
  case False
  with plan_waits [OF assms(1,3)] obtain a where "waits a" "a \<in> set plan" by (auto simp: list_ex_iff)
  with False waits_RunAll show ?thesis by blast
qed

subsection \<open>A call that finds everything ready\<close>

text \<open>
  The cluster takes the writes, reads and stores the status without touching the rest of the
  resource, and Grafana and the role bindings can be asked.
\<close>

definition healthy :: "('w, 'v) grafana_env \<Rightarrow> ObjectKey \<Rightarrow> bool" where
  "healthy env request \<longleftrightarrow>
     accepting (ge_api env) \<and> (\<forall>w. \<not> isl (ge_get env request w))
     \<and> (\<forall>cr w. case ge_update_status env cr w of (err, cr', _) \<Rightarrow> err = None \<and> Spec cr' = Spec cr \<and> meta cr' = meta cr)
     \<and> completes (GiveAdmin (ge_network env))"

text \<open>What a plan leaves of the resource.\<close>

definition same_access :: "Grafana \<Rightarrow> Grafana \<Rightarrow> bool" where
  "same_access cr cr' \<longleftrightarrow>
     meta cr' = meta cr \<and> spec_Client (Spec cr') = spec_Client (Spec cr) \<and> spec_Ingress (Spec cr') = spec_Ingress (Spec cr)
     \<and> spec_Config (Spec cr') = spec_Config (Spec cr) \<and> spec_Jsonnet (Spec cr') = spec_Jsonnet (Spec cr)"

lemma same_access_trans: "same_access a b \<Longrightarrow> same_access b c \<Longrightarrow> same_access a c"
  by (simp add: same_access_def)

lemma same_access_spec: "Spec cr' = Spec cr \<Longrightarrow> meta cr' = meta cr \<Longrightarrow> same_access cr cr'"
  by (simp add: same_access_def)

lemma admin_url_same:
  assumes "same_access cr cr'"
  shows "getGrafanaAdminUrl cr' st = getGrafanaAdminUrl cr st"
proof -
  have "GetGrafanaPort cr' = GetGrafanaPort cr" "GetHost cr' = GetHost cr" "GetPreferServiceValue cr' = GetPreferServiceValue cr"
    using assms by (simp_all add: same_access_def GetGrafanaPort_def GetHost_def GetPreferServiceValue_def)
  with assms show ?thesis by (simp only: getGrafanaAdminUrl_def same_access_def)
qed

lemma plan_same_access:
  assumes "Reconcile out st rc = Inr (plan, rc')"
  shows "same_access (rc_cr rc) (rc_cr rc')" "rc_Values rc' = rc_Values rc"
proof -
  obtain rc8 where r: "frame rc rc8" "rc' = share_pod_labels rc8" using Reconcile_frames [OF assms] by blast
  then show "same_access (rc_cr rc) (rc_cr rc')" "rc_Values rc' = rc_Values rc"
    by (auto simp: frame_def same_access_def share_pod_labels_def Let_def rc_Values_def split: option.split)
qed

lemma healthy_publish:
  assumes "healthy env request" "getGrafanaAdminUrl cr st = Inr url"
  shows "\<exists>s'. publish_state env request st cr s = (Done (requeue_later, None), s')
     \<and> op_Events s' = op_Events s @ [controller_state cr url]"
proof -
  have "completes (GiveAdmin (ge_network env))" using assms(1) by (simp add: healthy_def)
  then obtain u s' where "GiveAdmin (ge_network env) (s\<lparr>op_Events := op_Events s @ [controller_state cr url]\<rparr>) = (Done u, s')"
    unfolding completes_def by blast
  moreover from keepsD [OF keeps_GiveAdmin(1) this] have "op_Events s' = op_Events s @ [controller_state cr url]" by simp
  ultimately show ?thesis using assms(2) by (simp add: publish_state_def publish_def)
qed

lemma healthy_success:
  assumes "healthy env request" "getGrafanaAdminUrl cr st = Inr url" "values_typed (cc_Values (op_Config s))"
  shows "\<exists>s' cr'. manageSuccess env request cr st s = (Done (requeue_later, None), s')
     \<and> op_Events s' = op_Events s @ [controller_state cr' url]"
proof -
  obtain synced where sy: "GetConfigBool (cc_Values (op_Config s)) ConfigGrafanaDashboardsSynced False = Inr synced"
    using assms(3) readable_bool_iff [where k = ConfigGrafanaDashboardsSynced and d = False]
    by (auto simp: values_typed_iff bool_items_def)
  define cr1 where "cr1 = success_status synced (cc_Dashboards (op_Config s)) cr"
  have c1: "Spec cr1 = Spec cr" "meta cr1 = meta cr" by (simp_all add: cr1_def success_status_def Let_def)
  obtain s1 where s1: "(if \<not> synced \<and> cc_Dashboards (op_Config s) = [] then on_config (\<lambda>c. SetDashboards c []) else ret ()) s = (Done (), s1)"
    "op_Events s1 = op_Events s"
    by (cases "\<not> synced \<and> cc_Dashboards (op_Config s) = []") (auto simp: on_config_def)
  have "\<not> isl (ge_get env request (op_World s1))" using assms(1) by (simp add: healthy_def)
  then obtain inst where inst: "ge_get env request (op_World s1) = Inr inst" by (cases "ge_get env request (op_World s1)") auto
  obtain err cr2 w where u: "ge_update_status env cr1 (op_World s1) = (err, cr2, w)" by (cases "ge_update_status env cr1 (op_World s1)")
  moreover have "case ge_update_status env cr1 (op_World s1) of (err, cr', _) \<Rightarrow> err = None \<and> Spec cr' = Spec cr1 \<and> meta cr' = meta cr1"
    using assms(1) by (simp only: healthy_def)
  ultimately have u2: "err = None" "Spec cr2 = Spec cr1" "meta cr2 = meta cr1" by simp_all
  have url: "getGrafanaAdminUrl cr1 st = Inr url" "getGrafanaAdminUrl cr2 st = Inr url"
    using admin_url_same [OF same_access_spec] c1 u2 assms(2) by metis+
  have "\<exists>s' cr'. write_status env request st cr1 s1 = (Done (requeue_later, None), s') \<and> op_Events s' = op_Events s @ [controller_state cr' url]"
  proof (cases "ge_DeepEqual env (Status cr1) (Status inst)")
    case True
    with healthy_publish [OF assms(1) url(1), of s1] s1(2) inst show ?thesis by (auto simp: write_status_def)
  next
    case False
    with healthy_publish [OF assms(1) url(2), of "s1\<lparr>op_World := w\<rparr>"] s1(2) inst u u2(1) show ?thesis
      by (auto simp: write_status_def update_status_def on_world_def)
  qed
  with sy s1(1) show ?thesis
    by (auto simp: manageSuccess_def cr1_def [symmetric])
qed

lemma healthy_announces:
  assumes "healthy env request" "ge_get env request (op_World s) = Inr cr" "values_typed (cc_Values (op_Config s))"
    and "Read (ge_api env) (op_World s) (cc_Values (op_Config s)) cr NewClusterState = Inr (Inr st)"
    and "oauth_url_given cr" "config_data_given st" "service_given st cr"
    and "instance_ready st (cc_Values (op_Config s)) cr" "list_all (fine (ge_api env)) (getEnvVarsDesiredState st cr)"
    and "spec_Jsonnet (Spec cr) = None" "getGrafanaAdminUrl cr st = Inr url"
  shows "\<exists>s' e. ReconcileGrafana env request s = (Done (requeue_later, None), s')
     \<and> op_Events s' = op_Events s @ [e] \<and> GrafanaReady e \<and> AdminUrl e = url"
proof -
  let ?rc = "NewGrafanaReconciler cr (op_Config s) (op_Env s) (op_HyperauthUrl s)"
  have rc: "rc_cr ?rc = cr" "rc_Values ?rc = cc_Values (op_Config s)"
    by (simp_all add: NewGrafanaReconciler_def rc_Values_def)
  obtain plan rc' where plan: "Reconcile (ge_outside env (op_World s)) st ?rc = Inr (plan, rc')"
    using Reconcile_returns [of "ge_outside env (op_World s)" st ?rc] assms(3,5-7) values_typed_readable by (auto simp: rc)
  define s1 where "s1 = s\<lparr>op_Config := rc_Config rc', op_HyperauthUrl := rc_HyperauthUrl rc'\<rparr>"
  have d: "desired_state env st cr s = (Done (plan, rc_cr rc'), s1)" by (simp add: desired_state_def plan s1_def)
  have "accepting (ge_api env)" using assms(1) by (simp add: healthy_def)
  then obtain w environ where run: "RunAll (ge_api env) (rc_cr rc') plan (op_World s1, op_Env s1) = (None, (w, environ))"
    using RunAll_completes [OF plan, of "ge_api env" "rc_cr rc'" "(op_World s1, op_Env s1)"] assms(8,9) by (auto simp: rc)
  define s2 where "s2 = s1\<lparr>op_World := w, op_Env := environ\<rparr>"
  have r: "run_plan env (rc_cr rc') plan s1 = (Done None, s2)" by (simp add: run_plan_def run s2_def)
  have same: "same_access cr (rc_cr rc')" and vals: "cc_Values (op_Config s2) = cc_Values (op_Config s)"
    using plan_same_access [OF plan] by (simp_all add: rc s2_def s1_def rc_Values_def NewGrafanaReconciler_def)
  have j: "reconcileConfigMaps env (rc_cr rc') s2 = (Done (), s2)"
    using same assms(10) by (simp add: reconcileConfigMaps_def same_access_def)
  have "getGrafanaAdminUrl (rc_cr rc') st = Inr url" using admin_url_same [OF same] assms(11) by simp
  moreover have "values_typed (cc_Values (op_Config s2))" using assms(3) by (simp add: vals)
  ultimately obtain s' cr' where m: "manageSuccess env request (rc_cr rc') st s2 = (Done (requeue_later, None), s')"
    "op_Events s' = op_Events s2 @ [controller_state cr' url]"
    using healthy_success [OF assms(1)] by blast
  have "reconcile_found env request cr s = (Done (requeue_later, None), s')"
    using assms(4) d r j m(1) by (simp add: reconcile_found_def)
  with m(2) assms(2) show ?thesis
    by (auto simp: ReconcileGrafana_def s2_def s1_def controller_state_ready)
qed

subsection \<open>Properties\<close>

text \<open>
  C7: on a cluster that takes every write, and has the secrets and configuration maps whose
  variables the plan exposes, the plan of a reconciliation completes exactly when the deployment
  that was read is ready, and, for an instance that is reached from outside, so is its route or,
  outside of OpenShift, its ingress; nothing else in a plan can fail.
\<close>
theorem plan_completes_iff:
  assumes "Reconcile out st rc = Inr (plan, rc')" "accepting api"
    and "list_all (fine api) (getEnvVarsDesiredState st (rc_cr rc))"
  shows "(\<exists>s'. RunAll api cr plan s = (None, s')) \<longleftrightarrow> instance_ready st (rc_Values rc) (rc_cr rc)"
  using assms by (rule RunAll_completes)


subsection \<open>A cluster with a Grafana that is ready, for the examples\<close>

definition ready_service :: Service where
  "ready_service = \<lparr>svc_meta = new_meta ''grafana-service'' ''ns'' None None, svc_Ports = [], svc_Selector = None,
     svc_ClusterIP = [], svc_Type = [], svc_rest = []\<rparr>"

definition ready_api :: "unit api" where
  "ready_api = broken_api\<lparr>get_Service := \<lambda>_ _. Inr ready_service,
     get_ConfigMap := \<lambda>_ _. Inr \<lparr>cm_meta = new_meta GrafanaConfigName ''ns'' None None, cm_Data = Some (\<lambda>_. None), cm_rest = []\<rparr>,
     get_Deployment := \<lambda>_ _. Inr (empty_deployment (meta bare_grafana))\<rparr>"

definition ready_env :: "(unit, int) grafana_env" where
  "ready_env = broken_env\<lparr>ge_api := ready_api, ge_get := \<lambda>_ _. Inr oauth_grafana\<rparr>"

lemma ready_healthy: "healthy ready_env request"
  by (simp add: healthy_def ready_env_def ready_api_def broken_env_def broken_api_def accepting_def GiveAdmin_def
      GetCRBAdmin_def completes_def seq_def on_world_def)

definition ready_state :: ClusterState where
  "ready_state = NewClusterState\<lparr>cs_Service := Some ready_service,
     cs_Config := Some \<lparr>cm_meta = new_meta GrafanaConfigName ''ns'' None None, cm_Data = Some (\<lambda>_. None), cm_rest = []\<rparr>,
     cs_DataSourceConfig := Some \<lparr>cm_meta = new_meta GrafanaConfigName ''ns'' None None, cm_Data = Some (\<lambda>_. None), cm_rest = []\<rparr>,
     cs_Deployment := Some (empty_deployment (meta bare_grafana))\<rparr>"

lemma ready_read:
  assumes "values_typed vs"
  shows "Read ready_api w vs oauth_grafana NewClusterState = Inr (Inr ready_state)"
proof -
  obtain b where "GetConfigBool vs ConfigOpenshift False = Inr b"
    using assms readable_bool_iff [where k = ConfigOpenshift and d = False] by (auto simp: values_typed_iff bool_items_def)
  then show ?thesis
    by (cases b) (simp_all add: Read_def readGrafanaService_def readGrafanaServiceAccount_def readGrafanaConfig_def
        readGrafanaDatasourceConfig_def readGrafanaDeployment_def readGrafanaAdminUserSecret_def readGrafanaRoute_def
        readGrafanaIngress_def found_def ready_api_def broken_api_def ready_state_def UsedPersistentVolume_def
        oauth_grafana_def bare_grafana_def bare_spec_def)
qed

lemma ready_conditions:
  "oauth_url_given oauth_grafana" "config_data_given ready_state" "service_given ready_state oauth_grafana"
  "instance_ready ready_state vs oauth_grafana" "getEnvVarsDesiredState ready_state oauth_grafana = []"
  "spec_Jsonnet (Spec oauth_grafana) = None" "\<exists>url. getGrafanaAdminUrl oauth_grafana ready_state = Inr url"
  by (simp_all add: oauth_url_given_def config_data_given_def service_given_def instance_ready_def oauth_grafana_def
      ready_state_def bare_grafana_def bare_spec_def IsDeploymentReady_def empty_deployment_def external_access_def
      getEnvVarsDesiredState_def getGrafanaAdminUrl_def NewClusterState_def ready_service_def new_meta_def Let_def)

lemma ready_call:
  assumes "values_typed (cc_Values (op_Config s))"
  shows "\<exists>s' e. ReconcileGrafana ready_env request s = (Done (requeue_later, None), s')
     \<and> op_Events s' = op_Events s @ [e] \<and> GrafanaReady e"
proof -
  have env: "ge_get ready_env request (op_World s) = Inr oauth_grafana" "ge_api ready_env = ready_api"
    by (simp_all add: ready_env_def)
  obtain url where url: "getGrafanaAdminUrl oauth_grafana ready_state = Inr url" using ready_conditions(7) by blast
  have "list_all (fine (ge_api ready_env)) (getEnvVarsDesiredState ready_state oauth_grafana)" by (simp add: ready_conditions)
  from healthy_announces [OF ready_healthy env(1) assms _ ready_conditions(1-4) this ready_conditions(6) url] ready_read [OF assms]
  show ?thesis unfolding env(2) by blast
qed

lemma plan_completes_iff_witness:
  "\<exists>plan rc'. Reconcile quiet ready_state fresh = Inr (plan, rc')
     \<and> (\<forall>cr s. \<exists>s'. RunAll ready_api cr plan s = (None, s'))"
proof -
  obtain plan rc' where plan: "Reconcile quiet ready_state fresh = Inr (plan, rc')"
    using fresh_returns ready_conditions(2) by blast
  have cr: "rc_cr fresh = oauth_grafana" by (simp add: fresh_def NewGrafanaReconciler_def)
  have "accepting ready_api" using ready_healthy [of undefined] by (simp add: healthy_def ready_env_def)
  moreover have "list_all (fine ready_api) (getEnvVarsDesiredState ready_state (rc_cr fresh))"
    by (simp add: cr ready_conditions)
  ultimately have "\<exists>s'. RunAll ready_api cr plan s = (None, s')" for cr s
    using plan_completes_iff [OF plan, of ready_api cr s] ready_conditions(4) by (simp add: cr)
  with plan show ?thesis by blast
qed


end
