(* ===== verification/Cluster_Store.thy ===== *)
theory Cluster_Store
  imports Grafana_Readiness
begin

text \<open>
  Reconciling against a cluster that stores the objects of the instance: reading gives what is
  stored, a plan that completes leaves what \<open>apply_plan\<close> says, owned by the instance, and a second
  reconciliation leaves every object as it is. The store takes objects as they are written; what
  a server adds by itself, such as versions and defaults, is left out.
\<close>

subsection \<open>Owned objects\<close>

text \<open>
  \<open>SetControllerReference\<close> changes the part of the metadata that the code does not look at:
  \<open>own\<close> makes the instance the owner.
\<close>

definition own_meta :: "(opaque \<Rightarrow> opaque) \<Rightarrow> ObjectMeta \<Rightarrow> ObjectMeta" where
  "own_meta own m = m\<lparr>om_rest := own (om_rest m)\<rparr>"

definition own_object :: "(opaque \<Rightarrow> opaque) \<Rightarrow> k8s_object \<Rightarrow> k8s_object" where
  "own_object own obj =
     (case obj of
        KService x \<Rightarrow> KService (svc_meta_update (own_meta own) x)
      | KPVC x \<Rightarrow> KPVC (pvc_meta_update (own_meta own) x)
      | KServiceAccount x \<Rightarrow> KServiceAccount (sa_meta_update (own_meta own) x)
      | KConfigMap x \<Rightarrow> KConfigMap (cm_meta_update (own_meta own) x)
      | KRoute x \<Rightarrow> KRoute (rt_meta_update (own_meta own) x)
      | KIngress x \<Rightarrow> KIngress (ing_meta_update (own_meta own) x)
      | KDeployment x \<Rightarrow> KDeployment (dep_meta_update (own_meta own) x)
      | KSecret x \<Rightarrow> KSecret (sec_meta_update (own_meta own) x))"

definition own_state :: "(opaque \<Rightarrow> opaque) \<Rightarrow> ClusterState \<Rightarrow> ClusterState" where
  "own_state own st =
     \<lparr>cs_Service = map_option (svc_meta_update (own_meta own)) (cs_Service st),
      cs_PVC = map_option (pvc_meta_update (own_meta own)) (cs_PVC st),
      cs_ServiceAccount = map_option (sa_meta_update (own_meta own)) (cs_ServiceAccount st),
      cs_Config = map_option (cm_meta_update (own_meta own)) (cs_Config st),
      cs_Route = map_option (rt_meta_update (own_meta own)) (cs_Route st),
      cs_Ingress = map_option (ing_meta_update (own_meta own)) (cs_Ingress st),
      cs_Deployment = map_option (dep_meta_update (own_meta own)) (cs_Deployment st),
      cs_DataSourceConfig = map_option (cm_meta_update (own_meta own)) (cs_DataSourceConfig st),
      cs_AdminSecret = map_option (sec_meta_update (own_meta own)) (cs_AdminSecret st)\<rparr>"

lemma own_meta_simps [simp]:
  "om_Name (own_meta own m) = om_Name m" "om_Namespace (own_meta own m) = om_Namespace m"
  "om_Labels (own_meta own m) = om_Labels m" "om_Annotations (own_meta own m) = om_Annotations m"
  "own_meta own (m\<lparr>om_Name := n\<rparr>) = (own_meta own m)\<lparr>om_Name := n\<rparr>"
  "own_meta own (m\<lparr>om_Labels := l\<rparr>) = (own_meta own m)\<lparr>om_Labels := l\<rparr>"
  "own_meta own (m\<lparr>om_Annotations := a\<rparr>) = (own_meta own m)\<lparr>om_Annotations := a\<rparr>"
  by (simp_all add: own_meta_def)

lemma own_store: "store (own_state own st) (own_object own obj) = own_state own (store st obj)"
  by (cases obj) (simp_all add: store_def own_object_def own_state_def)

lemma own_remove: "remove (own_state own st) obj = own_state own (remove st obj)"
  by (cases obj) (simp_all add: remove_def own_state_def)

subsection \<open>A cluster that stores objects\<close>

definition stored :: "'a option \<Rightarrow> api_error + 'a" where
  "stored q = (case q of None \<Rightarrow> Inl NotFound | Some x \<Rightarrow> Inr x)"

text \<open>
  The objects of an instance in a world, and what the client does with them. A deletion is one of
  the objects of the instance, or of a service with another name.
\<close>

definition serves :: "'w api \<Rightarrow> ('w \<Rightarrow> ClusterState) \<Rightarrow> Grafana \<Rightarrow> bool" where
  "serves api view cr \<longleftrightarrow> (\<forall>w.
     get_Service api (GrafanaServiceSelector cr) w = stored (cs_Service (view w))
     \<and> get_PVC api (GrafanaDataStorageSelector cr) w = stored (cs_PVC (view w))
     \<and> get_ServiceAccount api (GrafanaServiceAccountSelector cr) w = stored (cs_ServiceAccount (view w))
     \<and> get_ConfigMap api (GrafanaConfigSelector cr) w = stored (cs_Config (view w))
     \<and> get_ConfigMap api (GrafanaDatasourceConfigSelector cr) w = stored (cs_DataSourceConfig (view w))
     \<and> get_Deployment api (GrafanaDeploymentSelector cr) w = stored (cs_Deployment (view w))
     \<and> get_Secret api (AdminSecretSelector cr) w = stored (cs_AdminSecret (view w))
     \<and> get_Route api (GrafanaRouteSelector cr) w = stored (cs_Route (view w))
     \<and> get_Ingress api (GrafanaIngressSelector cr) w = stored (cs_Ingress (view w)))"

definition takes :: "'w api \<Rightarrow> ('w \<Rightarrow> ClusterState) \<Rightarrow> (opaque \<Rightarrow> opaque) \<Rightarrow> Grafana \<Rightarrow> bool" where
  "takes api view own cr \<longleftrightarrow>
     (\<forall>cr' obj. meta cr' = meta cr \<longrightarrow> SetControllerReference api cr' obj = Inr (own_object own obj))
     \<and> (\<forall>obj w. fst (api_Create api obj w) = None \<and> view (snd (api_Create api obj w)) = store (view w) obj)
     \<and> (\<forall>obj w. fst (api_Update api obj w) = None \<and> view (snd (api_Update api obj w)) = store (view w) obj)
     \<and> (\<forall>obj w. fst (api_Delete api obj w) = None \<and> view (snd (api_Delete api obj w)) = remove (view w) obj)"

text \<open>Nothing is stored that a reconciliation would not read.\<close>

definition nothing_hidden :: "(string \<rightharpoonup> conf_value) \<Rightarrow> Grafana \<Rightarrow> ClusterState \<Rightarrow> bool" where
  "nothing_hidden vs cr st \<longleftrightarrow>
     (UsedPersistentVolume cr \<or> cs_PVC st = None)
     \<and> (if GetConfigBool vs ConfigOpenshift False = Inr True then cs_Ingress st = None else cs_Route st = None)"

lemma found_stored: "found (stored q) f st = Inr (case q of None \<Rightarrow> st | Some x \<Rightarrow> f x)"
  by (cases q) (simp_all add: found_def stored_def)

lemma Read_stored:
  assumes "serves api view cr" "GetConfigBool vs ConfigOpenshift False = Inr os" "nothing_hidden vs cr (view w)"
  shows "Read api w vs cr NewClusterState = Inr (Inr (view w))"
proof -
  have eqs: "readGrafanaService api w cr = (\<lambda>s. Inr (s\<lparr>cs_Service := kept (cs_Service s) (cs_Service (view w))\<rparr>))"
    "readGrafanaDataPVC api w cr = (\<lambda>s. Inr (s\<lparr>cs_PVC := kept (cs_PVC s) (cs_PVC (view w))\<rparr>))"
    "readGrafanaServiceAccount api w cr = (\<lambda>s. Inr (s\<lparr>cs_ServiceAccount := kept (cs_ServiceAccount s) (cs_ServiceAccount (view w))\<rparr>))"
    "readGrafanaConfig api w cr = (\<lambda>s. Inr (s\<lparr>cs_Config := kept (cs_Config s) (cs_Config (view w))\<rparr>))"
    "readGrafanaDatasourceConfig api w cr = (\<lambda>s. Inr (s\<lparr>cs_DataSourceConfig := kept (cs_DataSourceConfig s) (cs_DataSourceConfig (view w))\<rparr>))"
    "readGrafanaDeployment api w cr = (\<lambda>s. Inr (s\<lparr>cs_Deployment := kept (cs_Deployment s) (cs_Deployment (view w))\<rparr>))"
    "readGrafanaAdminUserSecret api w cr = (\<lambda>s. Inr (s\<lparr>cs_AdminSecret := kept (cs_AdminSecret s) (cs_AdminSecret (view w))\<rparr>))"
    "readGrafanaRoute api w cr = (\<lambda>s. Inr (s\<lparr>cs_Route := kept (cs_Route s) (cs_Route (view w))\<rparr>))"
    "readGrafanaIngress api w cr = (\<lambda>s. Inr (s\<lparr>cs_Ingress := kept (cs_Ingress s) (cs_Ingress (view w))\<rparr>))"
    using assms(1)
    by (simp_all add: fun_eq_iff serves_def found_stored observed_fields read_defs)
  from assms(3) show ?thesis
    by (cases os; cases "UsedPersistentVolume cr")
      (auto simp: Read_def assms(2) eqs NewClusterState_def nothing_hidden_def intro: ClusterState.equality)
qed

lemma Read_view:
  assumes "serves api view cr" "Read api w vs cr NewClusterState = Inr (Inr st)" "nothing_hidden vs cr (view w)"
  shows "st = view w"
proof -
  from assms(2) obtain os where "GetConfigBool vs ConfigOpenshift False = Inr os"
    by (auto simp: Read_def go_bind_eq_Inr)
  from Read_stored [where w = w, OF assms(1) this assms(3)] assms(2) show ?thesis by simp
qed

subsection \<open>Running a plan\<close>

lemma Run_view:
  assumes "takes api view own cr" "meta cr' = meta cr" "own_state own (view (fst s)) = view (fst s)"
    "Run api cr' a s = (err, s')"
  shows "view (fst s') = own_state own (apply_action (view (fst s)) a)"
proof -
  have w: "view (snd (api_Create api (own_object own obj) (fst s))) = own_state own (store (view (fst s)) obj)"
    "view (snd (api_Update api (own_object own obj) (fst s))) = own_state own (store (view (fst s)) obj)"
    "view (snd (api_Delete api obj (fst s))) = own_state own (remove (view (fst s)) obj)" for obj
    using assms(1) own_store [of own "view (fst s)" obj] own_remove [of own "view (fst s)" obj]
    by (simp_all add: takes_def assms(3))
  have r: "SetControllerReference api cr' obj = Inr (own_object own obj)" "fst (api_Update api obj (fst s)) = None" for obj
    using assms(1,2) by (simp_all add: takes_def)
  show ?thesis
    using assms(3,4)
    by (cases a) (auto simp: Run_def run_create_def run_update_def run_delete_def run_exposeSecret_def
        run_exposeConfigMap_def lift_api_def r w split: sum.splits)
qed

lemma own_state_idem:
  assumes "\<forall>r. own (own r) = own r"
  shows "own_state own (own_state own st) = own_state own st"
proof -
  have "own_meta own (own_meta own m) = own_meta own m" for m using assms by (simp add: own_meta_def)
  then have m: "own_meta own \<circ> own_meta own = own_meta own" by auto
  show ?thesis by (simp add: own_state_def option.map_comp comp_def m [unfolded comp_def])
qed

lemma own_apply_plan: "own_state own (apply_plan (own_state own st) plan) = own_state own (apply_plan st plan)"
  if "\<forall>r. own (own r) = own r"
proof (induction plan arbitrary: st)
  case (Cons a plan)
  have "own_state own (apply_action (own_state own st) a) = own_state own (apply_action st a)"
  proof (cases a)
    case (GenericCreateAction obj m)
    then show ?thesis
      using own_store [of own "own_state own st" obj] own_store [of own st obj] own_state_idem [OF that] by simp
  next
    case (GenericUpdateAction obj m)
    then show ?thesis
      using own_store [of own "own_state own st" obj] own_store [of own st obj] own_state_idem [OF that] by simp
  next
    case (GenericDeleteAction obj m)
    then show ?thesis
      using own_remove [of own "own_state own st" obj] own_remove [of own st obj] own_state_idem [OF that] by simp
  qed (simp_all add: own_state_idem [OF that])
  then show ?case by (metis Cons.IH apply_plan_simps(2))
qed (simp add: own_state_idem [OF that])

lemma RunAll_view:
  assumes "takes api view own cr" "meta cr' = meta cr" "\<forall>r. own (own r) = own r"
    "own_state own (view w) = view w" "RunAll api cr' plan (w, e) = (None, (w', e'))"
  shows "view w' = own_state own (apply_plan (view w) plan)"
  using assms(4,5)
proof (induction plan arbitrary: w e)
  case (Cons a plan)
  obtain err s1 where a: "Run api cr' a (w, e) = (err, s1)" by (cases "Run api cr' a (w, e)")
  with Cons.prems(2) have none: "err = None" and rest: "RunAll api cr' plan (fst s1, snd s1) = (None, (w', e'))"
    by (auto split: option.splits)
  have v: "view (fst s1) = own_state own (apply_action (view w) a)"
    using Run_view [OF assms(1,2) _ a] Cons.prems(1) by simp
  then have "own_state own (view (fst s1)) = view (fst s1)" by (simp add: own_state_idem [OF assms(3)])
  from Cons.IH [OF this rest] show ?case by (simp add: v own_apply_plan [OF assms(3)])
qed simp

subsection \<open>The next objects of owned objects\<close>

lemma own_updates:
  "GrafanaServiceReconciled cr (svc_meta_update (own_meta own) x1) = svc_meta_update (own_meta own) (GrafanaServiceReconciled cr x1)"
  "GrafanaPVCReconciled cr (pvc_meta_update (own_meta own) x2) = pvc_meta_update (own_meta own) (GrafanaPVCReconciled cr x2)"
  "GrafanaServiceAccountReconciled cr (sa_meta_update (own_meta own) x3) = sa_meta_update (own_meta own) (GrafanaServiceAccountReconciled cr x3)"
  "fst (AdminSecretReconciled rnd env cr (sec_meta_update (own_meta own) x4)) = sec_meta_update (own_meta own) (fst (AdminSecretReconciled rnd env cr x4))"
  "GrafanaConfigReconciled pf cr (cm_meta_update (own_meta own) x5) = map_sum id (cm_meta_update (own_meta own)) (GrafanaConfigReconciled pf cr x5)"
  "GrafanaRouteReconciled cr (rt_meta_update (own_meta own) x6) = rt_meta_update (own_meta own) (GrafanaRouteReconciled cr x6)"
  "GrafanaIngressReconciled cr (ing_meta_update (own_meta own) x7) = map_sum id (ing_meta_update (own_meta own)) (GrafanaIngressReconciled cr x7)"
  by (simp_all add: GrafanaServiceReconciled_def GrafanaPVCReconciled_def GrafanaServiceAccountReconciled_def
      AdminSecretReconciled_def GrafanaConfigReconciled_def GrafanaRouteReconciled_def GrafanaIngressReconciled_def
      getServicePorts_def getData_def getAdminUser_def getAdminPassword_def go_bind_def Let_def split: option.split sum.split prod.split)

lemma own_deployment:
  "GrafanaDeploymentReconciled vs cr (dep_meta_update (own_meta own) d) h p ds
     = map_sum id (dep_meta_update (own_meta own)) (GrafanaDeploymentReconciled vs cr d h p ds)"
  by (simp add: GrafanaDeploymentReconciled_def getDeploymentSpec_def go_bind_def Let_def split: sum.split)

text \<open>Owning the objects before they are updated makes no difference to the owned result.\<close>

lemma own_next:
  assumes "\<forall>r. own (own r) = own r"
  shows "own_state own (next_state rnd os cr (own_state own st) (cm_meta_update (own_meta own) cm) (dep_meta_update (own_meta own) d))
    = own_state own (next_state rnd os cr st cm d)"
proof -
  have "own_meta own (own_meta own m) = own_meta own m" for m using assms by (simp add: own_meta_def)
  then have m [simp]: "own_meta own \<circ> own_meta own = own_meta own" by auto
  have secret: "sec_meta_update (own_meta own) (fst (AdminSecretReconciled rnd (\<lambda>_. None) cr (sec_meta_update (own_meta own) x)))
      = sec_meta_update (own_meta own) (fst (AdminSecretReconciled rnd (\<lambda>_. None) cr x))" for x
    by (simp add: own_updates m [unfolded comp_def])
  have ingress: "ing_meta_update (own_meta own) (projr (GrafanaIngressReconciled cr (ing_meta_update (own_meta own) x)))
      = ing_meta_update (own_meta own) (projr (GrafanaIngressReconciled cr x))" if "external_access cr" for x
  proof -
    have "spec_Ingress (Spec cr) \<noteq> None" using that by (cases "spec_Ingress (Spec cr)") (simp_all add: external_access_def)
    from getIngressSpec_returns [OF this] obtain s where "getIngressSpec cr = Inr s" by blast
    then obtain y where "GrafanaIngressReconciled cr x = Inr y" by (auto simp: GrafanaIngressReconciled_def)
    then show ?thesis by (simp add: own_updates m [unfolded comp_def])
  qed
  note own = own_updates(1-4,6) secret ingress m [unfolded comp_def] comp_def
  have "map_option (svc_meta_update (own_meta own)) (next_service cr (map_option (svc_meta_update (own_meta own)) q))
      = map_option (svc_meta_update (own_meta own)) (next_service cr q)" for q
    by (cases q) (simp_all add: next_service_def own)
  moreover have "map_option (pvc_meta_update (own_meta own)) (next_pvc cr (map_option (pvc_meta_update (own_meta own)) q))
      = map_option (pvc_meta_update (own_meta own)) (next_pvc cr q)" for q
    by (cases q) (simp_all add: next_pvc_def own)
  moreover have "map_option (sa_meta_update (own_meta own)) (next_account cr (map_option (sa_meta_update (own_meta own)) q))
      = map_option (sa_meta_update (own_meta own)) (next_account cr q)" for q
    by (cases q) (simp_all add: next_account_def own)
  moreover have "map_option (rt_meta_update (own_meta own)) (next_route os cr (map_option (rt_meta_update (own_meta own)) q))
      = map_option (rt_meta_update (own_meta own)) (next_route os cr q)" for q
    by (cases q) (simp_all add: next_route_def own)
  moreover have "map_option (ing_meta_update (own_meta own)) (next_ingress os cr (map_option (ing_meta_update (own_meta own)) q))
      = map_option (ing_meta_update (own_meta own)) (next_ingress os cr q)" for q
    by (cases q) (simp_all add: next_ingress_def own)
  moreover have "map_option (cm_meta_update (own_meta own)) (next_datasources cr (map_option (cm_meta_update (own_meta own)) q))
      = map_option (cm_meta_update (own_meta own)) (next_datasources cr q)" for q
    by (cases q) (simp_all add: next_datasources_def own)
  moreover have "map_option (sec_meta_update (own_meta own)) (next_secret rnd cr (map_option (sec_meta_update (own_meta own)) q))
      = map_option (sec_meta_update (own_meta own)) (next_secret rnd cr q)" for q
    by (cases q) (simp_all add: next_secret_def secret m [unfolded comp_def] comp_def)
  ultimately show ?thesis
    by (simp add: own_state_def next_state_def m [unfolded comp_def] comp_def)
qed

subsection \<open>Reconciliations one after the other\<close>

text \<open>A reconciliation of the cluster that completes: read, plan, and run the plan.\<close>

definition reconciled :: "'v outside \<Rightarrow> 'w api \<Rightarrow> recon \<Rightarrow> recon \<Rightarrow> 'w runner_state \<Rightarrow> 'w runner_state \<Rightarrow> bool" where
  "reconciled out api rc rc' s s' \<longleftrightarrow>
     (\<exists>st plan. Read api (fst s) (rc_Values rc) (rc_cr rc) NewClusterState = Inr (Inr st)
        \<and> Reconcile out st rc = Inr (plan, rc') \<and> RunAll api (rc_cr rc') plan s = (None, s'))"

lemma Reconcile_meta: "Reconcile out st rc = Inr (plan, rc') \<Longrightarrow> meta (rc_cr rc') = meta (rc_cr rc)"
  using Reconcile_frames by (fastforce simp: frame_def)

lemma reconciled_view:
  assumes "serves api view (rc_cr rc)" "takes api view own (rc_cr rc)" "\<forall>r. own (own r) = own r"
    and "own_state own (view (fst s)) = view (fst s)" "nothing_hidden (rc_Values rc) (rc_cr rc) (view (fst s))"
    and "reconciled out api rc rc' s s'"
  obtains plan where "Reconcile out (view (fst s)) rc = Inr (plan, rc')"
    "view (fst s') = own_state own (apply_plan (view (fst s)) plan)"
proof -
  from assms(6) obtain st plan where r: "Read api (fst s) (rc_Values rc) (rc_cr rc) NewClusterState = Inr (Inr st)"
    "Reconcile out st rc = Inr (plan, rc')" "RunAll api (rc_cr rc') plan s = (None, s')"
    unfolding reconciled_def by blast
  have st: "st = view (fst s)" by (rule Read_view [OF assms(1) r(1) assms(5)])
  have "RunAll api (rc_cr rc') plan (fst s, snd s) = (None, (fst s', snd s'))" using r(3) by simp
  from RunAll_view [OF assms(2) Reconcile_meta [OF r(2)] assms(3,4) this] r(2) st that show thesis by simp
qed

text \<open>What a completed reconciliation leaves is a cluster that the next one changes no more.\<close>

lemma next_owned:
  assumes idem: "\<forall>r. own (own r) = own r"
    and cm: "GrafanaConfigReconciled pf cr cm0 = Inr cm" "om_Name (cm_meta cm) = GrafanaConfigName"
    and d: "next_deployment vs cr d0 cm plugins (cs_DataSourceConfig st) = Inr d"
    and two: "GrafanaConfigReconciled pf cr (cm_meta_update (own_meta own) cm) = Inr cm'"
      "next_deployment vs cr (dep_meta_update (own_meta own) d) cm' plugins
         (map_option (cm_meta_update (own_meta own)) (next_datasources cr (cs_DataSourceConfig st))) = Inr d'"
  shows "own_state own (next_state rnd' os cr (own_state own (next_state rnd os cr st cm d)) cm' d')
    = own_state own (next_state rnd os cr st cm d)"
proof -
  have "cm' = cm_meta_update (own_meta own) cm"
    using two(1) config_update_idem [OF cm(1)] by (simp add: own_updates)
  moreover have "next_datasources cr (map_option (cm_meta_update (own_meta own)) (next_datasources cr q))
      = map_option (cm_meta_update (own_meta own)) (next_datasources cr q)" for q
    by (simp add: next_datasources_def)
  moreover have "next_datasources cr (next_datasources cr q) = next_datasources cr q" for q
    by (rule next_datasources_idem)
  ultimately have "d' = dep_meta_update (own_meta own) d"
    using two(2) next_deployment_idem [OF d]
    by (simp add: next_deployment_def own_deployment next_datasources_def split: option.splits)
  with \<open>cm' = _\<close> show ?thesis by (simp add: own_next [OF idem] next_state_idem)
qed

lemma frame_cluster:
  assumes "Spec cr' = Spec cr" "meta cr' = meta cr" "serves api view cr"
  shows "serves api view cr'" "takes api view own cr \<Longrightarrow> takes api view own cr'"
  using assms
  by (simp_all add: serves_def takes_def GrafanaServiceSelector_def getServiceName_def GrafanaDataStorageSelector_def
      GrafanaServiceAccountSelector_def GrafanaConfigSelector_def GrafanaDatasourceConfigSelector_def
      GrafanaDeploymentSelector_def AdminSecretSelector_def GrafanaRouteSelector_def GrafanaIngressSelector_def)

lemma next_nothing_hidden:
  assumes "nothing_hidden vs cr st" "GetConfigBool vs ConfigOpenshift False = Inr os" "Spec cr' = Spec cr" "vs' = vs"
  shows "nothing_hidden vs' cr' (own_state own (next_state rnd os cr st cm d))"
  using assms
  by (auto simp: own_state_def next_state_def nothing_hidden_def next_pvc_def next_route_def next_ingress_def
      UsedPersistentVolume_def split: if_splits)

lemma second_reconciliation:
  assumes "serves api view (rc_cr rc)" "takes api view own (rc_cr rc)" "\<forall>r. own (own r) = own r"
    and "own_state own (view (fst s)) = view (fst s)" "nothing_hidden (rc_Values rc) (rc_cr rc) (view (fst s))"
    and "reconciled out api rc rc1 s s1" "reconciled out' api rc' rc2 (fst s1, e) s2"
    and "frame rc rc'" "out_ParseFloat out' = out_ParseFloat out" "rc_DsHash rc = []" "rc_DsHash rc' = []"
    and "config_named (view (fst s))" "cs_Deployment (view (fst s)) \<noteq> None"
    and "no_rename (view (fst s)) (rc_cr rc)" "no_rename (view (fst s1)) (rc_cr rc')"
    and "rc_PluginsEnv rc2 = rc_PluginsEnv rc1"
  shows "view (fst s2) = view (fst s1)"
proof -
  obtain plan where one: "Reconcile out (view (fst s)) rc = Inr (plan, rc1)"
    "view (fst s1) = own_state own (apply_plan (view (fst s)) plan)"
    using reconciled_view [OF assms(1-6)] by blast
  from assms(13) obtain d0 where d0: "cs_Deployment (view (fst s)) = Some d0" by blast
  obtain os cm0 cm d where n: "GetConfigBool (rc_Values rc) ConfigOpenshift False = Inr os"
    "GrafanaConfigReconciled (out_ParseFloat out) (rc_cr rc) cm0 = Inr cm" "om_Name (cm_meta cm) = GrafanaConfigName"
    "next_deployment (rc_Values rc) (rc_cr rc) d0 cm (rc_PluginsEnv rc1) (cs_DataSourceConfig (view (fst s))) = Inr d"
    "apply_plan (view (fst s)) plan = next_state (out_Rand out) os (rc_cr rc) (view (fst s)) cm d"
    using Reconcile_next [OF one(1) assms(12) d0 assms(10,14)] by metis
  let ?N = "next_state (out_Rand out) os (rc_cr rc) (view (fst s)) cm d"
  have V: "view (fst s1) = own_state own ?N" by (simp add: one(2) n(5))
  have same: "Spec (rc_cr rc') = Spec (rc_cr rc)" "meta (rc_cr rc') = meta (rc_cr rc)" "rc_Values rc' = rc_Values rc"
    using assms(8) by (simp_all add: frame_def)
  note frame_cluster [OF same(1,2) assms(1)] frame_cluster(2) [OF same(1,2) assms(1,2)]
  moreover have "own_state own (view (fst s1)) = view (fst s1)" by (simp add: V own_state_idem [OF assms(3)])
  moreover have "nothing_hidden (rc_Values rc') (rc_cr rc') (view (fst s1))"
    unfolding V by (rule next_nothing_hidden [OF assms(5) n(1) same(1,3)])
  ultimately obtain plan' where two: "Reconcile out' (view (fst s1)) rc' = Inr (plan', rc2)"
    "view (fst s2) = own_state own (apply_plan (view (fst s1)) plan')"
    using reconciled_view [OF _ _ assms(3), of api view rc' "(fst s1, e)" out' rc2 s2] assms(7) by auto
  have st: "config_named (view (fst s1))" "cs_Deployment (view (fst s1)) = Some (dep_meta_update (own_meta own) d)"
    "cs_Config (view (fst s1)) = Some (cm_meta_update (own_meta own) cm)"
    "cs_DataSourceConfig (view (fst s1)) = map_option (cm_meta_update (own_meta own)) (next_datasources (rc_cr rc) (cs_DataSourceConfig (view (fst s))))"
    by (simp_all add: V own_state_def next_state_def config_named_def n(3))
  obtain os' cm' d' where m: "GetConfigBool (rc_Values rc') ConfigOpenshift False = Inr os'"
    "GrafanaConfigReconciled (out_ParseFloat out') (rc_cr rc') (cm_meta_update (own_meta own) cm) = Inr cm'"
    "next_deployment (rc_Values rc') (rc_cr rc') (dep_meta_update (own_meta own) d) cm' (rc_PluginsEnv rc2) (cs_DataSourceConfig (view (fst s1))) = Inr d'"
    "apply_plan (view (fst s1)) plan' = next_state (out_Rand out') os' (rc_cr rc') (view (fst s1)) cm' d'"
    using Reconcile_next [OF two(1) st(1,2) assms(11,15)] st(3) by (metis option.inject)
  have "os' = os" using m(1) n(1) same by simp
  moreover have "own_state own (next_state (out_Rand out') os (rc_cr rc) (own_state own ?N) cm' d') = own_state own ?N"
    by (rule next_owned [OF assms(3) n(2,3,4)])
      (use m(2,3) in \<open>simp_all add: frame_readers [OF assms(8)] next_frame [OF assms(8)] assms(9,16) st(4) same\<close>)
  ultimately show ?thesis unfolding two(2) m(4) by (simp add: V next_frame [OF assms(8)])
qed

subsection \<open>Properties\<close>



subsection \<open>A cluster in memory, for the examples\<close>

definition memory_api :: "(opaque \<Rightarrow> opaque) \<Rightarrow> ClusterState api" where
  "memory_api own =
     \<lparr>get_Service = (\<lambda>_ st. stored (cs_Service st)), get_PVC = (\<lambda>_ st. stored (cs_PVC st)),
      get_ServiceAccount = (\<lambda>_ st. stored (cs_ServiceAccount st)),
      get_ConfigMap = (\<lambda>key st. stored (if key_Name key = GrafanaConfigName then cs_Config st else cs_DataSourceConfig st)),
      get_Route = (\<lambda>_ st. stored (cs_Route st)), get_Ingress = (\<lambda>_ st. stored (cs_Ingress st)),
      get_Deployment = (\<lambda>_ st. stored (cs_Deployment st)), get_Secret = (\<lambda>_ st. stored (cs_AdminSecret st)),
      api_Create = (\<lambda>obj st. (None, store st obj)), api_Update = (\<lambda>obj st. (None, store st obj)),
      api_Delete = (\<lambda>obj st. (None, remove st obj)),
      SetControllerReference = (\<lambda>_ obj. Inr (own_object own obj))\<rparr>"

lemma memory_api_laws:
  "serves (memory_api own) id cr" "takes (memory_api own) id own cr" "accepting (memory_api own)"
  by (simp_all add: serves_def takes_def accepting_def memory_api_def GrafanaConfigSelector_def
      GrafanaDatasourceConfigSelector_def GrafanaConfigName_def GrafanaDatasourcesConfigMapName_def)

definition owned :: "opaque \<Rightarrow> opaque" where
  "owned r = ''owned''"

definition explicit_grafana :: Grafana where
  "explicit_grafana = oauth_grafana\<lparr>Spec := (Spec oauth_grafana)\<lparr>spec_Deployment := Some
     \<lparr>gd_Annotations = None, gd_Labels = None, gd_Replicas = None, gd_NodeSelector = None, gd_Tolerations = [],
      gd_Affinity = None, gd_SecurityContext = None, gd_ContainerSecurityContext = None,
      gd_TerminationGracePeriodSeconds = None, gd_EnvFrom = [], gd_Env = [], gd_SkipCreateAdminAccount = Some False,
      gd_PriorityClassName = [], gd_HostNetwork = None, gd_ExtraVolumes = [], gd_ExtraVolumeMounts = [],
      gd_Strategy = None, gd_HttpProxy = None\<rparr>\<rparr>\<rparr>"

definition explicit_recon :: recon where
  "explicit_recon = NewGrafanaReconciler explicit_grafana GetControllerConfig (\<lambda>_. None) []"

lemma explicit_simps:
  "rc_cr explicit_recon = explicit_grafana" "rc_DsHash explicit_recon = []"
  "GetConfigBool (rc_Values explicit_recon) ConfigOpenshift False = Inr False"
  "getEnvVarsDesiredState st explicit_grafana = []" "no_rename st explicit_grafana"
  "instance_ready st vs explicit_grafana \<longleftrightarrow> IsDeploymentReady (cs_Deployment st) = Inr True"
  "nothing_hidden (rc_Values explicit_recon) explicit_grafana st \<longleftrightarrow> cs_PVC st = None \<and> cs_Route st = None"
proof -
  show os: "GetConfigBool (rc_Values explicit_recon) ConfigOpenshift False = Inr False"
    by (simp add: explicit_recon_def NewGrafanaReconciler_def rc_Values_def GetControllerConfig_def GetConfigBool_def HasConfigItem_def)
  show "nothing_hidden (rc_Values explicit_recon) explicit_grafana st \<longleftrightarrow> cs_PVC st = None \<and> cs_Route st = None"
    by (simp add: nothing_hidden_def os UsedPersistentVolume_def explicit_grafana_def oauth_grafana_def bare_grafana_def bare_spec_def)
  show "instance_ready st vs explicit_grafana \<longleftrightarrow> IsDeploymentReady (cs_Deployment st) = Inr True"
    by (simp add: instance_ready_def external_access_def explicit_grafana_def oauth_grafana_def bare_grafana_def bare_spec_def)
qed (simp_all add: explicit_recon_def NewGrafanaReconciler_def getEnvVarsDesiredState_def creates_account_explicitly_def
    explicit_grafana_def no_rename_def oauth_grafana_def bare_grafana_def split: option.split)

lemma explicit_returns:
  assumes "config_data_given st"
  obtains plan rc' where "Reconcile quiet st explicit_recon = Inr (plan, rc')"
proof -
  have "values_readable (rc_Values explicit_recon) (rc_cr explicit_recon)"
    by (simp add: values_readable_def readable_bool_def image_readable_def readable_string_def
        rc_Values_def explicit_recon_def NewGrafanaReconciler_def GetControllerConfig_def)
  moreover have "oauth_url_given (rc_cr explicit_recon)"
    by (simp add: oauth_url_given_def explicit_simps explicit_grafana_def oauth_grafana_def)
  moreover have "service_given st (rc_cr explicit_recon)"
    by (simp add: service_given_def explicit_simps explicit_grafana_def oauth_grafana_def bare_grafana_def split: option.split)
  ultimately show thesis using Reconcile_returns assms that by blast
qed

lemma explicit_plugins:
  assumes "Reconcile quiet st explicit_recon = Inr (plan, rc')"
  shows "rc_PluginsEnv rc' = []"
proof -
  have "FilterPlugins (out_NewVersion quiet) (out_Compare quiet) (rc_cr explicit_recon) (GetAllPlugins (rc_Config explicit_recon)) = ([], False)"
    by (simp add: FilterPlugins_def explicit_recon_def NewGrafanaReconciler_def GetAllPlugins_def GetControllerConfig_def
        pickLatestVersions_def explicit_grafana_def oauth_grafana_def bare_grafana_def)
  from Reconcile_plugins [OF assms this] show ?thesis
    by (simp add: BuildEnv_def explicit_simps explicit_grafana_def oauth_grafana_def bare_grafana_def)
qed

text \<open>The cluster as it is read in the examples reconciles, and what it becomes does so again.\<close>

definition good :: "ClusterState \<Rightarrow> bool" where
  "good st \<longleftrightarrow> config_named st \<and> config_data_given st \<and> IsDeploymentReady (cs_Deployment st) = Inr True
     \<and> cs_PVC st = None \<and> cs_Route st = None \<and> own_state owned st = st"

lemma good_reconciles:
  assumes "good st"
  obtains rc1 s1 where "reconciled quiet (memory_api owned) explicit_recon rc1 (st, e) s1" "rc_PluginsEnv rc1 = []"
proof -
  obtain plan rc1 where plan: "Reconcile quiet st explicit_recon = Inr (plan, rc1)"
    using explicit_returns assms unfolding good_def by blast
  have "Read (memory_api owned) st (rc_Values explicit_recon) (rc_cr explicit_recon) NewClusterState = Inr (Inr st)"
    using Read_stored [where w = st, OF memory_api_laws(1) explicit_simps(3)] assms
    by (simp add: good_def explicit_simps(1,7))
  moreover obtain s1 where "RunAll (memory_api owned) (rc_cr rc1) plan (st, e) = (None, s1)"
    using RunAll_completes [OF plan memory_api_laws(3), of owned "rc_cr rc1" "(st, e)"] assms
    by (auto simp: good_def explicit_simps(1,4,6))
  ultimately show thesis using plan that explicit_plugins [OF plan] by (auto simp: reconciled_def)
qed

lemma deployment_stays_ready:
  "GrafanaDeploymentReconciled vs cr d h p ds = Inr d' \<Longrightarrow>
     IsDeploymentReady (Some (dep_meta_update f d')) = IsDeploymentReady (Some d)"
  by (auto simp: GrafanaDeploymentReconciled_def getDeploymentSpec_def go_bind_eq_Inr IsDeploymentReady_def split: option.split)

lemma good_again:
  assumes "good st" "reconciled quiet (memory_api owned) explicit_recon rc1 (st, e) s1"
  shows "good (fst s1)"
proof -
  have idem: "\<forall>r. owned (owned r) = owned r" by (simp add: owned_def)
  have "nothing_hidden (rc_Values explicit_recon) (rc_cr explicit_recon) (id (fst (st, e)))"
    using assms(1) explicit_simps(1,7) by (simp add: good_def)
  then obtain plan where plan: "Reconcile quiet st explicit_recon = Inr (plan, rc1)"
    "fst s1 = own_state owned (apply_plan st plan)"
    using reconciled_view [OF memory_api_laws(1,2) idem _ _ assms(2)] assms(1) by (auto simp: good_def)
  obtain d0 where d0: "cs_Deployment st = Some d0"
    using assms(1) by (cases "cs_Deployment st") (auto simp: good_def IsDeploymentReady_def)
  obtain os cm0 cm d where n: "GetConfigBool (rc_Values explicit_recon) ConfigOpenshift False = Inr os"
    "GrafanaConfigReconciled (out_ParseFloat quiet) (rc_cr explicit_recon) cm0 = Inr cm" "om_Name (cm_meta cm) = GrafanaConfigName"
    "next_deployment (rc_Values explicit_recon) (rc_cr explicit_recon) d0 cm (rc_PluginsEnv rc1) (cs_DataSourceConfig st) = Inr d"
    "apply_plan st plan = next_state (out_Rand quiet) os (rc_cr explicit_recon) st cm d"
    using Reconcile_next [OF plan(1) _ d0 explicit_simps(2)] assms(1) explicit_simps(1,5) by (metis good_def)
  have "cs_Deployment (fst s1) = Some (dep_meta_update (own_meta owned) d)"
    by (simp add: plan(2) n(5) own_state_def next_state_def)
  then have "IsDeploymentReady (cs_Deployment (fst s1)) = IsDeploymentReady (Some d0)"
    using deployment_stays_ready [OF n(4) [unfolded next_deployment_def]] by simp
  moreover have "cm_Data cm \<noteq> None"
    using n(2) by (auto simp: GrafanaConfigReconciled_def split: option.splits prod.splits)
  moreover have "own_state owned (fst s1) = fst s1" by (simp add: plan(2) own_state_idem [OF idem])
  moreover have "cs_PVC (fst s1) = None \<and> cs_Route (fst s1) = None"
    using assms(1) n(1) explicit_simps(3)
    by (simp add: plan(2) n(5) own_state_def next_state_def good_def next_pvc_def next_route_def explicit_simps(1)
        UsedPersistentVolume_def explicit_grafana_def oauth_grafana_def bare_grafana_def bare_spec_def)
  ultimately show ?thesis
    using assms(1) by (simp add: good_def d0 plan(2) n(5) own_state_def next_state_def config_named_def config_data_given_def n(3))
qed

lemma good_running: "good (own_state owned running)"
  by (simp add: good_def running_def own_state_def NewClusterState_def config_named_def config_data_given_def
      IsDeploymentReady_def empty_deployment_def new_meta_def bare_grafana_def own_meta_def owned_def)



end
