(* ===== verification/Operator_System.thy ===== *)
theory Operator_System
  imports Grafana_Readiness Controller_Events
begin

text \<open>
  The running operator: all its controllers on the shared state, together with the channel on
  which the Grafana controller tells the others where Grafana is. The steps are calls of
  controllers, in any order and for any request, and what goes on beside them; the start is what
  \<open>main\<close> leaves. The invariant holds in every state such an operator gets into.
\<close>

subsection \<open>States and steps\<close>

text \<open>
  The libraries as each controller sees them: every namespace has a manager, and so a client, of
  its own.
\<close>

record ('w, 'v) surroundings =
  su_grafana :: "('w, 'v) grafana_env"
  su_dashboard :: "controller \<Rightarrow> 'w dash_env"
  su_channel :: "controller \<Rightarrow> 'w channel_env"
  su_datasource :: "'w datasource_env"
  su_namespace :: "'w namespace_env"

definition controller_call :: "('w, 'v) surroundings \<Rightarrow> controller \<Rightarrow> ControllerState \<Rightarrow> ObjectKey
    \<Rightarrow> ('w, Result \<times> error option) operation" where
  "controller_call sur c st request =
     (case c of
        DashboardController ns \<Rightarrow> DashboardReconcile (su_dashboard sur c) st request
      | SharedDashboardController \<Rightarrow> DashboardReconcile (su_dashboard sur c) st request
      | ChannelController ns \<Rightarrow> ChannelReconcile (su_channel sur c) st request
      | DatasourceController \<Rightarrow> DatasourceReconcile (su_datasource sur) st request
      | NamespaceController \<Rightarrow> NamespaceReconcile (su_namespace sur) request
      | GrafanaController \<Rightarrow> ReconcileGrafana (su_grafana sur) request)"

record 'w system =
  sy_Operator :: "'w operator"
  sy_Events :: events

text \<open>What a call publishes waits for the channel; the call is not over before it was sent.\<close>

definition announce :: "ControllerState list \<Rightarrow> events \<Rightarrow> events" where
  "announce es d =
     (case es of
        [] \<Rightarrow> d
      | e # _ \<Rightarrow> d\<lparr>ev_Waiting := Some e, ev_Published := ev_Published d @ es\<rparr>)"

text \<open>
  The controllers that receive are numbered in the order of the start, and call with the state
  that they received last; the other controllers of the main manager have no state of their own.
  Beside the calls, messages are passed on, the detection of routes sets its value, and the
  world outside changes. A call that panics ends the process, so it is not a step.
\<close>

inductive sys_step :: "('w, 'v) surroundings \<Rightarrow> controller list \<Rightarrow> 'w system \<Rightarrow> 'w system \<Rightarrow> bool"
  for sur receivers where
  call_receiver: "i < length receivers
    \<Longrightarrow> controller_call sur (receivers ! i) (ev_States (sy_Events y) ! i) request (sy_Operator y) = (Done r, s')
    \<Longrightarrow> sys_step sur receivers y (y\<lparr>sy_Operator := s'\<rparr>)"
| call_main: "c = SharedDashboardController \<or> c = NamespaceController
    \<Longrightarrow> controller_call sur c zero_ControllerState request (sy_Operator y) = (Done r, s')
    \<Longrightarrow> sys_step sur receivers y (y\<lparr>sy_Operator := s'\<rparr>)"
| call_grafana: "ev_Waiting (sy_Events y) = None
    \<Longrightarrow> controller_call sur GrafanaController zero_ControllerState request (sy_Operator y) = (Done r, s')
    \<Longrightarrow> sys_step sur receivers y
          (y\<lparr>sy_Operator := s',
             sy_Events := announce (drop (length (op_Events (sy_Operator y))) (op_Events s')) (sy_Events y)\<rparr>)"
| pass_on: "ev_step (sy_Events y) d \<Longrightarrow> ev_Published d = ev_Published (sy_Events y)
    \<Longrightarrow> sys_step sur receivers y (y\<lparr>sy_Events := d\<rparr>)"
| detect: "c = op_Config (sy_Operator y)
    \<Longrightarrow> sys_step sur receivers y
          (y\<lparr>sy_Operator := (sy_Operator y)\<lparr>op_Config := c\<lparr>cc_Values :=
             AddConfigItem (cc_Values c) ConfigOpenshift (Some (VBool True))\<rparr>\<rparr>\<rparr>)"
| outside: "sys_step sur receivers y (y\<lparr>sy_Operator := (sy_Operator y)\<lparr>op_World := w\<rparr>\<rparr>)"

text \<open>An operator after its start: the process that \<open>main\<close> leaves, with the environment it got.\<close>

definition started :: "process \<Rightarrow> environment \<Rightarrow> 'w \<Rightarrow> 'w system" where
  "started p environ w =
     \<lparr>sy_Operator = (start w)\<lparr>op_Config := GetControllerConfig\<lparr>cc_Values := pc_Values p\<rparr>, op_Env := environ\<rparr>,
      sy_Events = new_events (length (pc_Receivers p))\<rparr>"

abbreviation sys_reachable :: "('w, 'v) surroundings \<Rightarrow> process \<Rightarrow> environment \<Rightarrow> 'w \<Rightarrow> 'w system \<Rightarrow> bool" where
  "sys_reachable sur p environ w \<equiv> reachable (sys_step sur (pc_Receivers p)) (started p environ w)"

subsection \<open>Calls\<close>

lemma calls_return_or_panic: "controller_call sur c st request s \<noteq> (Fail e, s')"
proof -
  have "unfailing (controller_call sur c st request)"
    by (simp add: controller_call_def unfailing_channels unfailing_dashboards unfailing_datasources
        unfailing_namespaces unfailing_grafana split: controller.split)
  then show ?thesis by (simp add: unfailing_def)
qed

lemma orderly_call: "orderly (c = GrafanaController) (controller_call sur c st request)"
  using orderly_DashboardReconcile orderly_ChannelReconcile orderly_ReconcileGrafana
  by (auto simp: controller_call_def split: controller.split)

text \<open>A message that tells where Grafana is, or the one that it is not there.\<close>

definition usable :: "ControllerState \<Rightarrow> bool" where
  "usable e \<longleftrightarrow> (if GrafanaReady e then AdminUrl e \<noteq> [] \<and> 0 \<le> ClientTimeout e else AdminUrl e = [])"

lemma usable_zero [simp]: "usable zero_ControllerState"
  by (simp add: usable_def zero_ControllerState_def)

lemma grafana_call_told:
  assumes "controller_call sur GrafanaController st request s = (Done r, s')"
  shows "op_Events s' = op_Events s \<or> (\<exists>e. usable e \<and> op_Events s' = op_Events s @ [e])"
proof -
  have "ReconcileGrafana (su_grafana sur) request s = (Done r, s')" using assms by (simp add: controller_call_def)
  from ReconcileGrafana_told [OF this] have "told_deleted s s' \<or> told_ready s s' \<or> told_unready s s' \<or> told_nothing s s'"
    by (auto simp: told_def split: if_splits)
  moreover have "usable e" if "GrafanaReady e" "AdminUrl e \<noteq> []" "0 \<le> ClientTimeout e" for e
    using that by (simp add: usable_def)
  ultimately show ?thesis
    unfolding told_deleted_def told_ready_def told_unready_def told_nothing_def using usable_zero by blast
qed

subsection \<open>The invariant\<close>

definition system_ok :: "nat \<Rightarrow> 'w system \<Rightarrow> bool" where
  "system_ok n y \<longleftrightarrow>
     config_ok (op_Config (sy_Operator y)) \<and> channels_ok (op_Channels (sy_Operator y))
     \<and> ev_reachable n (sy_Events y) \<and> op_Events (sy_Operator y) = ev_Published (sy_Events y)
     \<and> list_all usable (ev_Published (sy_Events y))"

lemma system_ok_call:
  assumes "c \<noteq> GrafanaController" "controller_call sur c st request (sy_Operator y) = (Done r, s')" "system_ok n y"
  shows "system_ok n (y\<lparr>sy_Operator := s'\<rparr>)"
  using evolvesD [OF orderly_call assms(2)] assms(1,3) by (simp add: system_ok_def changes_def shared_def)

lemma system_ok_grafana:
  assumes "ev_Waiting (sy_Events y) = None" "system_ok n y"
    "controller_call sur GrafanaController zero_ControllerState request (sy_Operator y) = (Done r, s')"
  shows "system_ok n (y\<lparr>sy_Operator := s',
    sy_Events := announce (drop (length (op_Events (sy_Operator y))) (op_Events s')) (sy_Events y)\<rparr>)"
proof -
  let ?d = "sy_Events y"
  have ok: "config_ok (op_Config s') \<and> channels_ok (op_Channels s')"
    using evolvesD [OF orderly_call assms(3)] assms(2) by (simp add: system_ok_def changes_def shared_def)
  from grafana_call_told [OF assms(3)] show ?thesis
  proof
    assume "\<exists>e. usable e \<and> op_Events s' = op_Events (sy_Operator y) @ [e]"
    then obtain e where e: "usable e" "op_Events s' = op_Events (sy_Operator y) @ [e]" by blast
    have "ev_reachable n (?d\<lparr>ev_Waiting := Some e, ev_Published := ev_Published ?d @ [e]\<rparr>)"
      using assms(1,2) by (auto simp: system_ok_def intro: reachable.move ev_step.publish)
    with ok e assms(2) show ?thesis by (simp add: system_ok_def announce_def)
  qed (use ok assms(2) in \<open>simp add: system_ok_def announce_def\<close>)
qed

lemma sys_step_ok:
  assumes "sys_step sur receivers y y'" "GrafanaController \<notin> set receivers" "system_ok n y"
  shows "system_ok n y'"
  using assms(1)
proof cases
  case (call_receiver i request r s')
  moreover from this assms(2) have "receivers ! i \<noteq> GrafanaController" by (metis nth_mem)
  ultimately show ?thesis using assms(3) by (simp add: system_ok_call)
next
  case (call_main c request r s')
  with assms(3) show ?thesis by (auto intro: system_ok_call)
next
  case (call_grafana request r s')
  with assms(3) show ?thesis by (simp add: system_ok_grafana)
next
  case (pass_on d)
  with assms(3) show ?thesis by (auto simp: system_ok_def intro: reachable.move)
next
  case (detect c)
  with assms(3) show ?thesis by (simp add: system_ok_def bool_items_def)
qed (use assms(3) in \<open>simp add: system_ok_def\<close>)

text \<open>The start: the options are strings, and only the receivers receive.\<close>

lemma typed_startup: "values_typed vs \<Longrightarrow> values_typed (startup_values f namespace vs)"
  by (simp add: startup_values_def string_items_def)

lemma start_ok:
  assumes "operator_main lib environ f new_process = (Done (), p)"
  shows "system_ok (length (pc_Receivers p)) (started p environ w)" "GrafanaController \<notin> set (pc_Receivers p)"
proof -
  from assms obtain namespace namespaces where v: "pc_Values p = startup_values f namespace Map.empty"
    and r: "pc_Receivers p = concat (map (namespace_receivers lib) namespaces) @ [DatasourceController]"
    by (rule operator_main_Done) (simp add: new_process_def)
  have "values_typed Map.empty" by (simp add: values_typed_iff readable_bool_def readable_string_def)
  then have "values_typed (pc_Values p)" using typed_startup by (simp add: v)
  then show "system_ok (length (pc_Receivers p)) (started p environ w)"
    using reachable.initial [of ev_step "new_events (length (pc_Receivers p))"]
    by (simp add: system_ok_def started_def config_ok_def dashboards_ok_def channels_ok_def GetControllerConfig_def
        GetNotificationControllerConfig_def start_def new_events_def)
  show "GrafanaController \<notin> set (pc_Receivers p)" by (auto simp: r namespace_receivers_def)
qed

lemma reached_ok:
  assumes "operator_main lib environ f new_process = (Done (), p)" "sys_reachable sur p environ w y"
  shows "system_ok (length (pc_Receivers p)) y"
proof -
  note start = start_ok [OF assms(1)]
  have "invariant_system (sys_step sur (pc_Receivers p)) (started p environ w) (system_ok (length (pc_Receivers p)))"
  proof
    show "system_ok (length (pc_Receivers p)) (started p environ w)" by (rule start(1))
  qed (rule sys_step_ok [OF _ start(2)])
  then show ?thesis using assms(2) by (rule invariant_system.always)
qed

text \<open>What a receiver has heard last is a message of the Grafana controller, or nothing.\<close>

lemma receiver_state:
  assumes "system_ok n y" "i < n"
  shows "ev_States (sy_Events y) ! i \<in> insert zero_ControllerState (set (op_Events (sy_Operator y)))"
    "usable (ev_States (sy_Events y) ! i)"
proof -
  have inv: "ev_invariant n (sy_Events y)" using assms(1) ev.always by (simp add: system_ok_def)
  let ?h = "heard i (sy_Events y)"
  have l: "ev_States (sy_Events y) ! i = last (zero_ControllerState # ?h)"
    using inv assms(2) by (simp add: ev_invariant_def)
  have "set ?h \<subseteq> set (map snd (ev_Log (sy_Events y)))" by (auto simp: heard_def)
  then have h: "set ?h \<subseteq> set (ev_Published (sy_Events y))" using inv by (auto simp: ev_invariant_def)
  have "last (zero_ControllerState # ?h) \<in> insert zero_ControllerState (set ?h)"
    using last_in_set [of "zero_ControllerState # ?h"] by simp
  then show one: "ev_States (sy_Events y) ! i \<in> insert zero_ControllerState (set (op_Events (sy_Operator y)))"
    using h assms(1) by (auto simp: l system_ok_def simp del: last.simps)
  then show "usable (ev_States (sy_Events y) ! i)"
    using assms(1) by (auto simp: system_ok_def list_all_iff)
qed

lemma start_receivers:
  "operator_main lib environ f new_process = (Done (), p) \<Longrightarrow> c \<in> set (pc_Receivers p)
     \<Longrightarrow> c \<noteq> GrafanaController \<and> c \<noteq> NamespaceController"
  by (erule operator_main_Done) (auto simp: new_process_def namespace_receivers_def split: if_splits)

text \<open>Without a message of a Grafana that is ready a receiver does nothing.\<close>

lemma idle_call:
  assumes "usable st" "\<not> GrafanaReady st" "c \<noteq> GrafanaController" "c \<noteq> NamespaceController"
  shows "\<exists>r. controller_call sur c st request s = (Done r, s)"
  using assms
  by (cases c) (auto simp: controller_call_def usable_def DashboardReconcile_def ChannelReconcile_def DatasourceReconcile_def
      datasource_getClient_def)

text \<open>A message that waits can get to every receiver.\<close>

lemma pass_message:
  assumes "reachable (sys_step sur receivers) y (y\<lparr>sy_Events := d\<rparr>)" "ev_step d d'" "ev_Published d' = ev_Published d"
  shows "reachable (sys_step sur receivers) y (y\<lparr>sy_Events := d'\<rparr>)"
proof -
  have "sys_step sur receivers (y\<lparr>sy_Events := d\<rparr>) (y\<lparr>sy_Events := d\<rparr>\<lparr>sy_Events := d'\<rparr>)"
    by (rule sys_step.pass_on) (simp_all add: assms(2,3))
  with assms(1) show ?thesis by (auto intro: reachable.move)
qed

lemma message_passed:
  assumes "system_ok n y" "ev_Waiting (sy_Events y) = Some e" "i < n"
  shows "\<exists>y'. reachable (sys_step sur receivers) y y' \<and> ev_States (sy_Events y') ! i = e
     \<and> ev_Waiting (sy_Events y') = None \<and> sy_Operator y' = sy_Operator y"
proof -
  let ?r = "\<lambda>d. reachable (sys_step sur receivers) y (y\<lparr>sy_Events := d\<rparr>)" and ?e = "sy_Events y"
  have inv: "ev_invariant n ?e" using assms(1) ev.always by (simp add: system_ok_def)
  have here: "?r ?e" by (simp add: reachable.initial)
  obtain d where d: "?r d" "ev_Waiting d = Some e" "ev_Channel d = []" "length (ev_States d) = n"
  proof (cases "ev_Channel ?e")
    case Nil
    with here assms(2) inv show thesis by (intro that [of ?e]) (simp_all add: ev_invariant_def)
  next
    case (Cons e' rest)
    with inv assms(3) have len: "rest = []" "i < length (ev_States ?e)" by (auto simp: ev_invariant_def)
    show thesis
      by (rule that, rule pass_message [OF here ev_step.receive [OF Cons len(2)]])
        (use assms(2) inv len in \<open>simp_all add: ev_invariant_def\<close>)
  qed
  have one: "?r (d\<lparr>ev_Waiting := None, ev_Channel := [e]\<rparr>)"
    by (rule pass_message [OF d(1) ev_step.send]) (simp_all add: d)
  have two: "?r (d\<lparr>ev_Waiting := None, ev_Channel := [], ev_States := (ev_States d)[i := e], ev_Log := ev_Log d @ [(i, e)]\<rparr>)"
    using pass_message [OF one ev_step.receive [of _ e "[]" i]] by (simp add: d(4) assms(3))
  show ?thesis by (rule exI, rule conjI, rule two) (use d(4) assms(3) in simp)
qed

subsection \<open>Properties\<close>


text \<open>
  C24: seen through its channel, the running operator is the system of messages: every state it
  gets into has messages in a state of that system, and the ones that were published are those of
  the calls of the Grafana controller.
\<close>
theorem operator_refines_events:
  assumes "operator_main lib environ f new_process = (Done (), p)" "sys_reachable sur p environ w y"
  shows "ev_reachable (length (pc_Receivers p)) (sy_Events y) \<and> ev_Published (sy_Events y) = op_Events (sy_Operator y)"
  using reached_ok [OF assms] by (simp add: system_ok_def)

text \<open>
  C5: in a running operator a receiver acts only on a Grafana that is there. In every state its
  calls change nothing, unless the last message it received is one that the Grafana controller
  published, and says that Grafana is ready, at a url and with a timeout that is not negative.
\<close>
theorem receivers_act_when_ready:
  assumes "operator_main lib environ f new_process = (Done (), p)" "sys_reachable sur p environ w y"
    and "i < length (pc_Receivers p)" "st = ev_States (sy_Events y) ! i"
  shows "(\<exists>r. controller_call sur (pc_Receivers p ! i) st request (sy_Operator y) = (Done r, sy_Operator y))
     \<or> (st \<in> set (op_Events (sy_Operator y)) \<and> GrafanaReady st \<and> AdminUrl st \<noteq> [] \<and> 0 \<le> ClientTimeout st)"
proof (cases "GrafanaReady st")
  case True
  note st = receiver_state [OF reached_ok [OF assms(1,2)] assms(3)]
  have "st \<noteq> zero_ControllerState" using True by (auto simp: zero_ControllerState_def)
  with st True show ?thesis unfolding assms(4) usable_def by auto
next
  case False
  have "usable st" unfolding assms(4) using receiver_state(2) [OF reached_ok [OF assms(1,2)] assms(3)] .
  moreover have "pc_Receivers p ! i \<noteq> GrafanaController" "pc_Receivers p ! i \<noteq> NamespaceController"
    using assms(1,3) start_receivers nth_mem by metis+
  ultimately show ?thesis using idle_call False by blast
qed

text \<open>
  C18: in a running operator the configuration never makes the reconciler panic: whether it plans
  or panics depends on the resource and on what was read from the cluster alone.
\<close>
theorem running_reconciler_plans_iff:
  assumes "operator_main lib environ f new_process = (Done (), p)" "sys_reachable sur p environ w y"
  shows "(\<exists>plan s'. desired_state env st cr (sy_Operator y) = (Done plan, s'))
     \<longleftrightarrow> oauth_url_given cr \<and> config_data_given st \<and> service_given st cr"
proof -
  let ?s = "sy_Operator y"
  let ?rc = "NewGrafanaReconciler cr (op_Config ?s) (op_Env ?s) (op_HyperauthUrl ?s)"
  have "values_readable (rc_Values ?rc) (rc_cr ?rc)"
    using reached_ok [OF assms]
    by (simp add: values_typed_readable system_ok_def config_ok_def NewGrafanaReconciler_def rc_Values_def)
  with Reconcile_returns [of "ge_outside env (op_World ?s)" st ?rc] show ?thesis
    by (auto simp: desired_state_def NewGrafanaReconciler_def split: sum.split)
qed

text \<open>
  A message that waits can always be passed on, and to any receiver: from every state there is
  a run in which the controller gets it, and nothing else is done.
\<close>
theorem waiting_message_can_arrive:
  assumes "operator_main lib environ f new_process = (Done (), p)" "sys_reachable sur p environ w y"
    and "ev_Waiting (sy_Events y) = Some e" "i < length (pc_Receivers p)"
  shows "\<exists>y'. reachable (sys_step sur (pc_Receivers p)) y y' \<and> ev_States (sy_Events y') ! i = e
     \<and> ev_Waiting (sy_Events y') = None \<and> sy_Operator y' = sy_Operator y"
  using message_passed [OF reached_ok [OF assms(1,2)] assms(3,4)] .

subsection \<open>Runs of an operator, for the examples\<close>

text \<open>
  The start without options, and one call of the Grafana controller: on a cluster that answers
  with errors, and on one where Grafana is ready; the other controllers may see anything.
\<close>

lemma broken_call:
  assumes "values_typed (cc_Values (op_Config s))"
  shows "\<exists>s' e. ReconcileGrafana broken_env request s = (Done (requeue_later, None), s')
     \<and> op_Events s' = op_Events s @ [e] \<and> e = zero_ControllerState"
proof -
  obtain b where "GetConfigBool (cc_Values (op_Config s)) ConfigOpenshift False = Inr b"
    using assms readable_bool_iff [where k = ConfigOpenshift and d = False] by (auto simp: values_typed_iff bool_items_def)
  then show ?thesis
    by (simp add: ReconcileGrafana_def reconcile_found_def broken_env_def Read_def readGrafanaService_def found_def
        broken_api_def manageError_def Let_def update_status_def on_world_def on_config_def publish_def
        zero_ControllerState_def)
qed

lemma first_call:
  fixes sur :: "(unit, int) surroundings"
  assumes "\<And>s. values_typed (cc_Values (op_Config s)) \<Longrightarrow>
      \<exists>s' e. ReconcileGrafana env grafana_key s = (Done (requeue_later, None), s') \<and> op_Events s' = op_Events s @ [e] \<and> P e"
  obtains p y e where "operator_main (\<lambda>_. None) op_environ (assignOpts op_environ) new_process = (Done (), p)"
    "length (pc_Receivers p) = 3" "sys_reachable (sur\<lparr>su_grafana := env\<rparr>) p op_environ () y"
    "op_Events (sy_Operator y) = [e]" "ev_Waiting (sy_Events y) = Some e" "P e"
proof -
  obtain p where p: "operator_main (\<lambda>_. None) op_environ (assignOpts op_environ) new_process = (Done (), p)"
    using plain_start by blast
  have n: "length (pc_Receivers p) = 3"
    using p plain_namespaces by (elim operator_main_Done) (auto simp: new_process_def namespace_receivers_def op_environ_def)
  let ?sur = "sur\<lparr>su_grafana := env\<rparr>" and ?y = "started p op_environ ()"
  have "values_typed (cc_Values (op_Config (sy_Operator ?y)))"
    using start_ok(1) [OF p, where w = "()"] by (simp add: system_ok_def config_ok_def)
  then obtain s' e where s': "ReconcileGrafana env grafana_key (sy_Operator ?y) = (Done (requeue_later, None), s')"
    "op_Events s' = [e]" "P e"
    using assms [of "sy_Operator ?y"] by (auto simp: started_def start_def)
  have "sys_step ?sur (pc_Receivers p) ?y (?y\<lparr>sy_Operator := s',
      sy_Events := announce (drop (length (op_Events (sy_Operator ?y))) (op_Events s')) (sy_Events ?y)\<rparr>)"
    by (rule sys_step.call_grafana [where request = grafana_key])
      (simp add: started_def new_events_def, simp add: controller_call_def s'(1))
  then have "sys_reachable ?sur p op_environ () (?y\<lparr>sy_Operator := s', sy_Events := announce [e] (sy_Events ?y)\<rparr>)"
    using s'(2) by (auto simp: started_def start_def intro: reachable.move reachable.initial)
  then show thesis by (rule that [OF p n, where e = e]) (simp_all add: s'(2,3) announce_def)
qed

lemmas unready_operator = first_call [OF broken_call]
lemmas ready_operator = first_call [OF ready_call]

text \<open>Controllers that are told that Grafana is ready are reached.\<close>

lemma ready_receiver_reached:
  fixes sur :: "(unit, int) surroundings"
  shows "\<exists>p y. sys_reachable (sur\<lparr>su_grafana := ready_env\<rparr>) p op_environ () y \<and> GrafanaReady (ev_States (sy_Events y) ! 0)"
proof -
  obtain p y e where p: "operator_main (\<lambda>_. None) op_environ (assignOpts op_environ) new_process = (Done (), p)"
    and n: "length (pc_Receivers p) = 3" and y: "sys_reachable (sur\<lparr>su_grafana := ready_env\<rparr>) p op_environ () y"
      "ev_Waiting (sy_Events y) = Some e" "GrafanaReady e"
    by (rule ready_operator)
  have "0 < length (pc_Receivers p)" by (simp add: n)
  from message_passed [OF reached_ok [OF p y(1)] y(2) this] y(3) reachable_trans [OF y(1)] show ?thesis by metis
qed


lemma operator_refines_events_witness:
  "\<forall>sur. \<exists>p y. sys_reachable (sur\<lparr>su_grafana := ready_env\<rparr>) p op_environ () y
     \<and> ev_reachable 3 (sy_Events y) \<and> ev_Published (sy_Events y) \<noteq> []"
proof
  fix sur :: "(unit, int) surroundings"
  obtain p y e where p: "operator_main (\<lambda>_. None) op_environ (assignOpts op_environ) new_process = (Done (), p)"
    and n: "length (pc_Receivers p) = 3"
    and y: "sys_reachable (sur\<lparr>su_grafana := ready_env\<rparr>) p op_environ () y" "op_Events (sy_Operator y) = [e]"
    by (rule ready_operator)
  have "ev_reachable 3 (sy_Events y)" "ev_Published (sy_Events y) \<noteq> []"
    using operator_refines_events [OF p y(1)] n y(2) by simp_all
  with y(1) show "\<exists>p y. sys_reachable (sur\<lparr>su_grafana := ready_env\<rparr>) p op_environ () y
      \<and> ev_reachable 3 (sy_Events y) \<and> ev_Published (sy_Events y) \<noteq> []" by blast
qed

lemma receivers_act_when_ready_witness:
  "\<forall>sur request. \<exists>p y. sys_reachable (sur\<lparr>su_grafana := broken_env\<rparr>) p op_environ () y
     \<and> (\<exists>r. controller_call (sur\<lparr>su_grafana := broken_env\<rparr>) (pc_Receivers p ! 2) (ev_States (sy_Events y) ! 2) request
              (sy_Operator y) = (Done r, sy_Operator y))"
proof (intro allI)
  fix sur :: "(unit, int) surroundings" and request
  obtain p y e where p: "operator_main (\<lambda>_. None) op_environ (assignOpts op_environ) new_process = (Done (), p)"
    and n: "length (pc_Receivers p) = 3"
    and y: "sys_reachable (sur\<lparr>su_grafana := broken_env\<rparr>) p op_environ () y" "op_Events (sy_Operator y) = [e]"
      "e = zero_ControllerState"
    by (rule unready_operator)
  have "2 < length (pc_Receivers p)" by (simp add: n)
  from receivers_act_when_ready [OF p y(1) this refl, of request] y
  show "\<exists>p y. sys_reachable (sur\<lparr>su_grafana := broken_env\<rparr>) p op_environ () y
     \<and> (\<exists>r. controller_call (sur\<lparr>su_grafana := broken_env\<rparr>) (pc_Receivers p ! 2) (ev_States (sy_Events y) ! 2) request
              (sy_Operator y) = (Done r, sy_Operator y))"
    by (auto simp: zero_ControllerState_def)
qed

lemma running_reconciler_plans_iff_witness:
  "\<forall>sur env. \<exists>p y plan s'. sys_reachable (sur\<lparr>su_grafana := ready_env\<rparr>) p op_environ () y
     \<and> desired_state (env :: (unit, int) grafana_env) ready_state oauth_grafana (sy_Operator y) = (Done plan, s')"
proof (intro allI)
  fix sur :: "(unit, int) surroundings" and env :: "(unit, int) grafana_env"
  obtain p y where p: "operator_main (\<lambda>_. None) op_environ (assignOpts op_environ) new_process = (Done (), p)"
    and y: "sys_reachable (sur\<lparr>su_grafana := ready_env\<rparr>) p op_environ () y"
    by (rule ready_operator)
  from running_reconciler_plans_iff [OF p y, of env ready_state oauth_grafana] y ready_conditions(1-3)
  show "\<exists>p y plan s'. sys_reachable (sur\<lparr>su_grafana := ready_env\<rparr>) p op_environ () y
     \<and> desired_state env ready_state oauth_grafana (sy_Operator y) = (Done plan, s')" by blast
qed

lemma waiting_message_can_arrive_witness:
  "\<forall>sur. \<exists>p y y'. sys_reachable (sur\<lparr>su_grafana := ready_env\<rparr>) p op_environ () y
     \<and> reachable (sys_step (sur\<lparr>su_grafana := ready_env\<rparr>) (pc_Receivers p)) y y'
     \<and> GrafanaReady (ev_States (sy_Events y') ! 2)"
proof
  fix sur :: "(unit, int) surroundings"
  obtain p y e where p: "operator_main (\<lambda>_. None) op_environ (assignOpts op_environ) new_process = (Done (), p)"
    and n: "length (pc_Receivers p) = 3" and y: "sys_reachable (sur\<lparr>su_grafana := ready_env\<rparr>) p op_environ () y"
      "ev_Waiting (sy_Events y) = Some e" "GrafanaReady e"
    by (rule ready_operator)
  have "2 < length (pc_Receivers p)" by (simp add: n)
  from waiting_message_can_arrive [OF p y(1,2) this] y(1,3)
  show "\<exists>p y y'. sys_reachable (sur\<lparr>su_grafana := ready_env\<rparr>) p op_environ () y
     \<and> reachable (sys_step (sur\<lparr>su_grafana := ready_env\<rparr>) (pc_Receivers p)) y y'
     \<and> GrafanaReady (ev_States (sy_Events y') ! 2)" by metis
qed

end
