(* ===== verification/Spec2Isabelle.thy ===== *)
theory Spec2Isabelle
  imports Grafana_Ini Plugins Controller_Config Model_Resources Model_Deployment Cluster
    Grafana_Reconciler Reconciler_Properties Dashboard_Client_Properties Dashboard_Controller_Properties
    Notification_Channel_Properties Datasource_Properties Datasource_State Route_Detection Namespace_Properties Operator_Main
    Controller_Events Shared_State Grafana_Readiness Cluster_Store Operator_System
begin

text \<open>
  A verification development for the grafana-operator, a Kubernetes operator in Go. It models
  the operator from the text of grafana.ini up to the order in which \<open>main.go\<close> starts the
  controllers and the process in which they then run together, and proves what makes the parts correct. Every definition that stands for code
  keeps the name of the function or type under \<open>src/\<close>, with a prefix where two packages use one
  name; the panics, returned errors and early returns of the code are values of the model.

  \<^bold>\<open>The program.\<close> One resource of kind Grafana describes an instance. Its controller reads the
  objects of the instance from the cluster, plans the actions that lead to the desired objects,
  runs them, and tells the other controllers over a channel where Grafana is and whether it is
  ready. The controllers of dashboards, notification channels and datasources then talk to
  Grafana's HTTP interface, and keep registries of what they have sent. The controller of
  namespaces posts two dashboards for every namespace that has an owner.

  \<^bold>\<open>Shared layers.\<close> \<open>Prelude\<close> has the Go values (strings as byte lists, panics as \<open>go_panic\<close>, maps as
  association lists where their order matters), \<open>Go_Text\<close>, \<open>Go_Hash\<close>, \<open>Go_Json\<close>, \<open>Go_Json_Marshal\<close>,
  \<open>Go_Json_Decode\<close> and \<open>Go_Http\<close> the parts of Go's standard library that the operator calls. SHA-1
  and SHA-256 are computed on words. The JSON parser runs on fuel, \<open>2 * length s + 1\<close> for a text
  \<open>s\<close>, and \<open>parse_fuel_enough\<close> shows that more fuel changes nothing; marshalling then parsing is the
  identity. \<open>Go_Effect\<close> and \<open>Operator_State\<close> have the functions with effects: a program gives a
  panic, an error or a result, and keeps the state in all three cases. \<open>Registry\<close> holds the locale
  \<open>ref_registry\<close>, the contract of a list of references that is searched by a key, which the
  registries of dashboards and channels interpret; \<open>Operator_State\<close> the locale \<open>evolution\<close>, for what
  a program may do to a part of the state; \<open>Step_System\<close> the locales for invariants of step
  relations and for states without a step. Each is interpreted on the definitions of the model, in
  the theory that provides them: \<open>ref_registry\<close> in \<open>Controller_Config\<close>, \<open>evolution\<close> for the parts of
  the shared state, the locales of \<open>Step_System\<close> in \<open>Route_Detection\<close> and \<open>Controller_Events\<close>;
  \<open>Operator_System\<close> takes the first of them for every operator that has started. \<open>Shared_State\<close> says for every controller what a call may do to the state
  that all of them share, and that no call ends the process other than by a panic.

  \<^bold>\<open>Components.\<close>
  \<^item> \<open>Api_Config\<close>, \<open>Api_Types\<close>, \<open>Api_Datasource\<close>, \<open>Constants\<close>: the resources, from
    \<open>api/integreatly/v1alpha1\<close> and \<open>controllers/constants\<close>, with label selectors, digests and uids.
  \<^item> \<open>Grafana_Ini\<close> (\<open>controllers/config/grafanaIni.go\<close>): the text is the same for every order of
    the map of sections, and reading it back gives the settings.
  \<^item> \<open>Plugins\<close> (\<open>pluginsList.go\<close>, \<open>pluginsHelper.go\<close>): one version per plugin, the latest of the
    requested ones, none that failed before, and rounds that settle.
  \<^item> \<open>Controller_Config\<close> (\<open>controllers/config\<close>): the registries refine finite maps.
  \<^item> \<open>Model_Resources\<close>, \<open>Model_Deployment\<close> (\<open>controllers/model\<close>): the objects of an instance;
    updates are idempotent, credentials are never replaced, every mount has its volume and the
    selector of the deployment matches its pods.
  \<^item> \<open>Cluster\<close> (\<open>controllers/common\<close>): reading the cluster, actions that stop at the first
    failure, and readiness.
  \<^item> \<open>Grafana_Reconciler\<close>, \<open>Reconciler_Properties\<close> (\<open>grafana_reconciler.go\<close>): exactly when a
    reconciliation completes, and that on a cluster as the plan leaves it a second one changes nothing.
  \<^item> \<open>Grafana_Readiness\<close>: when the actions of a plan all succeed, and that a call which finds the
    instance ready tells the other controllers so.
  \<^item> \<open>Cluster_Store\<close>: a cluster that stores what is written. Running the plan refines \<open>apply_plan\<close>,
    and after one completed reconciliation a second one leaves every object as it is.
  \<^item> \<open>Grafana_Users\<close>, \<open>Grafana_Controller\<close>, \<open>Grafana_Controller_Properties\<close>
    (\<open>grafana_controller.go\<close>, \<open>grafonnet_utils.go\<close>): what each ending tells the other controllers.
  \<^item> \<open>Dashboard_Pipeline\<close>, \<open>Dashboard_Client\<close>, \<open>Dashboard_Controller\<close> and their properties
    (\<open>controllers/grafanadashboard\<close>): what is sent reads back as what was meant, a submitted dashboard
    is left alone, and which dashboards a call forgets.
  \<^item> \<open>Notification_Channels\<close>, \<open>Notification_Channel_Properties\<close>
    (\<open>controllers/grafananotificationchannel\<close>): the same for notification channels; the pointers into
    the registry are pairs of a namespace and an index, read when the code reads through them.
  \<^item> \<open>Datasources\<close>, \<open>Datasource_Properties\<close> (\<open>controllers/grafanadatasource\<close>,
    \<open>dataSourcesState.go\<close>): the exact list of requests of a call. \<open>Datasource_State\<close> has the older
    client in \<open>dataSourcesState.go\<close>, which makes the same requests.
  \<^item> \<open>Namespace_Controller\<close>, \<open>Namespace_Properties\<close> (\<open>controllers/namespace\<close>): which dashboards a
    namespace gets and with whom they are shared.
  \<^item> \<open>Route_Detection\<close> (\<open>auto_detect.go\<close>, \<open>internal/k8sutil\<close>), \<open>Controller_Events\<close>
    (\<open>controllerState.go\<close> and the goroutines that receive): two step relations over channels with
    room for one element, with their invariants and the states in which they halt.
  \<^item> \<open>Operator_Main\<close>, \<open>Startup\<close> (\<open>main.go\<close> and the \<open>SetupWithManager\<close> functions): options,
    namespaces, webhook, the start with every exit, and \<open>grafana_add\<close>, which watches the secondary
    resources and which \<open>main.go\<close> does not call.
  \<^item> \<open>Operator_System\<close>: all controllers on the shared state with the channel between them, as a step
    relation whose steps are calls and messages. Its states keep the registries in order and the
    configuration typed, it refines the system of \<open>Controller_Events\<close>, and a receiver acts only
    after a published message that says that Grafana is ready.

  Each properties section ends with observations: lemmas about behaviour of the code that a
  reader may not expect, such as inputs that make it panic.

  \<^bold>\<open>Parameters.\<close> Code that is not in the repository is an argument: the Kubernetes client and
  \<open>LabelSelectorAsSelector\<close> as functions on a world \<open>'w\<close>, the HTTP transport, jsonnet, the order of
  semantic versions, \<open>yaml.Marshal\<close>, the file system, random numbers, the rendering of floating point
  numbers, \<open>reflect.DeepEqual\<close>, the iteration order of a map where the result is sorted
  afterwards, and the answers of the controller library at the start.

  \<^bold>\<open>Limits.\<close> Strings are taken to be valid UTF-8 and the functions that fold case or trim space act
  on ASCII. A nil slice and an empty one are the same list unless the code tells them apart. The
  nesting limit of Go's JSON decoder (10000) is left out, so are logging and the event recorder. A
  call of a controller is one step: calls interleave in any order in \<open>Operator_System\<close>, but two calls
  that run at the same moment, and touch the registries in between, are not modelled; a panic ends
  the process. \<open>Cluster_Store\<close> leaves out what the server adds to an object by itself.

  \<^bold>\<open>Not modelled.\<close> The generated deep copies (values have no aliases here), the registration of the
  types with the scheme, the version, and inside \<open>main\<close> and \<open>SetupWithManager\<close> what the library does
  once it has been started: work queues, watches, leader election, TLS and the servers. Code that is commented out is left out.
\<close>

end
